(* ===== verification/Prelude.thy ===== *)
theory Prelude
  imports Main "HOL-Library.Char_ord"
begin

text \<open>
  What every component shares: the string functions of the JavaScript standard library the
  sources call, list and option helpers, and the hint collections of the development.

  A \<open>string\<close> is the list of the UTF-16 code units of a JavaScript string, of which the
  model represents those below 256.  Within that range \<open>length\<close>, \<open>trim\<close>, the \<open>\s\<close> class of
  regular expressions, \<open>toLowerCase\<close> and the URI component codec are the ones of the language.
\<close>

named_theorems string_simps "unfolding of the string library"

subsection \<open>White space, case and affixes\<close>

definition js_space :: "char \<Rightarrow> bool" where
  "js_space c \<longleftrightarrow> of_char c \<in> set [9, 10, 11, 12, 13, 32, 160 :: nat]"

definition trim_start :: "string \<Rightarrow> string" where
  "trim_start s = dropWhile js_space s"

definition trim_end :: "string \<Rightarrow> string" where
  "trim_end s = rev (dropWhile js_space (rev s))"

definition trim :: "string \<Rightarrow> string" where
  "trim s = trim_end (trim_start s)"

definition lower_char :: "char \<Rightarrow> char" where
  "lower_char c = (let n = of_char c :: nat in
     if (65 \<le> n \<and> n \<le> 90) \<or> (192 \<le> n \<and> n \<le> 222 \<and> n \<noteq> 215) then char_of (n + 32) else c)"

definition to_lower :: "string \<Rightarrow> string" where
  "to_lower s = map lower_char s"

definition starts_with :: "string \<Rightarrow> string \<Rightarrow> bool" where
  "starts_with s p \<longleftrightarrow> take (length p) s = p"

text \<open>\<open>s.replace(/\/+$/, "")\<close>.\<close>

definition strip_trailing_slashes :: "string \<Rightarrow> string" where
  "strip_trailing_slashes s = rev (dropWhile (\<lambda>c. c = CHR ''/'') (rev s))"

text \<open>\<open>s.split(c)\<close> for a one-character separator: always at least one piece.\<close>

fun split_on :: "char \<Rightarrow> string \<Rightarrow> string list" where
  "split_on c [] = [[]]"
| "split_on c (x # xs) =
     (if x = c then [] # split_on c xs
      else case split_on c xs of [] \<Rightarrow> [[x]] | y # ys \<Rightarrow> (x # y) # ys)"

text \<open>\<open>rest.split("/").filter(Boolean)\<close>.\<close>

definition path_segments :: "string \<Rightarrow> string list" where
  "path_segments s = filter (\<lambda>x. x \<noteq> []) (split_on (CHR ''/'') s)"

definition join_with :: "string \<Rightarrow> string list \<Rightarrow> string" where
  "join_with sep xs = (case xs of [] \<Rightarrow> [] | y # ys \<Rightarrow> y @ concat (map (\<lambda>z. sep @ z) ys))"

definition digit_char :: "nat \<Rightarrow> char" where
  "digit_char n = char_of (48 + n)"

fun show_nat :: "nat \<Rightarrow> string" where
  "show_nat n = (if n < 10 then [digit_char n] else show_nat (n div 10) @ [digit_char (n mod 10)])"

declare show_nat.simps [simp del]

text \<open>\<open>String.replaceAll\<close> of one character by a string.\<close>

definition replace_char :: "char \<Rightarrow> string \<Rightarrow> string \<Rightarrow> string" where
  "replace_char c r s = concat (map (\<lambda>x. if x = c then r else [x]) s)"

definition dquote :: char where "dquote = CHR 0x22"
definition backslash :: char where "backslash = CHR 0x5C"

subsection \<open>The URI component codec\<close>

definition uri_unreserved :: "char \<Rightarrow> bool" where
  "uri_unreserved c \<longleftrightarrow> (let n = of_char c :: nat in
     (65 \<le> n \<and> n \<le> 90) \<or> (97 \<le> n \<and> n \<le> 122) \<or> (48 \<le> n \<and> n \<le> 57)
     \<or> n \<in> set [33, 39, 40, 41, 42, 45, 46, 95, 126])"

definition hex_digit :: "nat \<Rightarrow> char" where
  "hex_digit n = (if n < 10 then char_of (48 + n) else char_of (55 + n))"

definition hex_val :: "char \<Rightarrow> nat option" where
  "hex_val c = (let n = of_char c :: nat in
     if 48 \<le> n \<and> n \<le> 57 then Some (n - 48)
     else if 65 \<le> n \<and> n \<le> 70 then Some (n - 55)
     else if 97 \<le> n \<and> n \<le> 102 then Some (n - 87)
     else None)"

definition percent_byte :: "nat \<Rightarrow> string" where
  "percent_byte b = [CHR ''%'', hex_digit (b div 16), hex_digit (b mod 16)]"

text \<open>A code unit below 128 is one UTF-8 byte, one below 256 is two.\<close>

definition encode_char :: "char \<Rightarrow> string" where
  "encode_char c = (let n = of_char c :: nat in
     if uri_unreserved c then [c]
     else if n < 128 then percent_byte n
     else percent_byte (192 + n div 64) @ percent_byte (128 + n mod 64))"

definition encode_uri_component :: "string \<Rightarrow> string" where
  "encode_uri_component s = concat (map encode_char s)"

text \<open>
  \<open>decodeURIComponent\<close>: \<open>None\<close> is the \<open>URIError\<close>.  A sequence that decodes to a code point
  above 255 is outside the represented range and is reported as an error as well.
\<close>

fun hex_byte :: "char \<Rightarrow> char \<Rightarrow> nat option" where
  "hex_byte a b = (case hex_val a of None \<Rightarrow> None | Some x \<Rightarrow>
     (case hex_val b of None \<Rightarrow> None | Some y \<Rightarrow> Some (16 * x + y)))"

fun decode_uri_component :: "string \<Rightarrow> string option" where
  "decode_uri_component [] = Some []"
| "decode_uri_component (c # s) =
     (if c \<noteq> CHR ''%'' then map_option (Cons c) (decode_uri_component s)
      else case s of
        a # b # t \<Rightarrow>
          (case hex_byte a b of
             None \<Rightarrow> None
           | Some n \<Rightarrow>
               if n < 128 then map_option (Cons (char_of n)) (decode_uri_component t)
               else if n = 194 \<or> n = 195 then
                 (case t of
                    p # a2 # b2 # t2 \<Rightarrow>
                      (if p \<noteq> CHR ''%'' then None
                       else case hex_byte a2 b2 of
                         None \<Rightarrow> None
                       | Some m \<Rightarrow>
                           if 128 \<le> m \<and> m < 192
                           then map_option (Cons (char_of ((n - 192) * 64 + (m - 128))))
                                  (decode_uri_component t2)
                           else None)
                  | _ \<Rightarrow> None)
               else None)
      | _ \<Rightarrow> None)"

text \<open>\<open>map(decodeURIComponent)\<close> inside a \<open>try\<close>: one bad segment fails the whole.\<close>

fun decode_all :: "string list \<Rightarrow> string list option" where
  "decode_all [] = Some []"
| "decode_all (s # ss) = (case decode_uri_component s of None \<Rightarrow> None
     | Some t \<Rightarrow> map_option (Cons t) (decode_all ss))"

subsection \<open>Tables with a primary key\<close>

text \<open>A table is the list of its rows in insertion order; \<open>put_row\<close> is \<open>INSERT ... ON CONFLICT
  DO UPDATE\<close> with the whole new row.\<close>

definition look_row :: "('r \<Rightarrow> 'k) \<Rightarrow> 'k \<Rightarrow> 'r list \<Rightarrow> 'r option" where
  "look_row key k rows = find (\<lambda>r. key r = k) rows"

fun put_row :: "('r \<Rightarrow> 'k) \<Rightarrow> 'r \<Rightarrow> 'r list \<Rightarrow> 'r list" where
  "put_row key r [] = [r]"
| "put_row key r (x # xs) = (if key x = key r then r # xs else x # put_row key r xs)"

definition del_row :: "('r \<Rightarrow> 'k) \<Rightarrow> 'k \<Rightarrow> 'r list \<Rightarrow> 'r list" where
  "del_row key k rows = filter (\<lambda>r. key r \<noteq> k) rows"

subsection \<open>Lemmas\<close>

lemma look_row_Nil [simp]: "look_row key k [] = None"
  and look_row_Cons [simp]:
    "look_row key k (r # rows) = (if key r = k then Some r else look_row key k rows)"
  by (simp_all add: look_row_def)

lemma look_row_append:
  "look_row key k (xs @ ys) = (case look_row key k xs of None \<Rightarrow> look_row key k ys | Some r \<Rightarrow> Some r)"
  by (induction xs) auto

lemma look_row_filter_keep:
  "look_row key k rows = Some r \<Longrightarrow> P r \<Longrightarrow> look_row key k (filter P rows) = Some r"
  by (induction rows) (auto split: if_splits)

lemma look_row_map:
  "(\<And>r. key (g r) = key r) \<Longrightarrow> look_row key k (map g rows) = map_option g (look_row key k rows)"
  by (induction rows) auto

lemma look_put_row [simp]:
  "look_row key k (put_row key r rows) = (if k = key r then Some r else look_row key k rows)"
  by (induction key r rows rule: put_row.induct) auto

lemma look_del_row [simp]:
  "look_row key k (del_row key k' rows) = (if k = k' then None else look_row key k rows)"
  unfolding del_row_def by (induction rows) auto

lemma look_row_SomeD: "look_row key k rows = Some r \<Longrightarrow> r \<in> set rows \<and> key r = k"
  by (auto simp: look_row_def find_Some_iff)

lemma look_row_None_iff: "look_row key k rows = None \<longleftrightarrow> (\<forall>r \<in> set rows. key r \<noteq> k)"
  by (auto simp: look_row_def find_None_iff)

lemma look_row_distinct:
  "distinct (map key rows) \<Longrightarrow> r \<in> set rows \<Longrightarrow> look_row key (key r) rows = Some r"
  by (induction rows) (auto simp: rev_image_eqI)

lemma put_row_idem [simp]: "put_row key r (put_row key r rows) = put_row key r rows"
  by (induction key r rows rule: put_row.induct) auto

lemma set_put_row:
  "set (put_row key r rows) \<subseteq> insert r (set rows)" "r \<in> set (put_row key r rows)"
  by (induction key r rows rule: put_row.induct) auto

lemma keys_put_row: "key ` set (put_row key r rows) = insert (key r) (key ` set rows)"
  by (induction key r rows rule: put_row.induct) auto

lemma distinct_put_row: "distinct (map key rows) \<Longrightarrow> distinct (map key (put_row key r rows))"
proof (induction key r rows rule: put_row.induct)
  case (2 key r x xs)
  then show ?case using keys_put_row [of key r xs] by (auto simp flip: image_set)
qed simp

lemma set_put_row_distinct:
  "distinct (map key rows) \<Longrightarrow>
   set (put_row key r rows) = insert r {x \<in> set rows. key x \<noteq> key r}"
  by (induction key r rows rule: put_row.induct) (auto simp: image_iff)

lemma distinct_del_row: "distinct (map key rows) \<Longrightarrow> distinct (map key (del_row key k rows))"
  by (simp add: del_row_def distinct_map_filter)

lemma del_row_idem [simp]: "del_row key k (del_row key k rows) = del_row key k rows"
  by (simp add: del_row_def)

lemma set_del_row [simp]: "set (del_row key k rows) = {r \<in> set rows. key r \<noteq> k}"
  by (auto simp: del_row_def)

lemma starts_with_append [simp]: "starts_with (p @ s) p"
  by (simp add: starts_with_def)

lemma starts_with_conv: "starts_with s p \<longleftrightarrow> (\<exists>t. s = p @ t)"
  unfolding starts_with_def by (metis append_eq_conv_conj append_take_drop_id)

lemma split_on_nonempty [simp]: "split_on c s \<noteq> []"
  by (induction c s rule: split_on.induct) (auto split: list.splits)

lemma split_on_no_sep: "c \<notin> set s \<Longrightarrow> split_on c s = [s]"
  by (induction c s rule: split_on.induct) auto

lemma split_on_append:
  "c \<notin> set s \<Longrightarrow> split_on c (s @ c # t) = s # split_on c t"
  by (induction s) (auto split: list.splits)

lemma path_segments_two:
  assumes "CHR ''/'' \<notin> set a" "CHR ''/'' \<notin> set b" "a \<noteq> []" "b \<noteq> []"
  shows "path_segments (CHR ''/'' # a @ CHR ''/'' # b) = [a, b]"
  using assms by (simp add: path_segments_def split_on_append split_on_no_sep)

lemma path_segments_one:
  assumes "CHR ''/'' \<notin> set a" "a \<noteq> []"
  shows "path_segments (CHR ''/'' # a) = [a]"
  using assms by (simp add: path_segments_def split_on_no_sep)

lemma hex_val_hex_digit [simp]: "n < 16 \<Longrightarrow> hex_val (hex_digit n) = Some n"
  by (auto simp: hex_val_def hex_digit_def Let_def)

lemma hex_byte_digits [simp]:
  "n < 256 \<Longrightarrow> hex_byte (hex_digit (n div 16)) (hex_digit (n mod 16)) = Some n"
proof -
  assume "n < 256"
  then have "n div 16 < 16" by simp
  moreover have "n mod 16 < 16" by simp
  ultimately show ?thesis by simp
qed

declare hex_byte.simps [simp del]

lemma decode_percent:
  "n < 128 \<Longrightarrow> decode_uri_component (percent_byte n @ t)
     = map_option (Cons (char_of n)) (decode_uri_component t)"
  by (simp add: percent_byte_def)

lemma decode_two_bytes:
  assumes "a = 194 \<or> a = 195" "128 \<le> b" "b < 192"
  shows "decode_uri_component (percent_byte a @ percent_byte b @ t)
     = map_option (Cons (char_of ((a - 192) * 64 + (b - 128)))) (decode_uri_component t)"
proof -
  have "hex_byte (hex_digit (a div 16)) (hex_digit (a mod 16)) = Some a"
    and "hex_byte (hex_digit (b div 16)) (hex_digit (b mod 16)) = Some b"
    using assms by (auto intro: hex_byte_digits)
  then show ?thesis using assms by (auto simp: percent_byte_def)
qed

lemma decode_percent2:
  assumes "128 \<le> n" "n < 256"
  shows "decode_uri_component (percent_byte (192 + n div 64) @ percent_byte (128 + n mod 64) @ t)
     = map_option (Cons (char_of n)) (decode_uri_component t)"
proof -
  have d: "192 + n div 64 = 194 \<or> 192 + n div 64 = 195" using assms by auto
  have e: "(192 + n div 64 - 192) * 64 + (128 + n mod 64 - 128) = n" by simp
  have m: "128 + n mod 64 < 192" using mod_less_divisor [of 64 n] by linarith
  show ?thesis using decode_two_bytes [OF d _ m] by (simp only: e)
qed

lemma percent_not_unreserved: "uri_unreserved c \<Longrightarrow> c \<noteq> CHR ''%''"
  by (auto simp: uri_unreserved_def Let_def)

lemma decode_encode_char:
  "decode_uri_component (encode_char c @ t) = map_option (Cons c) (decode_uri_component t)"
proof -
  have c: "char_of (of_char c :: nat) = c" by simp
  show ?thesis
  proof (cases "uri_unreserved c")
    case True
    then show ?thesis using percent_not_unreserved [OF True] by (simp add: encode_char_def Let_def)
  next
    case False
    then show ?thesis
      using decode_percent [of "of_char c" t] decode_percent2 [of "of_char c" t]
      by (auto simp: encode_char_def Let_def not_less c)
  qed
qed

lemma decode_encode [simp]: "decode_uri_component (encode_uri_component s) = Some s"
  by (induction s) (simp_all add: encode_uri_component_def decode_encode_char)

lemma find_SomeD: "find P xs = Some x \<Longrightarrow> x \<in> set xs \<and> P x"
  by (auto simp: find_Some_iff)

lemma set_filter_map: "set (filter P (map g xs)) = g ` {x \<in> set xs. P (g x)}"
  by auto

lemma trim_empty [simp]: "trim [] = []"
  by (simp add: trim_def trim_start_def trim_end_def)

end
