(* ===== verification/Json.thy ===== *)
theory Json
  imports Prelude
begin

text \<open>
  JSON values and message bodies, and the value-level helpers of \<open>workers/shared/scim.ts\<close>:
  \<open>isRecord\<close>, \<open>parseJson\<close>, \<open>stripNulls\<close>.

  An object is the list of its own properties in insertion order; reading an absent property
  gives \<open>None\<close> (JavaScript's \<open>undefined\<close>).  A body text that \<open>JSON.parse\<close> accepts is
  represented by the value it denotes (\<open>Doc\<close>), any other text by itself (\<open>Raw\<close>), so
  \<open>JSON.stringify\<close> is \<open>Doc\<close> and parsing its result gives the value back.
\<close>

datatype json =
    JNull
  | JBool bool
  | JNum int
  | JStr string
  | JArr "json list"
  | JObj "(string \<times> json) list"

type_synonym object = "(string \<times> json) list"

datatype payload = Doc json | Raw string

subsection \<open>Objects\<close>

abbreviation getp :: "object \<Rightarrow> string \<Rightarrow> json option" where
  "getp obj k \<equiv> map_of obj k"

fun set_prop :: "string \<Rightarrow> json \<Rightarrow> object \<Rightarrow> object" where
  "set_prop k v [] = [(k, v)]"
| "set_prop k v ((k', v') # obj) =
     (if k' = k then (k, v) # obj else (k', v') # set_prop k v obj)"

definition del_prop :: "string \<Rightarrow> object \<Rightarrow> object" where
  "del_prop k obj = filter (\<lambda>(k', v). k' \<noteq> k) obj"

definition is_record :: "json \<Rightarrow> bool" where
  "is_record v = (case v of JObj obj \<Rightarrow> True | _ \<Rightarrow> False)"

definition as_string :: "json option \<Rightarrow> string option" where
  "as_string v = (case v of Some (JStr s) \<Rightarrow> Some s | _ \<Rightarrow> None)"

text \<open>\<open>typeof value === "string" && value ? value : null\<close>.\<close>

definition string_value :: "json option \<Rightarrow> string option" where
  "string_value v = (case v of Some (JStr s) \<Rightarrow> if s = [] then None else Some s | _ \<Rightarrow> None)"

definition as_array :: "json option \<Rightarrow> json list option" where
  "as_array v = (case v of Some (JArr xs) \<Rightarrow> Some xs | _ \<Rightarrow> None)"

definition as_object :: "json option \<Rightarrow> object option" where
  "as_object v = (case v of Some (JObj obj) \<Rightarrow> Some obj | _ \<Rightarrow> None)"

definition parse_json :: "payload option \<Rightarrow> object option" where
  "parse_json body = (case body of Some (Doc (JObj obj)) \<Rightarrow> Some obj | _ \<Rightarrow> None)"

text \<open>\<open>String(value)\<close>.\<close>

definition show_int :: "int \<Rightarrow> string" where
  "show_int n = (if n < 0 then ''-'' @ show_nat (nat (- n)) else show_nat (nat n))"

fun js_text :: "json \<Rightarrow> string" where
  "js_text JNull = ''null''"
| "js_text (JBool b) = (if b then ''true'' else ''false'')"
| "js_text (JNum n) = show_int n"
| "js_text (JStr s) = s"
| "js_text (JArr vs) = join_with '','' (map (\<lambda>v. if v = JNull then [] else js_text v) vs)"
| "js_text (JObj obj) = ''[object Object]''"

subsection \<open>Removing null-valued keys\<close>

fun strip_nulls :: "json \<Rightarrow> json"
  and strip_elems :: "json list \<Rightarrow> json list"
  and strip_fields :: "(string \<times> json) list \<Rightarrow> (string \<times> json) list" where
  "strip_nulls (JArr xs) = JArr (strip_elems xs)"
| "strip_nulls (JObj obj) = JObj (strip_fields obj)"
| "strip_nulls v = v"
| "strip_elems [] = []"
| "strip_elems (x # xs) = strip_nulls x # strip_elems xs"
| "strip_fields [] = []"
| "strip_fields ((k, v) # obj) =
     (if v = JNull then strip_fields obj else (k, strip_nulls v) # strip_fields obj)"

text \<open>No key anywhere in the value is null-valued; array elements may be.\<close>

fun null_free :: "json \<Rightarrow> bool"
  and null_free_elems :: "json list \<Rightarrow> bool"
  and null_free_fields :: "(string \<times> json) list \<Rightarrow> bool" where
  "null_free (JArr xs) = null_free_elems xs"
| "null_free (JObj obj) = null_free_fields obj"
| "null_free v = True"
| "null_free_elems [] = True"
| "null_free_elems (x # xs) = (null_free x \<and> null_free_elems xs)"
| "null_free_fields [] = True"
| "null_free_fields ((k, v) # obj) = (v \<noteq> JNull \<and> null_free v \<and> null_free_fields obj)"

subsection \<open>Lemmas\<close>

lemma prop_set_prop [simp]: "getp (set_prop k v obj) k' = (if k' = k then Some v else getp obj k')"
  by (induction k v obj rule: set_prop.induct) auto

lemma prop_del_prop [simp]: "getp (del_prop k obj) k' = (if k' = k then None else getp obj k')"
  unfolding del_prop_def by (induction obj) (auto split: if_splits)

lemma parse_json_doc [simp]: "parse_json (Some (Doc (JObj obj))) = Some obj"
  and parse_json_none [simp]: "parse_json None = None"
  and parse_json_raw [simp]: "parse_json (Some (Raw s)) = None"
  by (simp_all add: parse_json_def)

lemma as_string_Some_iff: "as_string v = Some s \<longleftrightarrow> v = Some (JStr s)"
  by (auto simp: as_string_def split: option.splits json.splits)

lemma string_value_Some_iff: "string_value v = Some s \<longleftrightarrow> v = Some (JStr s) \<and> s \<noteq> []"
  by (auto simp: string_value_def split: option.splits json.splits)

lemma as_array_Some_iff: "as_array v = Some xs \<longleftrightarrow> v = Some (JArr xs)"
  by (auto simp: as_array_def split: option.splits json.splits)

lemma as_object_Some_iff: "as_object v = Some obj \<longleftrightarrow> v = Some (JObj obj)"
  by (auto simp: as_object_def split: option.splits json.splits)

lemma strip_nulls_not_null [simp]: "strip_nulls v = JNull \<longleftrightarrow> v = JNull"
  by (cases v) auto

lemma strip_null_free:
  "null_free (strip_nulls v)"
  "null_free_elems (strip_elems xs)"
  "null_free_fields (strip_fields obj)"
  by (induction v and xs and obj rule: strip_nulls_strip_elems_strip_fields.induct) auto

lemma null_free_strip:
  "null_free v \<Longrightarrow> strip_nulls v = v"
  "null_free_elems xs \<Longrightarrow> strip_elems xs = xs"
  "null_free_fields obj \<Longrightarrow> strip_fields obj = obj"
  by (induction v and xs and obj rule: strip_nulls_strip_elems_strip_fields.induct) auto

lemma length_strip_elems [simp]: "length (strip_elems xs) = length xs"
  by (induction xs) auto

lemma prop_strip_fields:
  "distinct (map fst obj) \<Longrightarrow>
   getp (strip_fields obj) k = (case getp obj k of
      None \<Rightarrow> None | Some v \<Rightarrow> if v = JNull then None else Some (strip_nulls v))"
proof (induction obj)
  case (Cons kv obj)
  obtain k' v where kv: "kv = (k', v)" by (cases kv)
  show ?case
  proof (cases "k = k'")
    case True
    with Cons.prems kv have "getp obj k = None" by (simp add: map_of_eq_None_iff)
    with Cons kv True show ?thesis by auto
  next
    case False
    with Cons kv show ?thesis by auto
  qed
qed simp

text \<open>
  Stripping is idempotent, leaves no null-valued key, and keeps every other own property and
  every array position.
\<close>

text \<open>The body every WorkOS write carries has no null-valued key at any depth, stripping
  twice is stripping once, and a value that has none is sent as it is.\<close>
theorem strip_nulls_correct:
  "null_free (strip_nulls v) \<and> strip_nulls (strip_nulls v) = strip_nulls v
     \<and> (strip_nulls v = v \<longleftrightarrow> null_free v)"
  using strip_null_free(1) [of v] null_free_strip(1) by metis

end
