(* ===== verification/Secrets.thy ===== *)
theory Secrets
  imports Prelude "HOL-Library.Word"
begin

text \<open>
  The credential primitives of \<open>workers/shared/crypto.ts\<close> that do not need the platform's
  cryptography: the two storage prefixes, the token hint, and the comparison loop over code
  units with its \<open>|=\<close> and \<open>^\<close> on 32-bit integers.  SHA-256 and AES-GCM are Web Crypto and
  stay parameters of the environment (theory Effects).
\<close>

unbundle bit_operations_syntax

definition enc_prefix :: string where "enc_prefix = ''enc:v1:''"

definition hash_prefix :: string where "hash_prefix = ''sha256:v1:''"

definition is_hashed_token :: "string \<Rightarrow> bool" where
  "is_hashed_token v = starts_with v hash_prefix"

definition is_encrypted_secret :: "string \<Rightarrow> bool" where
  "is_encrypted_secret v = starts_with v enc_prefix"

text \<open>\<open>token.slice(-4)\<close>.\<close>

definition proxy_token_hint :: "string \<Rightarrow> string" where
  "proxy_token_hint t = drop (length t - 4) t"

definition char_code :: "char \<Rightarrow> 32 word" where
  "char_code c = word_of_nat (of_char c)"

fun diff_loop :: "string \<Rightarrow> string \<Rightarrow> 32 word \<Rightarrow> 32 word" where
  "diff_loop (a # as) (b # bs) diff = diff_loop as bs (diff OR (char_code a XOR char_code b))"
| "diff_loop _ _ diff = diff"

definition timing_safe_equal :: "string \<Rightarrow> string \<Rightarrow> bool" where
  "timing_safe_equal a b = (if length a \<noteq> length b then False else diff_loop a b 0 = 0)"

definition hash_proxy_token :: "(string \<Rightarrow> string) \<Rightarrow> string \<Rightarrow> string" where
  "hash_proxy_token sha256_hex t = hash_prefix @ sha256_hex t"

definition secrets_match :: "(string \<Rightarrow> string) \<Rightarrow> string \<Rightarrow> string \<Rightarrow> bool" where
  "secrets_match sha256_hex a b = timing_safe_equal (sha256_hex a) (sha256_hex b)"

subsection \<open>Lemmas\<close>

lemma of_char_256: "(of_char c :: nat) < 256"
  by (metis mod_less_divisor of_char_mod_256 zero_less_numeral)

lemma unat_char_code: "unat (char_code c) = of_char c"
proof -
  have "(of_char c :: nat) < 4294967296" using of_char_256 [of c] by (rule less_trans) simp
  then show ?thesis by (simp add: char_code_def unat_of_nat)
qed

lemma char_code_inject: "char_code a = char_code b \<longleftrightarrow> a = b"
  by (metis of_char_eq_iff unat_char_code)

lemma word_xor_zero: "(x :: 32 word) XOR y = 0 \<longleftrightarrow> x = y"
  by (metis xor.assoc xor.right_neutral xor_self_eq)

lemma diff_loop_zero:
  "length a = length b \<Longrightarrow> diff_loop a b d = 0 \<longleftrightarrow> d = 0 \<and> a = b"
proof (induction a b d rule: diff_loop.induct)
  case (1 a as b bs diff)
  then show ?case by (auto simp: or_eq_0_iff word_xor_zero char_code_inject)
qed auto

text \<open>
  The loop that inspects every position decides equality, and hashing first decides equality of
  the secrets whenever the digest is injective on them.
\<close>

lemma timing_safe_equal_iff [simp]: "timing_safe_equal a b \<longleftrightarrow> a = b"
  by (auto simp: timing_safe_equal_def diff_loop_zero)

lemma secrets_match_iff: "secrets_match h a b \<longleftrightarrow> h a = h b"
  by (simp add: secrets_match_def)

lemma hashed_not_plain: "is_hashed_token (hash_proxy_token h t)"
  by (simp add: is_hashed_token_def hash_proxy_token_def)

text \<open>The constant-time comparison accumulates the XOR of every pair of code units in one
  32-bit integer; it answers true exactly for equal strings.\<close>
theorem timing_safe_equal_correct:
  "timing_safe_equal a b = (length a = length b \<and> (\<forall>i. i \<ge> length a \<or> a ! i = b ! i))"
  by (simp add: list_eq_iff_nth_eq) (metis not_le)

end
