(* ===== verification/Model.thy ===== *)
theory Model
  imports Json Secrets
begin

text \<open>
  The data of \<open>workers/shared/types.ts\<close>: the migration ladder, the two resource types, the
  rows of the datastore tables, and the request log entry of \<open>workers/shared/db.ts\<close>.
  Creation timestamps and the millisecond durations of upstream calls are not represented.
\<close>

datatype mode = Passthrough | DualWrite | WorkosPrimary | WorkosOnly

datatype kind = Users | Groups

datatype strategy = MigratedId | FallbackPost

definition modes :: "mode list" where
  "modes = [Passthrough, DualWrite, WorkosPrimary, WorkosOnly]"

fun mode_name :: "mode \<Rightarrow> string" where
  "mode_name Passthrough = ''passthrough''"
| "mode_name DualWrite = ''dual-write''"
| "mode_name WorkosPrimary = ''workos-primary''"
| "mode_name WorkosOnly = ''workos-only''"

fun kind_name :: "kind \<Rightarrow> string" where
  "kind_name Users = ''Users''"
| "kind_name Groups = ''Groups''"

fun kind_of :: "string \<Rightarrow> kind option" where
  "kind_of s = (if s = ''Users'' then Some Users else if s = ''Groups'' then Some Groups else None)"

fun unique_attribute :: "kind \<Rightarrow> string" where
  "unique_attribute Users = ''userName''"
| "unique_attribute Groups = ''displayName''"

definition native_is_authoritative :: "mode \<Rightarrow> bool" where
  "native_is_authoritative m \<longleftrightarrow> m = Passthrough \<or> m = DualWrite"

text \<open>The ladder order, so that \<open>m \<le> n\<close> reads "n is at least as far along as m".\<close>

fun rung :: "mode \<Rightarrow> nat" where
  "rung Passthrough = 0"
| "rung DualWrite = 1"
| "rung WorkosPrimary = 2"
| "rung WorkosOnly = 3"

lemma rung_inject: "rung m = rung n \<longleftrightarrow> m = n"
  by (cases m; cases n) auto

instantiation mode :: linorder
begin
definition less_eq_mode :: "mode \<Rightarrow> mode \<Rightarrow> bool" where
  "less_eq_mode m n \<longleftrightarrow> rung m \<le> rung n"
definition less_mode :: "mode \<Rightarrow> mode \<Rightarrow> bool" where
  "less_mode m n \<longleftrightarrow> rung m < rung n"
instance
  by standard (auto simp: less_eq_mode_def less_mode_def rung_inject)
end

subsection \<open>Rows\<close>

record directory =
  dir_id :: string
  dir_name :: string
  dir_mode :: mode
  proxy_token_hash :: string
  proxy_token_hint_col :: string
  native_url :: string
  native_token :: string
  native_token_partitioned :: bool
  workos_url :: string
  workos_token :: string
  workos_directory_id :: "string option"
  log_persistence :: bool
  reconcile_token :: "string option"
  reconcile_started_at :: "int option"
  updated_at :: string

record id_mapping =
  m_directory :: string
  m_kind :: kind
  m_native :: string
  m_workos :: string
  m_strategy :: strategy

record write_failure =
  f_directory :: string
  f_kind :: kind
  f_key :: string
  f_method :: string
  f_native_status :: "nat option"
  f_detail :: string
  f_attempts :: nat
  f_sweep :: "string option"

record event_link =
  e_directory :: string
  e_kind :: kind
  e_dsync :: string
  e_native :: string
  e_workos :: string

record log_entry =
  l_directory :: "string option"
  l_source :: string
  l_mode :: string
  l_method :: string
  l_path :: string
  l_request_body :: "payload option"
  l_native_status :: "nat option"
  l_native_body :: "payload option"
  l_workos_request :: "string option"
  l_workos_status :: "nat option"
  l_workos_body :: "payload option"
  l_response_status :: "nat option"
  l_error :: "string option"

definition blank_log :: log_entry where
  "blank_log = \<lparr>l_directory = None, l_source = ''idp'', l_mode = ''unknown'', l_method = [], l_path = [],
     l_request_body = None, l_native_status = None, l_native_body = None, l_workos_request = None,
     l_workos_status = None, l_workos_body = None, l_response_status = None, l_error = None\<rparr>"

text \<open>The directory tables of the reference native app, and of the mock WorkOS directory it also serves
  (\<open>workers/native/store.ts\<close>).  A member row is a group id with a user id.\<close>

record user_row =
  ur_id :: string
  ur_name :: string
  ur_external :: "string option"
  ur_active :: bool
  ur_resource :: payload
  ur_created :: string
  ur_updated :: string

record group_row =
  gr_id :: string
  gr_name :: string
  gr_external :: "string option"
  gr_resource :: payload
  gr_created :: string
  gr_updated :: string

record scim_tables =
  t_users :: "user_row list"
  t_groups :: "group_row list"
  t_members :: "(string \<times> string) list"

text \<open>The event log of the listener (\<open>workers/native/listener.ts\<close>).\<close>

datatype event_action = Applied | Skipped | Ignored

record listener_event =
  v_id :: "string option"
  v_type :: string
  v_idp :: "string option"
  v_action :: event_action
  v_detail :: string
  v_payload :: "string option"

text \<open>A row of the event log of the mock WorkOS environment; the table holds them in the order of \<open>seq\<close>.\<close>

record mock_event =
  me_id :: string
  me_event :: string
  me_data :: string
  me_at :: string

text \<open>The tables of the simulated identity provider (\<open>workers/idp/types.ts\<close>).  A member row is a group id with
  a user id; \<open>i_serial\<close> is the last id of the activity; the automatic runs have one row per directory.\<close>

datatype idp_origin = Manual | Auto | Seed

record idp_user =
  iu_id :: string
  iu_directory :: string
  iu_name :: string
  iu_external :: string
  iu_given :: "string option"
  iu_family :: "string option"
  iu_active :: bool
  iu_scim :: "string option"
  iu_status :: "nat option"
  iu_created :: string
  iu_updated :: string

record idp_group =
  ig_id :: string
  ig_directory :: string
  ig_name :: string
  ig_external :: string
  ig_scim :: "string option"
  ig_status :: "nat option"
  ig_created :: string
  ig_updated :: string

record idp_activity =
  ia_id :: nat
  ia_directory :: string
  ia_ts :: string
  ia_origin :: idp_origin
  ia_action :: string
  ia_subject :: "string option"
  ia_method :: "string option"
  ia_path :: "string option"
  ia_status :: "nat option"
  ia_ok :: bool
  ia_detail :: "string option"

record idp_auto =
  au_directory :: string
  au_running :: bool
  au_interval :: int
  au_ticks :: nat
  au_updated :: string

record idp_tables =
  i_users :: "idp_user list"
  i_groups :: "idp_group list"
  i_members :: "(string \<times> string) list"
  i_activity :: "idp_activity list"
  i_serial :: nat
  i_auto :: "idp_auto list"

text \<open>The tables of the datastore that the modelled components read and write.\<close>

record store =
  directories :: "directory list"
  id_mappings :: "id_mapping list"
  create_claims :: "((string \<times> kind) \<times> string) list"
  write_failures :: "write_failure list"
  event_links :: "event_link list"
  proxy_logs :: "log_entry list"
  config :: "(string \<times> string) list"
  native_tables :: scim_tables
  mock_tables :: scim_tables
  listener_events :: "listener_event list"
  listener_versions :: "(string \<times> string) list"
  mock_events :: "mock_event list"
  idp_state :: idp_tables

definition no_idp :: idp_tables where
  "no_idp = \<lparr>i_users = [], i_groups = [], i_members = [], i_activity = [], i_serial = 0, i_auto = []\<rparr>"

definition no_tables :: scim_tables where
  "no_tables = \<lparr>t_users = [], t_groups = [], t_members = []\<rparr>"

definition empty_store :: store where
  "empty_store = \<lparr>directories = [], id_mappings = [], create_claims = [], write_failures = [],
     event_links = [], proxy_logs = [], config = [], native_tables = no_tables, mock_tables = no_tables,
     listener_events = [], listener_versions = [], mock_events = [], idp_state = no_idp\<rparr>"

subsection \<open>Lemmas\<close>

lemma mode_name_inject: "mode_name m = mode_name n \<longleftrightarrow> m = n"
  by (cases m; cases n) auto

lemma kind_of_name [simp]: "kind_of (kind_name k) = Some k"
  by (cases k) auto

lemma kind_of_Some: "kind_of s = Some k \<longleftrightarrow> s = kind_name k"
  by (cases k) (auto split: if_splits)

lemma native_authority_prefix: "native_is_authoritative n \<Longrightarrow> m \<le> n \<Longrightarrow> native_is_authoritative m"
  by (cases m; cases n) (auto simp: native_is_authoritative_def less_eq_mode_def)

end
