(* ===== verification/Effects.thy ===== *)
theory Effects
  imports Model
begin

text \<open>
  The effects of the asynchronous TypeScript code: a computation reads an environment and
  transforms a world, and ends with a value or a thrown error.

  The environment is everything that is not under \<open>src/\<close>: the two upstream SCIM services and
  the WorkOS API answer a call depending on the whole history of calls; the datastore engine may
  refuse a statement, or apply it and lose the acknowledgement, transiently or not; and the
  platform supplies SHA-256, random UUIDs, the clock, and the WHATWG URL parser.  The world is the
  datastore content, the calls sent so far, the supplies used up, and the request's log entry.
\<close>

datatype side = Native | Workos | WorkosApi | Bridge

record call =
  c_side :: side
  c_method :: string
  c_url :: string
  c_token :: string
  c_body :: "payload option"
  c_content_type :: "string option"
  c_migrated :: "string option"
  c_headers :: "(string \<times> string) list"

record upstream_result =
  u_status :: nat
  u_body :: "payload option"
  u_content_type :: "string option"
  u_headers :: "(string \<times> string) list"

record response =
  r_status :: nat
  r_body :: "payload option"
  r_headers :: "(string \<times> string) list"

datatype err =
    Transient
  | DbError string
  | NetError string
  | Ambiguous
  | Failed string

datatype fault = Fine | Refused bool | LostAck bool

record url =
  url_href :: string
  url_protocol :: string
  url_hostname :: string
  url_port :: string
  url_origin :: string
  url_pathname :: string
  url_search :: string
  url_params :: "(string \<times> string) list"

record env =
  upstream :: "call list \<Rightarrow> call \<Rightarrow> string + upstream_result"
  db_fault :: "nat \<Rightarrow> fault"
  uuid :: "nat \<Rightarrow> string"
  clock :: "nat \<Rightarrow> int"
  now_text :: "nat \<Rightarrow> string"
  sha256_hex :: "string \<Rightarrow> string"
  has_key :: bool
  seal :: "nat \<Rightarrow> string \<Rightarrow> string"
  unseal :: "string \<Rightarrow> string option"
  hmac_hex :: "string \<Rightarrow> string \<Rightarrow> string"
  parse_url :: "string \<Rightarrow> url option"
  resolve_url :: "string \<Rightarrow> string \<Rightarrow> url option"
  url_at_path :: "url \<Rightarrow> string \<Rightarrow> string"

text \<open>The one object a reconcile shares with the functions it calls and reads after they throw
  (\<open>ReconcileReplayState\<close> of \<open>workers/shared/backfill.ts\<close>).\<close>

record replay_state =
  unresolved_write :: bool
  write_started :: bool

text \<open>The module-level maps of the process: the status answers the listener holds with the time the
  origin last confirmed them, the back-off after a failed lookup (\<open>workers/native/status-client.ts\<close>),
  the client tokens the process was started with (\<open>workers/shared/client-tokens.ts\<close>), and the timers of the
  simulated identity provider with their intervals (\<open>workers/idp/scheduler.ts\<close>).\<close>

record cache_entry =
  ce_status :: json
  ce_etag :: "string option"
  ce_validated :: int

record process =
  status_cache :: "(string \<times> cache_entry) list"
  failed_until :: "(string \<times> int) list"
  remembered :: "(string \<times> string) list"
  idp_timers :: "(string \<times> int) list"

record world =
  db :: store
  calls :: "call list"
  db_ops :: nat
  uuids :: nat
  ticks :: nat
  rlog :: log_entry
  replaying :: replay_state
  proc :: process

type_synonym 'a m = "env \<Rightarrow> world \<Rightarrow> (err + 'a) \<times> world"

subsection \<open>Sequencing, throwing and catching\<close>

definition ret :: "'a \<Rightarrow> 'a m" where
  "ret x = (\<lambda>e w. (Inr x, w))"

definition throw :: "err \<Rightarrow> 'a m" where
  "throw er = (\<lambda>e w. (Inl er, w))"

definition bnd :: "'a m \<Rightarrow> ('a \<Rightarrow> 'b m) \<Rightarrow> 'b m" where
  "bnd mm f = (\<lambda>e w. case mm e w of (Inl er, w') \<Rightarrow> (Inl er, w') | (Inr x, w') \<Rightarrow> f x e w')"

definition thn :: "'a m \<Rightarrow> 'b m \<Rightarrow> 'b m" where
  "thn mm nn = bnd mm (\<lambda>_. nn)"

definition try_catch :: "'a m \<Rightarrow> (err \<Rightarrow> 'a m) \<Rightarrow> 'a m" where
  "try_catch mm h = (\<lambda>e w. case mm e w of (Inl er, w') \<Rightarrow> h er e w' | (Inr x, w') \<Rightarrow> (Inr x, w'))"

text \<open>Run to the end and report a thrown error as a value: a promise that may be rejected.\<close>

definition settle :: "'a m \<Rightarrow> (err + 'a) m" where
  "settle mm = (\<lambda>e w. case mm e w of (r, w') \<Rightarrow> (Inr r, w'))"

text \<open>
  \<open>Promise.all\<close> of two started computations: both run to their end, in this order; the first
  rejection rejects the pair.
\<close>

definition both :: "'a m \<Rightarrow> 'b m \<Rightarrow> ('a \<times> 'b) m" where
  "both mm nn = bnd (settle mm) (\<lambda>r1. bnd (settle nn) (\<lambda>r2.
     case r1 of Inl er \<Rightarrow> throw er
     | Inr x \<Rightarrow> (case r2 of Inl er \<Rightarrow> throw er | Inr y \<Rightarrow> ret (x, y))))"

fun each :: "('a \<Rightarrow> unit m) \<Rightarrow> 'a list \<Rightarrow> unit m" where
  "each f [] = ret ()"
| "each f (x # xs) = thn (f x) (each f xs)"

definition error_message :: "err \<Rightarrow> string" where
  "error_message er = (case er of Transient \<Rightarrow> ''datastore busy'' | DbError s \<Rightarrow> s | NetError s \<Rightarrow> s
     | Ambiguous \<Rightarrow> ''SCIM mapping is ambiguous'' | Failed s \<Rightarrow> s)"

subsection \<open>The datastore\<close>

type_synonym 'a statement = "store \<Rightarrow> (err + 'a) \<times> store"

text \<open>\<open>withDatastoreRetry\<close>: at most six attempts, repeated on a transient failure only.\<close>

fun run_attempts :: "nat \<Rightarrow> 'a statement \<Rightarrow> 'a m" where
  "run_attempts 0 f e w = (Inl Transient, w)"
| "run_attempts (Suc n) f e w =
     (let w1 = w\<lparr>db_ops := Suc (db_ops w)\<rparr> in
      case db_fault e (db_ops w) of
        Fine \<Rightarrow> (case f (db w) of (r, s) \<Rightarrow> (r, w1\<lparr>db := s\<rparr>))
      | Refused t \<Rightarrow>
          (if t then run_attempts n f e w1 else (Inl (DbError ''statement failed''), w1))
      | LostAck t \<Rightarrow>
          (case f (db w) of (r, s) \<Rightarrow>
             if t then run_attempts n f e (w1\<lparr>db := s\<rparr>)
             else (Inl (DbError ''connection lost''), w1\<lparr>db := s\<rparr>)))"

definition max_attempts :: nat where "max_attempts = 6"

definition with_datastore_retry :: "'a statement \<Rightarrow> 'a m" where
  "with_datastore_retry f = run_attempts max_attempts f"

definition query :: "(store \<Rightarrow> 'a) \<Rightarrow> 'a m" where
  "query q = with_datastore_retry (\<lambda>s. (Inr (q s), s))"

definition execute :: "(store \<Rightarrow> store) \<Rightarrow> unit m" where
  "execute f = with_datastore_retry (\<lambda>s. (Inr (), f s))"

subsection \<open>Calls, supplies and the request log\<close>

definition fetch :: "call \<Rightarrow> upstream_result m" where
  "fetch c = (\<lambda>e w. case upstream e (calls w) c of
      Inl msg \<Rightarrow> (Inl (NetError msg), w\<lparr>calls := calls w @ [c]\<rparr>)
    | Inr r \<Rightarrow> (Inr r, w\<lparr>calls := calls w @ [c]\<rparr>))"

definition random_uuid :: "string m" where
  "random_uuid = (\<lambda>e w. (Inr (uuid e (uuids w)), w\<lparr>uuids := Suc (uuids w)\<rparr>))"

definition now :: "int m" where
  "now = (\<lambda>e w. (Inr (clock e (ticks w)), w\<lparr>ticks := Suc (ticks w)\<rparr>))"

definition sql_now :: "string m" where
  "sql_now = (\<lambda>e w. (Inr (now_text e (ticks w)), w\<lparr>ticks := Suc (ticks w)\<rparr>))"

definition asks :: "(env \<Rightarrow> 'a) \<Rightarrow> 'a m" where
  "asks f = (\<lambda>e w. (Inr (f e), w))"

definition set_log :: "(log_entry \<Rightarrow> log_entry) \<Rightarrow> unit m" where
  "set_log f = (\<lambda>e w. (Inr (), w\<lparr>rlog := f (rlog w)\<rparr>))"

definition get_log :: "log_entry m" where
  "get_log = (\<lambda>e w. (Inr (rlog w), w))"

definition log_error :: "string \<Rightarrow> unit m" where
  "log_error s = set_log (\<lambda>l. l\<lparr>l_error := Some s\<rparr>)"

definition set_replay :: "(replay_state \<Rightarrow> replay_state) \<Rightarrow> unit m" where
  "set_replay f = (\<lambda>e w. (Inr (), w\<lparr>replaying := f (replaying w)\<rparr>))"

definition get_replay :: "replay_state m" where
  "get_replay = (\<lambda>e w. (Inr (replaying w), w))"

definition set_proc :: "(process \<Rightarrow> process) \<Rightarrow> unit m" where
  "set_proc f = (\<lambda>e w. (Inr (), w\<lparr>proc := f (proc w)\<rparr>))"

definition get_proc :: "process m" where
  "get_proc = (\<lambda>e w. (Inr (proc w), w))"

text \<open>\<open>try\<close> with a \<open>finally\<close>.  A loop that is still running yields \<open>None\<close>; it has not left the
  block.\<close>

definition finally_do :: "'a option m \<Rightarrow> unit m \<Rightarrow> 'a option m" where
  "finally_do mm cleanup = bnd (settle mm) (\<lambda>r. case r of
       Inl er \<Rightarrow> thn cleanup (throw er)
     | Inr None \<Rightarrow> ret None
     | Inr (Some x) \<Rightarrow> thn cleanup (ret (Some x)))"

definition bnd_some :: "'a option m \<Rightarrow> ('a \<Rightarrow> 'b option m) \<Rightarrow> 'b option m" where
  "bnd_some mm f = bnd mm (\<lambda>r. case r of None \<Rightarrow> ret None | Some x \<Rightarrow> f x)"

end
