(* ===== verification/Logic.thy ===== *)
theory Logic
  imports Effects
begin

text \<open>
  Reasoning about computations.  \<open>pres R e mm\<close>: whatever happens (a value, a thrown error, any
  datastore fault), the world after is related to the world before.  The locale \<open>effect\<close> gives its
  rules for every reflexive and transitive relation; \<open>store_frame\<close> for relations on the
  datastore content, \<open>sends\<close> for the set of upstream calls a computation may make.  The locale
  \<open>replayable\<close> is the contract of a statement that may be run again after a lost
  acknowledgement; \<open>wp\<close> describes results.
\<close>

named_theorems eff "rules for the preservation predicate"

definition pres :: "(world \<Rightarrow> world \<Rightarrow> bool) \<Rightarrow> env \<Rightarrow> 'a m \<Rightarrow> bool" where
  "pres R e mm \<longleftrightarrow> (\<forall>w. R w (snd (mm e w)))"

definition wp :: "env \<Rightarrow> 'a m \<Rightarrow> ('a \<Rightarrow> world \<Rightarrow> bool) \<Rightarrow> (err \<Rightarrow> world \<Rightarrow> bool) \<Rightarrow> world \<Rightarrow> bool" where
  "wp e mm Q X w = (case mm e w of (Inr x, w') \<Rightarrow> Q x w' | (Inl er, w') \<Rightarrow> X er w')"

lemma presD: "pres R e mm \<Longrightarrow> mm e w = (r, w') \<Longrightarrow> R w w'"
  unfolding pres_def by (metis snd_conv)

lemma presI: "(\<And>w r w'. mm e w = (r, w') \<Longrightarrow> R w w') \<Longrightarrow> pres R e mm"
  unfolding pres_def by (metis prod.collapse)

lemma pres_wp:
  assumes "\<And>w. wp e mm (\<lambda>_. R w) (\<lambda>_. R w) w"
  shows "pres R e mm"
proof (rule presI)
  fix w r w' assume "mm e w = (r, w')"
  with assms [of w] show "R w w'" by (cases r) (auto simp: wp_def)
qed

lemma pres_mono: "pres R e mm \<Longrightarrow> (\<And>a b. R a b \<Longrightarrow> R' a b) \<Longrightarrow> pres R' e mm"
  by (simp add: pres_def)

subsection \<open>Control structure\<close>

lemma pres_if [eff]: "(b \<Longrightarrow> pres R e mm) \<Longrightarrow> (\<not> b \<Longrightarrow> pres R e nn) \<Longrightarrow> pres R e (if b then mm else nn)"
  by simp

lemma pres_option [eff]:
  "(x = None \<Longrightarrow> pres R e mm) \<Longrightarrow> (\<And>y. x = Some y \<Longrightarrow> pres R e (f y)) \<Longrightarrow>
   pres R e (case x of None \<Rightarrow> mm | Some y \<Rightarrow> f y)"
  by (cases x) auto

lemma pres_sum [eff]:
  "(\<And>y. x = Inl y \<Longrightarrow> pres R e (f y)) \<Longrightarrow> (\<And>y. x = Inr y \<Longrightarrow> pres R e (g y)) \<Longrightarrow>
   pres R e (case x of Inl y \<Rightarrow> f y | Inr y \<Rightarrow> g y)"
  by (cases x) auto

lemma pres_prod [eff]:
  "(\<And>a b. x = (a, b) \<Longrightarrow> pres R e (f a b)) \<Longrightarrow> pres R e (case x of (a, b) \<Rightarrow> f a b)"
  by (cases x) auto

lemma pres_list [eff]:
  "(x = [] \<Longrightarrow> pres R e mm) \<Longrightarrow> (\<And>y ys. x = y # ys \<Longrightarrow> pres R e (f y ys)) \<Longrightarrow>
   pres R e (case x of [] \<Rightarrow> mm | y # ys \<Rightarrow> f y ys)"
  by (cases x) auto

lemma pres_mode [eff]:
  "pres R e m1 \<Longrightarrow> pres R e m2 \<Longrightarrow> pres R e m3 \<Longrightarrow> pres R e m4 \<Longrightarrow>
   pres R e (case x of Passthrough \<Rightarrow> m1 | DualWrite \<Rightarrow> m2 | WorkosPrimary \<Rightarrow> m3 | WorkosOnly \<Rightarrow> m4)"
  by (cases x) auto

locale effect =
  fixes R :: "world \<Rightarrow> world \<Rightarrow> bool"
  assumes R_refl: "R w w"
    and R_trans: "R a b \<Longrightarrow> R b c \<Longrightarrow> R a c"
begin

lemma pres_ret [eff]: "pres R e (ret x)"
  by (simp add: pres_def ret_def R_refl)

lemma pres_throw [eff]: "pres R e (throw er)"
  by (simp add: pres_def throw_def R_refl)

lemma pres_bnd [eff]:
  assumes "pres R e mm" "\<And>x. pres R e (f x)"
  shows "pres R e (bnd mm f)"
proof (rule presI)
  fix w r w' assume run: "bnd mm f e w = (r, w')"
  obtain r1 w1 where m1: "mm e w = (r1, w1)" by (cases "mm e w")
  have R1: "R w w1" using assms(1) m1 by (rule presD)
  show "R w w'"
  proof (cases r1)
    case (Inl er)
    with run m1 R1 show ?thesis by (simp add: bnd_def)
  next
    case (Inr x)
    with run m1 have "f x e w1 = (r, w')" by (simp add: bnd_def)
    with assms(2) have "R w1 w'" by (rule presD)
    with R1 show ?thesis by (rule R_trans)
  qed
qed

lemma pres_thn [eff]: "pres R e mm \<Longrightarrow> pres R e nn \<Longrightarrow> pres R e (thn mm nn)"
  unfolding thn_def by (rule pres_bnd)

lemma pres_try_catch [eff]:
  assumes "pres R e mm" "\<And>er. pres R e (h er)"
  shows "pres R e (try_catch mm h)"
proof (rule presI)
  fix w r w' assume run: "try_catch mm h e w = (r, w')"
  obtain r1 w1 where m1: "mm e w = (r1, w1)" by (cases "mm e w")
  have R1: "R w w1" using assms(1) m1 by (rule presD)
  show "R w w'"
  proof (cases r1)
    case (Inl er)
    with run m1 have "h er e w1 = (r, w')" by (simp add: try_catch_def)
    with assms(2) have "R w1 w'" by (rule presD)
    with R1 show ?thesis by (rule R_trans)
  next
    case (Inr x)
    with run m1 R1 show ?thesis by (simp add: try_catch_def)
  qed
qed

lemma pres_settle [eff]: "pres R e mm \<Longrightarrow> pres R e (settle mm)"
  by (auto simp: pres_def settle_def split: prod.splits) (metis snd_conv)

lemma pres_both [eff]: "pres R e mm \<Longrightarrow> pres R e nn \<Longrightarrow> pres R e (both mm nn)"
  unfolding both_def by (intro eff)

lemma pres_each [eff]: "(\<And>x. pres R e (f x)) \<Longrightarrow> pres R e (each f xs)"
  by (induction xs) (auto intro: eff)

lemma pres_asks [eff]: "pres R e (asks f)"
  by (simp add: pres_def asks_def R_refl)

lemma pres_get_log [eff]: "pres R e get_log"
  by (simp add: pres_def get_log_def R_refl)

lemma pres_get_replay [eff]: "pres R e get_replay"
  by (simp add: pres_def get_replay_def R_refl)

lemma pres_get_proc [eff]: "pres R e get_proc"
  by (simp add: pres_def get_proc_def R_refl)

lemma pres_bnd_some [eff]: "pres R e mm \<Longrightarrow> (\<And>x. pres R e (f x)) \<Longrightarrow> pres R e (bnd_some mm f)"
  unfolding bnd_some_def by (intro eff)

lemma pres_finally [eff]: "pres R e mm \<Longrightarrow> pres R e cleanup \<Longrightarrow> pres R e (finally_do mm cleanup)"
  unfolding finally_do_def by (intro eff)

end

subsection \<open>Relations on the datastore content\<close>

definition on_db :: "(store \<Rightarrow> store \<Rightarrow> bool) \<Rightarrow> world \<Rightarrow> world \<Rightarrow> bool" where
  "on_db S w w' \<longleftrightarrow> S (db w) (db w')"

locale store_frame =
  fixes S :: "store \<Rightarrow> store \<Rightarrow> bool"
  assumes S_refl: "S s s"
    and S_trans: "S a b \<Longrightarrow> S b c \<Longrightarrow> S a c"

sublocale store_frame \<subseteq> effect "on_db S"
  by unfold_locales (auto simp: on_db_def intro: S_refl S_trans)

context store_frame
begin

lemma pres_run_attempts:
  assumes step: "\<And>s. S s (snd (f s))"
  shows "pres (on_db S) e (run_attempts n f)"
proof (rule presI)
  fix w :: world and r w'
  show "run_attempts n f e w = (r, w') \<Longrightarrow> on_db S w w'"
  proof (induction n arbitrary: w)
    case 0
    then show ?case by (simp add: on_db_def S_refl)
  next
    case (Suc n)
    obtain x s where fs: "f (db w) = (x, s)" by (cases "f (db w)")
    have S1: "S (db w) s" using step [of "db w"] fs by simp
    show ?case
    proof (cases "db_fault e (db_ops w)")
      case Fine
      with Suc.prems fs S1 show ?thesis by (auto simp: on_db_def Let_def)
    next
      case (Refused t)
      with Suc.prems show ?thesis
        using Suc.IH [of "w\<lparr>db_ops := Suc (db_ops w)\<rparr>"]
        by (auto simp: on_db_def Let_def S_refl split: if_splits)
    next
      case (LostAck t)
      with Suc.prems fs S1 show ?thesis
        using Suc.IH [of "w\<lparr>db_ops := Suc (db_ops w), db := s\<rparr>"]
        by (auto simp: on_db_def Let_def split: if_splits intro: S_trans)
    qed
  qed
qed

lemma pres_statement [eff]:
  "(\<And>s. S s (snd (f s))) \<Longrightarrow> pres (on_db S) e (with_datastore_retry f)"
  unfolding with_datastore_retry_def by (rule pres_run_attempts)

lemma pres_query [eff]: "pres (on_db S) e (query q)"
  unfolding query_def by (rule pres_statement) (simp add: S_refl)

lemma pres_execute: "(\<And>s. S s (f s)) \<Longrightarrow> pres (on_db S) e (execute f)"
  unfolding execute_def by (rule pres_statement) simp

lemma pres_fetch [eff]: "pres (on_db S) e (fetch c)"
  by (auto simp: pres_def fetch_def on_db_def S_refl split: sum.splits)

lemma pres_random_uuid [eff]: "pres (on_db S) e random_uuid"
  by (simp add: pres_def random_uuid_def on_db_def S_refl)

lemma pres_now [eff]: "pres (on_db S) e now"
  by (simp add: pres_def now_def on_db_def S_refl)

lemma pres_sql_now [eff]: "pres (on_db S) e sql_now"
  by (simp add: pres_def sql_now_def on_db_def S_refl)

lemma pres_set_log [eff]: "pres (on_db S) e (set_log f)"
  by (simp add: pres_def set_log_def on_db_def S_refl)

lemma pres_log_error [eff]: "pres (on_db S) e (log_error msg)"
  unfolding log_error_def by (rule pres_set_log)

lemma pres_set_proc [eff]: "pres (on_db S) e (set_proc f)"
  by (simp add: pres_def set_proc_def on_db_def S_refl)

lemma pres_set_replay [eff]: "pres (on_db S) e (set_replay f)"
  by (simp add: pres_def set_replay_def on_db_def S_refl)

end

subsection \<open>The calls a computation may send\<close>

definition sends :: "call set \<Rightarrow> world \<Rightarrow> world \<Rightarrow> bool" where
  "sends C w w' \<longleftrightarrow> (\<exists>cs. calls w' = calls w @ cs \<and> set cs \<subseteq> C)"

interpretation sends: effect "sends C" for C
proof
  fix w show "sends C w w" by (simp add: sends_def)
next
  fix a b c assume "sends C a b" "sends C b c"
  then obtain xs ys where "calls b = calls a @ xs" "set xs \<subseteq> C" "calls c = calls b @ ys" "set ys \<subseteq> C"
    unfolding sends_def by blast
  then show "sends C a c" unfolding sends_def by (intro exI [of _ "xs @ ys"]) auto
qed

lemma run_attempts_calls: "calls (snd (run_attempts n f e w)) = calls w"
proof (induction n arbitrary: w)
  case (Suc n)
  then show ?case by (auto simp: Let_def split: fault.splits prod.splits)
qed simp

lemma sends_statement [eff]: "pres (sends C) e (with_datastore_retry f)"
  by (simp add: pres_def sends_def with_datastore_retry_def run_attempts_calls)

lemma sends_query [eff]: "pres (sends C) e (query q)"
  by (simp add: query_def sends_statement)

lemma sends_execute [eff]: "pres (sends C) e (execute f)"
  by (simp add: execute_def sends_statement)

lemma sends_fetch [eff]: "c \<in> C \<Longrightarrow> pres (sends C) e (fetch c)"
  by (auto simp: pres_def fetch_def sends_def split: sum.splits)

lemma sends_random_uuid [eff]: "pres (sends C) e random_uuid"
  by (simp add: pres_def random_uuid_def sends_def)

lemma sends_now [eff]: "pres (sends C) e now"
  by (simp add: pres_def now_def sends_def)

lemma sends_sql_now [eff]: "pres (sends C) e sql_now"
  by (simp add: pres_def sql_now_def sends_def)

lemma sends_set_log [eff]: "pres (sends C) e (set_log f)"
  by (simp add: pres_def set_log_def sends_def)

lemma sends_log_error [eff]: "pres (sends C) e (log_error msg)"
  by (simp add: log_error_def sends_set_log)

lemma sends_set_proc [eff]: "pres (sends C) e (set_proc f)"
  by (simp add: pres_def set_proc_def sends_def)

lemma sends_set_replay [eff]: "pres (sends C) e (set_replay f)"
  by (simp add: pres_def set_replay_def sends_def)

subsection \<open>Results of computations\<close>

lemma wpI: "(\<And>x w'. mm e w = (Inr x, w') \<Longrightarrow> Q x w') \<Longrightarrow> (\<And>er w'. mm e w = (Inl er, w') \<Longrightarrow> X er w')
   \<Longrightarrow> wp e mm Q X w"
  by (auto simp: wp_def split: prod.splits sum.splits)

lemma wp_Inr: "wp e mm Q X w \<Longrightarrow> mm e w = (Inr x, w') \<Longrightarrow> Q x w'"
  by (simp add: wp_def)

lemma wp_Inl: "wp e mm Q X w \<Longrightarrow> mm e w = (Inl er, w') \<Longrightarrow> X er w'"
  by (simp add: wp_def)

lemma wp_mono:
  "wp e mm Q X w \<Longrightarrow> (\<And>x w'. Q x w' \<Longrightarrow> Q' x w') \<Longrightarrow> (\<And>er w'. X er w' \<Longrightarrow> X' er w') \<Longrightarrow> wp e mm Q' X' w"
  by (auto simp: wp_def split: prod.splits sum.splits)

lemma wp_conj:
  "wp e mm Q X w \<Longrightarrow> wp e mm Q' X' w \<Longrightarrow> wp e mm (\<lambda>x w'. Q x w' \<and> Q' x w') (\<lambda>er w'. X er w' \<and> X' er w') w"
  by (auto simp: wp_def split: prod.splits sum.splits)

lemma wp_pres: "pres R e mm \<Longrightarrow> wp e mm (\<lambda>_ w'. R w w') (\<lambda>_ w'. R w w') w"
  by (rule wpI) (auto dest: presD)

lemma wp_ret [simp]: "wp e (ret x) Q X w = Q x w"
  by (simp add: wp_def ret_def)

lemma wp_throw [simp]: "wp e (throw er) Q X w = X er w"
  by (simp add: wp_def throw_def)

lemma wp_bnd [simp]: "wp e (bnd mm f) Q X w = wp e mm (\<lambda>x w'. wp e (f x) Q X w') X w"
  by (auto simp: wp_def bnd_def split: prod.splits sum.splits)

lemma wp_thn [simp]: "wp e (thn mm nn) Q X w = wp e mm (\<lambda>_ w'. wp e nn Q X w') X w"
  by (simp add: thn_def)

lemma wp_try_catch [simp]:
  "wp e (try_catch mm h) Q X w = wp e mm Q (\<lambda>er w'. wp e (h er) Q X w') w"
  by (auto simp: wp_def try_catch_def split: prod.splits sum.splits)

lemma wp_settle [simp]: "wp e (settle mm) Q X w = wp e mm (\<lambda>x. Q (Inr x)) (\<lambda>er. Q (Inl er)) w"
  by (auto simp: wp_def settle_def split: prod.splits sum.splits)

lemma wp_asks [simp]: "wp e (asks f) Q X w = Q (f e) w"
  by (simp add: wp_def asks_def)

lemma wp_get_log [simp]: "wp e get_log Q X w = Q (rlog w) w"
  by (simp add: wp_def get_log_def)

lemma wp_set_log [simp]: "wp e (set_log f) Q X w = Q () (w\<lparr>rlog := f (rlog w)\<rparr>)"
  by (simp add: wp_def set_log_def)

lemma wp_log_error [simp]: "wp e (log_error msg) Q X w = Q () (w\<lparr>rlog := (rlog w)\<lparr>l_error := Some msg\<rparr>\<rparr>)"
  by (simp add: log_error_def)

lemma wp_get_replay [simp]: "wp e get_replay Q X w = Q (replaying w) w"
  by (simp add: wp_def get_replay_def)

lemma wp_set_replay [simp]: "wp e (set_replay f) Q X w = Q () (w\<lparr>replaying := f (replaying w)\<rparr>)"
  by (simp add: wp_def set_replay_def)

lemma wp_get_proc [simp]: "wp e get_proc Q X w = Q (proc w) w"
  by (simp add: wp_def get_proc_def)

lemma wp_set_proc [simp]: "wp e (set_proc f) Q X w = Q () (w\<lparr>proc := f (proc w)\<rparr>)"
  by (simp add: wp_def set_proc_def)

lemma wp_bnd_some [simp]:
  "wp e (bnd_some mm f) Q X w = wp e mm (\<lambda>r w'. case r of None \<Rightarrow> Q None w' | Some x \<Rightarrow> wp e (f x) Q X w') X w"
  by (auto simp: wp_def bnd_some_def bnd_def ret_def split: prod.splits sum.splits option.splits)

lemma wp_finally [simp]:
  "wp e (finally_do mm cleanup) Q X w = wp e mm
     (\<lambda>r w'. case r of None \<Rightarrow> Q None w' | Some x \<Rightarrow> wp e cleanup (\<lambda>_ w''. Q (Some x) w'') X w')
     (\<lambda>er w'. wp e cleanup (\<lambda>_ w''. X er w'') X w') w"
  by (auto simp: wp_def finally_do_def bnd_def thn_def settle_def ret_def throw_def
      split: prod.splits sum.splits option.splits)

lemma wp_random_uuid [simp]:
  "wp e random_uuid Q X w = Q (uuid e (uuids w)) (w\<lparr>uuids := Suc (uuids w)\<rparr>)"
  by (simp add: wp_def random_uuid_def)

lemma wp_now [simp]: "wp e now Q X w = Q (clock e (ticks w)) (w\<lparr>ticks := Suc (ticks w)\<rparr>)"
  by (simp add: wp_def now_def)

lemma wp_sql_now [simp]: "wp e sql_now Q X w = Q (now_text e (ticks w)) (w\<lparr>ticks := Suc (ticks w)\<rparr>)"
  by (simp add: wp_def sql_now_def)

lemma wp_fetch [simp]: "wp e (fetch c) Q X w = (case upstream e (calls w) c of
     Inl msg \<Rightarrow> X (NetError msg) (w\<lparr>calls := calls w @ [c]\<rparr>)
   | Inr r \<Rightarrow> Q r (w\<lparr>calls := calls w @ [c]\<rparr>))"
  by (simp add: wp_def fetch_def split: sum.splits)

lemma wp_if: "wp e (if b then mm else nn) Q X w = ((b \<longrightarrow> wp e mm Q X w) \<and> (\<not> b \<longrightarrow> wp e nn Q X w))"
  by simp

subsection \<open>Statements that may be repeated\<close>

definition db_failure :: "err \<Rightarrow> bool" where
  "db_failure er \<longleftrightarrow> (er = Transient \<or> (\<exists>msg. er = DbError msg))"

text \<open>
  A statement whose repetition after it has been applied answers the same and changes nothing.
  Retrying it after a lost acknowledgement is then invisible.
\<close>

locale replayable =
  fixes f :: "'a statement"
  assumes replay: "f (snd (f s)) = f s"
begin

lemma run_attempts_outcome:
  "run_attempts n f e w = (r, w') \<Longrightarrow>
   (\<exists>k s. w' = w\<lparr>db_ops := k, db := s\<rparr> \<and>
      ((r = fst (f (db w)) \<and> s = snd (f (db w)))
       \<or> (\<exists>er. r = Inl er \<and> db_failure er \<and> (s = db w \<or> s = snd (f (db w))))))"
proof (induction n arbitrary: w)
  case 0
  then show ?case by (intro exI [of _ "db_ops w"] exI [of _ "db w"]) (auto simp: db_failure_def)
next
  case (Suc n)
  obtain x s where fs: "f (db w) = (x, s)" by (cases "f (db w)")
  have fs2: "f s = (x, s)" using replay [of "db w"] fs by simp
  show ?case
  proof (cases "db_fault e (db_ops w)")
    case Fine
    with Suc.prems fs show ?thesis by (auto simp: Let_def)
  next
    case (Refused t)
    show ?thesis
    proof (cases t)
      case True
      with Suc.prems Refused have "run_attempts n f e (w\<lparr>db_ops := Suc (db_ops w)\<rparr>) = (r, w')"
        by (simp add: Let_def)
      from Suc.IH [OF this] show ?thesis by auto
    next
      case False
      with Suc.prems Refused show ?thesis
        by (intro exI [of _ "Suc (db_ops w)"] exI [of _ "db w"]) (auto simp: Let_def db_failure_def)
    qed
  next
    case (LostAck t)
    show ?thesis
    proof (cases t)
      case True
      with Suc.prems LostAck fs
      have "run_attempts n f e (w\<lparr>db_ops := Suc (db_ops w), db := s\<rparr>) = (r, w')"
        by (simp add: Let_def)
      from Suc.IH [OF this] fs fs2 show ?thesis by auto
    next
      case False
      with Suc.prems LostAck fs show ?thesis
        by (intro exI [of _ "Suc (db_ops w)"] exI [of _ s]) (auto simp: Let_def db_failure_def)
    qed
  qed
qed

lemma wp_statement:
  assumes applied: "\<And>k x. fst (f (db w)) = Inr x \<Longrightarrow> Q x (w\<lparr>db_ops := k, db := snd (f (db w))\<rparr>)"
    and raised: "\<And>k er. fst (f (db w)) = Inl er \<Longrightarrow> X er (w\<lparr>db_ops := k, db := snd (f (db w))\<rparr>)"
    and failed: "\<And>k er. db_failure er \<Longrightarrow> X er (w\<lparr>db_ops := k\<rparr>)"
    and lost: "\<And>k er. db_failure er \<Longrightarrow> X er (w\<lparr>db_ops := k, db := snd (f (db w))\<rparr>)"
  shows "wp e (with_datastore_retry f) Q X w"
proof (rule wpI)
  fix x w' assume "with_datastore_retry f e w = (Inr x, w')"
  from run_attempts_outcome [OF this [unfolded with_datastore_retry_def]] applied
  show "Q x w'" by auto
next
  fix er w' assume "with_datastore_retry f e w = (Inl er, w')"
  from run_attempts_outcome [OF this [unfolded with_datastore_retry_def]]
  consider k where "w' = w\<lparr>db_ops := k, db := snd (f (db w))\<rparr>" "fst (f (db w)) = Inl er"
    | k where "w' = w\<lparr>db_ops := k, db := db w\<rparr>" "db_failure er"
    | k where "w' = w\<lparr>db_ops := k, db := snd (f (db w))\<rparr>" "db_failure er"
    by auto
  then show "X er w'" using raised failed lost by cases auto
qed

end

interpretation reading: replayable "\<lambda>s. (Inr (q s), s)" for q :: "store \<Rightarrow> 'a"
  by unfold_locales simp

lemma wp_query:
  assumes "\<And>k. Q (q (db w)) (w\<lparr>db_ops := k\<rparr>)" "\<And>k er. db_failure er \<Longrightarrow> X er (w\<lparr>db_ops := k\<rparr>)"
  shows "wp e (query q) Q X w"
  unfolding query_def by (rule reading.wp_statement) (use assms in auto)

lemma replayable_writing: "(\<And>s. f (f s) = f s) \<Longrightarrow> replayable (\<lambda>s. (Inr (), f s))"
  by unfold_locales simp

lemma wp_execute:
  assumes "replayable (\<lambda>s. (Inr (), f s))"
    and "\<And>k. Q () (w\<lparr>db_ops := k, db := f (db w)\<rparr>)"
    and "\<And>k er. db_failure er \<Longrightarrow> X er (w\<lparr>db_ops := k\<rparr>)"
    and "\<And>k er. db_failure er \<Longrightarrow> X er (w\<lparr>db_ops := k, db := f (db w)\<rparr>)"
  shows "wp e (execute f) Q X w"
  unfolding execute_def by (rule replayable.wp_statement [OF assms(1)]) (use assms(2-) in auto)

subsection \<open>A datastore without faults\<close>

definition reliable :: "env \<Rightarrow> bool" where
  "reliable e \<longleftrightarrow> (\<forall>k. db_fault e k = Fine)"

lemma reliable_statement:
  "reliable e \<Longrightarrow> with_datastore_retry f e w =
     (fst (f (db w)), w\<lparr>db_ops := Suc (db_ops w), db := snd (f (db w))\<rparr>)"
  by (simp add: with_datastore_retry_def max_attempts_def reliable_def numeral_eq_Suc Let_def
      split: prod.splits)

lemma reliable_query:
  "reliable e \<Longrightarrow> query q e w = (Inr (q (db w)), w\<lparr>db_ops := Suc (db_ops w)\<rparr>)"
  by (simp add: query_def reliable_statement)

lemma reliable_execute:
  "reliable e \<Longrightarrow> execute f e w = (Inr (), w\<lparr>db_ops := Suc (db_ops w), db := f (db w)\<rparr>)"
  by (simp add: execute_def reliable_statement)

text \<open>How a run continues after its first step, for evaluating a computation step by step.\<close>

lemma run_bnd_Inr: "mm e w = (Inr x, w') \<Longrightarrow> bnd mm f e w = f x e w'"
  and run_bnd_Inl: "mm e w = (Inl er, w') \<Longrightarrow> bnd mm f e w = (Inl er, w')"
  by (simp_all add: bnd_def)

subsection \<open>A concrete environment\<close>

text \<open>An environment and a world to evaluate the model in: nothing is reachable, nothing fails in
  the datastore, the supplies are numbered.\<close>

definition quiet_env :: env where
  "quiet_env = \<lparr>upstream = (\<lambda>_ _. Inl ''unreachable''), db_fault = (\<lambda>_. Fine),
     uuid = (\<lambda>n. ''u'' @ replicate n (CHR ''x'')), clock = int, now_text = (\<lambda>_. ''now''),
     sha256_hex = (\<lambda>s. s), has_key = False, seal = (\<lambda>_ s. s), unseal = Some,
     hmac_hex = (\<lambda>k s. k @ s),
     parse_url = (\<lambda>_. None), resolve_url = (\<lambda>_ _. None), url_at_path = (\<lambda>_ p. p)\<rparr>"

definition fresh_world :: "store \<Rightarrow> world" where
  "fresh_world s = \<lparr>db = s, calls = [], db_ops = 0, uuids = 0, ticks = 0, rlog = blank_log,
     replaying = \<lparr>unresolved_write = False, write_started = False\<rparr>,
     proc = \<lparr>status_cache = [], failed_until = [], remembered = [], idp_timers = []\<rparr>\<rparr>"

lemma reliable_quiet [simp]: "reliable quiet_env"
  by (simp add: reliable_def quiet_env_def)

end
