(* ===== verification/Db.thy ===== *)
theory Db
  imports Logic
begin

text \<open>
  The datastore operations of \<open>workers/shared/db.ts\<close>, \<open>workers/shared/event-links.ts\<close> and the
  at-rest encryption of \<open>workers/shared/crypto.ts\<close>.  Each is one statement run through
  \<open>withDatastoreRetry\<close>, or a short sequence of them.  Rows of a table are kept in insertion order,
  which is the creation order \<open>listDirectories\<close> sorts by.
\<close>

subsection \<open>At-rest secrets\<close>

definition encrypt_secret :: "string \<Rightarrow> string m" where
  "encrypt_secret plaintext = bnd (asks has_key) (\<lambda>key.
     if \<not> key \<or> plaintext = [] then ret plaintext
     else (\<lambda>e w. (Inr (enc_prefix @ seal e (uuids w) plaintext), w\<lparr>uuids := Suc (uuids w)\<rparr>)))"

definition decrypt_secret :: "string \<Rightarrow> string m" where
  "decrypt_secret v =
     (if \<not> starts_with v enc_prefix then ret v
      else bnd (asks has_key) (\<lambda>key.
        if \<not> key then ret v
        else bnd (asks (\<lambda>e. unseal e (drop (length enc_prefix) v))) (\<lambda>r.
          case r of None \<Rightarrow> throw (Failed ''decryption failed'') | Some p \<Rightarrow> ret p)))"

definition hash_token :: "string \<Rightarrow> string m" where
  "hash_token t = asks (\<lambda>e. hash_proxy_token (sha256_hex e) t)"

subsection \<open>Configuration\<close>

definition get_config :: "string \<Rightarrow> string option m" where
  "get_config k = query (\<lambda>s. map_option snd (look_row fst k (config s)))"

definition set_config :: "string \<Rightarrow> string \<Rightarrow> unit m" where
  "set_config k v = execute (\<lambda>s. s\<lparr>config := put_row fst (k, v) (config s)\<rparr>)"

definition delete_config :: "string \<Rightarrow> unit m" where
  "delete_config k = execute (\<lambda>s. s\<lparr>config := del_row fst k (config s)\<rparr>)"

definition insert_if_absent :: "string \<Rightarrow> string \<Rightarrow> store \<Rightarrow> store" where
  "insert_if_absent k v s =
     (if look_row fst k (config s) = None then s\<lparr>config := config s @ [(k, v)]\<rparr> else s)"

definition set_config_if_absent :: "string \<Rightarrow> string \<Rightarrow> string m" where
  "set_config_if_absent k v =
     thn (execute (insert_if_absent k v))
      (bnd (get_config k) (\<lambda>r. ret (case r of None \<Rightarrow> v | Some v' \<Rightarrow> v')))"

subsection \<open>Directories\<close>

definition decrypt_directory :: "directory option \<Rightarrow> directory option m" where
  "decrypt_directory d = (case d of None \<Rightarrow> ret None
     | Some d \<Rightarrow>
        bnd (decrypt_secret (native_token d)) (\<lambda>nt.
        bnd (decrypt_secret (workos_token d)) (\<lambda>wt.
          ret (Some (d\<lparr>native_token := nt, workos_token := wt\<rparr>)))))"

definition get_directory_by_token :: "string \<Rightarrow> directory option m" where
  "get_directory_by_token t =
     (if t = [] then ret None
      else bnd (hash_token t) (\<lambda>h.
        bnd (query (\<lambda>s. find (\<lambda>d. proxy_token_hash d = h) (directories s))) (\<lambda>row.
          case row of None \<Rightarrow> ret None
          | Some d \<Rightarrow>
              if \<not> timing_safe_equal (proxy_token_hash d) h then ret None
              else decrypt_directory (Some d))))"

definition get_directory_by_id :: "string \<Rightarrow> directory option m" where
  "get_directory_by_id i =
     bnd (query (\<lambda>s. look_row dir_id i (directories s))) decrypt_directory"

fun decrypt_all :: "directory list \<Rightarrow> directory list m" where
  "decrypt_all [] = ret []"
| "decrypt_all (d # ds) =
     bnd (decrypt_directory (Some d)) (\<lambda>r. bnd (decrypt_all ds) (\<lambda>rs.
       ret (case r of None \<Rightarrow> rs | Some d' \<Rightarrow> d' # rs)))"

definition list_directories :: "directory list m" where
  "list_directories = bnd (query directories) decrypt_all"

definition unique_violation :: "directory \<Rightarrow> directory \<Rightarrow> bool" where
  "unique_violation d d' \<longleftrightarrow>
     dir_id d' = dir_id d \<or> proxy_token_hash d' = proxy_token_hash d
     \<or> (workos_directory_id d \<noteq> None \<and> workos_directory_id d' = workos_directory_id d)"

text \<open>The engine's message names the column.\<close>

definition unique_message :: "directory \<Rightarrow> directory list \<Rightarrow> string" where
  "unique_message d ds = ''UNIQUE constraint failed: scim_directories.''
     @ (if \<exists>d' \<in> set ds. dir_id d' = dir_id d then ''id''
        else if \<exists>d' \<in> set ds. proxy_token_hash d' = proxy_token_hash d then ''proxy_token_hash''
        else ''workos_directory_id'')"

definition insert_directory_row :: "directory \<Rightarrow> unit statement" where
  "insert_directory_row d s =
     (if \<exists>d' \<in> set (directories s). unique_violation d d'
      then (Inl (DbError (unique_message d (directories s))), s)
      else (Inr (), s\<lparr>directories := directories s @ [d]\<rparr>))"

record new_directory =
  nd_name :: string
  nd_native_url :: string
  nd_native_token :: string
  nd_workos_url :: string
  nd_workos_token :: string
  nd_workos_directory_id :: "string option"
  nd_proxy_token :: "string option"

definition new_proxy_token :: "string m" where
  "new_proxy_token = random_uuid"

definition new_directory_id :: "string m" where
  "new_directory_id = bnd random_uuid (\<lambda>h. ret (''dir_'' @ h))"

definition nonempty_or_none :: "string option \<Rightarrow> string option" where
  "nonempty_or_none v = (case v of None \<Rightarrow> None | Some s \<Rightarrow> if s = [] then None else Some s)"

definition insert_directory :: "new_directory \<Rightarrow> (string \<times> string) m" where
  "insert_directory nd =
     bnd new_directory_id (\<lambda>i.
     bnd (encrypt_secret (nd_native_token nd)) (\<lambda>nt.
     bnd (encrypt_secret (nd_workos_token nd)) (\<lambda>wt.
     bnd (case nonempty_or_none (map_option trim (nd_proxy_token nd)) of
            None \<Rightarrow> new_proxy_token | Some t \<Rightarrow> ret t) (\<lambda>pt.
     bnd (hash_token pt) (\<lambda>h.
     bnd sql_now (\<lambda>t.
     thn (with_datastore_retry (insert_directory_row
           \<lparr>dir_id = i, dir_name = nd_name nd, dir_mode = Passthrough, proxy_token_hash = h,
            proxy_token_hint_col = proxy_token_hint pt, native_url = nd_native_url nd,
            native_token = nt, native_token_partitioned = False, workos_url = nd_workos_url nd,
            workos_token = wt, workos_directory_id = nonempty_or_none (nd_workos_directory_id nd),
            log_persistence = False, reconcile_token = None, reconcile_started_at = None,
            updated_at = t\<rparr>))
       (ret (i, pt))))))))"

definition map_directory :: "string \<Rightarrow> (directory \<Rightarrow> directory) \<Rightarrow> store \<Rightarrow> store" where
  "map_directory i f s =
     s\<lparr>directories := map (\<lambda>d. if dir_id d = i then f d else d) (directories s)\<rparr>"

definition rotate_proxy_token :: "string \<Rightarrow> string m" where
  "rotate_proxy_token i =
     bnd new_proxy_token (\<lambda>pt.
     bnd (hash_token pt) (\<lambda>h.
     bnd sql_now (\<lambda>t.
     bnd (with_datastore_retry (\<lambda>s.
        if \<exists>d \<in> set (directories s). dir_id d = i then
          if \<exists>d \<in> set (directories s). dir_id d \<noteq> i \<and> proxy_token_hash d = h
          then (Inl (DbError ''UNIQUE constraint failed: scim_directories.proxy_token_hash''), s)
          else (Inr True, map_directory i (\<lambda>d. d\<lparr>proxy_token_hash := h,
                  proxy_token_hint_col := proxy_token_hint pt, updated_at := t\<rparr>) s)
        else (Inr False, s))) (\<lambda>changed.
       if \<not> changed then throw (Failed (''No directory '' @ i @ '' to rotate.'')) else ret pt))))"

definition hash_plain_row :: "(string \<Rightarrow> string) \<Rightarrow> directory \<Rightarrow> directory" where
  "hash_plain_row h d = (if is_hashed_token (proxy_token_hash d) then d
     else d\<lparr>proxy_token_hash := hash_proxy_token h (proxy_token_hash d),
            proxy_token_hint_col := proxy_token_hint (proxy_token_hash d)\<rparr>)"

text \<open>
  The boot pass over rows written before tokens were hashed.  The batch holds one
  \<open>UPDATE ... WHERE id = ?\<close> per plaintext row read, with the digest computed beforehand.
\<close>

definition hash_update :: "string \<times> string \<times> string \<Rightarrow> store \<Rightarrow> store" where
  "hash_update u s = (case u of (i, h, hint) \<Rightarrow>
     map_directory i (\<lambda>d. d\<lparr>proxy_token_hash := h, proxy_token_hint_col := hint\<rparr>) s)"

definition backfill_proxy_token_hashes :: "nat m" where
  "backfill_proxy_token_hashes =
     bnd (query (\<lambda>s. map (\<lambda>d. (dir_id d, proxy_token_hash d)) (directories s))) (\<lambda>rows.
     let plain = filter (\<lambda>r. \<not> is_hashed_token (snd r)) rows in
     if plain = [] then ret 0
     else bnd (asks sha256_hex) (\<lambda>h.
       let updates = map (\<lambda>(i, t). (i, hash_proxy_token h t, proxy_token_hint t)) plain in
       thn (execute (\<lambda>s. fold hash_update updates s)) (ret (length plain))))"

definition set_directory_native :: "string \<Rightarrow> string \<Rightarrow> string \<Rightarrow> bool \<Rightarrow> unit m" where
  "set_directory_native i u t partitioned =
     bnd (encrypt_secret t) (\<lambda>c. bnd sql_now (\<lambda>at. execute (map_directory i (\<lambda>d.
       d\<lparr>native_url := u, native_token := c, native_token_partitioned := partitioned,
         updated_at := at\<rparr>))))"

definition set_directory_workos :: "string \<Rightarrow> string \<Rightarrow> string \<Rightarrow> unit m" where
  "set_directory_workos i u t =
     bnd (encrypt_secret t) (\<lambda>c. bnd sql_now (\<lambda>at. execute (map_directory i (\<lambda>d.
       d\<lparr>workos_url := u, workos_token := c, updated_at := at\<rparr>))))"

definition set_directory_workos_directory_id :: "string \<Rightarrow> string \<Rightarrow> unit m" where
  "set_directory_workos_directory_id i wid =
     bnd sql_now (\<lambda>at. with_datastore_retry (\<lambda>s.
       if wid \<noteq> [] \<and> (\<exists>d \<in> set (directories s). dir_id d \<noteq> i \<and> workos_directory_id d = Some wid)
          \<and> (\<exists>d \<in> set (directories s). dir_id d = i)
       then (Inl (DbError ''UNIQUE constraint failed: scim_directories.workos_directory_id''), s)
       else (Inr (), map_directory i (\<lambda>d. d\<lparr>workos_directory_id := nonempty_or_none (Some wid),
               updated_at := at\<rparr>) s)))"

definition set_directory_mode :: "string \<Rightarrow> mode \<Rightarrow> unit m" where
  "set_directory_mode i md =
     bnd sql_now (\<lambda>at. execute (map_directory i (\<lambda>d. d\<lparr>dir_mode := md, updated_at := at\<rparr>)))"

definition should_persist_logs :: "directory option \<Rightarrow> bool" where
  "should_persist_logs d = (case d of None \<Rightarrow> False | Some d \<Rightarrow> log_persistence d)"

definition set_directory_log_persistence :: "string \<Rightarrow> bool \<Rightarrow> unit m" where
  "set_directory_log_persistence i on =
     bnd sql_now (\<lambda>at. execute (map_directory i (\<lambda>d. d\<lparr>log_persistence := on, updated_at := at\<rparr>)))"

definition set_directories_log_persistence :: "string list \<Rightarrow> bool \<Rightarrow> unit m" where
  "set_directories_log_persistence is on =
     (if is = [] then ret ()
      else bnd sql_now (\<lambda>at. execute (\<lambda>s. s\<lparr>directories := map (\<lambda>d.
        if dir_id d \<in> set is then d\<lparr>log_persistence := on, updated_at := at\<rparr> else d)
        (directories s)\<rparr>)))"

subsection \<open>The create claims\<close>

definition claim_holder :: "string \<Rightarrow> kind \<Rightarrow> store \<Rightarrow> string option" where
  "claim_holder d k s = map_option snd (look_row fst (d, k) (create_claims s))"

definition claim_row :: "string \<Rightarrow> kind \<Rightarrow> string \<Rightarrow> bool statement" where
  "claim_row d k t s = (case claim_holder d k s of
       None \<Rightarrow> (Inr True, s\<lparr>create_claims := create_claims s @ [((d, k), t)]\<rparr>)
     | Some t' \<Rightarrow> (Inr (t' = t), s))"

definition release_row :: "string \<Rightarrow> kind \<Rightarrow> string \<Rightarrow> store \<Rightarrow> store" where
  "release_row d k t s =
     s\<lparr>create_claims := filter (\<lambda>r. \<not> (fst r = (d, k) \<and> snd r = t)) (create_claims s)\<rparr>"

definition claim_workos_primary_create :: "string \<Rightarrow> kind \<Rightarrow> string \<Rightarrow> bool m" where
  "claim_workos_primary_create d k t = with_datastore_retry (claim_row d k t)"

definition release_workos_primary_create :: "string \<Rightarrow> kind \<Rightarrow> string \<Rightarrow> unit m" where
  "release_workos_primary_create d k t = execute (release_row d k t)"

subsection \<open>Id mappings\<close>

definition mapping_key :: "id_mapping \<Rightarrow> string \<times> kind \<times> string" where
  "mapping_key m = (m_directory m, m_kind m, m_native m)"

definition mapping_of :: "string \<Rightarrow> kind \<Rightarrow> string \<Rightarrow> store \<Rightarrow> id_mapping option" where
  "mapping_of d k n s = look_row mapping_key (d, k, n) (id_mappings s)"

definition owners :: "string \<Rightarrow> kind \<Rightarrow> string \<Rightarrow> store \<Rightarrow> id_mapping list" where
  "owners d k wid s =
     filter (\<lambda>m. m_directory m = d \<and> m_kind m = k \<and> m_workos m = wid) (id_mappings s)"

definition upsert_row :: "id_mapping \<Rightarrow> store \<Rightarrow> store" where
  "upsert_row m s = s\<lparr>id_mappings := put_row mapping_key m (id_mappings s)\<rparr>"

definition delete_mapping_row :: "string \<Rightarrow> kind \<Rightarrow> string \<Rightarrow> store \<Rightarrow> store" where
  "delete_mapping_row d k n s = s\<lparr>id_mappings := del_row mapping_key (d, k, n) (id_mappings s)\<rparr>"

definition get_mapping :: "string \<Rightarrow> kind \<Rightarrow> string \<Rightarrow> id_mapping option m" where
  "get_mapping d k n = query (mapping_of d k n)"

definition get_mapping_by_workos_id :: "string \<Rightarrow> kind \<Rightarrow> string \<Rightarrow> id_mapping option m" where
  "get_mapping_by_workos_id d k wid =
     bnd (query (\<lambda>s. take 2 (owners d k wid s))) (\<lambda>rows.
       case rows of [] \<Rightarrow> ret None | m # rest \<Rightarrow> if rest \<noteq> [] then throw Ambiguous else ret (Some m))"

definition upsert_mapping :: "id_mapping \<Rightarrow> unit m" where
  "upsert_mapping m = execute (upsert_row m)"

definition upsert_mappings :: "id_mapping list \<Rightarrow> unit m" where
  "upsert_mappings ms = (if ms = [] then ret () else execute (fold upsert_row ms))"

definition delete_mapping :: "string \<Rightarrow> kind \<Rightarrow> string \<Rightarrow> unit m" where
  "delete_mapping d k n = execute (delete_mapping_row d k n)"

definition join_rows :: "string \<Rightarrow> kind \<Rightarrow> string \<Rightarrow> store \<Rightarrow> (id_mapping \<times> directory) list" where
  "join_rows d k n s = concat (map (\<lambda>m.
     if m_kind m = k \<and> m_native m = n \<and> m_directory m \<noteq> d
     then map (Pair m) (filter (\<lambda>r. dir_id r = m_directory m) (directories s)) else [])
     (id_mappings s))"

fun decrypt_joined :: "(id_mapping \<times> directory) list \<Rightarrow> (id_mapping \<times> directory) list m" where
  "decrypt_joined [] = ret []"
| "decrypt_joined ((m, r) # rest) =
     bnd (decrypt_secret (native_token r)) (\<lambda>t. bnd (decrypt_joined rest) (\<lambda>rs.
       ret ((m, r\<lparr>native_token := t\<rparr>) # rs)))"

definition list_other_mappings_by_native_id ::
    "directory \<Rightarrow> kind \<Rightarrow> string \<Rightarrow> (id_mapping \<times> directory) list m" where
  "list_other_mappings_by_native_id d k n =
     bnd (query (join_rows (dir_id d) k n)) decrypt_joined"

subsection \<open>The divergence ledger\<close>

definition failure_key :: "write_failure \<Rightarrow> string \<times> kind \<times> string" where
  "failure_key f = (f_directory f, f_kind f, f_key f)"

definition record_failure_row :: "string \<Rightarrow> kind \<Rightarrow> string \<Rightarrow> string \<Rightarrow> nat option \<Rightarrow> string \<Rightarrow> store \<Rightarrow> store" where
  "record_failure_row d k key meth st detail s =
     (let n = (case look_row failure_key (d, k, key) (write_failures s) of
                 None \<Rightarrow> 1 | Some f \<Rightarrow> f_attempts f + 1)
      in s\<lparr>write_failures := put_row failure_key
           \<lparr>f_directory = d, f_kind = k, f_key = key, f_method = meth, f_native_status = st,
            f_detail = detail, f_attempts = n, f_sweep = None\<rparr> (write_failures s)\<rparr>)"

definition clear_failure_row :: "string \<Rightarrow> kind \<Rightarrow> string \<Rightarrow> store \<Rightarrow> store" where
  "clear_failure_row d k key s =
     s\<lparr>write_failures := del_row failure_key (d, k, key) (write_failures s)\<rparr>"

definition clear_replayed_row :: "string \<Rightarrow> kind \<Rightarrow> string \<Rightarrow> string \<Rightarrow> store \<Rightarrow> store" where
  "clear_replayed_row d k key token s =
     s\<lparr>write_failures := filter (\<lambda>f. \<not> (failure_key f = (d, k, key) \<and> f_sweep f = Some token
         \<and> f_method f \<noteq> ''DELETE'')) (write_failures s)\<rparr>"

definition clear_replayed_rows :: "string \<Rightarrow> string \<Rightarrow> store \<Rightarrow> store" where
  "clear_replayed_rows d token s =
     s\<lparr>write_failures := filter (\<lambda>f. \<not> (f_directory f = d \<and> f_sweep f = Some token
         \<and> f_method f \<noteq> ''DELETE'')) (write_failures s)\<rparr>"

definition mark_rows :: "string \<Rightarrow> string \<Rightarrow> store \<Rightarrow> store" where
  "mark_rows d token s =
     s\<lparr>write_failures := map (\<lambda>f. if f_directory f = d \<and> f_sweep f = None
         then f\<lparr>f_sweep := Some token\<rparr> else f) (write_failures s)\<rparr>"

definition record_native_write_failure ::
    "string \<Rightarrow> kind \<Rightarrow> string \<Rightarrow> string \<Rightarrow> nat option \<Rightarrow> string \<Rightarrow> unit m" where
  "record_native_write_failure d k key meth st detail =
     execute (record_failure_row d k key meth st detail)"

definition clear_native_write_failure :: "string \<Rightarrow> kind \<Rightarrow> string \<Rightarrow> unit m" where
  "clear_native_write_failure d k key = execute (clear_failure_row d k key)"

definition clear_replayed_divergence_for_resource ::
    "string \<Rightarrow> kind \<Rightarrow> string \<Rightarrow> string \<Rightarrow> unit m" where
  "clear_replayed_divergence_for_resource d k key token = execute (clear_replayed_row d k key token)"

definition clear_replayed_divergences :: "string \<Rightarrow> string \<Rightarrow> unit m" where
  "clear_replayed_divergences d token = execute (clear_replayed_rows d token)"

definition mark_divergences_for_sweep :: "string \<Rightarrow> string \<Rightarrow> unit m" where
  "mark_divergences_for_sweep d token = execute (mark_rows d token)"

definition count_native_write_failures :: "string \<Rightarrow> nat m" where
  "count_native_write_failures d =
     query (\<lambda>s. length (filter (\<lambda>f. f_directory f = d) (write_failures s)))"

subsection \<open>The reconcile lease\<close>

definition reconcile_claim_ttl_ms :: int where "reconcile_claim_ttl_ms = 30 * 60 * 1000"

definition lease_free :: "int \<Rightarrow> directory \<Rightarrow> bool" where
  "lease_free stale d \<longleftrightarrow> reconcile_token d = None \<or>
     (case reconcile_started_at d of None \<Rightarrow> True | Some t \<Rightarrow> t \<le> stale)"

definition claim_lease :: "string \<Rightarrow> string \<Rightarrow> int \<Rightarrow> int \<Rightarrow> string \<Rightarrow> bool statement" where
  "claim_lease d token stale started at s =
     (Inr (\<exists>r \<in> set (directories s). dir_id r = d \<and> lease_free stale r),
      s\<lparr>directories := map (\<lambda>r. if dir_id r = d \<and> lease_free stale r
          then r\<lparr>reconcile_token := Some token, reconcile_started_at := Some started,
                 updated_at := at\<rparr> else r) (directories s)\<rparr>)"

text \<open>Timestamps are compared at the second resolution of \<open>datetime('now')\<close>.\<close>

definition claim_reconcile_run :: "string \<Rightarrow> string \<Rightarrow> bool m" where
  "claim_reconcile_run d token =
     bnd now (\<lambda>t0. bnd now (\<lambda>t1. bnd sql_now (\<lambda>at.
       with_datastore_retry (claim_lease d token ((t0 - reconcile_claim_ttl_ms) div 1000)
         (t1 div 1000) at))))"

definition release_reconcile_run :: "string \<Rightarrow> string \<Rightarrow> unit m" where
  "release_reconcile_run d token = execute (\<lambda>s. s\<lparr>directories := map (\<lambda>r.
     if dir_id r = d \<and> reconcile_token r = Some token
     then r\<lparr>reconcile_token := None, reconcile_started_at := None\<rparr> else r) (directories s)\<rparr>)"

subsection \<open>Event links\<close>

definition link_of :: "string \<Rightarrow> kind \<Rightarrow> string \<Rightarrow> store \<Rightarrow> event_link option" where
  "link_of d k i s =
     find (\<lambda>l. e_directory l = d \<and> e_kind l = k \<and> e_dsync l = i) (event_links s)"

definition get_event_link :: "string \<Rightarrow> kind \<Rightarrow> string \<Rightarrow> event_link option m" where
  "get_event_link d k i = query (link_of d k i)"

definition get_event_link_by_native_id :: "string \<Rightarrow> kind \<Rightarrow> string \<Rightarrow> event_link option m" where
  "get_event_link_by_native_id d k n = query (\<lambda>s.
     find (\<lambda>l. e_directory l = d \<and> e_kind l = k \<and> e_native l = n) (event_links s))"

text \<open>The primary key and the two unique constraints of \<open>dsync_event_links\<close>.\<close>

definition link_conflict :: "event_link \<Rightarrow> event_link \<Rightarrow> bool" where
  "link_conflict l l' \<longleftrightarrow> e_directory l' = e_directory l \<and> e_kind l' = e_kind l
     \<and> (e_dsync l' = e_dsync l \<or> e_native l' = e_native l \<or> e_workos l' = e_workos l)"

definition insert_link :: "event_link \<Rightarrow> store \<Rightarrow> store" where
  "insert_link l s = (if \<exists>l' \<in> set (event_links s). link_conflict l l' then s
     else s\<lparr>event_links := event_links s @ [l]\<rparr>)"

definition bind_event_link :: "event_link \<Rightarrow> unit m" where
  "bind_event_link l =
     (if [] \<in> set [e_directory l, e_dsync l, e_native l, e_workos l]
      then throw (Failed ''A Directory Sync event link requires nonempty directory and resource ids'')
      else thn (execute (insert_link l))
        (bnd (get_event_link (e_directory l) (e_kind l) (e_dsync l)) (\<lambda>stored.
          case stored of
            None \<Rightarrow> throw (Failed ''Directory Sync event link conflicts with an established resource owner'')
          | Some r \<Rightarrow>
              if e_native r \<noteq> e_native l \<or> e_workos r \<noteq> e_workos l
              then throw (Failed ''Directory Sync event link conflicts with an established resource owner'')
              else ret ())))"

subsection \<open>The request log\<close>

definition insert_proxy_log :: "log_entry \<Rightarrow> unit m" where
  "insert_proxy_log l = execute (\<lambda>s. s\<lparr>proxy_logs := proxy_logs s @ [l]\<rparr>)"

end
