(* ===== verification/Scim.thy ===== *)
theory Scim
  imports DbLaws
begin

text \<open>
  The pure parts of \<open>workers/shared/scim.ts\<close> and of \<open>workers/shared/native-namespace.ts\<close>: SCIM
  errors, the bearer token, URL joining, the identity of a native namespace, SCIM paths, upstream
  calls, the checked id maps and the id translators built on them.

  A translator may throw, so translation returns \<open>err + 'a\<close>.  The side a call is sent to is
  recorded beside its URL (\<open>c_side\<close>): it names the directory field the URL was joined from.
\<close>

subsection \<open>Requests, responses and headers\<close>

record request =
  q_method :: string
  q_url :: url
  q_headers :: "(string \<times> string) list"
  q_body :: "payload option"

text \<open>\<open>Headers.get\<close>: names compare without case, repeated headers are joined.\<close>

definition header_get :: "string \<Rightarrow> (string \<times> string) list \<Rightarrow> string option" where
  "header_get name hs =
     (case map snd (filter (\<lambda>h. to_lower (fst h) = to_lower name) hs) of
        [] \<Rightarrow> None | vs \<Rightarrow> Some (join_with '', '' vs))"

definition scim_prefix :: string where "scim_prefix = ''/scim/v2''"
definition scim_content_type :: string where "scim_content_type = ''application/scim+json''"
definition migrated_id_header :: string where "migrated_id_header = ''X-WorkOS-Migrated-Id''"

definition scim_error :: "nat \<Rightarrow> string \<Rightarrow> response" where
  "scim_error st detail = \<lparr>r_status = st,
     r_body = Some (Doc (JObj
       [(''schemas'', JArr [JStr ''urn:ietf:params:scim:api:messages:2.0:Error'']),
        (''status'', JStr (show_nat st)), (''detail'', JStr detail)])),
     r_headers = [(''Content-Type'', scim_content_type)]\<rparr>"

text \<open>The two regular expressions are \<open>/^Bearer\s+(.*)$/i\<close>, whose dot stops at a line end, and
  \<open>/\s/\<close>.\<close>

definition line_end :: "char \<Rightarrow> bool" where
  "line_end c \<longleftrightarrow> of_char c \<in> set [10, 13 :: nat]"

definition match_bearer :: "string \<Rightarrow> string option" where
  "match_bearer v =
     (let r = drop 6 v in
      if to_lower (take 6 v) = ''bearer'' \<and> r \<noteq> [] \<and> js_space (hd r)
         \<and> list_all (\<lambda>c. \<not> line_end c) (dropWhile js_space r)
      then Some (dropWhile js_space r) else None)"

definition authorization_token :: "string option \<Rightarrow> string" where
  "authorization_token header =
     (let v = trim (case header of None \<Rightarrow> [] | Some h \<Rightarrow> h) in
      case match_bearer v of
        Some t \<Rightarrow> trim t
      | None \<Rightarrow> if list_ex js_space v then [] else v)"

definition is_success :: "nat \<Rightarrow> bool" where
  "is_success st \<longleftrightarrow> 200 \<le> st \<and> st < 300"

subsection \<open>URLs and native namespaces\<close>

definition joined_url :: "env \<Rightarrow> string \<Rightarrow> string \<Rightarrow> string" where
  "joined_url e base path = (case parse_url e base of
       None \<Rightarrow> strip_trailing_slashes base @ path
     | Some u \<Rightarrow> url_at_path e u (strip_trailing_slashes (url_pathname u) @ path))"

definition join_scim_url :: "string \<Rightarrow> string \<Rightarrow> string m" where
  "join_scim_url base path = asks (\<lambda>e. joined_url e base path)"

definition default_port :: "string \<Rightarrow> string" where
  "default_port protocol =
     (if protocol = ''https:'' then ''443'' else if protocol = ''http:'' then ''80'' else [])"

definition native_namespace_key :: "(string \<Rightarrow> url option) \<Rightarrow> string \<Rightarrow> string option" where
  "native_namespace_key parse base = (case parse base of
       None \<Rightarrow> None
     | Some u \<Rightarrow>
         let port = (if url_port u \<noteq> [] \<and> url_port u \<noteq> default_port (url_protocol u)
                     then CHR '':'' # url_port u else [])
         in Some (to_lower (url_protocol u) @ ''//'' @ to_lower (url_hostname u) @ port
              @ strip_trailing_slashes (url_pathname u)))"

definition shares_namespace :: "(string \<Rightarrow> url option) \<Rightarrow> string \<Rightarrow> string \<Rightarrow> bool" where
  "shares_namespace parse ours theirs =
     (case native_namespace_key parse ours of None \<Rightarrow> True
      | Some a \<Rightarrow> (case native_namespace_key parse theirs of None \<Rightarrow> True | Some b \<Rightarrow> a = b))"

record endpoint =
  ep_url :: string
  ep_token :: string
  ep_partitioned :: bool

definition endpoint_of :: "directory \<Rightarrow> endpoint" where
  "endpoint_of d = \<lparr>ep_url = native_url d, ep_token = native_token d,
     ep_partitioned = native_token_partitioned d\<rparr>"

definition token_partition_splits :: "endpoint \<Rightarrow> endpoint \<Rightarrow> bool" where
  "token_partition_splits a b =
     (if \<not> ep_partitioned a \<or> \<not> ep_partitioned b then False
      else let ours = trim (ep_token a); theirs = trim (ep_token b) in
        if ours = [] \<or> theirs = [] then False
        else if is_encrypted_secret ours \<or> is_encrypted_secret theirs then False
        else \<not> timing_safe_equal ours theirs)"

definition shares_native_namespace :: "(string \<Rightarrow> url option) \<Rightarrow> endpoint \<Rightarrow> endpoint \<Rightarrow> bool" where
  "shares_native_namespace parse a b =
     (case native_namespace_key parse (ep_url a) of None \<Rightarrow> True
      | Some ours \<Rightarrow> (case native_namespace_key parse (ep_url b) of None \<Rightarrow> True
        | Some theirs \<Rightarrow> if ours \<noteq> theirs then False else \<not> token_partition_splits a b))"

definition native_namespace_is_shared :: "directory \<Rightarrow> bool m" where
  "native_namespace_is_shared d =
     bnd list_directories (\<lambda>ds. asks (\<lambda>e.
       list_ex (\<lambda>other. shares_native_namespace (parse_url e) (endpoint_of d) (endpoint_of other))
         (filter (\<lambda>other. dir_id other \<noteq> dir_id d \<and> native_url other \<noteq> []) ds)))"

text \<open>The checks made where a directory is configured.  The wording of a refusal is not modelled,
  its reason and the directory it names are.\<close>

datatype namespace_refusal =
    UnparseableUrl string
  | IndistinctToken string directory
  | NamespaceConflict string directory

definition find_native_namespace_conflict ::
    "(string \<Rightarrow> url option) \<Rightarrow> string \<Rightarrow> directory list \<Rightarrow> string \<Rightarrow> bool \<Rightarrow> directory option" where
  "find_native_namespace_conflict parse u others token partitioned =
     (case native_namespace_key parse (trim u) of None \<Rightarrow> None
      | Some key \<Rightarrow>
          let ep = \<lparr>ep_url = trim u, ep_token = token, ep_partitioned = partitioned\<rparr> in
          find (\<lambda>other. native_namespace_key parse (trim (native_url other)) = Some key
                  \<and> \<not> token_partition_splits ep (endpoint_of other)) others)"

definition check_native_namespace ::
    "(string \<Rightarrow> url option) \<Rightarrow> string \<Rightarrow> directory list \<Rightarrow> string \<Rightarrow> bool \<Rightarrow> namespace_refusal option" where
  "check_native_namespace parse u others token partitioned =
     (let trimmed = trim u in
      if trimmed = [] then None
      else if native_namespace_key parse trimmed = None then Some (UnparseableUrl trimmed)
      else case find_native_namespace_conflict parse trimmed others token partitioned of
        None \<Rightarrow> None
      | Some c \<Rightarrow> if partitioned \<and> native_token_partitioned c
          then Some (IndistinctToken trimmed c) else Some (NamespaceConflict trimmed c))"

fun is_token_partitioned_group :: "directory list \<Rightarrow> bool" where
  "is_token_partitioned_group [] = True"
| "is_token_partitioned_group (d # ds) =
     (list_all (\<lambda>d'. token_partition_splits (endpoint_of d) (endpoint_of d')) ds
      \<and> is_token_partitioned_group ds)"

record namespace_duplicate =
  dup_key :: "string option"
  dup_directories :: "directory list"
  dup_partitioned :: bool

text \<open>Groups in order of first appearance; the group of unparseable URLs has the key \<open>None\<close>.\<close>

fun group_by_key :: "('d \<Rightarrow> 'k) \<Rightarrow> 'd list \<Rightarrow> ('k \<times> 'd list) list \<Rightarrow> ('k \<times> 'd list) list" where
  "group_by_key f [] gs = gs"
| "group_by_key f (d # ds) gs = group_by_key f ds
     (case look_row fst (f d) gs of
        Some g \<Rightarrow> put_row fst (f d, snd g @ [d]) gs
      | None \<Rightarrow> gs @ [(f d, [d])])"

definition duplicate_native_namespaces ::
    "(string \<Rightarrow> url option) \<Rightarrow> directory list \<Rightarrow> namespace_duplicate list" where
  "duplicate_native_namespaces parse ds =
     map (\<lambda>g. \<lparr>dup_key = fst g, dup_directories = snd g,
              dup_partitioned = (fst g \<noteq> None \<and> is_token_partitioned_group (snd g))\<rparr>)
       (filter (\<lambda>g. 1 < length (snd g))
         (group_by_key (\<lambda>d. native_namespace_key parse (trim (native_url d)))
            (filter (\<lambda>d. trim (native_url d) \<noteq> []) ds) []))"

subsection \<open>SCIM paths\<close>

record scim_path =
  p_kind :: "kind option"
  p_id :: "string option"
  p_discovery :: bool
  p_rest :: string

definition discovery_roots :: "string list" where
  "discovery_roots = [''ServiceProviderConfig'', ''Schemas'', ''ResourceTypes'']"

definition parse_scim_path :: "string \<Rightarrow> scim_path option" where
  "parse_scim_path pathname =
     (if pathname \<noteq> scim_prefix \<and> \<not> starts_with pathname (scim_prefix @ ''/'') then None
      else let rest = drop (length scim_prefix) pathname in
        case decode_all (path_segments rest) of
          None \<Rightarrow> None
        | Some [] \<Rightarrow> None
        | Some (head # others) \<Rightarrow>
            (case kind_of head of
               Some k \<Rightarrow>
                 (if 2 < length (head # others) then None
                  else Some \<lparr>p_kind = Some k,
                         p_id = (case others of [] \<Rightarrow> None | i # _ \<Rightarrow> Some i),
                         p_discovery = False, p_rest = rest\<rparr>)
             | None \<Rightarrow>
                 (if head \<in> set discovery_roots
                  then Some \<lparr>p_kind = None, p_id = None, p_discovery = True, p_rest = rest\<rparr>
                  else None)))"

subsection \<open>Upstream calls\<close>

definition forwarded_response_headers :: "string list" where
  "forwarded_response_headers = [''Location'', ''ETag'', ''Retry-After'']"

definition conditional_request_header_names :: "string list" where
  "conditional_request_header_names =
     [''If-Match'', ''If-None-Match'', ''If-Modified-Since'', ''If-Unmodified-Since'']"

definition pick_headers :: "string list \<Rightarrow> (string \<times> string) list \<Rightarrow> (string \<times> string) list" where
  "pick_headers names hs = concat (map (\<lambda>n. case header_get n hs of None \<Rightarrow> [] | Some v \<Rightarrow> [(n, v)]) names)"

definition conditional_request_headers :: "(string \<times> string) list \<Rightarrow> (string \<times> string) list" where
  "conditional_request_headers hs = pick_headers conditional_request_header_names hs"

definition forwardable_headers :: "(string \<times> string) list \<Rightarrow> (string \<times> string) list" where
  "forwardable_headers hs = pick_headers forwarded_response_headers hs"

definition scim_call ::
    "side \<Rightarrow> string \<Rightarrow> string \<Rightarrow> string \<Rightarrow> payload option \<Rightarrow> string option \<Rightarrow> string option
      \<Rightarrow> (string \<times> string) list \<Rightarrow> call" where
  "scim_call sd u meth token body content_type migrated hs =
     \<lparr>c_side = sd, c_method = meth, c_url = u, c_token = token, c_body = body,
      c_content_type = (if body = None then None
         else Some (case content_type of None \<Rightarrow> scim_content_type | Some t \<Rightarrow> t)),
      c_migrated = migrated, c_headers = hs\<rparr>"

definition read_result :: "upstream_result \<Rightarrow> upstream_result" where
  "read_result r = r\<lparr>u_body := (if u_body r = Some (Raw []) then None else u_body r),
     u_headers := forwardable_headers (u_headers r)\<rparr>"

definition scim_fetch ::
    "side \<Rightarrow> string \<Rightarrow> string \<Rightarrow> string \<Rightarrow> payload option \<Rightarrow> string option \<Rightarrow> string option
      \<Rightarrow> (string \<times> string) list \<Rightarrow> upstream_result m" where
  "scim_fetch sd u meth token body content_type migrated hs =
     bnd (fetch (scim_call sd u meth token body content_type migrated hs)) (\<lambda>r. ret (read_result r))"

text \<open>Requests the bridge issues on its own behalf carry no caller headers.\<close>

definition plain_fetch :: "side \<Rightarrow> string \<Rightarrow> string \<Rightarrow> string \<Rightarrow> payload option \<Rightarrow> upstream_result m" where
  "plain_fetch sd u meth token body = scim_fetch sd u meth token body None None []"

definition resource_path :: "kind \<Rightarrow> string \<Rightarrow> string" where
  "resource_path k i = CHR ''/'' # kind_name k @ CHR ''/'' # encode_uri_component i"

definition collection_path :: "kind \<Rightarrow> string" where
  "collection_path k = CHR ''/'' # kind_name k"

subsection \<open>Results of translation\<close>

type_synonym 'a res = "err + 'a"

definition res_bind :: "'a res \<Rightarrow> ('a \<Rightarrow> 'b res) \<Rightarrow> 'b res" where
  "res_bind r f = (case r of Inl er \<Rightarrow> Inl er | Inr x \<Rightarrow> f x)"

definition res_map :: "('a \<Rightarrow> 'b) \<Rightarrow> 'a res \<Rightarrow> 'b res" where
  "res_map f r = (case r of Inl er \<Rightarrow> Inl er | Inr x \<Rightarrow> Inr (f x))"

fun res_list :: "('a \<Rightarrow> 'b res) \<Rightarrow> 'a list \<Rightarrow> 'b list res" where
  "res_list f [] = Inr []"
| "res_list f (x # xs) = res_bind (f x) (\<lambda>y. res_map (Cons y) (res_list f xs))"

definition from_res :: "'a res \<Rightarrow> 'a m" where
  "from_res r = (case r of Inl er \<Rightarrow> throw er | Inr x \<Rightarrow> ret x)"

subsection \<open>Checked id maps\<close>

text \<open>\<open>CheckedIdMap\<close>: looking up a contested id throws, and so does any whole-map operation while
  some id is contested.\<close>

record checked_map =
  entries :: "(string \<times> string) list"
  contested :: "string list"

definition assert_unambiguous :: "checked_map \<Rightarrow> unit res" where
  "assert_unambiguous cm = (if contested cm \<noteq> [] then Inl Ambiguous else Inr ())"

definition map_get :: "checked_map \<Rightarrow> string \<Rightarrow> string option res" where
  "map_get cm i = (if i \<in> set (contested cm) then Inl Ambiguous
     else Inr (map_option snd (look_row fst i (entries cm))))"

definition map_has :: "checked_map \<Rightarrow> string \<Rightarrow> bool res" where
  "map_has cm i = (if i \<in> set (contested cm) then Inl Ambiguous
     else Inr (look_row fst i (entries cm) \<noteq> None))"

record id_maps =
  native_to_workos :: "kind \<Rightarrow> checked_map"
  workos_to_native :: "kind \<Rightarrow> checked_map"

text \<open>One pass over the rows of one resource type; the pass over a directory keeps three such
  accumulators per type.\<close>

record map_acc =
  acc_forward :: "(string \<times> string) list"
  acc_reverse :: "(string \<times> string) list"
  acc_contested :: "string list"

definition add_mapping_row :: "id_mapping \<Rightarrow> map_acc \<Rightarrow> map_acc" where
  "add_mapping_row row a =
     (let owner = map_option snd (look_row fst (m_workos row) (acc_reverse a));
          forward = put_row fst (m_native row, m_workos row) (acc_forward a) in
      case owner of
        None \<Rightarrow> a\<lparr>acc_forward := forward,
                  acc_reverse := put_row fst (m_workos row, m_native row) (acc_reverse a)\<rparr>
      | Some n \<Rightarrow>
          if n \<noteq> m_native row
          then a\<lparr>acc_forward := forward,
                 acc_contested := [m_workos row, n, m_native row] @ acc_contested a\<rparr>
          else a\<lparr>acc_forward := forward\<rparr>)"

definition build_acc :: "id_mapping list \<Rightarrow> map_acc" where
  "build_acc rows = fold add_mapping_row rows
     \<lparr>acc_forward = [], acc_reverse = [], acc_contested = []\<rparr>"

definition kind_rows :: "string \<Rightarrow> kind \<Rightarrow> id_mapping list \<Rightarrow> id_mapping list" where
  "kind_rows d k rows = filter (\<lambda>m. m_directory m = d \<and> m_kind m = k) rows"

definition build_maps :: "string \<Rightarrow> id_mapping list \<Rightarrow> id_maps" where
  "build_maps d rows =
     \<lparr>native_to_workos = (\<lambda>k. let a = build_acc (kind_rows d k rows) in
        \<lparr>entries = acc_forward a, contested = acc_contested a\<rparr>),
      workos_to_native = (\<lambda>k. let a = build_acc (kind_rows d k rows) in
        \<lparr>entries = acc_reverse a, contested = acc_contested a\<rparr>)\<rparr>"

definition load_id_maps :: "string \<Rightarrow> bool \<Rightarrow> id_maps m" where
  "load_id_maps d strict =
     bnd (query id_mappings) (\<lambda>rows.
       let maps = build_maps d rows in
       if strict then
         thn (from_res (assert_unambiguous (workos_to_native maps Users)))
          (thn (from_res (assert_unambiguous (workos_to_native maps Groups))) (ret maps))
       else ret maps)"

subsection \<open>Id translation\<close>

type_synonym translator = "kind \<Rightarrow> string \<Rightarrow> string res"

definition make_translator :: "(kind \<Rightarrow> checked_map) \<Rightarrow> translator" where
  "make_translator maps k i =
     res_map (\<lambda>r. case r of None \<Rightarrow> i | Some j \<Rightarrow> j) (map_get (maps k) i)"

definition translate_member :: "translator \<Rightarrow> json \<Rightarrow> json res" where
  "translate_member tr entry = (case as_object (Some entry) of
       None \<Rightarrow> Inr entry
     | Some obj \<Rightarrow> (case as_string (getp obj ''value'') of
         None \<Rightarrow> Inr entry
       | Some v \<Rightarrow> res_map (\<lambda>t. JObj (set_prop ''value'' (JStr t) obj)) (tr Users v)))"

definition translate_member_entries :: "translator \<Rightarrow> json list \<Rightarrow> json list res" where
  "translate_member_entries tr es = res_list (translate_member tr) es"

definition translate_resource_ids :: "kind \<Rightarrow> translator \<Rightarrow> object \<Rightarrow> object res" where
  "translate_resource_ids k tr resource =
     res_bind (case as_string (getp resource ''id'') of
         None \<Rightarrow> Inr resource
       | Some i \<Rightarrow> res_map (\<lambda>t. set_prop ''id'' (JStr t) resource) (tr k i)) (\<lambda>out.
     case as_array (getp out ''members'') of
       None \<Rightarrow> Inr out
     | Some ms \<Rightarrow> res_map (\<lambda>ms'. set_prop ''members'' (JArr ms') out) (translate_member_entries tr ms))"

definition translate_list_response :: "kind \<Rightarrow> translator \<Rightarrow> object \<Rightarrow> object res" where
  "translate_list_response k tr body = (case as_array (getp body ''Resources'') of
       None \<Rightarrow> Inr body
     | Some rs \<Rightarrow> res_map (\<lambda>rs'. set_prop ''Resources'' (JArr rs') body)
         (res_list (\<lambda>r. case as_object (Some r) of
             None \<Rightarrow> Inr r
           | Some obj \<Rightarrow> res_map JObj (translate_resource_ids k tr obj)) rs))"

text \<open>\<open>/members\[value eq "([^"]+)"\]/g\<close>: the id of a match at the head of the string, and what
  follows the match.\<close>

definition member_open :: string where
  "member_open = ''members[value eq '' @ [dquote]"

definition member_close :: string where
  "member_close = [dquote, CHR '']'']"

definition match_member :: "string \<Rightarrow> (string \<times> string) option" where
  "match_member s =
     (if starts_with s member_open then
        let r = drop (length member_open) s;
            i = takeWhile (\<lambda>c. c \<noteq> dquote) r;
            t = dropWhile (\<lambda>c. c \<noteq> dquote) r in
        if i \<noteq> [] \<and> starts_with t member_close then Some (i, drop (length member_close) t) else None
      else None)"

lemma match_member_shorter: "match_member s = Some (i, t) \<Longrightarrow> length t < length s"
proof -
  assume m: "match_member s = Some (i, t)"
  let ?r = "drop (length member_open) s"
  have "i \<noteq> []" "t = drop (length member_close) (dropWhile (\<lambda>c. c \<noteq> dquote) ?r)" "starts_with s member_open"
    using m by (auto simp: match_member_def Let_def split: if_splits)
  then have "length t \<le> length (dropWhile (\<lambda>c. c \<noteq> dquote) ?r) - 2"
    by (simp add: member_close_def)
  also have "\<dots> \<le> length ?r" using length_dropWhile_le [of "\<lambda>c. c \<noteq> dquote" ?r] by linarith
  also have "\<dots> < length s"
    using \<open>starts_with s member_open\<close> by (auto simp: starts_with_conv member_open_def)
  finally show ?thesis .
qed

function replace_members :: "(string \<Rightarrow> string res) \<Rightarrow> string \<Rightarrow> string res" where
  "replace_members tr s = (case s of
       [] \<Rightarrow> Inr []
     | c # rest \<Rightarrow> (case match_member s of
         Some (i, t) \<Rightarrow> res_bind (tr i) (\<lambda>j.
            res_map (\<lambda>u. member_open @ j @ member_close @ u) (replace_members tr t))
       | None \<Rightarrow> res_map (Cons c) (replace_members tr rest)))"
  by pat_completeness auto
termination
  by (relation "measure (\<lambda>(tr, s). length s)") (auto dest: match_member_shorter)

declare replace_members.simps [simp del]

definition translate_patch_op :: "kind \<Rightarrow> translator \<Rightarrow> object \<Rightarrow> object res" where
  "translate_patch_op k tr op =
     res_bind (case as_string (getp op ''path'') of
         None \<Rightarrow> Inr op
       | Some p \<Rightarrow> res_map (\<lambda>p'. set_prop ''path'' (JStr p') op) (replace_members (tr Users) p)) (\<lambda>next.
     if k \<noteq> Groups then Inr next
     else
       let path = (case as_string (getp next ''path'') of None \<Rightarrow> [] | Some p \<Rightarrow> p) in
       case getp next ''value'' of
         Some (JArr vs) \<Rightarrow>
           if path = [] \<or> starts_with path ''members''
           then res_map (\<lambda>vs'. set_prop ''value'' (JArr vs') next) (translate_member_entries tr vs)
           else Inr next
       | Some (JObj obj) \<Rightarrow>
           (case as_array (getp obj ''members'') of
              None \<Rightarrow> Inr next
            | Some ms \<Rightarrow> res_map (\<lambda>ms'. set_prop ''value'' (JObj (set_prop ''members'' (JArr ms') obj)) next)
                (translate_member_entries tr ms))
       | _ \<Rightarrow> Inr next)"

definition translate_patch_ids :: "kind \<Rightarrow> translator \<Rightarrow> object option \<Rightarrow> object option res" where
  "translate_patch_ids k tr body = (case body of
       None \<Rightarrow> Inr None
     | Some b \<Rightarrow> (case as_array (getp b ''Operations'') of
         None \<Rightarrow> Inr (Some b)
       | Some ops \<Rightarrow> res_map (\<lambda>ops'. Some (set_prop ''Operations'' (JArr ops') b))
           (res_list (\<lambda>op. case as_object (Some op) of
               None \<Rightarrow> Inr op
             | Some obj \<Rightarrow> res_map JObj (translate_patch_op k tr obj)) ops)))"

subsection \<open>Error details\<close>

fun collapse_spaces :: "string \<Rightarrow> string" where
  "collapse_spaces [] = []"
| "collapse_spaces (c # s) =
     (if js_space c then CHR '' '' # dropWhile (\<lambda>x. x = CHR '' '') (collapse_spaces s)
      else c # collapse_spaces s)"

text \<open>The ellipsis U+2026 is outside the represented code units and is written as the unit 133.\<close>

definition ellipsis :: string where "ellipsis = [CHR 0x85]"

definition scim_error_detail :: "payload option \<Rightarrow> string option" where
  "scim_error_detail body = (case parse_json body of
       None \<Rightarrow> None
     | Some obj \<Rightarrow> (case as_string (getp obj ''detail'') of
         None \<Rightarrow> None
       | Some detail \<Rightarrow>
           let prefix = (case string_value (getp obj ''scimType'') of
                 None \<Rightarrow> [] | Some t \<Rightarrow> t @ '': '');
               line = trim (collapse_spaces (prefix @ detail)) in
           if line = [] then None
           else if 200 < length line then Some (take 200 line @ ellipsis) else Some line))"

end
