(* ===== verification/Mirror.thy ===== *)
theory Mirror
  imports Scim
begin

text \<open>
  The WorkOS write dance of \<open>workers/shared/scim.ts\<close> from \<open>mirrorUpsert\<close> on: update by the known
  id, first touch under the migrated id, create by POST, recovery of a 409, and the recovery of a
  mapped resource that vanished.

  A mapping sink is the list a batching caller passes; functions return it beside their result.
  Nothing can fail after a mapping has been queued, so a thrown error leaves the sink as it was.
\<close>

record mirror_result =
  mr_ok :: bool
  mr_request :: string
  mr_status :: "nat option"
  mr_body :: "payload option"
  mr_error :: "string option"
  mr_created :: "string option"
  mr_mint_conflict :: bool

type_synonym sink = "id_mapping list option"

definition mirror_ok :: "string \<Rightarrow> upstream_result \<Rightarrow> mirror_result" where
  "mirror_ok label r = \<lparr>mr_ok = True, mr_request = label, mr_status = Some (u_status r),
     mr_body = u_body r, mr_error = None, mr_created = None, mr_mint_conflict = False\<rparr>"

definition mirror_fail :: "string \<Rightarrow> upstream_result \<Rightarrow> string \<Rightarrow> mirror_result" where
  "mirror_fail label r msg =
     (let detail = (if is_success (u_status r) then None else scim_error_detail (u_body r)) in
      \<lparr>mr_ok = False, mr_request = label, mr_status = Some (u_status r), mr_body = u_body r,
       mr_error = Some (case detail of None \<Rightarrow> msg | Some d \<Rightarrow> msg @ '' ('' @ d @ '')''),
       mr_created = None, mr_mint_conflict = False\<rparr>)"

definition recovery_refused :: "string \<Rightarrow> nat \<Rightarrow> string \<Rightarrow> mirror_result" where
  "recovery_refused label st msg = \<lparr>mr_ok = False, mr_request = label, mr_status = Some st,
     mr_body = None, mr_error = Some msg, mr_created = None, mr_mint_conflict = False\<rparr>"

definition mint_conflict_detail :: "kind \<Rightarrow> string \<Rightarrow> string \<Rightarrow> string" where
  "mint_conflict_detail k i owner =
     kind_name k @ ''/'' @ i @ '' is already the WorkOS-side id of '' @ kind_name k @ ''/'' @ owner
     @ '' in this directory, so it cannot also be a resource id of its own. Address that resource by the id this directory returned for it.''"

definition mint_conflict :: "string \<Rightarrow> kind \<Rightarrow> string \<Rightarrow> string \<Rightarrow> mirror_result" where
  "mint_conflict label k i owner = \<lparr>mr_ok = False, mr_request = label, mr_status = Some 409,
     mr_body = None, mr_error = Some (mint_conflict_detail k i owner), mr_created = None,
     mr_mint_conflict = True\<rparr>"

definition put_workos ::
    "directory \<Rightarrow> kind \<Rightarrow> string \<Rightarrow> object \<Rightarrow> string option \<Rightarrow> upstream_result m" where
  "put_workos d k i resource migrated =
     bnd (join_scim_url (workos_url d) (resource_path k i)) (\<lambda>u.
       scim_fetch Workos u ''PUT'' (workos_token d)
         (Some (Doc (JObj (set_prop ''id'' (JStr i) resource)))) None migrated [])"

definition mapping_row :: "directory \<Rightarrow> kind \<Rightarrow> string \<Rightarrow> string \<Rightarrow> strategy \<Rightarrow> id_mapping" where
  "mapping_row d k n wid st = \<lparr>m_directory = dir_id d, m_kind = k, m_native = n, m_workos = wid,
     m_strategy = st\<rparr>"

definition record_mapping :: "id_mapping \<Rightarrow> sink \<Rightarrow> sink m" where
  "record_mapping row sink = (case sink of
       Some rows \<Rightarrow> ret (Some (rows @ [row]))
     | None \<Rightarrow> thn (upsert_mapping row) (ret None))"

definition queued_owner :: "string \<Rightarrow> kind \<Rightarrow> string \<Rightarrow> string \<Rightarrow> sink \<Rightarrow> id_mapping option" where
  "queued_owner d k wid n sink = (case sink of
       None \<Rightarrow> None
     | Some rows \<Rightarrow> find (\<lambda>r. m_directory r = d \<and> m_kind r = k \<and> m_workos r = wid \<and> m_native r \<noteq> n) rows)"

definition claimed_by_another ::
    "directory \<Rightarrow> kind \<Rightarrow> string \<Rightarrow> string \<Rightarrow> sink \<Rightarrow> id_mapping option m" where
  "claimed_by_another d k wid n sink =
     bnd (get_mapping_by_workos_id (dir_id d) k wid) (\<lambda>c.
       case c of
         Some r \<Rightarrow> if m_native r \<noteq> n then ret (Some r) else ret (queued_owner (dir_id d) k wid n sink)
       | None \<Rightarrow> ret (queued_owner (dir_id d) k wid n sink))"

subsection \<open>A POST answered 409\<close>

definition attribute_filter :: "string \<Rightarrow> string \<Rightarrow> string" where
  "attribute_filter attribute v =
     attribute @ '' eq '' @ [dquote] @ replace_char dquote [backslash, dquote] v @ [dquote]"

text \<open>\<open>resources.find(isRecord)\<close> and its \<open>id\<close>.\<close>

definition listed_resources :: "payload option \<Rightarrow> json list" where
  "listed_resources body = (case parse_json body of
       None \<Rightarrow> []
     | Some listing \<Rightarrow> (case as_array (getp listing ''Resources'') of None \<Rightarrow> [] | Some rs \<Rightarrow> rs))"

definition first_record_id :: "json list \<Rightarrow> string option" where
  "first_record_id rs = (case find is_record rs of
       Some (JObj obj) \<Rightarrow> string_value (getp obj ''id'') | _ \<Rightarrow> None)"

definition resolve_create_race ::
    "directory \<Rightarrow> kind \<Rightarrow> string \<Rightarrow> object \<Rightarrow> upstream_result \<Rightarrow> sink \<Rightarrow> (mirror_result \<times> sink) m" where
  "resolve_create_race d k n resource create sink =
     (let reput_label = ''PUT /'' @ kind_name k @ ''/'' @ n @ '' +'' @ migrated_id_header @ '' (409 retry)'';
          attribute = unique_attribute k;
          lookup_label = ''GET /'' @ kind_name k @ ''?filter='' @ attribute @ '' (409 recovery)'';
          give_up = mirror_fail lookup_label create
            (''WorkOS POST hit 409 and the '' @ attribute @ '' lookup did not recover an id'') in
      bnd (put_workos d k n resource (Some n)) (\<lambda>reput.
      if is_success (u_status reput) then
        bnd (record_mapping (mapping_row d k n n MigratedId) sink) (\<lambda>sink'.
          ret (mirror_ok reput_label reput, sink'))
      else if u_status reput \<noteq> 404 then
        ret (mirror_fail reput_label reput (''WorkOS 409-retry PUT returned '' @ show_nat (u_status reput)), sink)
      else (case string_value (getp resource attribute) of
          None \<Rightarrow> ret (give_up, sink)
        | Some v \<Rightarrow>
            bnd (join_scim_url (workos_url d) (collection_path k)) (\<lambda>u.
            bnd (plain_fetch Workos (u @ ''?filter='' @ encode_uri_component (attribute_filter attribute v))
                  ''GET'' (workos_token d) None) (\<lambda>lookup.
            case first_record_id (listed_resources (u_body lookup)) of
              None \<Rightarrow> ret (give_up, sink)
            | Some wid \<Rightarrow>
                if \<not> is_success (u_status lookup) then ret (give_up, sink)
                else
                  let sync_label = ''PUT /'' @ kind_name k @ ''/'' @ wid @ '' (409 recovery)'' in
                  bnd (claimed_by_another d k wid n sink) (\<lambda>claimed.
                    case claimed of
                      Some c \<Rightarrow> ret (mint_conflict sync_label k wid (m_native c), sink)
                    | None \<Rightarrow>
                        bnd (put_workos d k wid resource None) (\<lambda>sync.
                        if is_success (u_status sync) then
                          bnd (record_mapping (mapping_row d k n wid FallbackPost) sink) (\<lambda>sink'.
                            ret (mirror_ok sync_label sync, sink'))
                        else ret (mirror_fail sync_label sync
                          (''WorkOS 409-recovery PUT returned '' @ show_nat (u_status sync)), sink))))))))"

subsection \<open>Creating by POST\<close>

definition create_via_post ::
    "directory \<Rightarrow> kind \<Rightarrow> string \<Rightarrow> object \<Rightarrow> sink \<Rightarrow> (mirror_result \<times> sink) m" where
  "create_via_post d k n resource sink =
     (let label = ''POST /'' @ kind_name k @ '' +'' @ migrated_id_header in
      bnd (join_scim_url (workos_url d) (collection_path k)) (\<lambda>u.
      bnd (scim_fetch Workos u ''POST'' (workos_token d)
             (Some (Doc (JObj (del_prop ''id'' resource)))) None (Some n) []) (\<lambda>create.
      if is_success (u_status create) then
        (case (case parse_json (u_body create) of None \<Rightarrow> None
                 | Some obj \<Rightarrow> string_value (getp obj ''id'')) of
           None \<Rightarrow> ret (mirror_fail label create
                     ''WorkOS POST succeeded but the response had no id'', sink)
         | Some wid \<Rightarrow>
             bnd (record_mapping (mapping_row d k n wid
                    (if wid = n then MigratedId else FallbackPost)) sink) (\<lambda>sink'.
               ret ((mirror_ok label create)
                      \<lparr>mr_created := if u_status create = 201 then Some wid else None\<rparr>, sink')))
      else if u_status create = 409 then resolve_create_race d k n resource create sink
      else ret (mirror_fail label create (''WorkOS POST returned '' @ show_nat (u_status create)), sink))))"

subsection \<open>Recovering a mapped resource\<close>

definition certain_client_error :: "mirror_result \<Rightarrow> bool" where
  "certain_client_error r \<longleftrightarrow> \<not> mr_ok r \<and> (case mr_status r of None \<Rightarrow> False
     | Some st \<Rightarrow> 400 \<le> st \<and> st < 500 \<and> st \<noteq> 408)"

text \<open>The \<open>finally\<close> block: the release runs before the result or the thrown error is passed on, and
  its own failure replaces it.\<close>

definition recover_mapped_resource ::
    "directory \<Rightarrow> kind \<Rightarrow> string \<Rightarrow> id_mapping \<Rightarrow> object \<Rightarrow> sink \<Rightarrow> (mirror_result \<times> sink) m" where
  "recover_mapped_resource d k n existing resource sink =
     (let label = ''POST /'' @ kind_name k @ '' +'' @ migrated_id_header @ '' (mapped recovery)'' in
      bnd random_uuid (\<lambda>token.
      let release = release_workos_primary_create (dir_id d) k token in
      bnd (settle (claim_workos_primary_create (dir_id d) k token)) (\<lambda>c.
      case c of
        Inl er \<Rightarrow> thn release (throw er)
      | Inr got \<Rightarrow>
          if \<not> got then
            ret (recovery_refused label 503
              ''Another create or reconciliation owns this resource type; retry after it completes'', sink)
          else
            bnd (settle (get_mapping (dir_id d) k n)) (\<lambda>g.
            case g of
              Inl er \<Rightarrow> thn release (throw er)
            | Inr current \<Rightarrow>
                if (case current of None \<Rightarrow> True
                      | Some m \<Rightarrow> m_workos m \<noteq> m_workos existing \<or> m_strategy m \<noteq> m_strategy existing)
                then thn release (ret (recovery_refused label 409
                  ''The native id mapping changed while WorkOS was being updated; retry using the current mapping'', sink))
                else
                  bnd (create_via_post d k n resource sink) (\<lambda>res.
                    if (mr_ok (fst res) \<and> sink = None) \<or> certain_client_error (fst res)
                    then thn release (ret res) else ret res)))))"

subsection \<open>The dance\<close>

definition put_label :: "kind \<Rightarrow> string \<Rightarrow> string" where
  "put_label k i = ''PUT /'' @ kind_name k @ ''/'' @ i @ '' +'' @ migrated_id_header"

text \<open>What the first write settles; \<open>None\<close> is the way on to the POST below the branches.\<close>

definition update_mapped ::
    "directory \<Rightarrow> kind \<Rightarrow> string \<Rightarrow> id_mapping \<Rightarrow> object \<Rightarrow> sink \<Rightarrow> bool \<Rightarrow> (mirror_result \<times> sink) option m" where
  "update_mapped d k n existing resource sink serialize =
     (let use_header = m_strategy existing = MigratedId;
          wid = m_workos existing;
          label = (if use_header then put_label k wid
                   else ''PUT /'' @ kind_name k @ ''/'' @ wid @ '' (fallback)'') in
      bnd (claimed_by_another d k wid n sink) (\<lambda>claimed.
      case claimed of
        Some c \<Rightarrow> ret (Some (mint_conflict label k wid (m_native c), sink))
      | None \<Rightarrow>
          bnd (put_workos d k wid resource (if use_header then Some n else None)) (\<lambda>put.
          if is_success (u_status put) then
            (if \<not> serialize \<or> sink \<noteq> None then
               bnd (record_mapping (mapping_row d k n wid (m_strategy existing)) sink) (\<lambda>sink'.
                 ret (Some (mirror_ok label put, sink')))
             else ret (Some (mirror_ok label put, sink)))
          else if u_status put \<noteq> 404 then
            ret (Some (mirror_fail label put (''WorkOS PUT returned '' @ show_nat (u_status put)), sink))
          else if serialize then
            bnd (recover_mapped_resource d k n existing resource sink) (\<lambda>r. ret (Some r))
          else ret None)))"

definition first_touch ::
    "directory \<Rightarrow> kind \<Rightarrow> string \<Rightarrow> object \<Rightarrow> sink \<Rightarrow> (mirror_result \<times> sink) option m" where
  "first_touch d k n resource sink =
     bnd (claimed_by_another d k n n sink) (\<lambda>claimed.
     case claimed of
       Some c \<Rightarrow> ret (Some (mint_conflict (put_label k n) k n (m_native c), sink))
     | None \<Rightarrow>
         bnd (put_workos d k n resource (Some n)) (\<lambda>put.
         if is_success (u_status put) then
           bnd (record_mapping (mapping_row d k n n MigratedId) sink) (\<lambda>sink'.
             ret (Some (mirror_ok (put_label k n) put, sink')))
         else if u_status put \<noteq> 404 then
           ret (Some (mirror_fail (put_label k n) put
             (''WorkOS migrated-id PUT returned '' @ show_nat (u_status put)), sink))
         else ret None))"

definition mirror_failed :: "kind \<Rightarrow> string \<Rightarrow> err \<Rightarrow> mirror_result" where
  "mirror_failed k n er = \<lparr>mr_ok = False, mr_request = put_label k n, mr_status = None,
     mr_body = None, mr_error = Some (error_message er), mr_created = None,
     mr_mint_conflict = False\<rparr>"

text \<open>
  The \<open>catch\<close> covers the first write only: the closing \<open>return createViaPost(...)\<close> hands out the
  promise of the POST leg without awaiting it, so what that leg throws leaves \<open>mirrorUpsert\<close> as a
  rejection.
\<close>

definition mirror_upsert ::
    "directory \<Rightarrow> kind \<Rightarrow> string \<Rightarrow> object \<Rightarrow> sink \<Rightarrow> bool \<Rightarrow> (mirror_result \<times> sink) m" where
  "mirror_upsert d k n raw sink serialize =
     (let resource = strip_fields raw in
      bnd (try_catch
        (bnd (get_mapping (dir_id d) k n) (\<lambda>existing.
          case existing of
            None \<Rightarrow>
              if serialize then
                ret (Some (recovery_refused (''PUT /'' @ kind_name k @ ''/'' @ n) 409
                  ''The native id mapping is no longer present; run backfill or reconciliation before replacing the resource'', sink))
              else first_touch d k n resource sink
          | Some m \<Rightarrow> update_mapped d k n m resource sink serialize))
        (\<lambda>er. ret (Some (mirror_failed k n er, sink)))) (\<lambda>settled.
      case settled of
        Some r \<Rightarrow> ret r
      | None \<Rightarrow> create_via_post d k n resource sink))"

end
