(* ===== verification/Forward.thy ===== *)
theory Forward
  imports Mirror
begin

text \<open>
  What every mode of \<open>workers/proxy/index.ts\<close> shares: the inbound request as the handlers pass it
  on, the end of a request with its log row, the forwarding of an upstream response with its
  Location, the native legs and their failures, and the retirement of divergence rows.

  Tasks handed to \<open>ctx.waitUntil\<close> run where they are started.
\<close>

record inbound =
  i_directory :: directory
  i_path :: scim_path
  i_method :: string
  i_body :: "payload option"
  i_content_type :: "string option"
  i_conditional :: "(string \<times> string) list"
  i_url :: url

definition write_methods :: "string list" where
  "write_methods = [''POST'', ''PUT'', ''PATCH'', ''DELETE'']"

definition bodyless_statuses :: "nat list" where
  "bodyless_statuses = [204, 205, 304]"

definition persist_log :: "directory option \<Rightarrow> unit m" where
  "persist_log d =
     (if should_persist_logs d
      then bnd get_log (\<lambda>l. try_catch (insert_proxy_log l) (\<lambda>_. ret ()))
      else ret ())"

definition finish :: "directory option \<Rightarrow> response \<Rightarrow> response m" where
  "finish d r =
     thn (set_log (\<lambda>l. l\<lparr>l_response_status := Some (r_status r)\<rparr>)) (thn (persist_log d) (ret r))"

definition retry_after :: "response \<Rightarrow> response" where
  "retry_after r = r\<lparr>r_headers := r_headers r @ [(''Retry-After'', ''1'')]\<rparr>"

definition apply_mirror_result :: "mirror_result \<Rightarrow> unit m" where
  "apply_mirror_result r = set_log (\<lambda>l.
     let l' = l\<lparr>l_workos_request := Some (mr_request r), l_workos_status := mr_status r,
                l_workos_body := mr_body r\<rparr>
     in (case nonempty_or_none (mr_error r) of None \<Rightarrow> l' | Some er \<Rightarrow> l'\<lparr>l_error := Some er\<rparr>))"

definition apply_workos_leg :: "upstream_result \<Rightarrow> unit m" where
  "apply_workos_leg r = set_log (\<lambda>l. l\<lparr>l_workos_status := Some (u_status r), l_workos_body := u_body r\<rparr>)"

definition log_native :: "upstream_result option \<Rightarrow> unit m" where
  "log_native r = set_log (\<lambda>l. l\<lparr>l_native_status := map_option u_status r,
     l_native_body := (case r of None \<Rightarrow> None | Some x \<Rightarrow> u_body x)\<rparr>)"

subsection \<open>Forwarding an upstream response\<close>

record forward_options =
  fw_upstream_base :: string
  fw_proxy_base :: string
  fw_body_rewritten :: bool
  fw_to_idp_id :: "(string \<Rightarrow> string res) option"

definition proxy_base_url :: "url \<Rightarrow> string" where
  "proxy_base_url u = url_origin u @ scim_prefix"

definition rewrite_location :: "string \<Rightarrow> forward_options \<Rightarrow> string option m" where
  "rewrite_location v fw = bnd (asks parse_url) (\<lambda>parse. bnd (asks resolve_url) (\<lambda>resolve.
     case parse (fw_upstream_base fw) of
       None \<Rightarrow> ret None
     | Some base \<Rightarrow> (case resolve v (strip_trailing_slashes (url_href base) @ ''/'') of
         None \<Rightarrow> ret None
       | Some target \<Rightarrow>
           let base_path = strip_trailing_slashes (url_pathname base);
               rest = drop (length base_path) (url_pathname target) in
           if url_origin target \<noteq> url_origin base then ret None
           else if url_pathname target \<noteq> base_path
                   \<and> \<not> starts_with (url_pathname target) (base_path @ ''/'') then ret None
           else (case fw_to_idp_id fw of
               None \<Rightarrow> ret (Some (fw_proxy_base fw @ rest @ url_search target))
             | Some to_idp \<Rightarrow> (case decode_all (path_segments rest) of
                 Some [root, i] \<Rightarrow>
                   bnd (from_res (to_idp i)) (\<lambda>j.
                     ret (Some (fw_proxy_base fw @ ''/'' @ root @ ''/'' @ encode_uri_component j
                                @ url_search target)))
               | _ \<Rightarrow> ret None)))))"

fun forward_headers :: "forward_options \<Rightarrow> (string \<times> string) list \<Rightarrow> (string \<times> string) list m" where
  "forward_headers fw [] = ret []"
| "forward_headers fw ((name, v) # hs) =
     bnd (if name = ''ETag'' then ret (if fw_body_rewritten fw then [] else [(name, v)])
          else if name = ''Location''
          then bnd (rewrite_location v fw) (\<lambda>l.
                 ret (case nonempty_or_none l of None \<Rightarrow> [] | Some l' \<Rightarrow> [(name, l')]))
          else ret [(name, v)]) (\<lambda>h.
     bnd (forward_headers fw hs) (\<lambda>rest. ret (h @ rest)))"

definition content_type_of :: "string option \<Rightarrow> string" where
  "content_type_of t = (case t of None \<Rightarrow> scim_content_type | Some c \<Rightarrow> c)"

definition proxied_headers :: "upstream_result \<Rightarrow> forward_options \<Rightarrow> (string \<times> string) list m" where
  "proxied_headers r fw = bnd (forward_headers fw (u_headers r)) (\<lambda>hs.
     ret ((''Content-Type'', content_type_of (u_content_type r)) # hs))"

definition upstream_response :: "upstream_result \<Rightarrow> forward_options \<Rightarrow> response m" where
  "upstream_response r fw = bnd (proxied_headers r fw) (\<lambda>hs.
     ret \<lparr>r_status = u_status r,
          r_body = (if u_status r \<in> set bodyless_statuses then None else u_body r),
          r_headers = hs\<rparr>)"

definition native_forward :: "inbound \<Rightarrow> forward_options" where
  "native_forward rq = \<lparr>fw_upstream_base = native_url (i_directory rq),
     fw_proxy_base = proxy_base_url (i_url rq), fw_body_rewritten = False, fw_to_idp_id = None\<rparr>"

definition workos_forward :: "inbound \<Rightarrow> forward_options" where
  "workos_forward rq = \<lparr>fw_upstream_base = workos_url (i_directory rq),
     fw_proxy_base = proxy_base_url (i_url rq), fw_body_rewritten = False, fw_to_idp_id = None\<rparr>"

subsection \<open>The native leg\<close>

text \<open>The IdP's own request, verbatim, to the native endpoint.\<close>

definition native_fetch :: "inbound \<Rightarrow> upstream_result m" where
  "native_fetch rq =
     bnd (join_scim_url (native_url (i_directory rq)) (p_rest (i_path rq))) (\<lambda>u.
       scim_fetch Native (u @ url_search (i_url rq)) (i_method rq) (native_token (i_directory rq))
         (i_body rq) (i_content_type rq) None (i_conditional rq))"

record native_leg =
  leg_result :: "upstream_result option"
  leg_error :: "string option"

definition native_write :: "inbound \<Rightarrow> native_leg m" where
  "native_write rq = try_catch
     (bnd (native_fetch rq) (\<lambda>r. ret \<lparr>leg_result = Some r, leg_error = None\<rparr>))
     (\<lambda>er. ret \<lparr>leg_result = None, leg_error = Some (error_message er)\<rparr>)"

definition leg_status :: "native_leg \<Rightarrow> nat option" where
  "leg_status n = map_option u_status (leg_result n)"

definition native_failure_response :: "native_leg \<Rightarrow> response" where
  "native_failure_response n = (case leg_result n of
       Some r \<Rightarrow>
         if 400 \<le> u_status r \<and> u_status r < 500
         then \<lparr>r_status = u_status r, r_body = u_body r,
               r_headers = [(''Content-Type'', content_type_of (u_content_type r))]\<rparr>
         else scim_error 502 ''The native SCIM endpoint did not accept this write, so the request failed. WorkOS may already hold it -- the directory page lists resources native is missing. Retrying is safe.''
     | None \<Rightarrow> scim_error 502 ''The native SCIM endpoint did not accept this write, so the request failed. WorkOS may already hold it -- the directory page lists resources native is missing. Retrying is safe.'')"

definition native_failure_detail :: "native_leg \<Rightarrow> string \<Rightarrow> string" where
  "native_failure_detail n prefix = (case leg_error n of
       Some er \<Rightarrow> prefix @ '': '' @ er
     | None \<Rightarrow> prefix @ '': native returned '' @
         (case leg_status n of None \<Rightarrow> ''no response'' | Some st \<Rightarrow> show_nat st))"

definition native_leg_failed ::
    "directory \<Rightarrow> kind \<Rightarrow> string \<Rightarrow> string \<Rightarrow> native_leg \<Rightarrow> bool \<Rightarrow> response m" where
  "native_leg_failed d k key meth n workos_committed =
     (if workos_committed then
        let detail = native_failure_detail n ''WorkOS committed this write; native did not'' in
        thn (log_error detail)
        (thn (record_native_write_failure (dir_id d) k key meth (leg_status n) detail)
          (ret (native_failure_response n)))
      else ret (native_failure_response n))"

definition path_spells_id :: "scim_path \<Rightarrow> kind \<Rightarrow> bool" where
  "path_spells_id p k = (case p_id p of None \<Rightarrow> False
     | Some i \<Rightarrow> p_rest p = ''/'' @ kind_name k @ ''/'' @ i)"

definition unique_attribute_value :: "kind \<Rightarrow> object \<Rightarrow> string option" where
  "unique_attribute_value k resource = string_value (getp resource (unique_attribute k))"

subsection \<open>Retiring divergence rows\<close>

definition set_add :: "'a list \<Rightarrow> 'a \<Rightarrow> 'a list" where
  "set_add xs x = (if x \<in> set xs then xs else xs @ [x])"

definition dedupe :: "'a list \<Rightarrow> 'a list" where
  "dedupe xs = foldl set_add [] xs"

definition present :: "string option list \<Rightarrow> string list" where
  "present ks = dedupe (concat (map (\<lambda>x. case nonempty_or_none x of None \<Rightarrow> [] | Some s \<Rightarrow> [s]) ks))"

definition object_prop :: "object option \<Rightarrow> string \<Rightarrow> json option" where
  "object_prop obj k = (case obj of None \<Rightarrow> None | Some ps \<Rightarrow> getp ps k)"

definition divergence_keys ::
    "kind \<Rightarrow> scim_path \<Rightarrow> string \<Rightarrow> object option \<Rightarrow> object option \<Rightarrow> string list" where
  "divergence_keys k p meth sent returned = present
     [p_id p,
      if p_id p = None then Some (meth @ '' '' @ p_rest p) else None,
      as_string (object_prop sent ''externalId''),
      case sent of None \<Rightarrow> None | Some b \<Rightarrow> unique_attribute_value k b,
      as_string (object_prop returned ''id'')]"

definition clear_divergence_for_write :: "inbound \<Rightarrow> upstream_result \<Rightarrow> bool \<Rightarrow> unit m" where
  "clear_divergence_for_write rq native path_keys_only = (case p_kind (i_path rq) of
       None \<Rightarrow> ret ()
     | Some k \<Rightarrow>
         each (\<lambda>key. try_catch (clear_native_write_failure (dir_id (i_directory rq)) k key) (\<lambda>_. ret ()))
           (divergence_keys k (i_path rq) (i_method rq)
             (if path_keys_only then None else parse_json (i_body rq))
             (if path_keys_only then None else parse_json (u_body native))))"

end
