(* ===== verification/DualWrite.thy ===== *)
theory DualWrite
  imports Forward
begin

text \<open>
  The rung \<open>dual-write\<close> of \<open>workers/proxy/index.ts\<close> (\<open>dualWrite\<close>, \<open>mirrorDualWrite\<close>), and the
  plain forwarding of \<open>passthrough\<close>: the native app answers the IdP, and an applied write is
  mirrored to WorkOS afterwards.
\<close>

definition passthrough :: "inbound \<Rightarrow> bool \<Rightarrow> response m" where
  "passthrough rq is_write =
     bnd (settle (native_fetch rq)) (\<lambda>r. case r of
       Inl er \<Rightarrow> thn (log_error (error_message er))
         (finish (Some (i_directory rq)) (scim_error 502 ''The native SCIM endpoint could not be reached.''))
     | Inr native \<Rightarrow>
         thn (log_native (Some native))
         (thn (if is_write \<and> is_success (u_status native) then clear_divergence_for_write rq native False
               else ret ())
           (bnd (upstream_response native (native_forward rq)) (finish (Some (i_directory rq))))))"

text \<open>The body the WorkOS leg carries: members in WorkOS-id space.\<close>

definition mirror_body :: "kind \<Rightarrow> translator \<Rightarrow> payload option \<Rightarrow> object res" where
  "mirror_body k tr body =
     (let resource = (case parse_json body of None \<Rightarrow> [] | Some b \<Rightarrow> b) in
      if k = Groups then translate_resource_ids k tr resource else Inr resource)"

definition mirror_under :: "inbound \<Rightarrow> kind \<Rightarrow> string \<Rightarrow> translator \<Rightarrow> bool m" where
  "mirror_under rq k n tr =
     bnd (from_res (mirror_body k tr (i_body rq))) (\<lambda>body.
     bnd (mirror_upsert (i_directory rq) k n body None False) (\<lambda>(res, _).
       thn (apply_mirror_result res) (ret (mr_ok res))))"

definition unattributable :: "directory \<Rightarrow> kind \<Rightarrow> string \<Rightarrow> bool m" where
  "unattributable d k n =
     bnd (get_mapping (dir_id d) k n) (\<lambda>m.
       if m \<noteq> None then ret False else native_namespace_is_shared d)"

definition mirror_patch :: "inbound \<Rightarrow> kind \<Rightarrow> string \<Rightarrow> translator \<Rightarrow> bool m" where
  "mirror_patch rq k wid tr =
     bnd (join_scim_url (workos_url (i_directory rq)) (resource_path k wid)) (\<lambda>target.
     bnd (from_res (translate_patch_ids k tr (parse_json (i_body rq)))) (\<lambda>translated.
     thn (set_log (\<lambda>l. l\<lparr>l_workos_request := Some (''PATCH /'' @ kind_name k @ ''/'' @ wid)\<rparr>))
     (bnd (plain_fetch Workos target ''PATCH'' (workos_token (i_directory rq))
            (case translated of None \<Rightarrow> i_body rq | Some b \<Rightarrow> Some (Doc (JObj b)))) (\<lambda>mirror.
       thn (apply_workos_leg mirror) (ret (is_success (u_status mirror)))))))"

definition mirror_delete :: "inbound \<Rightarrow> kind \<Rightarrow> string \<Rightarrow> string \<Rightarrow> bool m" where
  "mirror_delete rq k n wid =
     bnd (join_scim_url (workos_url (i_directory rq)) (resource_path k wid)) (\<lambda>target.
     thn (set_log (\<lambda>l. l\<lparr>l_workos_request := Some (''DELETE /'' @ kind_name k @ ''/'' @ wid)\<rparr>))
     (bnd (plain_fetch Workos target ''DELETE'' (workos_token (i_directory rq)) None) (\<lambda>mirror.
     thn (apply_workos_leg mirror)
      (if is_success (u_status mirror) \<or> u_status mirror = 404
       then thn (delete_mapping (dir_id (i_directory rq)) k n) (ret True)
       else thn (log_error (''mirror DELETE returned '' @ show_nat (u_status mirror)
              @ ''; id mapping kept for repair'')) (ret False)))))"

definition mirror_dual_write :: "inbound \<Rightarrow> kind \<Rightarrow> upstream_result \<Rightarrow> bool m" where
  "mirror_dual_write rq k native =
     bnd (load_id_maps (dir_id (i_directory rq)) False) (\<lambda>maps.
     let tr = make_translator (native_to_workos maps);
         d = i_directory rq in
     if i_method rq = ''POST'' then
       (case (case parse_json (u_body native) of None \<Rightarrow> None
                | Some obj \<Rightarrow> string_value (getp obj ''id'')) of
          None \<Rightarrow> thn (log_error ''native create response had no id; mirror skipped'') (ret False)
        | Some n \<Rightarrow> mirror_under rq k n tr)
     else (case nonempty_or_none (p_id (i_path rq)) of
         None \<Rightarrow> ret False
       | Some n \<Rightarrow>
           if i_method rq = ''PUT'' then
             bnd (unattributable d k n) (\<lambda>u.
               if u then thn (log_error (kind_name k @ ''/'' @ n @ '': unmapped, and another directory fronts this native app, so the id in the request cannot be adopted as this directory's; mirror skipped''))
                 (ret False)
               else mirror_under rq k n tr)
           else
             bnd (from_res (tr k n)) (\<lambda>wid.
               if i_method rq = ''PATCH'' then mirror_patch rq k wid tr
               else if i_method rq = ''DELETE'' then mirror_delete rq k n wid
               else ret False)))"

definition delete_already_gone :: "inbound \<Rightarrow> upstream_result \<Rightarrow> bool" where
  "delete_already_gone rq native \<longleftrightarrow>
     i_method rq = ''DELETE'' \<and> u_status native = 404
     \<and> (case p_kind (i_path rq) of None \<Rightarrow> False | Some k \<Rightarrow> path_spells_id (i_path rq) k)"

text \<open>The task the handler leaves behind once the native app has answered.\<close>

definition dual_write_tail :: "inbound \<Rightarrow> kind \<Rightarrow> upstream_result \<Rightarrow> unit m" where
  "dual_write_tail rq k native =
     (let gone = delete_already_gone rq native in
      thn (if is_success (u_status native) \<or> gone then
             thn (if \<not> gone then clear_divergence_for_write rq native False else ret ())
             (bnd (try_catch (mirror_dual_write rq k native)
                    (\<lambda>er. thn (log_error (''mirror failed: '' @ error_message er)) (ret False))) (\<lambda>mirrored.
               if gone \<and> mirrored then clear_divergence_for_write rq native True else ret ()))
           else ret ())
       (persist_log (Some (i_directory rq))))"

definition dual_write :: "inbound \<Rightarrow> kind \<Rightarrow> response m" where
  "dual_write rq k =
     bnd (settle (native_fetch rq)) (\<lambda>r. case r of
       Inl er \<Rightarrow>
         thn (log_error (error_message er))
         (thn (set_log (\<lambda>l. l\<lparr>l_response_status := Some 502\<rparr>))
         (thn (persist_log (Some (i_directory rq)))
           (ret (scim_error 502 ''The native SCIM endpoint could not be reached.''))))
     | Inr native \<Rightarrow>
         thn (log_native (Some native))
         (thn (set_log (\<lambda>l. l\<lparr>l_response_status := Some (u_status native)\<rparr>))
         (bnd (upstream_response native (native_forward rq)) (\<lambda>response.
           thn (dual_write_tail rq k native) (ret response)))))"

end
