(* ===== verification/WorkosOnly.thy ===== *)
theory WorkosOnly
  imports DualWrite
begin

text \<open>
  The rung \<open>workos-only\<close> of \<open>workers/proxy/index.ts\<close> (\<open>workosOnly\<close>, \<open>createWithMigratedId\<close>,
  \<open>replaceWithMigratedId\<close>): WorkOS answers the IdP in native-id space.  The reads and the WorkOS leg
  of \<open>workos-primary\<close> run through it as well.
\<close>

definition rejected_status :: "mirror_result \<Rightarrow> nat" where
  "rejected_status r = (case mr_status r of None \<Rightarrow> 502 | Some st \<Rightarrow> if 400 \<le> st then st else 502)"

definition error_or_unknown :: "string option \<Rightarrow> string" where
  "error_or_unknown er = (case er of None \<Rightarrow> ''unknown error'' | Some s \<Rightarrow> s)"

definition json_response :: "nat \<Rightarrow> object \<Rightarrow> response" where
  "json_response st obj = \<lparr>r_status = st, r_body = Some (Doc (JObj obj)),
     r_headers = [(''Content-Type'', scim_content_type)]\<rparr>"

definition create_with_migrated_id ::
    "directory \<Rightarrow> kind \<Rightarrow> payload option \<Rightarrow> translator \<Rightarrow> response m" where
  "create_with_migrated_id d k request_body to_workos =
     bnd (from_res (mirror_body k to_workos request_body)) (\<lambda>body0.
     let body = del_prop ''id'' body0 in
     bnd (native_namespace_is_shared d) (\<lambda>shared.
     bnd (case string_value (getp body ''externalId'') of
            Some x \<Rightarrow> if shared then random_uuid else ret x
          | None \<Rightarrow> random_uuid) (\<lambda>minted.
     bnd (mirror_upsert d k minted body None False) (\<lambda>(result, _).
     thn (apply_mirror_result result)
      (if \<not> mr_ok result then
         ret (scim_error (rejected_status result)
           (''The WorkOS endpoint rejected the migrated-id create: '' @ error_or_unknown (mr_error result) @ ''.''))
       else ret (json_response 201 (set_prop ''id'' (JStr minted)
              (case parse_json (mr_body result) of Some created \<Rightarrow> created | None \<Rightarrow> body))))))))"

definition replace_with_migrated_id ::
    "directory \<Rightarrow> kind \<Rightarrow> string \<Rightarrow> payload option \<Rightarrow> translator \<Rightarrow> response m" where
  "replace_with_migrated_id d k n request_body to_workos =
     bnd (from_res (mirror_body k to_workos request_body)) (\<lambda>body.
     bnd (unattributable d k n) (\<lambda>u.
     if u then
       thn (log_error (kind_name k @ ''/'' @ n @ '': unmapped, and another directory fronts this native app, so the id in the request cannot be adopted as this directory's; replace refused''))
        (ret (scim_error 404 (''No '' @ kind_name k @ '' resource with id '' @ n
          @ '' is mapped for this directory, so it cannot be replaced. Create it first and use the id the response carries.'')))
     else
       bnd (mirror_upsert d k n body None (dir_mode d = WorkosPrimary)) (\<lambda>(result, _).
       thn (apply_mirror_result result)
        (if \<not> mr_ok result then
           ret (scim_error (rejected_status result)
             (''The WorkOS endpoint rejected the migrated-id replace: '' @ error_or_unknown (mr_error result) @ ''.''))
         else
           bnd (load_id_maps (dir_id d) False) (\<lambda>maps.
           bnd (from_res (translate_resource_ids k (make_translator (workos_to_native maps))
                  (case parse_json (mr_body result) of Some r \<Rightarrow> r
                   | None \<Rightarrow> set_prop ''id'' (JStr n) body))) (\<lambda>rewritten.
             ret (json_response 200 (set_prop ''id'' (JStr n) rewritten))))))))"

subsection \<open>Unmapped resources in a response\<close>

fun res_any :: "('a \<Rightarrow> bool res) \<Rightarrow> 'a list \<Rightarrow> bool res" where
  "res_any f [] = Inr False"
| "res_any f (x # xs) = res_bind (f x) (\<lambda>b. if b then Inr True else res_any f xs)"

definition unmapped_member :: "checked_map \<Rightarrow> json \<Rightarrow> bool res" where
  "unmapped_member users v = (case as_object (Some v) of
       None \<Rightarrow> Inr True
     | Some obj \<Rightarrow> (case as_string (getp obj ''value'') of
         None \<Rightarrow> Inr True
       | Some i \<Rightarrow> res_map Not (map_has users i)))"

definition unmapped_resource :: "(kind \<Rightarrow> checked_map) \<Rightarrow> kind \<Rightarrow> json \<Rightarrow> bool res" where
  "unmapped_resource maps k v = (case as_object (Some v) of
       None \<Rightarrow> Inr True
     | Some obj \<Rightarrow> (case as_string (getp obj ''id'') of
         None \<Rightarrow> Inr True
       | Some i \<Rightarrow> res_bind (map_has (maps k) i) (\<lambda>h.
           if \<not> h then Inr True
           else case as_array (getp obj ''members'') of
             None \<Rightarrow> Inr False
           | Some ms \<Rightarrow> res_any (unmapped_member (maps Users)) ms)))"

definition has_unmapped_resource :: "(kind \<Rightarrow> checked_map) \<Rightarrow> kind \<Rightarrow> object \<Rightarrow> bool res" where
  "has_unmapped_resource maps k parsed = res_any (unmapped_resource maps k)
     (case as_array (getp parsed ''Resources'') of Some rs \<Rightarrow> rs | None \<Rightarrow> [JObj parsed])"

subsection \<open>The rung\<close>

definition translated_response ::
    "inbound \<Rightarrow> kind \<Rightarrow> id_maps \<Rightarrow> upstream_result \<Rightarrow> (response \<Rightarrow> response m) \<Rightarrow> response m" where
  "translated_response rq k maps workos fin =
     (let d = i_directory rq;
          to_native = make_translator (workos_to_native maps);
          id_forward = (workos_forward rq)\<lparr>fw_to_idp_id := Some (to_native k)\<rparr>;
          parsed = parse_json (u_body workos) in
      bnd (from_res (if dir_mode d = WorkosPrimary \<and> i_method rq = ''GET'' \<and> is_success (u_status workos)
                     then (case parsed of None \<Rightarrow> Inr False
                           | Some obj \<Rightarrow> has_unmapped_resource (workos_to_native maps) k obj)
                     else Inr False)) (\<lambda>unmapped.
      if unmapped then
        fin (scim_error (if p_id (i_path rq) = None then 409 else 404) ''WorkOS returned a resource without a native id mapping for this directory. Repair the mapping before reading the resource.'')
      else (case parsed of
          None \<Rightarrow> bnd (upstream_response workos id_forward) fin
        | Some obj \<Rightarrow>
            bnd (from_res (if as_array (getp obj ''Resources'') \<noteq> None
                   then translate_list_response k to_native obj
                   else translate_resource_ids k to_native obj)) (\<lambda>rewritten.
            bnd (proxied_headers workos (id_forward\<lparr>fw_body_rewritten := True\<rparr>)) (\<lambda>hs.
              fin \<lparr>r_status = u_status workos, r_body = Some (Doc (JObj rewritten)), r_headers = hs\<rparr>)))))"

definition prune_mapping :: "inbound \<Rightarrow> upstream_result \<Rightarrow> unit m" where
  "prune_mapping rq workos =
     (let d = i_directory rq in
      case p_kind (i_path rq) of
        None \<Rightarrow> ret ()
      | Some k \<Rightarrow> (case nonempty_or_none (p_id (i_path rq)) of
          None \<Rightarrow> ret ()
        | Some n \<Rightarrow>
            if i_method rq \<noteq> ''DELETE'' \<or> dir_mode d = WorkosPrimary then ret ()
            else if is_success (u_status workos) \<or> u_status workos = 404 then
              try_catch (delete_mapping (dir_id d) k n)
                (\<lambda>er. log_error (''id mapping prune failed: '' @ error_message er))
            else log_error (''WorkOS DELETE returned '' @ show_nat (u_status workos)
                   @ ''; id mapping kept for repair'')))"

text \<open>The exchange itself, once the path and the body are in WorkOS-id space.\<close>

definition workos_exchange ::
    "inbound \<Rightarrow> string \<Rightarrow> payload option \<Rightarrow> id_maps option \<Rightarrow> (response \<Rightarrow> response m) \<Rightarrow> response m" where
  "workos_exchange rq out_path out_body maps fin =
     (let d = i_directory rq; search = url_search (i_url rq) in
      thn (set_log (\<lambda>l. l\<lparr>l_workos_request := Some (i_method rq @ '' '' @ out_path @ search)\<rparr>))
      (bnd (join_scim_url (workos_url d) out_path) (\<lambda>u.
       bnd (settle (scim_fetch Workos (u @ search) (i_method rq) (workos_token d) out_body
              (i_content_type rq) None [])) (\<lambda>r. case r of
         Inl er \<Rightarrow> thn (log_error (error_message er))
           (fin (scim_error 502 ''The WorkOS SCIM endpoint could not be reached.''))
       | Inr workos \<Rightarrow>
           thn (apply_workos_leg workos)
           (thn (prune_mapping rq workos)
             (case p_kind (i_path rq) of
                None \<Rightarrow> bnd (upstream_response workos (workos_forward rq)) fin
              | Some k \<Rightarrow> (case maps of
                  None \<Rightarrow> bnd (upstream_response workos (workos_forward rq)) fin
                | Some mp \<Rightarrow> translated_response rq k mp workos fin)))))))"

definition workos_only :: "inbound \<Rightarrow> (response \<Rightarrow> response m) \<Rightarrow> response m" where
  "workos_only rq fin =
     (let d = i_directory rq; p = i_path rq in
      case p_kind p of
        None \<Rightarrow> workos_exchange rq (p_rest p) (i_body rq) None fin
      | Some k \<Rightarrow>
          bnd (load_id_maps (dir_id d) False) (\<lambda>maps.
          let to_workos = make_translator (native_to_workos maps);
              target = nonempty_or_none (p_id p) in
          if i_method rq = ''POST''
          then bnd (create_with_migrated_id d k (i_body rq) to_workos) fin
          else if i_method rq = ''PUT'' \<and> target \<noteq> None
          then bnd (replace_with_migrated_id d k (the target) (i_body rq) to_workos) fin
          else
            bnd (case target of
                   None \<Rightarrow> ret (p_rest p)
                 | Some n \<Rightarrow> bnd (from_res (to_workos k n)) (\<lambda>wid. ret (resource_path k wid))) (\<lambda>out_path.
            bnd (if i_body rq \<noteq> None \<and> i_method rq = ''PATCH''
                 then bnd (from_res (translate_patch_ids k to_workos (parse_json (i_body rq)))) (\<lambda>t.
                   ret (case t of None \<Rightarrow> i_body rq | Some b \<Rightarrow> Some (Doc (JObj b))))
                 else ret (i_body rq)) (\<lambda>out_body.
              workos_exchange rq out_path out_body (Some maps) fin))))"

end
