(* ===== verification/Primary.thy ===== *)
theory Primary
  imports WorkosOnly
begin

text \<open>
  The rung \<open>workos-primary\<close> of \<open>workers/proxy/index.ts\<close>: WorkOS answers the IdP and the native app
  receives the same write at the same time.  This theory holds every write but the create
  (\<open>workosPrimary\<close>, \<open>workosPrimaryWrite\<close>); creates are in theory PrimaryCreate.

  The two legs are started together and awaited together; the model runs the one that is started
  first to its end before the other.  A mutable stage object of the source (\<open>canRelease\<close>,
  \<open>writesStarted\<close>) appears as the split into checks, whose failures release the claim, and legs,
  which return whether the claim may be released.
\<close>

subsection \<open>Group members a native write addresses\<close>

lemma size_getp: "getp obj k = Some v \<Longrightarrow> size v < size (JObj obj)"
  by (induction obj) (auto split: if_splits)

function collect_members :: "json \<Rightarrow> string list" where
  "collect_members (JArr xs) = concat (map collect_members xs)"
| "collect_members (JObj obj) =
     (case as_string (getp obj ''value'') of None \<Rightarrow> [] | Some i \<Rightarrow> [i])
     @ (case getp obj ''members'' of None \<Rightarrow> [] | Some ms \<Rightarrow> collect_members ms)"
| "collect_members JNull = []"
| "collect_members (JBool b) = []"
| "collect_members (JNum n) = []"
| "collect_members (JStr s) = []"
  by pat_completeness auto
termination
  by (relation "measure size") (auto dest: size_getp intro: size_list_estimation less_Suc_eq_le[THEN iffD2] size_list_estimation')

text \<open>\<open>/members\s*\[\s*value\s+eq\s+"([^"]+)"\s*\]/gi\<close>.\<close>

definition skip_spaces :: "string \<Rightarrow> string" where
  "skip_spaces s = dropWhile js_space s"

definition eat_word :: "string \<Rightarrow> string \<Rightarrow> string option" where
  "eat_word wd s = (if to_lower (take (length wd) s) = wd then Some (drop (length wd) s) else None)"

definition eat_spaces1 :: "string \<Rightarrow> string option" where
  "eat_spaces1 s = (case s of [] \<Rightarrow> None | c # t \<Rightarrow> if js_space c then Some (skip_spaces t) else None)"

definition match_member_ci :: "string \<Rightarrow> (string \<times> string) option" where
  "match_member_ci s =
     Option.bind (eat_word ''members'' s) (\<lambda>s1.
     Option.bind (eat_word ''['' (skip_spaces s1)) (\<lambda>s2.
     Option.bind (eat_word ''value'' (skip_spaces s2)) (\<lambda>s3.
     Option.bind (eat_spaces1 s3) (\<lambda>s4.
     Option.bind (eat_word ''eq'' s4) (\<lambda>s5.
     Option.bind (eat_spaces1 s5) (\<lambda>s6.
     Option.bind (eat_word [dquote] s6) (\<lambda>s7.
     let i = takeWhile (\<lambda>c. c \<noteq> dquote) s7 in
     Option.bind (eat_word [dquote] (dropWhile (\<lambda>c. c \<noteq> dquote) s7)) (\<lambda>s8.
     Option.bind (eat_word '']'' (skip_spaces s8)) (\<lambda>s9.
       if i = [] then None else Some (i, s9))))))))))"

text \<open>All matches from left to right; a match is followed by the text after it, so scanning every
  suffix with a skip count of the characters already consumed gives the same ids.\<close>

fun member_filters :: "nat \<Rightarrow> string \<Rightarrow> string list" where
  "member_filters skip [] = []"
| "member_filters skip (c # s) =
     (if 0 < skip then member_filters (skip - 1) s
      else case match_member_ci (c # s) of
        None \<Rightarrow> member_filters 0 s
      | Some (i, rest) \<Rightarrow> i # member_filters (length s - length rest) s)"

text \<open>\<open>/^members(?:\b|\[)/i\<close>: the word ends there.\<close>

definition word_char :: "char \<Rightarrow> bool" where
  "word_char c \<longleftrightarrow> (let n = of_char c :: nat in
     (48 \<le> n \<and> n \<le> 57) \<or> (65 \<le> n \<and> n \<le> 90) \<or> n = 95 \<or> (97 \<le> n \<and> n \<le> 122))"

definition members_path :: "string \<Rightarrow> bool" where
  "members_path s = (case eat_word ''members'' s of
       None \<Rightarrow> False | Some [] \<Rightarrow> True | Some (c # t) \<Rightarrow> \<not> word_char c)"

definition optional_members :: "json option \<Rightarrow> string list" where
  "optional_members v = (case v of None \<Rightarrow> [] | Some x \<Rightarrow> collect_members x)"

definition operation_members :: "json \<Rightarrow> string list" where
  "operation_members v = (case as_object (Some v) of
       None \<Rightarrow> []
     | Some op \<Rightarrow>
         let path = (case as_string (getp op ''path'') of None \<Rightarrow> [] | Some p \<Rightarrow> p) in
         member_filters 0 path
         @ (if path = [] \<or> members_path path then optional_members (getp op ''value'') else []))"

definition workos_primary_member_ids :: "object option \<Rightarrow> string \<Rightarrow> string list" where
  "workos_primary_member_ids body meth = (case body of
       None \<Rightarrow> []
     | Some b \<Rightarrow> dedupe (optional_members (getp b ''members'')
         @ (if meth = ''PATCH'' then
              (case as_array (getp b ''Operations'') of
                 None \<Rightarrow> [] | Some ops \<Rightarrow> concat (map operation_members ops))
            else [])))"

subsection \<open>Checks before any write\<close>

fun first_unmapped :: "string \<Rightarrow> string list \<Rightarrow> bool m" where
  "first_unmapped d [] = ret False"
| "first_unmapped d (i # is) = bnd (get_mapping d Users i) (\<lambda>mp.
     if mp = None then ret True else first_unmapped d is)"

definition member_refusal :: "inbound \<Rightarrow> kind \<Rightarrow> response option m" where
  "member_refusal rq k =
     (if k = Groups \<and> i_method rq \<noteq> ''DELETE'' then
        bnd (first_unmapped (dir_id (i_directory rq))
               (workos_primary_member_ids (parse_json (i_body rq)) (i_method rq))) (\<lambda>missing.
          ret (if missing then Some (scim_error 409 ''A group member has no native id mapping for this directory. Repair the mapping before writing the group.'')
               else None))
      else ret None)"

definition id_refusal :: "inbound \<Rightarrow> kind \<Rightarrow> response option m" where
  "id_refusal rq k = (case p_id (i_path rq) of
       None \<Rightarrow> ret None
     | Some i \<Rightarrow>
         let d = dir_id (i_directory rq) in
         bnd (both (get_mapping d k i) (get_mapping_by_workos_id d k i)) (\<lambda>(as_native, as_workos).
           ret (if as_native \<noteq> None then None
                else if as_workos \<noteq> None then
                  Some (scim_error 404 (''No '' @ kind_name k @ '' resource with id '' @ i
                    @ ''. Address the resource by the id this directory returned for it.''))
                else Some (scim_error 409 ''This id has no native mapping for this directory. Run backfill or reconciliation before writing the resource.''))))"

definition prewrite_failure :: "err \<Rightarrow> response m" where
  "prewrite_failure er =
     thn (log_error (''Prewrite checks failed: '' @ error_message er))
      (ret (retry_after (scim_error 503
        (if er = Ambiguous then ''SCIM mapping ownership is ambiguous. Repair the mappings before retrying.''
         else ''The write's preflight checks could not be completed. Retry after the datastore is available.''))))"

subsection \<open>Both legs\<close>

definition certain_delete_outcome :: "nat option \<Rightarrow> bool" where
  "certain_delete_outcome st = (case st of None \<Rightarrow> False
     | Some n \<Rightarrow> n = 200 \<or> n = 204 \<or> (400 \<le> n \<and> n < 500 \<and> n \<noteq> 408))"

definition incomplete_delete_outcome :: "nat option \<Rightarrow> bool" where
  "incomplete_delete_outcome st = (case st of None \<Rightarrow> False
     | Some n \<Rightarrow> 200 \<le> n \<and> n < 400 \<and> n \<noteq> 200 \<and> n \<noteq> 204)"

definition resource_key :: "inbound \<Rightarrow> string" where
  "resource_key rq = (case p_id (i_path rq) of
       Some i \<Rightarrow> i | None \<Rightarrow> i_method rq @ '' '' @ p_rest (i_path rq))"

text \<open>What follows once neither leg is missing the write; the flag is \<open>canRelease\<close>.\<close>

definition settle_both ::
    "inbound \<Rightarrow> kind \<Rightarrow> upstream_result \<Rightarrow> response \<Rightarrow> bool \<Rightarrow> bool \<Rightarrow> (response \<times> bool) m" where
  "settle_both rq k native workos_response workos_gone can_release =
     (let d = i_directory rq; fin = finish (Some d) in
      thn (clear_native_write_failure (dir_id d) k (resource_key rq))
      (bnd (case p_id (i_path rq) of
              None \<Rightarrow> ret can_release
            | Some i \<Rightarrow>
                if i_method rq = ''DELETE'' then
                  try_catch (thn (delete_mapping (dir_id d) k i) (ret can_release))
                    (\<lambda>er. thn (log_error (''id mapping prune failed: '' @ error_message er)) (ret False))
                else ret can_release) (\<lambda>release.
       bnd (fin (if workos_gone
                 then \<lparr>r_status = u_status native, r_body = u_body native,
                       r_headers = [(''Content-Type'', content_type_of (u_content_type native))]\<rparr>
                 else workos_response)) (\<lambda>r.
         ret (r, release)))))"

text \<open>What the handler makes of the two answers.\<close>

definition leg_landed :: "inbound \<Rightarrow> kind \<Rightarrow> native_leg \<Rightarrow> bool" where
  "leg_landed rq k native = (case leg_result native of
       None \<Rightarrow> False
     | Some r \<Rightarrow> is_success (u_status r)
         \<or> (i_method rq = ''DELETE'' \<and> u_status r = 404 \<and> path_spells_id (i_path rq) k))"

definition primary_answer :: "inbound \<Rightarrow> kind \<Rightarrow> response \<Rightarrow> native_leg \<Rightarrow> (response \<times> bool) m" where
  "primary_answer rq k workos_response native =
     (let d = i_directory rq; fin = finish (Some d);
          is_delete = (i_method rq = ''DELETE'') in
      thn (log_native (leg_result native))
      (bnd get_log (\<lambda>l.
       let native_status = leg_status native;
           workos_status = l_workos_status l;
           can_release = certain_delete_outcome native_status \<and> certain_delete_outcome workos_status in
       if is_delete \<and> (incomplete_delete_outcome native_status \<or> incomplete_delete_outcome workos_status)
       then
         let msg = ''The SCIM endpoints have not confirmed this deletion is complete; its mapping and recovery claim are retained.'' in
         thn (log_error msg) (bnd (fin (scim_error 502 msg)) (\<lambda>r. ret (r, can_release)))
       else
         let committed = is_success (r_status workos_response);
             workos_gone = is_delete \<and> r_status workos_response = 404 in
         (case leg_result native of
            Some nr \<Rightarrow>
              if \<not> leg_landed rq k native then
                bnd (native_leg_failed d k (resource_key rq) (i_method rq) native committed) (\<lambda>r0.
                bnd (fin r0) (\<lambda>r. ret (r, can_release)))
              else if \<not> committed \<and> \<not> workos_gone then
                bnd (fin workos_response) (\<lambda>r. ret (r, can_release))
              else settle_both rq k nr workos_response workos_gone can_release
          | None \<Rightarrow>
              bnd (native_leg_failed d k (resource_key rq) (i_method rq) native committed) (\<lambda>r0.
              bnd (fin r0) (\<lambda>r. ret (r, can_release)))))))"

definition primary_legs :: "inbound \<Rightarrow> kind \<Rightarrow> (response \<times> bool) m" where
  "primary_legs rq k =
     bnd (both (workos_only rq ret) (native_write rq)) (\<lambda>(workos_response, native).
       primary_answer rq k workos_response native)"

subsection \<open>Writes other than creates\<close>

text \<open>A DELETE holds the claim of its resource type from before the checks until both legs and the
  mapping cleanup are settled.\<close>

definition primary_delete :: "inbound \<Rightarrow> kind \<Rightarrow> response m" where
  "primary_delete rq k =
     (let d = i_directory rq; fin = finish (Some d) in
      bnd random_uuid (\<lambda>token.
      let release = release_workos_primary_create (dir_id d) k token;
          abandon = (\<lambda>er. thn release (bnd (prewrite_failure er) fin)) in
      bnd (settle (claim_workos_primary_create (dir_id d) k token)) (\<lambda>c.
      case c of
        Inl er \<Rightarrow> abandon er
      | Inr got \<Rightarrow>
          if \<not> got then
            let msg = ''Another create, recovery or reconciliation owns this resource type. Retry after it completes.'' in
            thn (log_error msg) (fin (retry_after (scim_error 503 msg)))
          else
            bnd (settle (bnd (load_id_maps (dir_id d) False) (\<lambda>maps.
                   case p_id (i_path rq) of
                     None \<Rightarrow> ret ()
                   | Some i \<Rightarrow> bnd (from_res (map_get (native_to_workos maps k) i)) (\<lambda>_. ret ())))) (\<lambda>pre.
            case pre of
              Inl er \<Rightarrow> abandon er
            | Inr _ \<Rightarrow>
                bnd (settle (bnd (member_refusal rq k) (\<lambda>r. case r of
                       Some x \<Rightarrow> ret (Some (x, False))
                     | None \<Rightarrow> bnd (id_refusal rq k) (\<lambda>r'. ret (map_option (\<lambda>x. (x, True)) r'))))) (\<lambda>chk.
                case chk of
                  Inl er \<Rightarrow> abandon er
                | Inr (Some (refusal, free)) \<Rightarrow>
                    bnd (fin refusal) (\<lambda>r. if free then thn release (ret r) else ret r)
                | Inr None \<Rightarrow>
                    bnd (primary_legs rq k) (\<lambda>(r, free). if free then thn release (ret r) else ret r))))))"

definition primary_write :: "inbound \<Rightarrow> kind \<Rightarrow> response m" where
  "primary_write rq k =
     bnd (member_refusal rq k) (\<lambda>r. case r of
       Some x \<Rightarrow> finish (Some (i_directory rq)) x
     | None \<Rightarrow>
         bnd (id_refusal rq k) (\<lambda>r'. case r' of
           Some x \<Rightarrow> finish (Some (i_directory rq)) x
         | None \<Rightarrow> bnd (primary_legs rq k) (\<lambda>(x, _). ret x)))"

end
