(* ===== verification/PrimaryCreate.thy ===== *)
theory PrimaryCreate
  imports Primary
begin

text \<open>
  Creates on \<open>workos-primary\<close> (\<open>workosPrimaryCreate\<close>, \<open>workosPrimaryCreateClaimed\<close>,
  \<open>nativeCreate\<close>, \<open>findNativeByUniqueAttribute\<close> of \<open>workers/proxy/index.ts\<close>): the claim of the
  resource type, the collision checks of the identifier, the two legs, the compensation of a
  refused create, and the mapping that links the two sides.
\<close>

record native_create_leg = native_leg +
  leg_id :: "string option"

definition carries_value :: "string \<Rightarrow> string \<Rightarrow> json \<Rightarrow> bool" where
  "carries_value attribute v entry = (case as_object (Some entry) of
       None \<Rightarrow> False
     | Some obj \<Rightarrow> (case as_string (getp obj attribute) of
         None \<Rightarrow> False | Some s \<Rightarrow> to_lower s = to_lower v))"

definition find_native_by_unique_attribute :: "directory \<Rightarrow> kind \<Rightarrow> object option \<Rightarrow> string option m" where
  "find_native_by_unique_attribute d k resource =
     (case (case resource of None \<Rightarrow> None | Some obj \<Rightarrow> unique_attribute_value k obj) of
        None \<Rightarrow> ret None
      | Some v \<Rightarrow>
          let attribute = unique_attribute k in
          bnd (join_scim_url (native_url d) (collection_path k)) (\<lambda>u.
          bnd (settle (plain_fetch Native (u @ ''?filter='' @ encode_uri_component (attribute_filter attribute v))
                 ''GET'' (native_token d) None)) (\<lambda>r. case r of
            Inl er \<Rightarrow> ret None
          | Inr lookup \<Rightarrow>
              (case find (carries_value attribute v) (listed_resources (u_body lookup)) of
                 Some (JObj obj) \<Rightarrow> ret (as_string (getp obj ''id''))
               | _ \<Rightarrow> ret None))))"

definition native_create :: "inbound \<Rightarrow> kind \<Rightarrow> native_create_leg m" where
  "native_create rq k =
     (let d = i_directory rq;
          leg = (\<lambda>r er i. \<lparr>leg_result = r, leg_error = er, leg_id = i\<rparr>) in
      bnd (join_scim_url (native_url d) (collection_path k)) (\<lambda>u.
      bnd (settle (scim_fetch Native (u @ url_search (i_url rq)) ''POST'' (native_token d)
             (i_body rq) (i_content_type rq) None [])) (\<lambda>r. case r of
        Inl er \<Rightarrow> ret (leg None (Some (error_message er)) None)
      | Inr res \<Rightarrow>
          if is_success (u_status res) then
            (case (case parse_json (u_body res) of None \<Rightarrow> None | Some obj \<Rightarrow> as_string (getp obj ''id'')) of
               None \<Rightarrow> ret (leg (Some res) (Some ''the native create response carried no id'') None)
             | Some i \<Rightarrow> ret (leg (Some res) None (Some i)))
          else if u_status res \<noteq> 409 then ret (leg (Some res) None None)
          else
            bnd (find_native_by_unique_attribute d k (parse_json (i_body rq))) (\<lambda>existing.
            case existing of
              None \<Rightarrow> ret (leg (Some res) (Some ''native returned 409 and the existing resource could not be resolved'') None)
            | Some i \<Rightarrow>
                bnd (unattributable d k i) (\<lambda>foreign.
                  if foreign then ret (leg (Some res) (Some ''native returned 409 and another directory fronts this native app, so the row it resolves to cannot be attributed to this directory; the create was not adopted rather than claim a neighbour's row. Migrate this directory against a native namespace it has to itself.'') None)
                  else ret (leg (Some res) None (Some i)))))))"

definition is_definitive_create_rejection :: "nat option \<Rightarrow> bool" where
  "is_definitive_create_rejection st = (case st of None \<Rightarrow> False
     | Some n \<Rightarrow> 400 \<le> n \<and> n < 500 \<and> n \<noteq> 408 \<and> n \<noteq> 409)"

text \<open>The local \<open>finish\<close>: while the claim is retained the answer is 502 whatever was computed.\<close>

definition outcome :: "bool \<Rightarrow> response \<Rightarrow> (response \<times> bool) m" where
  "outcome release_claim r =
     (if release_claim then ret (r, True)
      else thn (set_log (\<lambda>l. l\<lparr>l_error := (case l_error l of
               None \<Rightarrow> Some ''Create claim retained: upstream writes are unresolved or lack a mapping.''
             | Some er \<Rightarrow> Some er)\<rparr>))
        (ret (scim_error 502 ''The create's upstream writes are unresolved. Further creates of this resource type are blocked until an operator checks both upstreams and recovers the create claim.'', False)))"

subsection \<open>Identifier checks before either leg\<close>

record create_plan =
  plan_body :: object
  plan_external :: "string option"
  plan_mint :: "string option"
  plan_claimed :: "id_mapping option"
  plan_key :: string

definition proven_retry :: "directory \<Rightarrow> kind \<Rightarrow> object \<Rightarrow> id_mapping \<Rightarrow> bool m" where
  "proven_retry d k parsed mp =
     bnd (if unique_attribute_value k parsed \<noteq> None
          then find_native_by_unique_attribute d k (Some parsed) else ret None) (\<lambda>prior.
       ret (prior = Some (m_native mp)))"

text \<open>\<open>Inl\<close> is the 409 refusal.  The mint id is looked up in both id columns; a hit is let through
  only when the native app proves that this create repeats the mapped one.\<close>

definition create_checks :: "inbound \<Rightarrow> kind \<Rightarrow> (response + create_plan) m" where
  "create_checks rq k =
     (let d = i_directory rq;
          parsed = (case parse_json (i_body rq) of None \<Rightarrow> [] | Some b \<Rightarrow> b) in
      bnd (load_id_maps (dir_id d) False) (\<lambda>maps.
      bnd (from_res (if k = Groups then translate_resource_ids k (make_translator (native_to_workos maps)) parsed
                     else Inr parsed)) (\<lambda>body0.
      let external = string_value (getp parsed ''externalId'');
          key = (case external of Some x \<Rightarrow> x | None \<Rightarrow>
             (case unique_attribute_value k parsed of Some v \<Rightarrow> v | None \<Rightarrow> ''POST /'' @ kind_name k)) in
      bnd (case external of
             None \<Rightarrow> ret None
           | Some x \<Rightarrow> bnd (native_namespace_is_shared d) (\<lambda>shared.
               if shared then bnd random_uuid (\<lambda>i. ret (nonempty_or_none (Some i))) else ret (Some x))) (\<lambda>mint.
      let plan = \<lparr>plan_body = del_prop ''id'' body0, plan_external = external, plan_mint = mint,
                  plan_claimed = None, plan_key = key\<rparr> in
      case mint of
        None \<Rightarrow> ret (Inr plan)
      | Some i \<Rightarrow>
          bnd (get_mapping_by_workos_id (dir_id d) k i) (\<lambda>claimed_mint.
          case claimed_mint of
            Some c \<Rightarrow>
              bnd (proven_retry d k parsed c) (\<lambda>proven.
                if proven then ret (Inr (plan\<lparr>plan_claimed := Some c\<rparr>))
                else
                  let msg = mint_conflict_detail k (m_workos c) (m_native c) in
                  thn (log_error msg) (ret (Inl (scim_error 409 msg))))
          | None \<Rightarrow>
              bnd (get_mapping (dir_id d) k i) (\<lambda>aliased.
              case aliased of
                None \<Rightarrow> ret (Inr plan)
              | Some a \<Rightarrow>
                  bnd (from_res (map_get (native_to_workos maps k) (m_native a))) (\<lambda>_.
                  bnd (proven_retry d k parsed a) (\<lambda>proven.
                    if proven then ret (Inr (plan\<lparr>plan_claimed := Some a\<rparr>))
                    else
                      let msg = kind_name k @ ''/'' @ i @ '' already names a resource in this directory, so a create cannot reuse it as an externalId. Address that resource by the id this directory returned for it, or create the resource without reusing an existing id.'' in
                      thn (log_error msg) (ret (Inl (scim_error 409 msg)))))))))))"

subsection \<open>Both legs of a create\<close>

definition claimed_differs :: "id_mapping option \<Rightarrow> string \<Rightarrow> bool" where
  "claimed_differs c i = (case c of None \<Rightarrow> False | Some mp \<Rightarrow> m_native mp \<noteq> i)"

definition create_legs ::
    "inbound \<Rightarrow> kind \<Rightarrow> create_plan \<Rightarrow> (native_create_leg \<times> (mirror_result \<times> sink) option) m" where
  "create_legs rq k plan =
     (let d = i_directory rq in
      case (plan_mint plan, plan_claimed plan) of
        (Some i, None) \<Rightarrow>
          both (native_create rq k)
               (bnd (mirror_upsert d k i (plan_body plan) (Some []) False) (\<lambda>r. ret (Some r)))
      | _ \<Rightarrow>
          bnd (native_create rq k) (\<lambda>native.
            case leg_id native of
              None \<Rightarrow> ret (native, None)
            | Some n \<Rightarrow>
                if claimed_differs (plan_claimed plan) n then ret (native, None)
                else bnd (mirror_upsert d k n (plan_body plan) (Some []) False) (\<lambda>r. ret (native, Some r))))"

subsection \<open>What a create that native refused leaves to do\<close>

text \<open>Removing the WorkOS row this create made; \<open>True\<close> when it is gone.\<close>

definition compensate :: "inbound \<Rightarrow> kind \<Rightarrow> create_plan \<Rightarrow> native_create_leg \<Rightarrow> mirror_result option \<Rightarrow> bool m" where
  "compensate rq k plan native mirror =
     (let d = i_directory rq in
      case (case mirror of None \<Rightarrow> None | Some mr \<Rightarrow> nonempty_or_none (mr_created mr)) of
        None \<Rightarrow> ret False
      | Some created \<Rightarrow>
          if leg_error native = None
             \<and> is_definitive_create_rejection (map_option u_status (leg_result native)) then
            bnd (get_mapping_by_workos_id (dir_id d) k created) (\<lambda>owner.
            if owner \<noteq> None then ret False
            else
              try_catch
                (bnd (join_scim_url (workos_url d) (resource_path k created)) (\<lambda>u.
                 bnd (plain_fetch Workos u ''DELETE'' (workos_token d) None) (\<lambda>rollback.
                 if is_success (u_status rollback) \<or> u_status rollback = 404 then
                   thn (clear_native_write_failure (dir_id d) k (plan_key plan))
                   (thn (log_error (''Native refused the create; removed newly created WorkOS ''
                            @ kind_name k @ ''/'' @ created @ ''.''))
                     (ret True))
                 else thn (log_error (''Native refused the create; WorkOS compensation returned ''
                         @ show_nat (u_status rollback) @ ''. Create claim retained.''))
                   (ret False))))
                (\<lambda>er. thn (log_error (''Native refused the create; WorkOS compensation is unresolved: ''
                         @ error_message er @ ''. Create claim retained.'')) (ret False)))
          else ret False)"

definition plain_leg :: "native_create_leg \<Rightarrow> native_leg" where
  "plain_leg n = \<lparr>leg_result = leg_result n, leg_error = leg_error n\<rparr>"

definition create_refused ::
    "inbound \<Rightarrow> kind \<Rightarrow> create_plan \<Rightarrow> native_create_leg \<Rightarrow> mirror_result option \<Rightarrow> bool \<Rightarrow> (response \<times> bool) m" where
  "create_refused rq k plan native mirror release_claim =
     bnd (compensate rq k plan native mirror) (\<lambda>removed.
     if removed then outcome True (native_failure_response (plain_leg native))
     else
       thn (case mirror of
              Some mr \<Rightarrow>
                if mr_ok mr then
                  record_native_write_failure (dir_id (i_directory rq)) k (plan_key plan) ''POST''
                    (map_option u_status (leg_result native))
                    (native_failure_detail (plain_leg native) ''WorkOS created the resource; native did not'')
                else ret ()
            | None \<Rightarrow> ret ())
         (outcome release_claim (native_failure_response (plain_leg native))))"

subsection \<open>Linking the two sides\<close>

definition create_linked ::
    "inbound \<Rightarrow> kind \<Rightarrow> create_plan \<Rightarrow> string \<Rightarrow> mirror_result \<Rightarrow> sink \<Rightarrow> (response \<times> bool) m" where
  "create_linked rq k plan n mr sink =
     (let d = i_directory rq;
          wid = (case sink of Some (row # rest) \<Rightarrow> m_workos row | _ \<Rightarrow> n) in
      thn (upsert_mapping (mapping_row d k n wid (if wid = n then MigratedId else FallbackPost)))
      (thn (clear_native_write_failure (dir_id d) k (plan_key plan))
      (thn (clear_native_write_failure (dir_id d) k n)
      (bnd (load_id_maps (dir_id d) False) (\<lambda>maps.
       bnd (from_res (translate_resource_ids k (make_translator (workos_to_native maps))
              (case parse_json (mr_body mr) of Some r \<Rightarrow> r | None \<Rightarrow> plan_body plan))) (\<lambda>rewritten.
         outcome True (json_response 201 (set_prop ''id'' (JStr n) rewritten))))))))"

definition create_answer ::
    "inbound \<Rightarrow> kind \<Rightarrow> create_plan \<Rightarrow> string \<Rightarrow> (mirror_result \<times> sink) option \<Rightarrow> bool \<Rightarrow> (response \<times> bool) m" where
  "create_answer rq k plan n mirror release_claim = (case mirror of
       None \<Rightarrow> outcome release_claim (scim_error 502 ''The WorkOS endpoint rejected the create: unknown error. The native app has the resource without a completed mapping; operator recovery is required.'')
     | Some (mr, sink) \<Rightarrow>
         if mr_ok mr then create_linked rq k plan n mr sink
         else if mr_mint_conflict mr then
           thn (set_log (\<lambda>l. l\<lparr>l_error := mr_error mr\<rparr>))
             (outcome release_claim (scim_error 409 (case mr_error mr of
                Some er \<Rightarrow> er | None \<Rightarrow> ''The create collides with another resource.'')))
         else outcome release_claim (scim_error (rejected_status mr)
           (''The WorkOS endpoint rejected the create: '' @ error_or_unknown (mr_error mr)
            @ ''. The native app has the resource without a completed mapping; operator recovery is required.'')))"

definition create_settled ::
    "inbound \<Rightarrow> kind \<Rightarrow> create_plan \<Rightarrow> native_create_leg \<Rightarrow> (mirror_result \<times> sink) option \<Rightarrow> (response \<times> bool) m" where
  "create_settled rq k plan native mirror =
     (let native_status = map_option u_status (leg_result native);
          release_claim = (leg_id native = None \<and> leg_error native = None
            \<and> is_definitive_create_rejection native_status
            \<and> (case mirror of None \<Rightarrow> True
               | Some (mr, _) \<Rightarrow> \<not> mr_ok mr \<and> is_definitive_create_rejection (mr_status mr))) in
      case leg_id native of
        None \<Rightarrow> create_refused rq k plan native (map_option fst mirror) release_claim
      | Some n \<Rightarrow>
          (case plan_claimed plan of
             Some c \<Rightarrow>
               if m_native c \<noteq> n then
                 let msg = mint_conflict_detail k (m_workos c) (m_native c)
                   @ '' The native app answered the create with '' @ kind_name k @ ''/'' @ n
                   @ '', which now has no WorkOS counterpart and no mapping; it will not converge on retry.'' in
                 thn (log_error msg) (outcome release_claim (scim_error 409 msg))
               else create_answer rq k plan n mirror release_claim
           | None \<Rightarrow> create_answer rq k plan n mirror release_claim))"

subsection \<open>The claim around a create\<close>

definition primary_create :: "inbound \<Rightarrow> kind \<Rightarrow> response m" where
  "primary_create rq k =
     (let d = i_directory rq; fin = finish (Some d) in
      bnd random_uuid (\<lambda>token.
      let release = release_workos_primary_create (dir_id d) k token;
          abandon = (\<lambda>er. thn release (bnd (prewrite_failure er) fin)) in
      bnd (settle (claim_workos_primary_create (dir_id d) k token)) (\<lambda>c.
      case c of
        Inl er \<Rightarrow> abandon er
      | Inr got \<Rightarrow>
          if \<not> got then
            let msg = ''Another '' @ kind_name k @ '' create or reconcile is unresolved for this directory. Retry after it completes.'' in
            thn (log_error msg) (fin (retry_after (scim_error 503 msg)))
          else
            bnd (settle (create_checks rq k)) (\<lambda>pre.
            case pre of
              Inl er \<Rightarrow> abandon er
            | Inr (Inl refusal) \<Rightarrow> thn release (fin refusal)
            | Inr (Inr plan) \<Rightarrow>
                bnd (create_legs rq k plan) (\<lambda>(native, mirror).
                thn (case mirror of None \<Rightarrow> ret () | Some (mr, _) \<Rightarrow> apply_mirror_result mr)
                (thn (log_native (leg_result native))
                (bnd (create_settled rq k plan native mirror) (\<lambda>(r, free).
                  if free then thn release (fin r) else fin r))))))))"

definition workos_primary :: "inbound \<Rightarrow> kind \<Rightarrow> response m" where
  "workos_primary rq k =
     (if i_method rq = ''DELETE'' then primary_delete rq k
      else if i_method rq = ''POST'' then
        bnd (member_refusal rq k) (\<lambda>r. case r of
          Some x \<Rightarrow> finish (Some (i_directory rq)) x
        | None \<Rightarrow> primary_create rq k)
      else primary_write rq k)"

end
