(* ===== verification/Proxy.thy ===== *)
theory Proxy
  imports PrimaryCreate
begin

text \<open>
  The proxy's SCIM entry point (\<open>handleScim\<close> of \<open>workers/proxy/index.ts\<close>): authentication by the
  directory's bearer token, and the dispatch on the directory's mode.
\<close>

definition upper_char :: "char \<Rightarrow> char" where
  "upper_char c = (let n = of_char c :: nat in if 97 \<le> n \<and> n \<le> 122 then char_of (n - 32) else c)"

definition is_write :: "string \<Rightarrow> scim_path \<Rightarrow> bool" where
  "is_write meth p \<longleftrightarrow> meth \<in> set write_methods \<and> p_kind p \<noteq> None"

definition dispatch :: "inbound \<Rightarrow> response m" where
  "dispatch rq =
     (let d = i_directory rq; w = is_write (i_method rq) (i_path rq) in
      if dir_mode d = Passthrough \<or> (dir_mode d = DualWrite \<and> \<not> w) then passthrough rq w
      else (case (dir_mode d, if w then p_kind (i_path rq) else None) of
          (DualWrite, Some k) \<Rightarrow> dual_write rq k
        | (WorkosPrimary, Some k) \<Rightarrow> workos_primary rq k
        | _ \<Rightarrow> workos_only rq (finish (Some d))))"

definition normal_body :: "payload option \<Rightarrow> payload option" where
  "normal_body b = (if b = Some (Raw []) then None else b)"

definition handle_scim :: "request \<Rightarrow> response m" where
  "handle_scim q =
     (let meth = map upper_char (q_method q);
          u = q_url q;
          body = normal_body (q_body q);
          path = drop (length scim_prefix) (url_pathname u);
          token = authorization_token (header_get ''Authorization'' (q_headers q)) in
      thn (set_log (\<lambda>_. blank_log\<lparr>l_method := meth,
             l_path := (if path = [] then ''/'' else path) @ url_search u, l_request_body := body\<rparr>))
      (bnd (settle (get_directory_by_token token)) (\<lambda>found.
       case found of
         Inl er \<Rightarrow> thn (log_error (error_message er))
           (finish None (scim_error 500 ''The proxy could not resolve the directory for this token.''))
       | Inr None \<Rightarrow> thn (log_error ''missing or unknown proxy bearer token'')
           (finish None (scim_error 401 ''The bearer token in the Authorization header does not match any proxy directory.''))
       | Inr (Some d) \<Rightarrow>
           thn (set_log (\<lambda>l. l\<lparr>l_directory := Some (dir_id d), l_mode := mode_name (dir_mode d)\<rparr>))
           (case parse_scim_path (url_pathname u) of
              None \<Rightarrow> finish (Some d) (scim_error 404 (''The proxy does not serve '' @ url_pathname u
                @ ''. Expected /Users, /Groups, /ServiceProviderConfig, /Schemas, or /ResourceTypes under '' @ scim_prefix @ ''.''))
            | Some p \<Rightarrow> dispatch
                \<lparr>i_directory = d, i_path = p, i_method = meth, i_body = body,
                 i_content_type = header_get ''Content-Type'' (q_headers q),
                 i_conditional = conditional_request_headers (q_headers q), i_url = u\<rparr>))))"

end
