(* ===== verification/ScimLaws.thy ===== *)
theory ScimLaws
  imports Proxy
begin

text \<open>
  What the pure parts of the SCIM layer guarantee: the id maps never resolve a contested id, ids
  translate there and back, namespaces accepted at configuration time are disjoint at run time,
  SCIM paths round-trip, and the token and error texts have the stated shape.
\<close>

subsection \<open>Results\<close>

lemma res_bind_Inr_iff: "res_bind r f = Inr y \<longleftrightarrow> (\<exists>x. r = Inr x \<and> f x = Inr y)"
  by (cases r) (auto simp: res_bind_def)

lemma res_map_Inr_iff: "res_map f r = Inr y \<longleftrightarrow> (\<exists>x. r = Inr x \<and> y = f x)"
  by (cases r) (auto simp: res_map_def)

lemma res_simps [simp]:
  "res_bind (Inr x) f = f x" "res_bind (Inl er) f = Inl er"
  "res_map g (Inr x) = Inr (g x)" "res_map g (Inl er) = Inl er"
  by (simp_all add: res_bind_def res_map_def)

lemma res_list_inverse:
  "res_list f xs = Inr ys \<Longrightarrow> (\<And>x y. x \<in> set xs \<Longrightarrow> f x = Inr y \<Longrightarrow> g y = Inr x) \<Longrightarrow> res_list g ys = Inr xs"
  by (induction xs arbitrary: ys) (auto simp: res_bind_Inr_iff res_map_Inr_iff)

lemma set_prop_same: "getp obj k = Some v \<Longrightarrow> set_prop k v obj = obj"
  by (induction k v obj rule: set_prop.induct) (auto split: if_splits)

lemma set_prop_twice [simp]: "set_prop k v (set_prop k v' obj) = set_prop k v obj"
  by (induction k v' obj rule: set_prop.induct) auto

lemma set_prop_restore: "getp obj k = Some v \<Longrightarrow> set_prop k v (set_prop k v' obj) = obj"
  by (simp add: set_prop_same)

subsection \<open>Checked id maps\<close>

text \<open>Two rows name one WorkOS id for different native ids.\<close>

definition rivals :: "id_mapping list \<Rightarrow> id_mapping \<Rightarrow> id_mapping \<Rightarrow> bool" where
  "rivals rows r r' \<longleftrightarrow> r \<in> set rows \<and> r' \<in> set rows \<and> m_workos r = m_workos r' \<and> m_native r \<noteq> m_native r'"

definition contested_id :: "id_mapping list \<Rightarrow> string \<Rightarrow> bool" where
  "contested_id rows i \<longleftrightarrow> (\<exists>r r'. rivals rows r r' \<and> (i = m_workos r \<or> i = m_native r))"

lemma build_acc_snoc: "build_acc (rows @ [r]) = add_mapping_row r (build_acc rows)"
  by (simp add: build_acc_def)

lemma build_acc_empty [simp]: "build_acc [] = \<lparr>acc_forward = [], acc_reverse = [], acc_contested = []\<rparr>"
  by (simp add: build_acc_def)

lemma acc_forward_add:
  "acc_forward (add_mapping_row r a) = put_row fst (m_native r, m_workos r) (acc_forward a)"
  by (auto simp: add_mapping_row_def Let_def split: option.splits)

lemma acc_reverse_add:
  "look_row fst i (acc_reverse (add_mapping_row r a)) =
     (case look_row fst i (acc_reverse a) of
        None \<Rightarrow> if i = m_workos r then Some (m_workos r, m_native r) else None
      | Some x \<Rightarrow> Some x)"
  by (auto simp: add_mapping_row_def Let_def split: option.splits)

lemma acc_contested_add:
  "set (acc_contested (add_mapping_row r a)) = set (acc_contested a) \<union>
     (case look_row fst (m_workos r) (acc_reverse a) of None \<Rightarrow> {}
      | Some x \<Rightarrow> if snd x = m_native r then {} else {m_workos r, snd x, m_native r})"
  by (auto simp: add_mapping_row_def Let_def split: option.splits)

lemma reverse_first:
  "look_row fst i (acc_reverse (build_acc rows)) =
     map_option (\<lambda>r. (i, m_native r)) (find (\<lambda>r. m_workos r = i) rows)"
proof (induction rows rule: rev_induct)
  case (snoc r rows)
  have "find P (xs @ [x]) = (case find P xs of None \<Rightarrow> if P x then Some x else None | Some y \<Rightarrow> Some y)"
    for P and xs :: "id_mapping list" and x
    by (induction xs) auto
  then show ?case using snoc by (auto simp: build_acc_snoc acc_reverse_add split: option.splits)
qed simp

lemma forward_last:
  "look_row fst n (acc_forward (build_acc rows)) =
     map_option (\<lambda>r. (n, m_workos r)) (find (\<lambda>r. m_native r = n) (rev rows))"
  by (induction rows rule: rev_induct) (auto simp: build_acc_snoc acc_forward_add)

lemma contested_sound: "i \<in> set (acc_contested (build_acc rows)) \<Longrightarrow> contested_id rows i"
proof (induction rows rule: rev_induct)
  case (snoc r rows)
  show ?case
  proof (cases "i \<in> set (acc_contested (build_acc rows))")
    case True
    with snoc.IH show ?thesis unfolding contested_id_def rivals_def by fastforce
  next
    case False
    with snoc.prems obtain x where x: "look_row fst (m_workos r) (acc_reverse (build_acc rows)) = Some x"
      "snd x \<noteq> m_native r" "i \<in> {m_workos r, snd x, m_native r}"
      by (auto simp: build_acc_snoc acc_contested_add split: option.splits if_splits)
    then obtain r0 where r0: "r0 \<in> set rows" "m_workos r0 = m_workos r" "snd x = m_native r0"
      by (auto simp: reverse_first dest!: find_SomeD)
    have "rivals (rows @ [r]) r r0 \<and> rivals (rows @ [r]) r0 r"
      using r0 x(2) by (auto simp: rivals_def)
    moreover have "i = m_workos r \<or> i = m_native r0 \<or> i = m_native r" using x(3) r0(3) by auto
    ultimately show ?thesis unfolding contested_id_def by blast
  qed
qed simp

lemma contested_complete: "contested_id rows i \<Longrightarrow> i \<in> set (acc_contested (build_acc rows))"
proof (induction rows arbitrary: i rule: rev_induct)
  case Nil
  then show ?case by (simp add: contested_id_def rivals_def)
next
  case (snoc r rows)
  have keep: "contested_id rows j \<Longrightarrow> j \<in> set (acc_contested (build_acc (rows @ [r])))" for j
    using snoc.IH by (simp add: build_acc_snoc acc_contested_add)
  obtain p q where pq: "rivals (rows @ [r]) p q" "i = m_workos p \<or> i = m_native p"
    using snoc.prems unfolding contested_id_def by blast
  show ?case
  proof (cases "rivals rows p q")
    case True
    with pq(2) have "contested_id rows i" unfolding contested_id_def by blast
    then show ?thesis by (rule keep)
  next
    case False
    define s where "s = (if p \<in> set rows then p else q)"
    have s: "s \<in> set rows" "m_workos s = m_workos r"
      using False pq(1) by (auto simp: s_def rivals_def)
    have cover: "p = r \<or> q = r" using False pq(1) by (auto simp: rivals_def)
    obtain r0 where r0: "find (\<lambda>x. m_workos x = m_workos r) rows = Some r0"
      using s by (cases "find (\<lambda>x. m_workos x = m_workos r) rows") (auto simp: find_None_iff)
    then have r0': "r0 \<in> set rows" "m_workos r0 = m_workos r" by (auto dest!: find_SomeD)
    have look: "look_row fst (m_workos r) (acc_reverse (build_acc rows)) = Some (m_workos r, m_native r0)"
      using r0 by (simp add: reverse_first)
    show ?thesis
    proof (cases "m_native r0 = m_native r")
      case True
      have "rivals rows (if p = r then r0 else p) (if q = r then r0 else q)"
        using pq(1) False True r0' cover by (auto simp: rivals_def)
      moreover have "i = m_workos (if p = r then r0 else p) \<or> i = m_native (if p = r then r0 else p)"
        using pq(2) True r0' by auto
      ultimately have "contested_id rows i" unfolding contested_id_def by blast
      then show ?thesis by (rule keep)
    next
      case False
      have new: "{m_workos r, m_native r0, m_native r} \<subseteq> set (acc_contested (build_acc (rows @ [r])))"
        using look False by (simp add: build_acc_snoc acc_contested_add)
      show ?thesis
      proof (cases "p = r \<or> m_native p = m_native r0 \<or> i = m_workos p")
        case True
        with pq cover new show ?thesis by (auto simp: rivals_def)
      next
        case other: False
        with pq cover have "rivals rows p r0 \<or> p \<notin> set rows" using r0' by (auto simp: rivals_def)
        moreover have "p \<in> set rows" using pq(1) other by (auto simp: rivals_def)
        ultimately have "contested_id rows i" using pq(2) unfolding contested_id_def by blast
        then show ?thesis by (rule keep)
      qed
    qed
  qed
qed

lemma contested_iff: "i \<in> set (acc_contested (build_acc rows)) \<longleftrightarrow> contested_id rows i"
  using contested_sound contested_complete by blast

lemma kind_rows_mem: "r \<in> set (kind_rows d k rows) \<longleftrightarrow> r \<in> set rows \<and> m_directory r = d \<and> m_kind r = k"
  by (auto simp: kind_rows_def)

lemma map_get_reverse:
  "map_get (workos_to_native (build_maps d rows) k) i =
     (if contested_id (kind_rows d k rows) i then Inl Ambiguous
      else Inr (map_option m_native (find (\<lambda>r. m_workos r = i) (kind_rows d k rows))))"
  by (simp add: map_get_def build_maps_def Let_def contested_iff reverse_first option.map_comp comp_def)

lemma map_get_forward:
  "map_get (native_to_workos (build_maps d rows) k) i =
     (if contested_id (kind_rows d k rows) i then Inl Ambiguous
      else Inr (map_option m_workos (find (\<lambda>r. m_native r = i) (rev (kind_rows d k rows)))))"
  by (simp add: map_get_def build_maps_def Let_def contested_iff forward_last option.map_comp comp_def)

lemma load_id_maps_value:
  "load_id_maps d strict e w = (Inr maps, w') \<Longrightarrow> maps = build_maps d (id_mappings (db w))"
proof -
  have "wp e (load_id_maps d strict) (\<lambda>maps _. maps = build_maps d (id_mappings (db w))) (\<lambda>_ _. True) w"
    unfolding load_id_maps_def wp_bnd
    by (rule wp_query) (auto simp: from_res_def Let_def split: sum.split)
  then show "load_id_maps d strict e w = (Inr maps, w') \<Longrightarrow> ?thesis" by (rule wp_Inr)
qed

text \<open>An id map never resolves a contested id, whatever the datastore does: when the reverse
  lookup of a WorkOS id answers a native id, every mapping row of the directory and type with that
  WorkOS id names this native id, and there is one.\<close>
theorem id_lookup_sound:
  assumes "load_id_maps d strict e w = (Inr maps, w')"
    and "map_get (workos_to_native maps k) i = Inr (Some n)"
  shows "owners d k i (db w) \<noteq> [] \<and> list_all (\<lambda>r. m_native r = n) (owners d k i (db w))"
proof -
  let ?rows = "kind_rows d k (id_mappings (db w))"
  have maps: "maps = build_maps d (id_mappings (db w))" using assms(1) by (rule load_id_maps_value)
  have free: "\<not> contested_id ?rows i" and hit: "map_option m_native (find (\<lambda>r. m_workos r = i) ?rows) = Some n"
    using assms(2) by (auto simp: maps map_get_reverse split: if_splits)
  obtain r where r: "r \<in> set ?rows" "m_workos r = i" "m_native r = n"
    using hit by (auto dest!: find_SomeD)
  have "m_native q = n" if "q \<in> set ?rows" "m_workos q = i" for q
  proof (rule ccontr)
    assume "m_native q \<noteq> n"
    then have "rivals ?rows q r" using r that by (simp add: rivals_def)
    then have "contested_id ?rows i" unfolding contested_id_def using that(2) by metis
    with free show False by contradiction
  qed
  then have "list_all (\<lambda>r. m_native r = n) (owners d k i (db w))"
    by (simp add: list_all_iff owners_def kind_rows_def)
  moreover have "r \<in> set (owners d k i (db w))"
    using r(1,2) by (simp add: owners_def kind_rows_def)
  ultimately show ?thesis by (metis empty_iff list.set(1))
qed

theorem id_lookup_sound_witness:
  "let s = upsert_row (row_of ''n'' ''w'') empty_store in
   \<exists>maps w'. load_id_maps ''d'' True quiet_env (fresh_world s) = (Inr maps, w')
     \<and> owners ''d'' Users ''w'' s \<noteq> [] \<and> list_all (\<lambda>r. m_native r = ''n'') (owners ''d'' Users ''w'' s)"
proof -
  let ?s = "upsert_row (row_of ''n'' ''w'') empty_store"
  let ?w = "fresh_world ?s"
  have run: "load_id_maps ''d'' True quiet_env ?w
      = (Inr (build_maps ''d'' (id_mappings ?s)), ?w\<lparr>db_ops := 1\<rparr>)"
    by (simp add: load_id_maps_def bnd_def thn_def reliable_query fresh_world_def build_maps_def Let_def
        assert_unambiguous_def build_acc_def upsert_row_def empty_store_def row_of_def kind_rows_def
        add_mapping_row_def from_res_def ret_def)
  have get: "map_get (workos_to_native (build_maps ''d'' (id_mappings ?s)) Users) ''w'' = Inr (Some ''n'')"
    by (simp add: build_maps_def Let_def map_get_def build_acc_def upsert_row_def empty_store_def row_of_def
        kind_rows_def add_mapping_row_def)
  show ?thesis using id_lookup_sound [OF run get] run by (simp add: fresh_world_def Let_def)
qed

subsection \<open>Translating there and back\<close>

text \<open>The two halves of \<open>translateResourceIds\<close>.\<close>

definition translate_id :: "kind \<Rightarrow> translator \<Rightarrow> object \<Rightarrow> object res" where
  "translate_id k tr res = (case as_string (getp res ''id'') of None \<Rightarrow> Inr res
     | Some i \<Rightarrow> res_map (\<lambda>t. set_prop ''id'' (JStr t) res) (tr k i))"

definition translate_members :: "translator \<Rightarrow> object \<Rightarrow> object res" where
  "translate_members tr res = (case as_array (getp res ''members'') of None \<Rightarrow> Inr res
     | Some ms \<Rightarrow> res_map (\<lambda>ms'. set_prop ''members'' (JArr ms') res) (translate_member_entries tr ms))"

lemma translate_resource_split:
  "translate_resource_ids k tr res = res_bind (translate_id k tr res) (translate_members tr)"
  unfolding translate_resource_ids_def translate_id_def translate_members_def by (rule refl)

lemma set_prop_commute:
  "a \<noteq> b \<Longrightarrow> getp obj a \<noteq> None \<Longrightarrow> set_prop a x (set_prop b y obj) = set_prop b y (set_prop a x obj)"
  by (induction b y obj rule: set_prop.induct) (auto split: if_splits)

lemma translate_id_frame: "translate_id k tr res = Inr out \<Longrightarrow> getp out ''members'' = getp res ''members''"
  by (auto simp: translate_id_def res_map_Inr_iff split: option.splits)

lemma translate_members_frame: "translate_members tr res = Inr out \<Longrightarrow> getp out ''id'' = getp res ''id''"
  by (auto simp: translate_members_def res_map_Inr_iff split: option.splits)

lemma translate_swap:
  assumes "translate_id k tr res = Inr mid" "translate_members tr mid = Inr out"
  shows "\<exists>mid'. translate_members tr res = Inr mid' \<and> translate_id k tr mid' = Inr out"
proof (cases "as_string (getp res ''id'')")
  case None
  with assms show ?thesis
    by (auto simp: translate_id_def dest: translate_members_frame)
next
  case (Some i)
  then obtain j where j: "tr k i = Inr j" "mid = set_prop ''id'' (JStr j) res"
    using assms(1) by (auto simp: translate_id_def res_map_Inr_iff)
  have "getp res ''id'' \<noteq> None" using Some by (auto simp: as_string_Some_iff)
  note present = this
  show ?thesis
  proof (cases "as_array (getp res ''members'')")
    case None
    with assms j show ?thesis by (simp add: translate_members_def)
  next
    case members: (Some ms)
    then obtain ms' where ms': "translate_member_entries tr ms = Inr ms'"
      "out = set_prop ''members'' (JArr ms') mid"
      using assms(2) j by (auto simp: translate_members_def res_map_Inr_iff)
    have "out = set_prop ''id'' (JStr j) (set_prop ''members'' (JArr ms') res)"
      using ms'(2) j(2) set_prop_commute [OF _ present, of "''members''"] by simp
    moreover have "translate_members tr res = Inr (set_prop ''members'' (JArr ms') res)"
      using members ms'(1) by (simp add: translate_members_def)
    ultimately show ?thesis using Some j(1) by (simp add: translate_id_def)
  qed
qed

locale translator_pair =
  fixes forward backward :: translator
    and known :: "kind \<Rightarrow> string \<Rightarrow> bool"
  assumes back_forward: "known k i \<Longrightarrow> forward k i = Inr j \<Longrightarrow> backward k j = Inr i' \<Longrightarrow> i' = i"
begin

lemma member_back:
  assumes "translate_member forward v = Inr v'" "translate_member backward v' = Inr v''"
    and "\<And>obj i. v = JObj obj \<Longrightarrow> getp obj ''value'' = Some (JStr i) \<Longrightarrow> known Users i"
  shows "v'' = v"
proof -
  consider (plain) "\<forall>tr. translate_member tr v = Inr v"
    | (member) obj i where "v = JObj obj" "getp obj ''value'' = Some (JStr i)"
  proof (cases "case as_object (Some v) of None \<Rightarrow> None | Some obj \<Rightarrow> as_string (getp obj ''value'')")
    case None
    then show ?thesis by (intro that(1)) (auto simp: translate_member_def split: option.splits)
  next
    case (Some i)
    then show ?thesis
      by (auto simp: as_object_Some_iff as_string_Some_iff split: option.splits intro: that(2))
  qed
  then show ?thesis
  proof cases
    case plain
    with assms(1,2) show ?thesis by simp
  next
    case member
    then obtain j where j: "forward Users i = Inr j" "v' = JObj (set_prop ''value'' (JStr j) obj)"
      using assms(1) by (auto simp: translate_member_def as_object_def as_string_def res_map_Inr_iff)
    then obtain i' where i': "backward Users j = Inr i'" "v'' = JObj (set_prop ''value'' (JStr i') obj)"
      using assms(2) by (auto simp: translate_member_def as_object_def as_string_def res_map_Inr_iff)
    have "i' = i" using assms(3) [OF member] j(1) i'(1) by (rule back_forward)
    with i' member show ?thesis by (simp add: set_prop_same)
  qed
qed

lemma members_back:
  assumes "translate_member_entries forward vs = Inr vs'" "translate_member_entries backward vs' = Inr vs''"
    and "\<And>obj i. JObj obj \<in> set vs \<Longrightarrow> getp obj ''value'' = Some (JStr i) \<Longrightarrow> known Users i"
  shows "vs'' = vs"
  using assms
proof (induction vs arbitrary: vs' vs'')
  case (Cons v vs)
  obtain v' r' where f: "translate_member forward v = Inr v'" "translate_member_entries forward vs = Inr r'"
    "vs' = v' # r'"
    using Cons.prems(1) by (auto simp: translate_member_entries_def res_bind_Inr_iff res_map_Inr_iff)
  then obtain v'' r'' where b: "translate_member backward v' = Inr v''" "translate_member_entries backward r' = Inr r''"
    "vs'' = v'' # r''"
    using Cons.prems(2) by (auto simp: translate_member_entries_def res_bind_Inr_iff res_map_Inr_iff)
  have "v'' = v" using f(1) b(1) by (rule member_back) (use Cons.prems(3) in auto)
  moreover have "r'' = vs" using f(2) b(2) by (rule Cons.IH) (use Cons.prems(3) in auto)
  ultimately show ?case using b(3) by simp
qed (simp add: translate_member_entries_def)

lemma translate_id_back:
  assumes "translate_id k forward res = Inr mid" "translate_id k backward mid = Inr res'"
    and "\<And>i. getp res ''id'' = Some (JStr i) \<Longrightarrow> known k i"
  shows "res' = res"
proof (cases "as_string (getp res ''id'')")
  case None
  with assms(1,2) show ?thesis by (simp add: translate_id_def)
next
  case (Some i)
  then have i: "getp res ''id'' = Some (JStr i)" by (simp add: as_string_Some_iff)
  obtain j where j: "forward k i = Inr j" "mid = set_prop ''id'' (JStr j) res"
    using assms(1) Some by (auto simp: translate_id_def res_map_Inr_iff)
  obtain i' where i': "backward k j = Inr i'" "res' = set_prop ''id'' (JStr i') mid"
    using assms(2) j(2) by (auto simp: translate_id_def as_string_def res_map_Inr_iff)
  have "i' = i" using assms(3) [OF i] j(1) i'(1) by (rule back_forward)
  with i' j show ?thesis by (simp add: set_prop_same [OF i])
qed

lemma translate_members_back:
  assumes "translate_members forward res = Inr mid" "translate_members backward mid = Inr res'"
    and "\<And>vs obj i. getp res ''members'' = Some (JArr vs) \<Longrightarrow> JObj obj \<in> set vs
      \<Longrightarrow> getp obj ''value'' = Some (JStr i) \<Longrightarrow> known Users i"
  shows "res' = res"
proof (cases "as_array (getp res ''members'')")
  case None
  with assms(1,2) show ?thesis by (simp add: translate_members_def)
next
  case (Some vs)
  then have vs: "getp res ''members'' = Some (JArr vs)" by (simp add: as_array_Some_iff)
  obtain ws where ws: "translate_member_entries forward vs = Inr ws" "mid = set_prop ''members'' (JArr ws) res"
    using assms(1) Some by (auto simp: translate_members_def res_map_Inr_iff)
  obtain vs' where vs': "translate_member_entries backward ws = Inr vs'" "res' = set_prop ''members'' (JArr vs') mid"
    using assms(2) ws(2) by (auto simp: translate_members_def as_array_def res_map_Inr_iff)
  have "vs' = vs" using ws(1) vs'(1) by (rule members_back) (use assms(3) vs in blast)
  with vs' ws show ?thesis by (simp add: set_prop_same [OF vs])
qed

lemma resource_back:
  assumes fw: "translate_resource_ids k forward res = Inr out"
    and bw: "translate_resource_ids k backward out = Inr res'"
    and id: "\<And>i. getp res ''id'' = Some (JStr i) \<Longrightarrow> known k i"
    and mem: "\<And>vs obj i. getp res ''members'' = Some (JArr vs) \<Longrightarrow> JObj obj \<in> set vs
      \<Longrightarrow> getp obj ''value'' = Some (JStr i) \<Longrightarrow> known Users i"
  shows "res' = res"
proof -
  obtain mid where mid: "translate_id k forward res = Inr mid" "translate_members forward mid = Inr out"
    using fw by (auto simp: translate_resource_split res_bind_Inr_iff)
  obtain mid' where mid': "translate_id k backward out = Inr mid'" "translate_members backward mid' = Inr res'"
    using bw by (auto simp: translate_resource_split res_bind_Inr_iff)
  have members: "getp mid ''members'' = getp res ''members''" using translate_id_frame [OF mid(1)] by simp
  obtain out1 where step1: "translate_members backward out = Inr out1" "translate_id k backward out1 = Inr res'"
    using translate_swap [OF mid'] by blast
  have "out1 = mid"
    using mid(2) step1(1) by (rule translate_members_back) (use mem members in auto)
  with step1(2) have "translate_id k backward mid = Inr res'" by simp
  with mid(1) show ?thesis using id by (rule translate_id_back)
qed

end

text \<open>An id the IdP can use: a mapped native id, or one that is no resource's WorkOS id.\<close>

definition addressable :: "string \<Rightarrow> id_mapping list \<Rightarrow> kind \<Rightarrow> string \<Rightarrow> bool" where
  "addressable d rows k i \<longleftrightarrow>
     (let rs = kind_rows d k rows in
      list_ex (\<lambda>r. m_native r = i) rs \<or> list_all (\<lambda>r. m_workos r \<noteq> i) rs)"

lemma uncontested_owner:
  assumes "\<not> contested_id rs (m_workos r)" "r \<in> set rs" "q \<in> set rs" "m_workos q = m_workos r"
  shows "m_native q = m_native r"
proof (rule ccontr)
  assume "m_native q \<noteq> m_native r"
  with assms have "rivals rs r q" by (simp add: rivals_def)
  then have "contested_id rs (m_workos r)" unfolding contested_id_def by blast
  with assms(1) show False by contradiction
qed

interpretation id_pair: translator_pair "make_translator (native_to_workos (build_maps d rows))"
    "make_translator (workos_to_native (build_maps d rows))" "addressable d rows" for d rows
proof
  fix k i j i'
  let ?rs = "kind_rows d k rows"
  assume known: "addressable d rows k i"
    and fw: "make_translator (native_to_workos (build_maps d rows)) k i = Inr j"
    and bw: "make_translator (workos_to_native (build_maps d rows)) k j = Inr i'"
  have j: "j = (case find (\<lambda>r. m_native r = i) (rev ?rs) of None \<Rightarrow> i | Some r \<Rightarrow> m_workos r)"
    using fw by (auto simp: make_translator_def map_get_forward res_map_Inr_iff split: if_splits option.splits)
  have free: "\<not> contested_id ?rs j"
    and i': "i' = (case find (\<lambda>r. m_workos r = j) ?rs of None \<Rightarrow> j | Some r \<Rightarrow> m_native r)"
    using bw by (auto simp: make_translator_def map_get_reverse res_map_Inr_iff split: if_splits option.splits)
  show "i' = i"
  proof (cases "find (\<lambda>r. m_native r = i) (rev ?rs)")
    case None
    then have "list_all (\<lambda>r. m_workos r \<noteq> i) ?rs"
      using known by (auto simp: addressable_def Let_def find_None_iff list_ex_iff)
    then have "find (\<lambda>r. m_workos r = i) ?rs = None" by (simp add: find_None_iff list_all_iff)
    with None j i' show ?thesis by simp
  next
    case (Some r)
    then have r: "r \<in> set ?rs" "m_native r = i" "j = m_workos r" using j by (auto dest!: find_SomeD)
    then obtain q where q: "find (\<lambda>x. m_workos x = j) ?rs = Some q"
      by (cases "find (\<lambda>x. m_workos x = j) ?rs") (auto simp: find_None_iff)
    then have "m_native q = m_native r"
      using free r by (auto intro!: uncontested_owner dest!: find_SomeD)
    with q i' r show ?thesis by simp
  qed
qed

definition ids_addressable :: "string \<Rightarrow> id_mapping list \<Rightarrow> kind \<Rightarrow> object \<Rightarrow> bool" where
  "ids_addressable d rows k res \<longleftrightarrow>
     (case as_string (getp res ''id'') of None \<Rightarrow> True | Some i \<Rightarrow> addressable d rows k i)
     \<and> (case as_array (getp res ''members'') of None \<Rightarrow> True
        | Some vs \<Rightarrow> list_all (\<lambda>v. case v of
              JObj obj \<Rightarrow> (case as_string (getp obj ''value'') of None \<Rightarrow> True
                | Some i \<Rightarrow> addressable d rows Users i)
            | _ \<Rightarrow> True) vs)"

text \<open>A resource written to WorkOS in WorkOS-id space and read back in native-id space has
  exactly the ids it started with, its own and its members', whatever else the directory maps, unless
  a translation refuses a contested id.\<close>
theorem translation_round_trip:
  assumes "ids_addressable d rows k res"
    and "translate_resource_ids k (make_translator (native_to_workos (build_maps d rows))) res = Inr out"
    and "translate_resource_ids k (make_translator (workos_to_native (build_maps d rows))) out = Inr res'"
  shows "res' = res"
  using assms(2,3)
proof (rule id_pair.resource_back)
  show "addressable d rows k i" if "getp res ''id'' = Some (JStr i)" for i
    using assms(1) that by (simp add: ids_addressable_def as_string_def)
  show "addressable d rows Users i"
    if "getp res ''members'' = Some (JArr vs)" "JObj obj \<in> set vs" "getp obj ''value'' = Some (JStr i)" for vs obj i
    using assms(1) that by (auto simp: ids_addressable_def as_string_def as_array_def list_all_iff)
qed

theorem translation_round_trip_witness:
  "let rows = [row_of ''n1'' ''w1'', row_of ''n2'' ''w2''];
       res = [(''id'', JStr ''n1''), (''userName'', JStr ''a''), (''members'', JArr [JObj [(''value'', JStr ''n2'')]])]
   in \<exists>out. translate_resource_ids Users (make_translator (native_to_workos (build_maps ''d'' rows))) res = Inr out
      \<and> out \<noteq> res
      \<and> translate_resource_ids Users (make_translator (workos_to_native (build_maps ''d'' rows))) out = Inr res"
proof -
  let ?rows = "[row_of ''n1'' ''w1'', row_of ''n2'' ''w2'']"
  let ?res = "[(''id'', JStr ''n1''), (''userName'', JStr ''a''), (''members'', JArr [JObj [(''value'', JStr ''n2'')]])]"
  let ?out = "[(''id'', JStr ''w1''), (''userName'', JStr ''a''), (''members'', JArr [JObj [(''value'', JStr ''w2'')]])]"
  note evals = build_maps_def Let_def build_acc_def kind_rows_def row_of_def add_mapping_row_def
    make_translator_def map_get_def translate_resource_ids_def translate_member_entries_def
    translate_member_def as_string_def as_array_def as_object_def
  have a: "ids_addressable ''d'' ?rows Users ?res" 
    by (simp add: ids_addressable_def addressable_def kind_rows_def row_of_def as_string_def as_array_def)
  have f: "translate_resource_ids Users (make_translator (native_to_workos (build_maps ''d'' ?rows))) ?res = Inr ?out"
    by (simp add: evals)
  obtain res' where b: "translate_resource_ids Users (make_translator (workos_to_native (build_maps ''d'' ?rows))) ?out = Inr res'"
    by (simp add: evals)
  have "res' = ?res" using a f b by (rule translation_round_trip)
  with f b show ?thesis by (simp add: Let_def)
qed

subsection \<open>SCIM paths\<close>

lemma hex_digit_not_slash: "n < 16 \<Longrightarrow> hex_digit n \<noteq> CHR ''/''"
proof
  assume "n < 16" "hex_digit n = CHR ''/''"
  then have "hex_val (CHR ''/'') = Some n" by (metis hex_val_hex_digit)
  then show False by (simp add: hex_val_def Let_def)
qed

lemma percent_byte_no_slash: "b < 256 \<Longrightarrow> CHR ''/'' \<notin> set (percent_byte b)"
proof -
  assume "b < 256"
  then have "b div 16 < 16" "b mod 16 < 16" by simp_all
  from this[THEN hex_digit_not_slash] show ?thesis by (auto simp: percent_byte_def)
qed

lemma encode_no_slash: "CHR ''/'' \<notin> set (encode_uri_component s)"
proof -
  have "CHR ''/'' \<notin> set (encode_char c)" for c
  proof -
    have n: "(of_char c :: nat) < 256" by (rule of_char_256)
    have m: "128 + of_char c mod 64 < (256 :: nat)" using mod_less_divisor [of 64 "of_char c :: nat"] by linarith
    have d: "192 + of_char c div 64 < (256 :: nat)"
      using div_le_mono [of "of_char c" "255 :: nat" 64] n by simp
    show ?thesis
    proof (cases "uri_unreserved c")
      case True
      then have "c \<noteq> CHR ''/''" by (auto simp: uri_unreserved_def Let_def)
      with True show ?thesis by (auto simp: encode_char_def Let_def)
    next
      case False
      then show ?thesis
        using percent_byte_no_slash [OF n] percent_byte_no_slash [OF m] percent_byte_no_slash [OF d]
        by (simp add: encode_char_def Let_def)
    qed
  qed
  then show ?thesis by (auto simp: encode_uri_component_def)
qed

lemma encode_nonempty: "s \<noteq> [] \<Longrightarrow> encode_uri_component s \<noteq> []"
  by (cases s) (auto simp: encode_uri_component_def encode_char_def percent_byte_def Let_def)

lemma kind_name_segment: "CHR ''/'' \<notin> set (kind_name k)" "kind_name k \<noteq> []"
  "decode_uri_component (kind_name k) = Some (kind_name k)"
  by (cases k; simp)+

text \<open>The path the bridge writes for a resource is read back as that resource, whatever
  characters its id contains.\<close>
theorem scim_path_round_trip:
  assumes "i \<noteq> []"
  shows "parse_scim_path (scim_prefix @ resource_path k i) =
       Some \<lparr>p_kind = Some k, p_id = Some i, p_discovery = False, p_rest = resource_path k i\<rparr>"
proof -
  have "path_segments (resource_path k i) = [kind_name k, encode_uri_component i]"
    unfolding resource_path_def
    by (rule path_segments_two [OF kind_name_segment(1) encode_no_slash kind_name_segment(2) encode_nonempty [OF assms]])
  then have "decode_all (path_segments (resource_path k i)) = Some [kind_name k, i]"
    by (simp add: kind_name_segment(3) del: kind_name.simps)
  moreover have "starts_with (scim_prefix @ resource_path k i) (scim_prefix @ ''/'')"
    by (simp add: starts_with_conv resource_path_def)
  ultimately show ?thesis
    by (simp add: parse_scim_path_def Let_def del: kind_of.simps)
qed

theorem scim_path_round_trip_witness:
  "parse_scim_path (scim_prefix @ resource_path Groups ''a/b c'') =
     Some \<lparr>p_kind = Some Groups, p_id = Some ''a/b c'', p_discovery = False,
       p_rest = ''/Groups/a%2Fb%20c''\<rparr>"
proof -
  have "resource_path Groups ''a/b c'' = ''/Groups/a%2Fb%20c''"
    by (simp add: resource_path_def encode_uri_component_def encode_char_def uri_unreserved_def
        percent_byte_def hex_digit_def Let_def char_of_def bit_0)
  then show ?thesis using scim_path_round_trip [of "''a/b c''" Groups] by simp
qed

text \<open>A path the proxy accepts is the prefix followed, on a segment boundary, by exactly the
  bytes it forwards; so \<open>/scim/v2Users\<close> is not served, and nothing is rewritten on the way.\<close>
theorem scim_path_verbatim:
  assumes "parse_scim_path pathname = Some p"
  shows "pathname = scim_prefix @ p_rest p \<and> starts_with (p_rest p) ''/''"
proof -
  have rest: "p_rest p = drop (length scim_prefix) pathname"
    and nonempty: "decode_all (path_segments (p_rest p)) \<noteq> Some []"
    and prefix: "pathname = scim_prefix \<or> starts_with pathname (scim_prefix @ ''/'')"
    using assms by (auto simp: parse_scim_path_def Let_def split: if_splits option.splits list.splits)
  have "pathname \<noteq> scim_prefix" using rest nonempty by (auto simp: path_segments_def)
  with prefix rest show ?thesis by (auto simp: starts_with_conv)
qed

theorem scim_path_verbatim_witness:
  "\<exists>p. parse_scim_path ''/scim/v2/Users//x?'' = Some p \<and> p_rest p = ''/Users//x?''"
proof -
  have "parse_scim_path ''/scim/v2/Users//x?'' \<noteq> None"
    by (simp add: parse_scim_path_def scim_prefix_def starts_with_def path_segments_def Let_def)
  then obtain p where p: "parse_scim_path ''/scim/v2/Users//x?'' = Some p" by blast
  moreover from scim_path_verbatim [OF p] have "p_rest p = ''/Users//x?''" by (simp add: scim_prefix_def)
  ultimately show ?thesis by blast
qed

subsection \<open>Bearer tokens\<close>

lemma trim_plain: "list_all (\<lambda>c. \<not> js_space c) t \<Longrightarrow> trim t = t"
proof -
  assume t: "list_all (\<lambda>c. \<not> js_space c) t"
  have "dropWhile js_space xs = xs" if "list_all (\<lambda>c. \<not> js_space c) xs" for xs
    using that by (cases xs) auto
  with t show ?thesis by (simp add: trim_def trim_start_def trim_end_def)
qed

definition spaces :: "string \<Rightarrow> bool" where
  "spaces s \<longleftrightarrow> list_all js_space s"

lemma dropWhile_spaces: "spaces s \<Longrightarrow> dropWhile js_space (s @ t) = dropWhile js_space t"
  by (induction s) (auto simp: spaces_def)

lemma trim_pad:
  assumes "spaces a" "spaces b" "t \<noteq> []" "\<not> js_space (hd t)" "\<not> js_space (last t)"
  shows "trim (a @ t @ b) = t"
proof -
  have "trim_start (a @ t @ b) = t @ b"
    using assms by (cases t) (auto simp: trim_start_def dropWhile_spaces)
  moreover have "dropWhile js_space (rev b @ rev t) = rev t"
    using assms by (cases t rule: rev_cases) (auto simp: dropWhile_spaces spaces_def)
  ultimately show ?thesis by (simp add: trim_def trim_end_def)
qed

lemma lower_space: "js_space c \<Longrightarrow> lower_char c = c"
  by (auto simp: js_space_def lower_char_def Let_def)

lemma line_end_space: "line_end c \<Longrightarrow> js_space c"
  by (auto simp: line_end_def js_space_def)

lemma not_space_lower: "lower_char c = CHR ''b'' \<Longrightarrow> \<not> js_space c"
  using lower_space [of c] by (auto simp: js_space_def)

text \<open>A token without white space authenticates the same whether it is sent bare or behind
  \<open>Bearer\<close> in any spelling, with any white space around and between.\<close>
theorem bearer_and_bare:
  assumes t: "t \<noteq> []" "list_all (\<lambda>c. \<not> js_space c) t"
    and pad: "spaces a" "spaces b" "spaces sep" "sep \<noteq> []"
    and scheme: "to_lower scheme = ''bearer''"
  shows "authorization_token (Some (a @ scheme @ sep @ t @ b)) = t
     \<and> authorization_token (Some (a @ t @ b)) = t"
proof -
  have len: "length scheme = 6" using arg_cong [OF scheme, of length] by (simp add: to_lower_def)
  have "\<not> js_space (hd scheme)"
    using scheme by (cases scheme) (auto simp: to_lower_def dest: not_space_lower)
  moreover have ends: "\<not> js_space (hd t)" "\<not> js_space (last t)" using t by (auto simp: list_all_iff)
  ultimately have "trim (a @ (scheme @ sep @ t) @ b) = scheme @ sep @ t"
    using t(1) len pad by (intro trim_pad) (auto simp: hd_append)
  moreover have "dropWhile js_space (sep @ t) = t"
    using pad(3) ends(1) t(1) by (cases t) (auto simp: dropWhile_spaces)
  moreover have "js_space (hd sep)" using pad(3,4) by (cases sep) (auto simp: spaces_def)
  moreover have "list_all (\<lambda>c. \<not> line_end c) t" using t(2) line_end_space by (auto simp: list_all_iff)
  ultimately have "match_bearer (scheme @ sep @ t) = Some t" "trim (a @ scheme @ sep @ t @ b) = scheme @ sep @ t"
    using scheme len pad(4) by (simp_all add: match_bearer_def)
  then have 1: "authorization_token (Some (a @ scheme @ sep @ t @ b)) = t"
    using t(2) by (simp add: authorization_token_def trim_plain)
  have "match_bearer t = None"
  proof -
    have "\<not> js_space (hd (drop 6 t))" if "drop 6 t \<noteq> []"
      using hd_in_set [OF that] t(2) by (auto simp: list_all_iff dest: in_set_dropD)
    then show ?thesis by (auto simp: match_bearer_def Let_def)
  qed
  moreover have "trim (a @ t @ b) = t" using pad(1,2) t(1) ends by (rule trim_pad)
  moreover have "\<not> list_ex js_space t" using t(2) by (auto simp: list_all_iff list_ex_iff)
  ultimately have "authorization_token (Some (a @ t @ b)) = t"
    by (simp add: authorization_token_def)
  with 1 show ?thesis by blast
qed

theorem bearer_and_bare_witness:
  "authorization_token (Some ''  bEARER  abc '') = ''abc'' \<and> authorization_token (Some ''  abc '') = ''abc''"
  using bearer_and_bare [of "''abc''" "''  ''" "'' ''" "''  ''" "''bEARER''"]
  by (simp add: spaces_def js_space_def to_lower_def lower_char_def char_of_def bit_0 Let_def)

end
