(* ===== verification/Namespaces.thy ===== *)
theory Namespaces
  imports ScimLaws
begin

text \<open>
  Native namespaces: the relation the write guards ask about is symmetric and fails closed, the check
  made where a directory is configured is strong enough to keep those guards silent, and the boot
  report finds exactly the endpoints that several directories share.
\<close>

subsection \<open>The relation\<close>

lemma splits_sym: "token_partition_splits a b = token_partition_splits b a"
  by (auto simp: token_partition_splits_def Let_def)

lemma splits_iff:
  "token_partition_splits a b \<longleftrightarrow> ep_partitioned a \<and> ep_partitioned b
     \<and> trim (ep_token a) \<noteq> [] \<and> trim (ep_token b) \<noteq> []
     \<and> \<not> is_encrypted_secret (trim (ep_token a)) \<and> \<not> is_encrypted_secret (trim (ep_token b))
     \<and> trim (ep_token a) \<noteq> trim (ep_token b)"
  by (auto simp: token_partition_splits_def Let_def)

text \<open>Two endpoints are treated as disjoint exactly when both URLs parse and either name
  different canonical endpoints or are both attested with distinct, readable, nonempty tokens; every
  doubt counts as shared, and the answer does not depend on who asks.\<close>
theorem shares_fail_closed:
  "(\<not> shares_native_namespace parse a b \<longleftrightarrow>
      (\<exists>x y. native_namespace_key parse (ep_url a) = Some x \<and> native_namespace_key parse (ep_url b) = Some y
        \<and> \<not> (x = y \<and> \<not> token_partition_splits a b)))
   \<and> shares_native_namespace parse a b = shares_native_namespace parse b a"
  using splits_sym [of a b]
  by (auto simp: shares_native_namespace_def split: option.splits)

subsection \<open>The configuration check\<close>

text \<open>What the panel accepts, the write guards never refuse: when the check passes for a new
  endpoint against directories whose own URLs parse, the run-time guard finds no neighbour sharing
  it.\<close>
theorem accepted_endpoint_is_disjoint:
  assumes ok: "check_native_namespace parse (native_url d) others (native_token d) (native_token_partitioned d) = None"
    and url: "trim (native_url d) = native_url d" "native_url d \<noteq> []"
    and others: "list_all (\<lambda>o'. trim (native_url o') = native_url o'
        \<and> native_namespace_key parse (native_url o') \<noteq> None) others"
  shows "\<not> list_ex (\<lambda>o'. shares_native_namespace parse (endpoint_of d) (endpoint_of o')) others"
proof -
  obtain key where key: "native_namespace_key parse (native_url d) = Some key"
    and none: "find_native_namespace_conflict parse (native_url d) others (native_token d)
        (native_token_partitioned d) = None"
    using ok url by (auto simp: check_native_namespace_def Let_def split: if_splits option.splits)
  have ep: "\<lparr>ep_url = native_url d, ep_token = native_token d,
      ep_partitioned = native_token_partitioned d\<rparr> = endpoint_of d"
    by (simp add: endpoint_of_def)
  have "\<not> shares_native_namespace parse (endpoint_of d) (endpoint_of o')" if mem: "o' \<in> set others" for o'
  proof -
    obtain y where y: "native_namespace_key parse (native_url o') = Some y" "trim (native_url o') = native_url o'"
      using others mem by (auto simp: list_all_iff)
    have "y \<noteq> key \<or> token_partition_splits (endpoint_of d) (endpoint_of o')"
      using none mem key y url(1)
      by (auto simp: find_native_namespace_conflict_def Let_def find_None_iff ep)
    with key y(1) show ?thesis by (auto simp: shares_native_namespace_def endpoint_of_def)
  qed
  then show ?thesis by (auto simp: list_ex_iff)
qed

definition plain_url :: "string \<Rightarrow> url option" where
  "plain_url s = (if s = [] then None else Some \<lparr>url_href = s, url_protocol = ''https:'', url_hostname = ''h'',
     url_port = [], url_origin = ''https://h'', url_pathname = s, url_search = [], url_params = []\<rparr>)"

definition sample_directory :: "string \<Rightarrow> string \<Rightarrow> string \<Rightarrow> mode \<Rightarrow> directory" where
  "sample_directory i u t md = \<lparr>dir_id = i, dir_name = i, dir_mode = md, proxy_token_hash = hash_prefix @ t,
     proxy_token_hint_col = [], native_url = u, native_token = t, native_token_partitioned = True,
     workos_url = ''/w'', workos_token = ''wt'', workos_directory_id = None, log_persistence = False,
     reconcile_token = None, reconcile_started_at = None, updated_at = ''now''\<rparr>"

theorem accepted_endpoint_is_disjoint_witness:
  "\<not> list_ex (\<lambda>o'. shares_native_namespace plain_url
       (endpoint_of (sample_directory ''a'' ''/x/'' ''t1'' Passthrough)) (endpoint_of o'))
     [sample_directory ''b'' ''/x'' ''t2'' Passthrough, sample_directory ''c'' ''/y'' ''t1'' Passthrough]"
  by (rule accepted_endpoint_is_disjoint)
    (simp_all add: check_native_namespace_def find_native_namespace_conflict_def native_namespace_key_def
      plain_url_def sample_directory_def token_partition_splits_def endpoint_of_def Let_def trim_def trim_start_def
      trim_end_def js_space_def strip_trailing_slashes_def to_lower_def lower_char_def char_of_def
      is_encrypted_secret_def starts_with_def enc_prefix_def)

subsection \<open>The boot report\<close>

lemma group_by_key_look:
  "look_row fst k (group_by_key f ds gs) = (case look_row fst k gs of
      Some g \<Rightarrow> Some (k, snd g @ filter (\<lambda>d. f d = k) ds)
    | None \<Rightarrow> if \<exists>d \<in> set ds. f d = k then Some (k, filter (\<lambda>d. f d = k) ds) else None)"
proof (induction f ds gs rule: group_by_key.induct)
  case (1 f gs)
  then show ?case by (cases "look_row fst k gs") (auto dest: look_row_SomeD)
next
  case (2 f d ds gs)
  then show ?case by (auto simp: look_row_append split: option.splits dest: look_row_SomeD)
qed

lemma group_by_key_distinct:
  "distinct (map fst gs) \<Longrightarrow> distinct (map fst (group_by_key f ds gs))"
proof (induction f ds gs rule: group_by_key.induct)
  case (2 f d ds gs)
  show ?case
  proof (cases "look_row fst (f d) gs")
    case None
    then have "f d \<notin> fst ` set gs" by (auto simp: look_row_None_iff)
    with 2 None show ?thesis by simp
  next
    case (Some g)
    then show ?thesis
      using "2.IH" distinct_put_row [OF "2.prems", of "(f d, snd g @ [d])"] by simp
  qed
qed simp

definition namespace_members :: "(string \<Rightarrow> url option) \<Rightarrow> string option \<Rightarrow> directory list \<Rightarrow> directory list" where
  "namespace_members parse key ds =
     filter (\<lambda>d. trim (native_url d) \<noteq> [] \<and> native_namespace_key parse (trim (native_url d)) = key) ds"

text \<open>The report is exact: the groups are the canonical endpoints (or the unparseable URLs taken
  together) that at least two configured directories address, each with all of its directories in
  order, and a group is marked partitioned only when its URL parses and every pair in it splits.\<close>
theorem duplicates_exact:
  "set (duplicate_native_namespaces parse ds) =
     (\<lambda>key. \<lparr>dup_key = key, dup_directories = namespace_members parse key ds,
         dup_partitioned = (key \<noteq> None \<and> is_token_partitioned_group (namespace_members parse key ds))\<rparr>)
     ` {key. 1 < length (namespace_members parse key ds)}"
proof -
  let ?f = "\<lambda>d. native_namespace_key parse (trim (native_url d))"
  let ?ds = "filter (\<lambda>d. trim (native_url d) \<noteq> []) ds"
  let ?gs = "group_by_key ?f ?ds []"
  have members: "namespace_members parse key ds = filter (\<lambda>d. ?f d = key) ?ds" for key
    by (simp add: namespace_members_def conj_commute)
  have keys: "distinct (map fst ?gs)" by (rule group_by_key_distinct) simp
  have look: "g \<in> set ?gs \<longleftrightarrow> look_row fst (fst g) ?gs = Some g" for g
    using keys look_row_distinct [of fst ?gs g] look_row_SomeD [of fst "fst g" ?gs g] by blast
  have "{g \<in> set ?gs. 1 < length (snd g)}
      = (\<lambda>key. (key, namespace_members parse key ds)) ` {key. 1 < length (namespace_members parse key ds)}"
    (is "?L = ?R")
  proof
    show "?L \<subseteq> ?R"
    proof
      fix g assume "g \<in> ?L"
      then have "g = (fst g, namespace_members parse (fst g) ds)" "1 < length (snd g)"
        by (auto simp: look group_by_key_look members split: if_splits)
      then show "g \<in> ?R" by (metis (mono_tags, lifting) image_eqI mem_Collect_eq snd_conv)
    qed
    show "?R \<subseteq> ?L"
    proof
      fix g assume "g \<in> ?R"
      then obtain key where key: "g = (key, namespace_members parse key ds)"
        "1 < length (namespace_members parse key ds)" by blast
      then have "\<exists>d \<in> set ?ds. ?f d = key" unfolding members
        by (metis (mono_tags, lifting) filter_False list.size(3) not_less0)
      with key show "g \<in> ?L" by (simp add: look group_by_key_look members)
    qed
  qed
  then show ?thesis
    by (simp add: duplicate_native_namespaces_def image_image)
qed

end
