(* ===== verification/MirrorLaws.thy ===== *)
theory MirrorLaws
  imports Namespaces
begin

text \<open>
  What the WorkOS write dance guarantees under every behaviour of the datastore and of WorkOS: which
  mapping rows it may touch, that success means a persisted mapping, that a first touch never writes
  onto another resource's WorkOS row, what a batching caller's sink receives, and what can escape
  its \<open>catch\<close>.  The last section holds the two runs in which the source does not do what it means
  to.
\<close>

subsection \<open>Rules for the steps of the dance\<close>

lemma u_status_read [simp]: "u_status (read_result r) = u_status r"
  by (simp add: read_result_def)

lemma wp_join [simp]: "wp e (join_scim_url base path) Q X w = Q (joined_url e base path) w"
  by (simp add: join_scim_url_def)

lemma wp_scim_fetch [simp]:
  "wp e (scim_fetch sd u meth token body ct mig hs) Q X w =
     (let c = scim_call sd u meth token body ct mig hs; w1 = w\<lparr>calls := calls w @ [c]\<rparr> in
      case upstream e (calls w) c of Inl msg \<Rightarrow> X (NetError msg) w1 | Inr r \<Rightarrow> Q (read_result r) w1)"
  by (simp add: scim_fetch_def Let_def split: sum.splits)

lemma wp_case_option [simp]:
  "wp e (case x of None \<Rightarrow> mm | Some y \<Rightarrow> f y) Q X w =
     (case x of None \<Rightarrow> wp e mm Q X w | Some y \<Rightarrow> wp e (f y) Q X w)"
  by (cases x) auto

lemma wp_case_sum [simp]:
  "wp e (case x of Inl y \<Rightarrow> f y | Inr y \<Rightarrow> g y) Q X w =
     (case x of Inl y \<Rightarrow> wp e (f y) Q X w | Inr y \<Rightarrow> wp e (g y) Q X w)"
  by (cases x) auto

lemma wp_case_prod [simp]:
  "wp e (case x of (a, b) \<Rightarrow> f a b) Q X w = (case x of (a, b) \<Rightarrow> wp e (f a b) Q X w)"
  by (cases x) auto

lemma wp_ifs [simp]:
  "wp e (if b then mm else nn) Q X w = (if b then wp e mm Q X w else wp e nn Q X w)"
  by simp

lemma wp_from_res [simp]:
  "wp e (from_res r) Q X w = (case r of Inl er \<Rightarrow> X er w | Inr x \<Rightarrow> Q x w)"
  by (cases r) (auto simp: from_res_def)

definition unclaimed :: "string \<Rightarrow> kind \<Rightarrow> string \<Rightarrow> string \<Rightarrow> store \<Rightarrow> bool" where
  "unclaimed d k wid n s \<longleftrightarrow> list_all (\<lambda>m. m_native m = n) (owners d k wid s)"

lemma wp_get_mapping:
  "(\<And>j. Q (mapping_of d k n (db w)) (w\<lparr>db_ops := j\<rparr>)) \<Longrightarrow> (\<And>j er. X er (w\<lparr>db_ops := j\<rparr>)) \<Longrightarrow>
   wp e (get_mapping d k n) Q X w"
  unfolding get_mapping_def by (rule wp_query) auto

lemma wp_get_mapping_by_workos_id:
  assumes none: "\<And>j. owners d k wid (db w) = [] \<Longrightarrow> Q None (w\<lparr>db_ops := j\<rparr>)"
    and one: "\<And>j m. owners d k wid (db w) = [m] \<Longrightarrow> Q (Some m) (w\<lparr>db_ops := j\<rparr>)"
    and fail: "\<And>j er. X er (w\<lparr>db_ops := j\<rparr>)"
  shows "wp e (get_mapping_by_workos_id d k wid) Q X w"
  unfolding get_mapping_by_workos_id_def wp_bnd
proof (rule wp_query)
  fix j
  consider "owners d k wid (db w) = []" | m where "owners d k wid (db w) = [m]"
    | m m' r where "owners d k wid (db w) = m # m' # r"
    by (metis list.exhaust)
  then show "wp e (case take 2 (owners d k wid (db w)) of [] \<Rightarrow> ret None
      | m # rest \<Rightarrow> if rest \<noteq> [] then throw Ambiguous else ret (Some m)) Q X (w\<lparr>db_ops := j\<rparr>)"
    by cases (auto simp: none one fail)
qed (rule fail)

lemma wp_claimed_by_another:
  assumes free: "\<And>j. unclaimed (dir_id d) k wid n (db w) \<Longrightarrow> queued_owner (dir_id d) k wid n sink = None
      \<Longrightarrow> Q None (w\<lparr>db_ops := j\<rparr>)"
    and taken: "\<And>j c. Q (Some c) (w\<lparr>db_ops := j\<rparr>)"
    and fail: "\<And>j er. X er (w\<lparr>db_ops := j\<rparr>)"
  shows "wp e (claimed_by_another d k wid n sink) Q X w"
  unfolding claimed_by_another_def wp_bnd
proof (rule wp_get_mapping_by_workos_id)
  fix j assume "owners (dir_id d) k wid (db w) = []"
  then show "wp e (case None of None \<Rightarrow> ret (queued_owner (dir_id d) k wid n sink)
      | Some r \<Rightarrow> if m_native r \<noteq> n then ret (Some r) else ret (queued_owner (dir_id d) k wid n sink)) Q X
      (w\<lparr>db_ops := j\<rparr>)"
    using free [of j] taken by (cases "queued_owner (dir_id d) k wid n sink") (auto simp: unclaimed_def)
next
  fix j m assume "owners (dir_id d) k wid (db w) = [m]"
  then show "wp e (case Some m of None \<Rightarrow> ret (queued_owner (dir_id d) k wid n sink)
      | Some r \<Rightarrow> if m_native r \<noteq> n then ret (Some r) else ret (queued_owner (dir_id d) k wid n sink)) Q X
      (w\<lparr>db_ops := j\<rparr>)"
    using free [of j] taken by (cases "queued_owner (dir_id d) k wid n sink") (auto simp: unclaimed_def)
qed (rule fail)

lemma wp_upsert_mapping:
  "(\<And>j. Q () (w\<lparr>db_ops := j, db := upsert_row m (db w)\<rparr>)) \<Longrightarrow>
   (\<And>j er. X er (w\<lparr>db_ops := j\<rparr>)) \<Longrightarrow> (\<And>j er. X er (w\<lparr>db_ops := j, db := upsert_row m (db w)\<rparr>)) \<Longrightarrow>
   wp e (upsert_mapping m) Q X w"
  unfolding upsert_mapping_def by (rule wp_execute [OF upsert_stmt.replayable_axioms]) auto

lemma wp_record_mapping:
  "(\<And>j. sink = None \<Longrightarrow> Q None (w\<lparr>db_ops := j, db := upsert_row m (db w)\<rparr>)) \<Longrightarrow>
   (\<And>j er. X er (w\<lparr>db_ops := j\<rparr>)) \<Longrightarrow>
   (\<And>j er. sink = None \<Longrightarrow> X er (w\<lparr>db_ops := j, db := upsert_row m (db w)\<rparr>)) \<Longrightarrow>
   (\<And>rows. sink = Some rows \<Longrightarrow> Q (Some (rows @ [m])) w) \<Longrightarrow>
   wp e (record_mapping m sink) Q X w"
  unfolding record_mapping_def by (cases sink) (auto intro: wp_upsert_mapping)

subsection \<open>The rows a dance may touch\<close>

definition others_kept :: "string \<Rightarrow> kind \<Rightarrow> string \<Rightarrow> store \<Rightarrow> store \<Rightarrow> bool" where
  "others_kept d k n s s' \<longleftrightarrow>
     (\<forall>d' k' n'. (d', k', n') \<noteq> (d, k, n) \<longrightarrow> mapping_of d' k' n' s' = mapping_of d' k' n' s)"

interpretation others: store_frame "others_kept d k n" for d k n
  by unfold_locales (auto simp: others_kept_def)

lemma others_kept_same: "id_mappings s' = id_mappings s \<Longrightarrow> others_kept d k n s s'"
  by (simp add: others_kept_def mapping_of_def)

lemma claim_row_mappings [simp]: "id_mappings (snd (claim_row d k t s)) = id_mappings s"
  by (auto simp: claim_row_def split: option.splits)

lemma release_row_mappings [simp]: "id_mappings (release_row d k t s) = id_mappings s"
  by (simp add: release_row_def)

lemma others_claim [eff]: "pres (on_db (others_kept d k n)) e (claim_workos_primary_create d' k' t)"
  unfolding claim_workos_primary_create_def by (rule others.pres_statement) (simp add: others_kept_same)

lemma others_release [eff]: "pres (on_db (others_kept d k n)) e (release_workos_primary_create d' k' t)"
  unfolding release_workos_primary_create_def by (rule others.pres_execute) (simp add: others_kept_same)

lemma others_record [eff]:
  "d = dir_id dir \<Longrightarrow> pres (on_db (others_kept d k n)) e (record_mapping (mapping_row dir k n wid st) sink)"
  unfolding record_mapping_def upsert_mapping_def
  by (intro eff others.pres_execute) (auto simp: others_kept_def mapping_key_def mapping_row_def)

lemma others_put [eff]: "pres (on_db (others_kept d k n)) e (put_workos dir k' i res mig)"
  unfolding put_workos_def scim_fetch_def join_scim_url_def by (intro eff)

lemma others_fetch [eff]: "pres (on_db (others_kept d k n)) e (scim_fetch sd u meth tok b ct mig hs)"
  unfolding scim_fetch_def by (intro eff)

lemma others_join [eff]: "pres (on_db (others_kept d k n)) e (join_scim_url base path)"
  unfolding join_scim_url_def by (intro eff)

lemma others_claimed [eff]: "pres (on_db (others_kept d k n)) e (claimed_by_another dir k' wid n' sink)"
  unfolding claimed_by_another_def get_mapping_by_workos_id_def by (intro eff)

lemma others_race [eff]:
  "d = dir_id dir \<Longrightarrow> pres (on_db (others_kept d k n)) e (resolve_create_race dir k n res create sink)"
  unfolding resolve_create_race_def plain_fetch_def Let_def by (intro eff)

lemma others_post [eff]:
  "d = dir_id dir \<Longrightarrow> pres (on_db (others_kept d k n)) e (create_via_post dir k n res sink)"
  unfolding create_via_post_def Let_def by (intro eff)

lemma others_recover [eff]:
  "d = dir_id dir \<Longrightarrow> pres (on_db (others_kept d k n)) e (recover_mapped_resource dir k n m res sink)"
  unfolding recover_mapped_resource_def get_mapping_def Let_def by (intro eff)

lemma others_mirror [eff]:
  "d = dir_id dir \<Longrightarrow> pres (on_db (others_kept d k n)) e (mirror_upsert dir k n raw sink serialize)"
  unfolding mirror_upsert_def update_mapped_def first_touch_def get_mapping_def Let_def by (intro eff)

subsection \<open>Success means a persisted mapping\<close>

definition recorded :: "directory \<Rightarrow> kind \<Rightarrow> string \<Rightarrow> mirror_result \<times> sink \<Rightarrow> world \<Rightarrow> bool" where
  "recorded d k n r w \<longleftrightarrow> \<not> mr_ok (fst r) \<or> mapping_of (dir_id d) k n (db w) \<noteq> None"

lemma mr_ok_simps [simp]:
  "mr_ok (mirror_ok l r)" "\<not> mr_ok (mirror_fail l r msg)" "\<not> mr_ok (mint_conflict l k' i o')"
  "\<not> mr_ok (recovery_refused l st msg)" "\<not> mr_ok (mirror_failed k' i er)"
  by (simp_all add: mirror_ok_def mirror_fail_def mint_conflict_def recovery_refused_def
      mirror_failed_def Let_def)

lemma mapping_key_row [simp]: "mapping_key (mapping_row d k n wid st) = (dir_id d, k, n)"
  by (simp add: mapping_key_def mapping_row_def)

lemma recorded_simps [simp]:
  "\<not> mr_ok (fst r) \<Longrightarrow> recorded d k n r w"
  "mapping_of (dir_id d) k n (db w) \<noteq> None \<Longrightarrow> recorded d k n r w"
  by (simp_all add: recorded_def)

lemma race_recorded:
  "wp e (resolve_create_race d k n res create None) (recorded d k n) (\<lambda>_ _. True) w"
  unfolding resolve_create_race_def put_workos_def plain_fetch_def Let_def
  by (auto simp: Let_def split: sum.split option.split intro!: wp_record_mapping wp_claimed_by_another)

lemma post_recorded:
  "wp e (create_via_post d k n res None) (recorded d k n) (\<lambda>_ _. True) w"
  unfolding create_via_post_def Let_def
  by (auto simp: Let_def split: sum.split option.split intro!: wp_record_mapping race_recorded)

lemma wp_trivial: "wp e mm (\<lambda>_ _. True) (\<lambda>_ _. True) w"
  by (rule wpI) auto

lemma wp_claim:
  "(\<And>r w'. Q r w') \<Longrightarrow> (\<And>er w'. X er w') \<Longrightarrow> wp e (claim_workos_primary_create d k t) Q X w"
  by (rule wpI) auto

lemma wp_release_keep:
  assumes "\<And>j s. id_mappings s = id_mappings (db w) \<Longrightarrow> Q () (w\<lparr>db_ops := j, db := s\<rparr>)" "\<And>er w'. X er w'"
  shows "wp e (release_workos_primary_create d k t) Q X w"
  unfolding release_workos_primary_create_def
  by (rule wp_execute [OF release_stmt.replayable_axioms]) (auto simp: assms)

lemma recover_recorded:
  "wp e (recover_mapped_resource d k n m res None) (recorded d k n) (\<lambda>_ _. True) w"
proof -
  have rest: "wp e (bnd (create_via_post d k n res None) (\<lambda>res.
      if mr_ok (fst res) \<or> certain_client_error (fst res)
      then thn (release_workos_primary_create (dir_id d) k t) (ret res) else ret res))
      (recorded d k n) (\<lambda>_ _. True) v" for t v
    unfolding wp_bnd
    by (rule wp_mono [OF post_recorded])
      (auto intro!: wp_release_keep simp: recorded_def mapping_of_def)
  show ?thesis
    unfolding recover_mapped_resource_def Let_def
    by (auto intro!: wp_claim wp_get_mapping wp_release_keep rest simp del: wp_bnd
        simp: wp_bnd [of e random_uuid] wp_bnd [of e "settle mm" for mm])
qed

definition recorded_if :: "directory \<Rightarrow> kind \<Rightarrow> string \<Rightarrow> (mirror_result \<times> sink) option \<Rightarrow> world \<Rightarrow> bool" where
  "recorded_if d k n r w = (case r of None \<Rightarrow> True | Some x \<Rightarrow> recorded d k n x w)"

lemma recorded_if_simps [simp]:
  "recorded_if d k n None w" "recorded_if d k n (Some x) w = recorded d k n x w"
  by (simp_all add: recorded_if_def)

lemma first_touch_recorded:
  "wp e (first_touch d k n res None) (recorded_if d k n) (\<lambda>_ _. True) w"
  unfolding first_touch_def put_workos_def Let_def
  by (auto simp: Let_def split: sum.split intro!: wp_record_mapping wp_claimed_by_another)

lemma update_recorded:
  assumes "mapping_of (dir_id d) k n (db w) = Some m"
  shows "wp e (update_mapped d k n m res None serialize) (recorded_if d k n) (\<lambda>_ _. True) w"
proof -
  have [simp]: "wp e (recover_mapped_resource d k n m res None) (\<lambda>x. recorded_if d k n (Some x)) (\<lambda>_ _. True) v" for v
    unfolding recorded_if_simps by (rule recover_recorded)
  show ?thesis
    unfolding update_mapped_def put_workos_def Let_def
    by (auto simp: Let_def assms recover_recorded split: sum.split intro!: wp_record_mapping wp_claimed_by_another)
qed

lemma mirror_recorded:
  "wp e (mirror_upsert d k n raw None serialize) (recorded d k n) (\<lambda>_ _. True) w"
proof -
  let ?first = "bnd (get_mapping (dir_id d) k n) (\<lambda>existing. case existing of
      None \<Rightarrow> if serialize then
          ret (Some (recovery_refused (''PUT /'' @ kind_name k @ ''/'' @ n) 409
            ''The native id mapping is no longer present; run backfill or reconciliation before replacing the resource'', None))
        else first_touch d k n (strip_fields raw) None
    | Some m \<Rightarrow> update_mapped d k n m (strip_fields raw) None serialize)"
  have "wp e ?first (recorded_if d k n) (\<lambda>_ _. True) w"
    unfolding wp_bnd
    by (rule wp_get_mapping)
      (auto simp: first_touch_recorded split: option.split intro!: update_recorded)
  then have "wp e (try_catch ?first (\<lambda>er. ret (Some (mirror_failed k n er, None)))) (recorded_if d k n) (\<lambda>_ _. True) w"
    by simp
  then show ?thesis
    unfolding mirror_upsert_def Let_def wp_bnd [of e "try_catch mm h" for mm h]
    by (rule wp_mono) (auto simp: post_recorded split: option.split)
qed

text \<open>The mirror of one resource, under every datastore fault and every answer of WorkOS: it
  changes no mapping row but the resource's own, also when it throws, and when it reports success the
  resource has a mapping in the datastore.\<close>
theorem mirror_persists_its_mapping:
  assumes "mirror_upsert d k n raw None serialize e w = (r, w')"
  shows "others_kept (dir_id d) k n (db w) (db w')
     \<and> (case r of Inl er \<Rightarrow> True
        | Inr (res, _) \<Rightarrow> \<not> mr_ok res \<or> mapping_of (dir_id d) k n (db w') \<noteq> None)"
proof
  have "pres (on_db (others_kept (dir_id d) k n)) e (mirror_upsert d k n raw None serialize)"
    by (rule others_mirror) (rule refl)
  then show "others_kept (dir_id d) k n (db w) (db w')"
    using assms unfolding on_db_def [symmetric] by (rule presD)
  show "case r of Inl er \<Rightarrow> True
        | Inr (res, _) \<Rightarrow> \<not> mr_ok res \<or> mapping_of (dir_id d) k n (db w') \<noteq> None"
    using mirror_recorded [of e d k n raw serialize w] assms
    by (auto simp: wp_def recorded_def split: sum.splits)
qed

text \<open>A stand-in for the upstreams: a POST creates under the migrated id, nothing exists yet.\<close>

definition reply :: "nat \<Rightarrow> object \<Rightarrow> upstream_result" where
  "reply st obj = \<lparr>u_status = st, u_body = (if obj = [] then None else Some (Doc (JObj obj))),
     u_content_type = None, u_headers = []\<rparr>"

definition empty_upstream :: "call list \<Rightarrow> call \<Rightarrow> string + upstream_result" where
  "empty_upstream h c = Inr
     (if c_method c = ''POST''
      then reply 201 [(''id'', JStr (case c_migrated c of Some i \<Rightarrow> i | None \<Rightarrow> ''minted''))]
      else if c_method c = ''PUT'' then reply 404 []
      else if c_method c = ''DELETE'' then reply 204 []
      else reply 200 [(''Resources'', JArr [])])"

definition stub_env :: env where
  "stub_env = quiet_env\<lparr>upstream := empty_upstream\<rparr>"

definition sample :: "mode \<Rightarrow> directory" where
  "sample md = sample_directory ''d'' ''/n'' ''t'' md"

theorem mirror_persists_its_mapping_witness:
  "\<exists>res sk w'. mirror_upsert (sample DualWrite) Users ''u1'' [(''userName'', JStr ''a'')] None False stub_env
        (fresh_world empty_store) = (Inr (res, sk), w')
     \<and> mr_ok res \<and> mapping_of ''d'' Users ''u1'' (db w') \<noteq> None"
proof -
  let ?run = "mirror_upsert (sample DualWrite) Users ''u1'' [(''userName'', JStr ''a'')] None False stub_env
        (fresh_world empty_store)"
  have "case ?run of (Inr (res, sk), w') \<Rightarrow> mr_ok res | _ \<Rightarrow> False" by code_simp
  then obtain res sk w' where run: "?run = (Inr (res, sk), w')" "mr_ok res"
    by (auto split: prod.splits sum.splits)
  moreover have "dir_id (sample DualWrite) = ''d''" by (simp add: sample_def sample_directory_def)
  ultimately show ?thesis using mirror_persists_its_mapping [OF run(1)] by auto
qed

subsection \<open>A first touch writes onto no other resource's row\<close>

definition exclusive :: "string \<Rightarrow> kind \<Rightarrow> store \<Rightarrow> bool" where
  "exclusive d k s \<longleftrightarrow> list_all (\<lambda>m. m_directory m \<noteq> d \<or> m_kind m \<noteq> k \<or> unclaimed d k (m_workos m) (m_native m) s)
     (id_mappings s)"

text \<open>A PUT carries the id it is addressed to, and no other resource owns that id.\<close>

definition put_target :: "call \<Rightarrow> string" where
  "put_target c = (case parse_json (c_body c) of None \<Rightarrow> []
     | Some obj \<Rightarrow> (case as_string (getp obj ''id'') of None \<Rightarrow> [] | Some i \<Rightarrow> i))"

definition own_put :: "env \<Rightarrow> directory \<Rightarrow> kind \<Rightarrow> string \<Rightarrow> store \<Rightarrow> call \<Rightarrow> bool" where
  "own_put e d k n s c \<longleftrightarrow> c_method c \<noteq> ''PUT''
     \<or> (c_url c = joined_url e (workos_url d) (resource_path k (put_target c))
        \<and> unclaimed (dir_id d) k (put_target c) n s)"

text \<open>What WorkOS documents of its POST: it answers the migrated id it was given, or a fresh id.\<close>

definition posts_fresh :: "env \<Rightarrow> string \<Rightarrow> store \<Rightarrow> bool" where
  "posts_fresh e n s \<longleftrightarrow> (\<forall>h c r obj i. upstream e h c = Inr r \<and> c_method c = ''POST'' \<and> c_migrated c = Some n
      \<and> is_success (u_status r) \<and> parse_json (u_body r) = Some obj \<and> getp obj ''id'' = Some (JStr i)
      \<longrightarrow> i = n \<or> (\<forall>m \<in> set (id_mappings s). m_workos m \<noteq> i))"

definition before_record :: "env \<Rightarrow> directory \<Rightarrow> kind \<Rightarrow> string \<Rightarrow> world \<Rightarrow> world \<Rightarrow> bool" where
  "before_record e d k n w w1 \<longleftrightarrow> id_mappings (db w1) = id_mappings (db w)
     \<and> (\<exists>cs. calls w1 = calls w @ cs \<and> list_all (own_put e d k n (db w)) cs)"

definition after_record :: "env \<Rightarrow> directory \<Rightarrow> kind \<Rightarrow> string \<Rightarrow> world \<Rightarrow> world \<Rightarrow> bool" where
  "after_record e d k n w w1 \<longleftrightarrow> exclusive (dir_id d) k (db w1)
     \<and> (\<exists>cs. calls w1 = calls w @ cs \<and> list_all (own_put e d k n (db w)) cs)"

lemma unclaimed_iff:
  "unclaimed d k wid n s \<longleftrightarrow> (\<forall>m \<in> set (id_mappings s). m_directory m = d \<and> m_kind m = k \<and> m_workos m = wid
      \<longrightarrow> m_native m = n)"
  by (auto simp: unclaimed_def owners_def list_all_iff)

lemma exclusiveD:
  "exclusive d k s \<Longrightarrow> p \<in> set (id_mappings s) \<Longrightarrow> q \<in> set (id_mappings s) \<Longrightarrow> m_directory p = d \<Longrightarrow>
   m_kind p = k \<Longrightarrow> m_directory q = d \<Longrightarrow> m_kind q = k \<Longrightarrow> m_workos q = m_workos p \<Longrightarrow> m_native q = m_native p"
  unfolding exclusive_def list_all_iff unclaimed_iff by blast

lemma exclusiveI:
  "(\<And>p q. p \<in> set (id_mappings s) \<Longrightarrow> q \<in> set (id_mappings s) \<Longrightarrow> m_directory p = d \<Longrightarrow> m_kind p = k \<Longrightarrow>
     m_directory q = d \<Longrightarrow> m_kind q = k \<Longrightarrow> m_workos q = m_workos p \<Longrightarrow> m_native q = m_native p) \<Longrightarrow> exclusive d k s"
  unfolding exclusive_def list_all_iff unclaimed_iff by blast

lemma exclusive_cong: "id_mappings s = id_mappings s' \<Longrightarrow> exclusive d k s = exclusive d k s'"
  by (simp add: exclusive_def unclaimed_iff)

lemma unclaimed_cong: "id_mappings s = id_mappings s' \<Longrightarrow> unclaimed d k i n s = unclaimed d k i n s'"
  by (simp add: unclaimed_iff)

lemma exclusive_upsert:
  assumes "exclusive (dir_id d) k s" "unclaimed (dir_id d) k wid n s"
  shows "exclusive (dir_id d) k (upsert_row (mapping_row d k n wid st) s)"
proof -
  let ?m = "mapping_row d k n wid st"
  have new: "m = ?m \<or> m \<in> set (id_mappings s)" if "m \<in> set (id_mappings (upsert_row ?m s))" for m
    using that set_put_row(1) [of mapping_key ?m "id_mappings s"] by (auto simp: upsert_row_def)
  have fields: "m_directory ?m = dir_id d" "m_kind ?m = k" "m_native ?m = n" "m_workos ?m = wid"
    by (simp_all add: mapping_row_def)
  have mixed: "m_native q = n"
    if "q \<in> set (id_mappings s)" "m_directory q = dir_id d" "m_kind q = k" "m_workos q = wid" for q
    using assms(2) that unfolding unclaimed_iff by blast
  show ?thesis
  proof (rule exclusiveI)
    fix p q assume h: "p \<in> set (id_mappings (upsert_row ?m s))" "q \<in> set (id_mappings (upsert_row ?m s))"
      "m_directory p = dir_id d" "m_kind p = k" "m_directory q = dir_id d" "m_kind q = k" "m_workos q = m_workos p"
    consider "p = ?m" "q = ?m" | "p = ?m" "q \<in> set (id_mappings s)" | "p \<in> set (id_mappings s)" "q = ?m"
      | "p \<in> set (id_mappings s)" "q \<in> set (id_mappings s)"
      using new [OF h(1)] new [OF h(2)] by blast
    then show "m_native q = m_native p"
    proof cases
      case 2
      then show ?thesis using mixed h fields by simp
    next
      case 3
      then show ?thesis using mixed h fields by simp
    next
      case 4
      then show ?thesis using exclusiveD [OF assms(1) 4] h by blast
    qed simp
  qed
qed

lemma record_after:
  assumes "before_record e d k n w w1" "exclusive (dir_id d) k (db w)" "unclaimed (dir_id d) k wid n (db w)"
  shows "wp e (record_mapping (mapping_row d k n wid st) None) (\<lambda>_. after_record e d k n w) (\<lambda>_. after_record e d k n w) w1"
proof -
  have same: "id_mappings (db w1) = id_mappings (db w)" using assms(1) by (simp add: before_record_def)
  have "exclusive (dir_id d) k (db w1)" "unclaimed (dir_id d) k wid n (db w1)"
    using assms(2,3) exclusive_cong [OF same] unclaimed_cong [OF same] by simp_all
  then show ?thesis using assms(1)
    by (auto intro!: wp_record_mapping simp: after_record_def before_record_def exclusive_upsert)
qed

lemma before_after: "before_record e d k n w w1 \<Longrightarrow> exclusive (dir_id d) k (db w) \<Longrightarrow> after_record e d k n w w1"
  by (auto simp: before_record_def after_record_def exclusive_cong [of "db w1" "db w"])

lemma before_ops [simp]: "before_record e d k n w (w1\<lparr>db_ops := j\<rparr>) = before_record e d k n w w1"
  by (simp add: before_record_def)

lemma before_call:
  assumes "before_record e d k n w w1" "own_put e d k n (db w) c"
  shows "before_record e d k n w (w1\<lparr>calls := calls w1 @ [c]\<rparr>)"
proof -
  obtain cs where "calls w1 = calls w @ cs" "list_all (own_put e d k n (db w)) cs"
    using assms(1) by (auto simp: before_record_def)
  then have "calls w1 @ [c] = calls w @ (cs @ [c])" "list_all (own_put e d k n (db w)) (cs @ [c])"
    using assms(2) by simp_all
  with assms(1) show ?thesis unfolding before_record_def by auto
qed

lemma own_put_other [simp]:
  "meth \<noteq> ''PUT'' \<Longrightarrow> own_put e d k n s (scim_call sd u meth tok b ct mig hs)"
  by (simp add: own_put_def scim_call_def)

lemma wp_put_workos:
  assumes "before_record e d k n w w1" "unclaimed (dir_id d) k i n (db w)"
    and "\<And>r w2. before_record e d k n w w2 \<Longrightarrow> Q r w2" "\<And>er w2. before_record e d k n w w2 \<Longrightarrow> X er w2"
  shows "wp e (put_workos d k i res mig) Q X w1"
proof -
  let ?c = "scim_call Workos (joined_url e (workos_url d) (resource_path k i)) ''PUT'' (workos_token d)
    (Some (Doc (JObj (set_prop ''id'' (JStr i) res)))) None mig []"
  have "own_put e d k n (db w) ?c"
    using assms(2) by (simp add: own_put_def scim_call_def put_target_def as_string_def)
  from before_call [OF assms(1) this] show ?thesis
    unfolding put_workos_def by (auto simp: Let_def assms(3,4) split: sum.split)
qed

lemma wp_claimed_before:
  assumes "before_record e d k n w w1"
    and "\<And>w2. before_record e d k n w w2 \<Longrightarrow> unclaimed (dir_id d) k wid n (db w) \<Longrightarrow> Q None w2"
    and "\<And>c w2. before_record e d k n w w2 \<Longrightarrow> Q (Some c) w2" "\<And>er w2. before_record e d k n w w2 \<Longrightarrow> X er w2"
  shows "wp e (claimed_by_another d k wid n sink) Q X w1"
proof (rule wp_claimed_by_another)
  have same: "id_mappings (db w1) = id_mappings (db w)" using assms(1) by (simp add: before_record_def)
  fix j assume "unclaimed (dir_id d) k wid n (db w1)"
  then show "Q None (w1\<lparr>db_ops := j\<rparr>)" using assms(1,2) unclaimed_cong [OF same] by simp
qed (use assms in auto)

lemma wp_other_fetch:
  assumes "before_record e d k n w w1" "meth \<noteq> ''PUT''"
    and "\<And>r h w2. upstream e h (scim_call sd u meth tok b ct mig hs) = Inr r \<Longrightarrow> before_record e d k n w w2
      \<Longrightarrow> Q (read_result r) w2"
    and "\<And>er w2. before_record e d k n w w2 \<Longrightarrow> X er w2"
  shows "wp e (scim_fetch sd u meth tok b ct mig hs) Q X w1"
proof -
  have "before_record e d k n w (w1\<lparr>calls := calls w1 @ [scim_call sd u meth tok b ct mig hs]\<rparr>)"
    using before_call [OF assms(1)] assms(2) by simp
  then show ?thesis by (auto simp: Let_def assms(3,4) split: sum.split)
qed

lemma race_after:
  assumes excl: "exclusive (dir_id d) k (db w)" and own: "unclaimed (dir_id d) k n n (db w)"
    and start: "before_record e d k n w w1"
  shows "wp e (resolve_create_race d k n res create None) (\<lambda>_. after_record e d k n w) (\<lambda>_. after_record e d k n w) w1"
proof -
  note finish_rules = before_after [OF _ excl] record_after [OF _ excl]
  have sync: "wp e (put_workos d k wid res None) (\<lambda>sync v.
        (is_success (u_status sync) \<longrightarrow> wp e (record_mapping (mapping_row d k n wid FallbackPost) None)
           (\<lambda>_. after_record e d k n w) (\<lambda>_. after_record e d k n w) v)
        \<and> (\<not> is_success (u_status sync) \<longrightarrow> after_record e d k n w v)) (\<lambda>_. after_record e d k n w) w2"
    if "before_record e d k n w w2" "unclaimed (dir_id d) k wid n (db w)" for w2 wid
    by (rule wp_put_workos [OF that]) (auto intro: finish_rules that(2))
  show ?thesis
    unfolding resolve_create_race_def Let_def wp_bnd plain_fetch_def
    by (rule wp_put_workos [OF start own])
      (auto simp: finish_rules own simp del: wp_scim_fetch split: option.split
        intro!: wp_other_fetch [where d = d and k = k and n = n and w = w]
          wp_claimed_before [where w = w] sync)
qed

lemma parse_read [simp]: "parse_json (u_body (read_result r)) = parse_json (u_body r)"
  by (simp add: read_result_def)

lemma posts_freshD:
  assumes "posts_fresh e n s" "upstream e h c = Inr r" "c_method c = ''POST'' \<and> c_migrated c = Some n"
    "is_success (u_status r)"
    and id: "(case parse_json (u_body r) of None \<Rightarrow> None | Some obj \<Rightarrow> string_value (getp obj ''id'')) = Some i"
    and own: "unclaimed d k n n s"
  shows "unclaimed d k i n s"
proof -
  obtain obj where "parse_json (u_body r) = Some obj" "getp obj ''id'' = Some (JStr i)"
    using id by (auto simp: string_value_Some_iff split: option.splits)
  with assms(1-4) have "i = n \<or> (\<forall>m \<in> set (id_mappings s). m_workos m \<noteq> i)"
    unfolding posts_fresh_def by blast
  with own show ?thesis by (auto simp: unclaimed_iff)
qed

lemma post_after:
  assumes excl: "exclusive (dir_id d) k (db w)" and own: "unclaimed (dir_id d) k n n (db w)"
    and fresh: "posts_fresh e n (db w)" and start: "before_record e d k n w w1"
  shows "wp e (create_via_post d k n res None) (\<lambda>_. after_record e d k n w) (\<lambda>_. after_record e d k n w) w1"
proof -
  have meth: "c_method (scim_call sd u ''POST'' tok b ct (Some n) hs) = ''POST''
      \<and> c_migrated (scim_call sd u ''POST'' tok b ct (Some n) hs) = Some n" for sd u tok b ct hs
    by (simp add: scim_call_def)
  note finish_rules = before_after [OF _ excl] record_after [OF _ excl]
  show ?thesis
    unfolding create_via_post_def Let_def
    by (auto simp: finish_rules simp del: wp_scim_fetch split: option.split
        intro!: wp_other_fetch [where d = d and k = k and n = n and w = w] start race_after [OF excl own]
          record_after [OF _ excl] posts_freshD [OF fresh _ meth _ _ own])
qed

lemma first_touch_after:
  assumes excl: "exclusive (dir_id d) k (db w)" and start: "before_record e d k n w w1"
  shows "wp e (first_touch d k n res None)
     (\<lambda>r w2. case r of Some _ \<Rightarrow> after_record e d k n w w2
        | None \<Rightarrow> before_record e d k n w w2 \<and> unclaimed (dir_id d) k n n (db w))
     (\<lambda>_. after_record e d k n w) w1"
proof -
  note finish_rules = before_after [OF _ excl] record_after [OF _ excl]
  show ?thesis
    unfolding first_touch_def
    by (auto simp: finish_rules intro!: wp_claimed_before [OF start] wp_put_workos [where w = w])
qed

text \<open>C3: the first touch of a resource that has no mapping: under every datastore fault it never
  puts onto a WorkOS row that belongs to another resource, and afterwards every WorkOS id of the
  directory and type still belongs to a single native id, given that WorkOS answers a POST with the
  migrated id or a fresh one.\<close>
theorem first_touch_keeps_ownership:
  assumes "mapping_of (dir_id d) k n (db w) = None"
    and "exclusive (dir_id d) k (db w)" and "posts_fresh e n (db w)"
    and "mirror_upsert d k n raw None serialize e w = (r, w')"
  shows "exclusive (dir_id d) k (db w')
     \<and> list_all (own_put e d k n (db w)) (drop (length (calls w)) (calls w'))"
proof -
  have start: "before_record e d k n w (w\<lparr>db_ops := j\<rparr>)" for j by (simp add: before_record_def)
  note here = before_after [OF start assms(2)]
  let ?A = "after_record e d k n w"
  have "wp e (mirror_upsert d k n raw None serialize) (\<lambda>_. ?A) (\<lambda>_. ?A) w"
    unfolding mirror_upsert_def Let_def wp_bnd wp_try_catch
    by (rule wp_get_mapping)
      (auto simp: here assms(1) split: option.split
        intro!: wp_mono [OF first_touch_after [OF assms(2) start]] post_after [OF assms(2) _ assms(3)])
  then have "?A w'" using assms(4) by (auto simp: wp_def split: sum.splits)
  then show ?thesis by (auto simp: after_record_def)
qed

lemma stub_posts_fresh: "\<forall>m \<in> set (id_mappings s). m_workos m \<noteq> n \<Longrightarrow> posts_fresh stub_env n s"
  by (auto simp: posts_fresh_def stub_env_def empty_upstream_def reply_def)

theorem first_touch_keeps_ownership_witness:
  "let s = upsert_row (row_of ''b'' ''wb'') empty_store in
   \<exists>r w'. mirror_upsert (sample DualWrite) Users ''u1'' [(''userName'', JStr ''a'')] None False stub_env
        (fresh_world s) = (r, w')
     \<and> exclusive ''d'' Users (db w') \<and> list_all (own_put stub_env (sample DualWrite) Users ''u1'' s) (calls w')
     \<and> length (calls w') = 2"
proof -
  let ?s = "upsert_row (row_of ''b'' ''wb'') empty_store"
  let ?run = "mirror_upsert (sample DualWrite) Users ''u1'' [(''userName'', JStr ''a'')] None False stub_env
        (fresh_world ?s)"
  have n: "length (calls (snd ?run)) = 2" by code_simp
  obtain r w' where run: "?run = (r, w')" by (cases ?run)
  have id: "dir_id (sample DualWrite) = ''d''" by (simp add: sample_def sample_directory_def)
  have "mapping_of (dir_id (sample DualWrite)) Users ''u1'' (db (fresh_world ?s)) = None"
    "exclusive (dir_id (sample DualWrite)) Users (db (fresh_world ?s))"
    by code_simp+
  moreover have "posts_fresh stub_env ''u1'' (db (fresh_world ?s))"
    by (rule stub_posts_fresh) (simp add: fresh_world_def upsert_row_def empty_store_def row_of_def)
  ultimately show ?thesis using first_touch_keeps_ownership [OF _ _ _ run] run n id
    by (auto simp: fresh_world_def Let_def)
qed

end
