(* ===== verification/Routing.thy ===== *)
theory Routing
  imports MirrorLaws
begin

text \<open>
  Who is called, with which credential: the calls of every operation of the proxy as subsets of the
  calls its directory and mode allow, and what an unauthenticated request can do.
\<close>

subsection \<open>The calls of each operation\<close>

definition on_side :: "side \<Rightarrow> string \<Rightarrow> call set" where
  "on_side sd token = {c. c_side c = sd \<and> c_token c = token}"

abbreviation to_workos :: "directory \<Rightarrow> call set" where
  "to_workos d \<equiv> on_side Workos (workos_token d)"

abbreviation to_native :: "directory \<Rightarrow> call set" where
  "to_native d \<equiv> on_side Native (native_token d)"

lemma sends_scim_fetch [eff]:
  "on_side sd tok \<subseteq> C \<Longrightarrow> pres (sends C) e (scim_fetch sd u meth tok b ct mig hs)"
  unfolding scim_fetch_def by (intro eff) (auto simp: on_side_def scim_call_def)

lemma sends_plain_fetch [eff]: "on_side sd tok \<subseteq> C \<Longrightarrow> pres (sends C) e (plain_fetch sd u meth tok b)"
  unfolding plain_fetch_def by (intro eff)

lemma sends_join [eff]: "pres (sends C) e (join_scim_url base path)"
  unfolding join_scim_url_def by (intro eff)

lemma sends_from_res [eff]: "pres (sends C) e (from_res r)"
  unfolding from_res_def by (intro eff)

lemma sends_decrypt_secret [eff]: "pres (sends C) e (decrypt_secret v)"
  unfolding decrypt_secret_def by (intro eff)

lemma sends_decrypt_directory [eff]: "pres (sends C) e (decrypt_directory d)"
  unfolding decrypt_directory_def by (intro eff)

lemma sends_decrypt_all [eff]: "pres (sends C) e (decrypt_all ds)"
  by (induction ds) (auto intro!: eff)

lemma sends_db [eff]:
  "pres (sends C) e (get_mapping d k n)" "pres (sends C) e (get_mapping_by_workos_id d k wid)"
  "pres (sends C) e (upsert_mapping m)" "pres (sends C) e (delete_mapping d k n)"
  "pres (sends C) e (claim_workos_primary_create d k t)" "pres (sends C) e (release_workos_primary_create d k t)"
  "pres (sends C) e (record_native_write_failure d k key meth st detail)"
  "pres (sends C) e (clear_native_write_failure d k key)"
  "pres (sends C) e (insert_proxy_log l)" "pres (sends C) e list_directories"
  "pres (sends C) e (load_id_maps d strict)" "pres (sends C) e (get_directory_by_token t)"
  unfolding get_mapping_def get_mapping_by_workos_id_def upsert_mapping_def delete_mapping_def
    claim_workos_primary_create_def release_workos_primary_create_def record_native_write_failure_def
    clear_native_write_failure_def insert_proxy_log_def list_directories_def load_id_maps_def Let_def
    get_directory_by_token_def hash_token_def
  by (intro eff)+

lemma sends_shared [eff]: "pres (sends C) e (native_namespace_is_shared d)"
  unfolding native_namespace_is_shared_def by (intro eff)

lemma sends_unattributable [eff]: "pres (sends C) e (unattributable d k n)"
  unfolding unattributable_def by (intro eff)

lemma sends_finish [eff]: "pres (sends C) e (finish d r)"
  unfolding finish_def persist_log_def by (intro eff)

lemma sends_persist [eff]: "pres (sends C) e (persist_log d)"
  unfolding persist_log_def by (intro eff)

lemma sends_logging [eff]:
  "pres (sends C) e (apply_mirror_result r)" "pres (sends C) e (apply_workos_leg u)" "pres (sends C) e (log_native x)"
  unfolding apply_mirror_result_def apply_workos_leg_def log_native_def by (intro eff)+

lemma sends_rewrite [eff]: "pres (sends C) e (rewrite_location v fw)"
  unfolding rewrite_location_def Let_def by (intro eff)

lemma sends_forward [eff]: "pres (sends C) e (forward_headers fw hs)"
  by (induction fw hs rule: forward_headers.induct) (auto intro!: eff)

lemma sends_upstream_response [eff]: "pres (sends C) e (upstream_response r fw)" "pres (sends C) e (proxied_headers r fw)"
  unfolding upstream_response_def proxied_headers_def by (intro eff)+

lemma sends_divergence [eff]: "pres (sends C) e (clear_divergence_for_write rq nr b)"
  unfolding clear_divergence_for_write_def by (intro eff)

subsection \<open>The WorkOS dance\<close>

lemma sends_put_workos [eff]: "to_workos d \<subseteq> C \<Longrightarrow> pres (sends C) e (put_workos d k i res mig)"
  unfolding put_workos_def by (intro eff)

lemma sends_record [eff]: "pres (sends C) e (record_mapping m sink)"
  unfolding record_mapping_def by (intro eff)

lemma sends_claimed [eff]: "pres (sends C) e (claimed_by_another d k wid n sink)"
  unfolding claimed_by_another_def by (intro eff)

lemma sends_race [eff]: "to_workos d \<subseteq> C \<Longrightarrow> pres (sends C) e (resolve_create_race d k n res cr sink)"
  unfolding resolve_create_race_def Let_def by (intro eff)

lemma sends_post [eff]: "to_workos d \<subseteq> C \<Longrightarrow> pres (sends C) e (create_via_post d k n res sink)"
  unfolding create_via_post_def Let_def by (intro eff)

lemma sends_recover [eff]: "to_workos d \<subseteq> C \<Longrightarrow> pres (sends C) e (recover_mapped_resource d k n m res sink)"
  unfolding recover_mapped_resource_def Let_def by (intro eff)

lemma sends_mirror [eff]: "to_workos d \<subseteq> C \<Longrightarrow> pres (sends C) e (mirror_upsert d k n raw sink serialize)"
  unfolding mirror_upsert_def update_mapped_def first_touch_def Let_def by (intro eff)

subsection \<open>The rungs\<close>

lemma sends_native_fetch [eff]: "to_native (i_directory rq) \<subseteq> C \<Longrightarrow> pres (sends C) e (native_fetch rq)"
  unfolding native_fetch_def by (intro eff)

lemma sends_native_write [eff]: "to_native (i_directory rq) \<subseteq> C \<Longrightarrow> pres (sends C) e (native_write rq)"
  unfolding native_write_def by (intro eff)

lemma sends_leg_failed [eff]: "pres (sends C) e (native_leg_failed d k key meth n b)"
  unfolding native_leg_failed_def Let_def by (intro eff)

lemma sends_passthrough [eff]: "to_native (i_directory rq) \<subseteq> C \<Longrightarrow> pres (sends C) e (passthrough rq b)"
  unfolding passthrough_def by (intro eff)

lemma sends_mirror_under [eff]: "to_workos (i_directory rq) \<subseteq> C \<Longrightarrow> pres (sends C) e (mirror_under rq k n tr)"
  unfolding mirror_under_def by (intro eff)

lemma sends_mirror_dual [eff]: "to_workos (i_directory rq) \<subseteq> C \<Longrightarrow> pres (sends C) e (mirror_dual_write rq k nr)"
  unfolding mirror_dual_write_def mirror_patch_def mirror_delete_def Let_def by (intro eff)

lemma sends_dual_tail [eff]: "to_workos (i_directory rq) \<subseteq> C \<Longrightarrow> pres (sends C) e (dual_write_tail rq k nr)"
  unfolding dual_write_tail_def Let_def by (intro eff)

lemma sends_dual [eff]:
  "to_native (i_directory rq) \<subseteq> C \<Longrightarrow> to_workos (i_directory rq) \<subseteq> C \<Longrightarrow> pres (sends C) e (dual_write rq k)"
  unfolding dual_write_def by (intro eff)

lemma sends_create_migrated [eff]: "to_workos d \<subseteq> C \<Longrightarrow> pres (sends C) e (create_with_migrated_id d k b tr)"
  unfolding create_with_migrated_id_def Let_def by (intro eff)

lemma sends_replace_migrated [eff]: "to_workos d \<subseteq> C \<Longrightarrow> pres (sends C) e (replace_with_migrated_id d k n b tr)"
  unfolding replace_with_migrated_id_def by (intro eff)

lemma sends_exchange:
  "to_workos (i_directory rq) \<subseteq> C \<Longrightarrow> (\<And>r. pres (sends C) e (fin r)) \<Longrightarrow>
   pres (sends C) e (workos_exchange rq p b maps fin)"
  unfolding workos_exchange_def translated_response_def prune_mapping_def Let_def by (intro eff)

lemma sends_workos_only:
  "to_workos (i_directory rq) \<subseteq> C \<Longrightarrow> (\<And>r. pres (sends C) e (fin r)) \<Longrightarrow> pres (sends C) e (workos_only rq fin)"
  unfolding workos_only_def Let_def by (intro eff sends_exchange)

lemma sends_first_unmapped [eff]: "pres (sends C) e (first_unmapped d xs)"
  by (induction d xs rule: first_unmapped.induct) (auto intro!: eff)

lemma sends_checks [eff]:
  "pres (sends C) e (member_refusal rq k)" "pres (sends C) e (id_refusal rq k)" "pres (sends C) e (prewrite_failure er)"
  unfolding member_refusal_def id_refusal_def prewrite_failure_def Let_def by (intro eff)+

lemma sends_settle_both [eff]: "pres (sends C) e (settle_both rq k nr wr b1 b2)"
  unfolding settle_both_def Let_def by (intro eff)

lemma sends_legs [eff]:
  "to_native (i_directory rq) \<subseteq> C \<Longrightarrow> to_workos (i_directory rq) \<subseteq> C \<Longrightarrow> pres (sends C) e (primary_legs rq k)"
  unfolding primary_legs_def primary_answer_def Let_def by (intro eff sends_workos_only)

lemma sends_find_native [eff]: "to_native d \<subseteq> C \<Longrightarrow> pres (sends C) e (find_native_by_unique_attribute d k res)"
  unfolding find_native_by_unique_attribute_def Let_def
  by (intro eff) (auto intro!: eff split: option.split json.split)

lemma sends_native_create [eff]: "to_native (i_directory rq) \<subseteq> C \<Longrightarrow> pres (sends C) e (native_create rq k)"
  unfolding native_create_def Let_def by (intro eff)

lemma sends_outcome [eff]: "pres (sends C) e (outcome b r)"
  unfolding outcome_def by (intro eff)

lemma sends_create_checks [eff]: "to_native (i_directory rq) \<subseteq> C \<Longrightarrow> pres (sends C) e (create_checks rq k)"
  unfolding create_checks_def proven_retry_def Let_def by (intro eff)

lemma sends_create_legs [eff]:
  "to_native (i_directory rq) \<subseteq> C \<Longrightarrow> to_workos (i_directory rq) \<subseteq> C \<Longrightarrow> pres (sends C) e (create_legs rq k plan)"
  unfolding create_legs_def Let_def by (intro eff)

lemma sends_create_settled [eff]:
  "to_workos (i_directory rq) \<subseteq> C \<Longrightarrow> pres (sends C) e (create_settled rq k plan nl mr)"
  unfolding create_settled_def create_refused_def compensate_def create_answer_def create_linked_def Let_def
  by (intro eff)

lemma sends_primary:
  assumes "to_native (i_directory rq) \<subseteq> C" "to_workos (i_directory rq) \<subseteq> C"
  shows "pres (sends C) e (workos_primary rq k)"
  unfolding workos_primary_def primary_delete_def primary_create_def primary_write_def Let_def
  by (intro eff assms)

subsection \<open>What a mode allows\<close>

definition native_served :: "mode \<Rightarrow> bool \<Rightarrow> bool" where
  "native_served md w \<longleftrightarrow> md = Passthrough \<or> md = DualWrite \<or> (md = WorkosPrimary \<and> w)"

definition workos_served :: "mode \<Rightarrow> bool \<Rightarrow> bool" where
  "workos_served md w \<longleftrightarrow> md = WorkosOnly \<or> md = WorkosPrimary \<or> (md = DualWrite \<and> w)"

definition allowed :: "directory \<Rightarrow> bool \<Rightarrow> call \<Rightarrow> bool" where
  "allowed d w c = (case c_side c of
       Native \<Rightarrow> c_token c = native_token d \<and> native_served (dir_mode d) w
     | Workos \<Rightarrow> c_token c = workos_token d \<and> workos_served (dir_mode d) w
     | WorkosApi \<Rightarrow> False
     | Bridge \<Rightarrow> False)"

lemma allowed_native: "native_served (dir_mode d) w \<Longrightarrow> to_native d \<subseteq> Collect (allowed d w)"
  and allowed_workos: "workos_served (dir_mode d) w \<Longrightarrow> to_workos d \<subseteq> Collect (allowed d w)"
  by (auto simp: on_side_def allowed_def)

lemma dispatch_sends:
  "pres (sends (Collect (allowed (i_directory rq) (is_write (i_method rq) (i_path rq))))) e (dispatch rq)"
proof -
  let ?d = "i_directory rq" and ?w = "is_write (i_method rq) (i_path rq)"
  have kind: "p_kind (i_path rq) \<noteq> None" if ?w using that by (simp add: is_write_def)
  show ?thesis
  proof (cases "dir_mode ?d")
    case Passthrough
    then show ?thesis
      unfolding dispatch_def Let_def by (auto intro!: eff allowed_native simp: native_served_def)
  next
    case DualWrite
    then show ?thesis
      unfolding dispatch_def Let_def using kind
      by (auto intro!: sends_dual sends_passthrough allowed_native allowed_workos simp: native_served_def workos_served_def)
  next
    case WorkosPrimary
    then show ?thesis
      unfolding dispatch_def Let_def using kind
      by (auto intro!: sends_primary sends_workos_only sends_finish allowed_native allowed_workos
          simp: native_served_def workos_served_def)
  next
    case WorkosOnly
    then show ?thesis
      unfolding dispatch_def Let_def
      by (auto intro!: sends_workos_only sends_finish allowed_workos simp: workos_served_def split: option.splits)
  qed
qed

text \<open>C2: whatever happens while a request is served, the native app is called only with the
  directory's native token and only in a mode that writes or reads it, WorkOS only with its WorkOS
  token and only in a mode that reaches it: \<open>passthrough\<close> never calls WorkOS, \<open>workos-only\<close> never
  calls the native app, a dual-write read stays on the native side and a \<open>workos-primary\<close> read on
  the WorkOS side.\<close>
theorem dispatch_calls_only_its_sides:
  assumes "dispatch rq e w = (r, w')"
  shows "take (length (calls w)) (calls w') = calls w
     \<and> list_all (allowed (i_directory rq) (is_write (i_method rq) (i_path rq))) (drop (length (calls w)) (calls w'))"
proof -
  have "sends (Collect (allowed (i_directory rq) (is_write (i_method rq) (i_path rq)))) w w'"
    using dispatch_sends assms by (rule presD)
  then show ?thesis by (auto simp: sends_def list_all_iff)
qed

definition sample_url :: "string \<Rightarrow> url" where
  "sample_url p = \<lparr>url_href = p, url_protocol = ''https:'', url_hostname = ''proxy'', url_port = [],
     url_origin = ''https://proxy'', url_pathname = p, url_search = [], url_params = []\<rparr>"

definition sample_inbound :: "mode \<Rightarrow> string \<Rightarrow> string \<Rightarrow> object \<Rightarrow> inbound" where
  "sample_inbound md meth i body = \<lparr>i_directory = sample md,
     i_path = \<lparr>p_kind = Some Users, p_id = nonempty_or_none (Some i), p_discovery = False,
        p_rest = (if i = [] then ''/Users'' else ''/Users/'' @ i)\<rparr>,
     i_method = meth, i_body = (if body = [] then None else Some (Doc (JObj body))),
     i_content_type = None, i_conditional = [], i_url = sample_url (''/scim/v2/Users/'' @ i)\<rparr>"

theorem dispatch_calls_only_its_sides_witness:
  "\<exists>r w'. dispatch (sample_inbound DualWrite ''POST'' [] [(''userName'', JStr ''a'')]) stub_env (fresh_world empty_store) = (r, w')
     \<and> length (calls w') = 3
     \<and> list_all (allowed (sample DualWrite) True) (calls w')"
proof -
  let ?rq = "sample_inbound DualWrite ''POST'' [] [(''userName'', JStr ''a'')]"
  obtain r w' where run: "dispatch ?rq stub_env (fresh_world empty_store) = (r, w')"
    by (cases "dispatch ?rq stub_env (fresh_world empty_store)")
  have "length (calls (snd (dispatch ?rq stub_env (fresh_world empty_store)))) = 3" by code_simp
  moreover have "i_directory ?rq = sample DualWrite" "is_write (i_method ?rq) (i_path ?rq)"
    by (simp_all add: sample_inbound_def is_write_def write_methods_def)
  ultimately show ?thesis using dispatch_calls_only_its_sides [OF run] run by (simp add: fresh_world_def)
qed

subsection \<open>Requests without a known token\<close>

lemma wp_finish_none [simp]:
  "wp e (finish None x) Q X v = Q x (v\<lparr>rlog := (rlog v)\<lparr>l_response_status := Some (r_status x)\<rparr>\<rparr>)"
  by (simp add: finish_def persist_log_def should_persist_logs_def)

lemma get_directory_by_token_cases:
  assumes "get_directory_by_token t e w = (r, w')"
    and "t = [] \<or> (\<forall>d \<in> set (directories (db w)). proxy_token_hash d \<noteq> hash_proxy_token (sha256_hex e) t)"
  shows "(\<exists>k. w' = w\<lparr>db_ops := k\<rparr>) \<and> (r = Inr None \<or> (\<exists>er. r = Inl er))"
proof -
  let ?P = "\<lambda>r w'. (\<exists>k. w' = w\<lparr>db_ops := k\<rparr>) \<and> (r = Inr None \<or> (\<exists>er. r = Inl er))"
  have start: "\<exists>k. w = w\<lparr>db_ops := k\<rparr>" by (rule exI [of _ "db_ops w"]) simp
  have none: "find (\<lambda>d. proxy_token_hash d = hash_proxy_token (sha256_hex e) t) (directories (db w)) = None"
    if "t \<noteq> []" using assms(2) that by (auto simp: find_None_iff)
  have "wp e (get_directory_by_token t) (\<lambda>x. ?P (Inr x)) (\<lambda>er. ?P (Inl er)) w"
    unfolding get_directory_by_token_def hash_token_def
    by (auto simp: none start intro!: wp_query)
  then show ?thesis using assms(1) by (auto simp: wp_def split: sum.splits)
qed

text \<open>A request whose \<open>Authorization\<close> header carries no token, or one whose digest no directory
  stores, is answered 401 (or 500 while the datastore fails), reaches no upstream and leaves the
  datastore unchanged.\<close>
theorem unknown_token_does_nothing:
  assumes "authorization_token (header_get ''Authorization'' (q_headers q)) = t"
    and "t = [] \<or> list_all (\<lambda>d. proxy_token_hash d \<noteq> hash_proxy_token (sha256_hex e) t) (directories (db w))"
    and "handle_scim q e w = (r, w')"
  shows "calls w' = calls w \<and> db w' = db w \<and> (\<exists>resp. r = Inr resp \<and> r_status resp \<in> set [401, 500])"
proof -
  let ?Q = "\<lambda>resp w'. calls w' = calls w \<and> db w' = db w \<and> r_status resp \<in> set [401, 500]"
  have "wp e (handle_scim q) ?Q (\<lambda>_ _. False) w"
    unfolding handle_scim_def Let_def wp_thn wp_bnd wp_set_log wp_settle assms(1)
    by (rule wpI; drule get_directory_by_token_cases)
      (use assms(2) in \<open>auto simp: list_all_iff scim_error_def\<close>)
  then show ?thesis using assms(3) by (auto simp: wp_def split: sum.splits)
qed

definition sample_request :: "string \<Rightarrow> string \<Rightarrow> string \<Rightarrow> object \<Rightarrow> request" where
  "sample_request token meth p body = \<lparr>q_method = meth, q_url = sample_url p,
     q_headers = [(''authorization'', ''Bearer '' @ token)],
     q_body = (if body = [] then None else Some (Doc (JObj body)))\<rparr>"

theorem unknown_token_does_nothing_witness:
  "\<exists>resp w'. handle_scim (sample_request ''nope'' ''DELETE'' ''/scim/v2/Users/u'' []) stub_env
        (fresh_world (empty_store\<lparr>directories := [sample DualWrite]\<rparr>)) = (Inr resp, w')
     \<and> calls w' = [] \<and> r_status resp \<in> set [401, 500]"
proof -
  let ?q = "sample_request ''nope'' ''DELETE'' ''/scim/v2/Users/u'' []"
  let ?w = "fresh_world (empty_store\<lparr>directories := [sample DualWrite]\<rparr>)"
  obtain r w' where run: "handle_scim ?q stub_env ?w = (r, w')" by (cases "handle_scim ?q stub_env ?w")
  have t: "authorization_token (header_get ''Authorization'' (q_headers ?q)) = ''nope''" by code_simp
  have d: "list_all (\<lambda>d. proxy_token_hash d \<noteq> hash_proxy_token (sha256_hex stub_env) ''nope'') (directories (db ?w))"
    by code_simp
  show ?thesis using unknown_token_does_nothing [OF t disjI2 [OF d] run] run by (auto simp: fresh_world_def)
qed

end
