(* ===== verification/MirrorRuns.thy ===== *)
theory MirrorRuns
  imports Routing
begin

text \<open>
  More of the WorkOS dance: what a batching caller gets, what its \<open>catch\<close> lets through, and two
  concrete runs in which the source does not do what it means to.
\<close>

subsection \<open>Batching\<close>

interpretation frozen: store_frame "\<lambda>s s'. s' = s"
  by unfold_locales auto

abbreviation untouched :: "world \<Rightarrow> world \<Rightarrow> bool" where
  "untouched \<equiv> on_db (\<lambda>s s'. s' = s)"

lemma untouched_fetch [eff]: "pres untouched e (scim_fetch sd u meth tok b ct mig hs)"
  unfolding scim_fetch_def by (intro eff)

lemma untouched_join [eff]: "pres untouched e (join_scim_url base path)"
  unfolding join_scim_url_def by (intro eff)

lemma untouched_put [eff]: "pres untouched e (put_workos d k i res mig)"
  unfolding put_workos_def by (intro eff)

lemma untouched_queue [eff]: "pres untouched e (record_mapping m (Some rows))"
  unfolding record_mapping_def by (simp add: eff)

lemma untouched_get [eff]: "pres untouched e (get_mapping d k n)"
  unfolding get_mapping_def by (intro eff)

lemma untouched_claimed [eff]: "pres untouched e (claimed_by_another d k wid n sink)"
  unfolding claimed_by_another_def get_mapping_by_workos_id_def by (intro eff)

lemma untouched_race [eff]: "pres untouched e (resolve_create_race d k n res create (Some rows))"
  unfolding resolve_create_race_def plain_fetch_def Let_def by (intro eff)

lemma untouched_post [eff]: "pres untouched e (create_via_post d k n res (Some rows))"
  unfolding create_via_post_def Let_def by (intro eff)

lemma untouched_mirror: "pres untouched e (mirror_upsert d k n raw (Some rows) False)"
  unfolding mirror_upsert_def update_mapped_def first_touch_def Let_def if_False by (intro eff; simp)

definition queued :: "directory \<Rightarrow> kind \<Rightarrow> string \<Rightarrow> id_mapping list \<Rightarrow> mirror_result \<times> sink \<Rightarrow> bool" where
  "queued d k n rows r \<longleftrightarrow>
     (if mr_ok (fst r)
      then (case snd r of Some rows' \<Rightarrow> rows' \<noteq> [] \<and> butlast rows' = rows \<and> mapping_key (last rows') = (dir_id d, k, n)
            | None \<Rightarrow> False)
      else snd r = Some rows)"

lemma queued_simps [simp]:
  "\<not> mr_ok res \<Longrightarrow> queued d k n rows (res, sk) \<longleftrightarrow> sk = Some rows"
  "mr_ok res \<Longrightarrow> queued d k n rows (res, Some (rows @ [mapping_row d k n wid st]))"
  by (simp_all add: queued_def)

lemma race_queued:
  "wp e (resolve_create_race d k n res create (Some rows)) (\<lambda>r _. queued d k n rows r) (\<lambda>_ _. True) w"
  unfolding resolve_create_race_def put_workos_def plain_fetch_def Let_def
  by (auto simp: Let_def split: sum.split option.split intro!: wp_record_mapping wp_claimed_by_another)

lemma post_queued:
  "wp e (create_via_post d k n res (Some rows)) (\<lambda>r _. queued d k n rows r) (\<lambda>_ _. True) w"
  unfolding create_via_post_def Let_def
  by (auto simp: Let_def split: sum.split option.split intro!: wp_record_mapping race_queued)

lemma first_queued:
  "wp e (first_touch d k n res (Some rows)) (\<lambda>r _. case r of None \<Rightarrow> True | Some x \<Rightarrow> queued d k n rows x) (\<lambda>_ _. True) w"
  unfolding first_touch_def put_workos_def Let_def
  by (auto simp: Let_def split: sum.split intro!: wp_record_mapping wp_claimed_by_another)

lemma update_queued:
  "wp e (update_mapped d k n m res (Some rows) False) (\<lambda>r _. case r of None \<Rightarrow> True | Some x \<Rightarrow> queued d k n rows x) (\<lambda>_ _. True) w"
  unfolding update_mapped_def put_workos_def Let_def
  by (auto simp: Let_def split: sum.split intro!: wp_record_mapping wp_claimed_by_another)

lemma mirror_queued:
  "wp e (mirror_upsert d k n raw (Some rows) False) (\<lambda>r _. queued d k n rows r) (\<lambda>_ _. True) w"
proof -
  have "wp e (create_via_post d k n res (Some rows)) (\<lambda>r _. queued d k n rows r) (\<lambda>_ _. True) v" for res v
    by (rule post_queued)
  then show ?thesis
    unfolding mirror_upsert_def Let_def wp_bnd wp_try_catch
    by (intro wp_get_mapping)
      (auto split: option.split intro!: wp_mono [OF first_queued] wp_mono [OF update_queued])
qed

text \<open>A mirror that is given a sink writes nothing to the datastore, and the sink grows by
  exactly one row, keyed on the resource, when it succeeds and by none when it fails: the batch the
  caller flushes holds one row per mirrored resource.\<close>
theorem sink_gets_one_row_per_success:
  assumes "mirror_upsert d k n raw (Some rows) False e w = (r, w')"
  shows "db w' = db w \<and> (case r of Inl er \<Rightarrow> True | Inr x \<Rightarrow> queued d k n rows x)"
proof
  show "db w' = db w"
    using presD [OF untouched_mirror assms] by (simp add: on_db_def)
  show "case r of Inl er \<Rightarrow> True | Inr x \<Rightarrow> queued d k n rows x"
    using mirror_queued [of e d k n raw rows w] assms by (auto simp: wp_def split: sum.splits)
qed

theorem sink_gets_one_row_per_success_witness:
  "\<exists>res sk w'. mirror_upsert (sample DualWrite) Users ''u1'' [(''userName'', JStr ''a'')] (Some []) False stub_env
        (fresh_world empty_store) = (Inr (res, sk), w')
     \<and> mr_ok res \<and> queued (sample DualWrite) Users ''u1'' [] (res, sk) \<and> db w' = empty_store"
proof -
  let ?run = "mirror_upsert (sample DualWrite) Users ''u1'' [(''userName'', JStr ''a'')] (Some []) False stub_env
        (fresh_world empty_store)"
  have "case ?run of (Inr (res, sk), w') \<Rightarrow> mr_ok res | _ \<Rightarrow> False" by code_simp
  then obtain res sk w' where run: "?run = (Inr (res, sk), w')" "mr_ok res"
    by (auto split: prod.splits sum.splits)
  then show ?thesis using sink_gets_one_row_per_success [OF run(1)] by (auto simp: fresh_world_def)
qed

subsection \<open>What leaves the dance as an exception\<close>

definition posted :: "world \<Rightarrow> world \<Rightarrow> bool" where
  "posted w w' \<longleftrightarrow> (\<exists>cs. calls w' = calls w @ cs \<and> list_ex (\<lambda>c. c_method c = ''POST'') cs)"

lemma posted_later: "posted w w1 \<Longrightarrow> sends UNIV w1 w2 \<Longrightarrow> posted w w2"
  by (auto simp: posted_def sends_def)

lemma sends_posted: "sends UNIV w w1 \<Longrightarrow> posted w1 w2 \<Longrightarrow> posted w w2"
  by (auto simp: posted_def sends_def)

lemma post_leg_posted:
  "wp e (create_via_post d k n res sink) (\<lambda>_ _. True) (\<lambda>_. posted w) w"
proof -
  let ?c = "scim_call Workos (joined_url e (workos_url d) (collection_path k)) ''POST'' (workos_token d)
    (Some (Doc (JObj (del_prop ''id'' res)))) None (Some n) []"
  let ?w1 = "w\<lparr>calls := calls w @ [?c]\<rparr>"
  have now: "posted w ?w1" by (auto simp: posted_def scim_call_def)
  have later: "wp e mm (\<lambda>_ _. True) (\<lambda>_. posted w) ?w1" if "pres (sends UNIV) e mm" for mm :: "(mirror_result \<times> sink) m"
    by (rule wp_mono [OF wp_pres [OF that]]) (auto intro: posted_later [OF now])
  show ?thesis
    unfolding create_via_post_def Let_def wp_bnd wp_join wp_scim_fetch
    by (cases "upstream e (calls w) ?c")
      (auto simp: now Let_def simp del: wp_ifs wp_case_option wp_bnd intro!: later eff)
qed

text \<open>Everything but the create POST is reported as a result: when the mirror throws, it had
  sent a POST to WorkOS.\<close>
theorem mirror_throws_only_after_post:
  assumes "mirror_upsert d k n raw sink serialize e w = (Inl er, w')"
  shows "list_ex (\<lambda>c. c_method c = ''POST'') (drop (length (calls w)) (calls w'))"
proof -
  let ?first = "bnd (get_mapping (dir_id d) k n) (\<lambda>existing. case existing of
      None \<Rightarrow> if serialize then
          ret (Some (recovery_refused (''PUT /'' @ kind_name k @ ''/'' @ n) 409
            ''The native id mapping is no longer present; run backfill or reconciliation before replacing the resource'', sink))
        else first_touch d k n (strip_fields raw) sink
    | Some m \<Rightarrow> update_mapped d k n m (strip_fields raw) sink serialize)"
  have "pres (sends UNIV) e ?first"
    unfolding first_touch_def update_mapped_def Let_def by (intro eff) simp_all
  from wp_pres [OF this, of w]
  have "wp e (try_catch ?first (\<lambda>er. ret (Some (mirror_failed k n er, sink)))) (\<lambda>_. sends UNIV w) (\<lambda>_ _. False) w"
    by simp
  then have "wp e (mirror_upsert d k n raw sink serialize) (\<lambda>_ _. True) (\<lambda>_. posted w) w"
    unfolding mirror_upsert_def Let_def wp_bnd [of e "try_catch mm h" for mm h]
    by (rule wp_mono)
      (auto split: option.split intro!: wp_mono [OF post_leg_posted] intro: sends_posted)
  then have "posted w w'" using assms by (simp add: wp_def)
  then show ?thesis by (auto simp: posted_def)
qed

text \<open>WorkOS answers everything but the create POST, during which the connection breaks.\<close>

definition broken_post :: env where
  "broken_post = quiet_env\<lparr>upstream := (\<lambda>h c. if c_method c = ''POST'' then Inl ''socket hang up'' else empty_upstream h c)\<rparr>"

theorem mirror_throws_only_after_post_witness:
  "\<exists>w'. mirror_upsert (sample DualWrite) Users ''u1'' [] None False broken_post (fresh_world empty_store)
        = (Inl (NetError ''socket hang up''), w')
     \<and> list_ex (\<lambda>c. c_method c = ''POST'') (calls w')"
proof -
  let ?run = "mirror_upsert (sample DualWrite) Users ''u1'' [] None False broken_post (fresh_world empty_store)"
  have "case ?run of (Inl er, w') \<Rightarrow> er = NetError ''socket hang up'' | _ \<Rightarrow> False" by code_simp
  then obtain w' where run: "?run = (Inl (NetError ''socket hang up''), w')"
    by (auto split: prod.splits sum.splits)
  then show ?thesis using mirror_throws_only_after_post [OF run] by (simp add: fresh_world_def)
qed

subsection \<open>Two runs the source does not intend\<close>

text \<open>
  A resource \<open>A\<close> whose WorkOS row \<open>W1\<close> is gone, beside a resource \<open>B\<close> whose WorkOS row has the id
  \<open>A\<close>.  WorkOS answers the POST 409 (the name is taken), and the retry PUT reaches the row of \<open>B\<close>.
\<close>

definition neighbours :: store where
  "neighbours = upsert_row (row_of ''B'' ''A'') (upsert_row (row_of ''A'' ''W1'') empty_store)"

definition name_taken :: "call list \<Rightarrow> call \<Rightarrow> string + upstream_result" where
  "name_taken h c = Inr
     (if c_method c = ''POST'' then reply 409 []
      else if c_method c = ''PUT'' \<and> put_target c = ''A'' then reply 200 [(''id'', JStr ''A'')]
      else reply 404 [])"

definition taken_env :: env where
  "taken_env = quiet_env\<lparr>upstream := name_taken\<rparr>"


text \<open>The unawaited POST leg: on \<open>workos-only\<close> a create whose POST loses its connection is not
  answered at all, although the handler has a 502 for a rejected create and \<open>mirrorUpsert\<close> a
  result for a failed call; the request is not logged either.\<close>
theorem lost_post_is_not_answered:
  "case dispatch (sample_inbound WorkosOnly ''POST'' [] [(''userName'', JStr ''a'')]) broken_post
         (fresh_world empty_store) of
     (Inl er, w') \<Rightarrow> er = NetError ''socket hang up'' \<and> l_response_status (rlog w') = None
   | _ \<Rightarrow> False"
  by code_simp

end
