(* ===== verification/DualLaws.thy ===== *)
theory DualLaws
  imports MirrorRuns
begin

text \<open>
  The rungs on which the native app answers: its answer is the IdP's whatever the mirror does, and
  the mirror runs exactly when native holds the state the write asked for.  Also the rules for the
  ends of a request that the other rungs use.
\<close>

subsection \<open>Ends of a request\<close>

lemma run_log_attempts:
  "\<exists>j l. snd (run_attempts n (\<lambda>s. (Inr (), s\<lparr>proxy_logs := proxy_logs s @ [x]\<rparr>)) e w)
     = w\<lparr>db_ops := j, db := (db w)\<lparr>proxy_logs := l\<rparr>\<rparr>"
proof (induction n arbitrary: w)
  case 0
  then show ?case by (intro exI [of _ "db_ops w"] exI [of _ "proxy_logs (db w)"]) simp
next
  case (Suc n)
  let ?w1 = "w\<lparr>db_ops := Suc (db_ops w)\<rparr>"
  let ?s = "(db w)\<lparr>proxy_logs := proxy_logs (db w) @ [x]\<rparr>"
  have stop: "\<exists>j l. v = w\<lparr>db_ops := j, db := (db w)\<lparr>proxy_logs := l\<rparr>\<rparr>" if "v = ?w1 \<or> v = ?w1\<lparr>db := ?s\<rparr>" for v
    using that
  proof
    assume "v = ?w1"
    then show ?thesis by (intro exI [of _ "Suc (db_ops w)"] exI [of _ "proxy_logs (db w)"]) simp
  next
    assume "v = ?w1\<lparr>db := ?s\<rparr>"
    then show ?thesis by (intro exI [of _ "Suc (db_ops w)"] exI [of _ "proxy_logs (db w) @ [x]"]) simp
  qed
  show ?case
  proof (cases "db_fault e (db_ops w)")
    case Fine
    then show ?thesis using stop by (simp add: Let_def)
  next
    case (Refused t)
    then show ?thesis using stop Suc.IH [of ?w1] by (cases t) (auto simp: Let_def)
  next
    case (LostAck t)
    then show ?thesis using stop Suc.IH [of "?w1\<lparr>db := ?s\<rparr>"] by (cases t) (auto simp: Let_def)
  qed
qed

lemma wp_persist_log:
  assumes "\<And>j l. Q () (w\<lparr>db_ops := j, db := (db w)\<lparr>proxy_logs := l\<rparr>\<rparr>)"
  shows "wp e (persist_log d) Q X w"
proof -
  have here: "Q () w" using assms [of "proxy_logs (db w)" "db_ops w"] by simp
  have "wp e (insert_proxy_log g) Q (\<lambda>_. Q ()) w" for g
  proof (rule wpI)
    fix r w' assume "insert_proxy_log g e w = (Inr r, w')"
    then show "Q r w'"
      using run_log_attempts [of max_attempts g e w] assms
      by (auto simp: insert_proxy_log_def execute_def with_datastore_retry_def)
  next
    fix er w' assume "insert_proxy_log g e w = (Inl er, w')"
    then show "Q () w'"
      using run_log_attempts [of max_attempts g e w] assms
      by (auto simp: insert_proxy_log_def execute_def with_datastore_retry_def)
  qed
  with here show ?thesis by (simp add: persist_log_def)
qed

lemma wp_finish:
  assumes "\<And>j l. Q r (w\<lparr>rlog := (rlog w)\<lparr>l_response_status := Some (r_status r)\<rparr>, db_ops := j,
      db := (db w)\<lparr>proxy_logs := l\<rparr>\<rparr>)"
  shows "wp e (finish d r) Q X w"
  unfolding finish_def using assms by (auto intro!: wp_persist_log)

lemma wp_forward_headers:
  "fw_to_idp_id fw = None \<Longrightarrow> (\<And>hs'. Q hs' w) \<Longrightarrow> wp e (forward_headers fw hs) Q X w"
proof (induction fw hs arbitrary: Q rule: forward_headers.induct)
  case (2 fw name v hs)
  have location: "wp e (rewrite_location v fw) R X w" if "\<And>l. R l w" for R
    using that "2.prems"(1) by (auto simp: rewrite_location_def Let_def split: option.split)
  show ?case
    using "2.prems"(2) by (auto intro!: location "2.IH" "2.prems"(1))
qed simp

lemma wp_upstream_response:
  assumes "fw_to_idp_id fw = None"
    and "\<And>hs. Q \<lparr>r_status = u_status r, r_body = (if u_status r \<in> set bodyless_statuses then None else u_body r),
           r_headers = hs\<rparr> w"
  shows "wp e (upstream_response r fw) Q X w"
  unfolding upstream_response_def proxied_headers_def
  using assms(2) by (auto intro!: wp_forward_headers [OF assms(1)])

subsection \<open>Computations that never throw\<close>

named_theorems tot "rules for computations that never throw"

definition never_throws :: "env \<Rightarrow> 'a m \<Rightarrow> bool" where
  "never_throws e mm \<longleftrightarrow> (\<forall>w. wp e mm (\<lambda>_ _. True) (\<lambda>_ _. False) w)"

lemma never_throws_wp: "never_throws e mm \<longleftrightarrow> (\<forall>w. wp e mm (\<lambda>_ _. True) (\<lambda>_ _. False) w)"
  by (rule never_throws_def)

lemma tot_basic [tot]:
  "never_throws e (ret x)" "never_throws e (set_log f)" "never_throws e get_log" "never_throws e (log_error s)"
  "never_throws e (persist_log d)"
  unfolding never_throws_wp by (auto intro: wp_persist_log)

lemma tot_bnd [tot]: "never_throws e mm \<Longrightarrow> (\<And>x. never_throws e (f x)) \<Longrightarrow> never_throws e (bnd mm f)"
  unfolding never_throws_wp wp_bnd by (blast intro: wp_mono)

lemma tot_thn [tot]: "never_throws e mm \<Longrightarrow> never_throws e nn \<Longrightarrow> never_throws e (thn mm nn)"
  unfolding thn_def by (rule tot_bnd)

lemma tot_try_catch [tot]: "(\<And>er. never_throws e (h er)) \<Longrightarrow> never_throws e (try_catch mm h)"
  unfolding never_throws_def wp_try_catch by (auto intro: wpI)

lemma tot_each [tot]: "(\<And>x. never_throws e (f x)) \<Longrightarrow> never_throws e (each f xs)"
  by (induction xs) (auto intro: tot)

lemma tot_if [tot]: "never_throws e mm \<Longrightarrow> never_throws e nn \<Longrightarrow> never_throws e (if b then mm else nn)"
  by simp

lemma tot_option [tot]:
  "never_throws e mm \<Longrightarrow> (\<And>y. never_throws e (f y)) \<Longrightarrow> never_throws e (case x of None \<Rightarrow> mm | Some y \<Rightarrow> f y)"
  by (cases x) auto

lemma tot_divergence [tot]: "never_throws e (clear_divergence_for_write rq nr b)"
  unfolding clear_divergence_for_write_def by (intro tot)

lemma tot_tail: "never_throws e (dual_write_tail rq k nr)"
  unfolding dual_write_tail_def Let_def by (intro tot)

subsection \<open>The answer of a native-first write\<close>

definition native_call :: "env \<Rightarrow> inbound \<Rightarrow> call" where
  "native_call e rq = scim_call Native
     (joined_url e (native_url (i_directory rq)) (p_rest (i_path rq)) @ url_search (i_url rq)) (i_method rq)
     (native_token (i_directory rq)) (i_body rq) (i_content_type rq) None (i_conditional rq)"

lemma wp_native_fetch [simp]:
  "wp e (native_fetch rq) Q X w = (let c = native_call e rq; w1 = w\<lparr>calls := calls w @ [c]\<rparr> in
      case upstream e (calls w) c of Inl msg \<Rightarrow> X (NetError msg) w1 | Inr r \<Rightarrow> Q (read_result r) w1)"
  by (simp add: native_fetch_def native_call_def Let_def)

definition answers :: "response \<Rightarrow> upstream_result \<Rightarrow> bool" where
  "answers resp r \<longleftrightarrow> r_status resp = u_status r
     \<and> r_body resp = (if u_status r \<in> set bodyless_statuses then None else u_body r)"

definition applied :: "inbound \<Rightarrow> upstream_result \<Rightarrow> bool" where
  "applied rq r \<longleftrightarrow> is_success (u_status r) \<or> delete_already_gone rq r"

text \<open>The store parts a write can change, but for the request log.\<close>

definition same_but_log :: "store \<Rightarrow> store \<Rightarrow> bool" where
  "same_but_log s s' \<longleftrightarrow> s' = s\<lparr>proxy_logs := proxy_logs s'\<rparr>"

lemma tail_idle:
  "\<not> applied rq r \<Longrightarrow> (\<And>j l. Q () (w\<lparr>db_ops := j, db := (db w)\<lparr>proxy_logs := l\<rparr>\<rparr>)) \<Longrightarrow>
   wp e (dual_write_tail rq k r) Q X w"
  unfolding dual_write_tail_def applied_def Let_def by (auto intro!: wp_persist_log)

text \<open>C34: on \<open>dual-write\<close> the IdP always gets an answer, and it is the native app's own (status and
  body), or 502 when the native app cannot be reached, whatever WorkOS, the mirror and the datastore
  do; and unless the native app applied the write, or reports the resource of a plainly spelled
  DELETE absent, WorkOS is not called and nothing but the request log is written.\<close>
theorem dual_write_answers_native:
  "\<exists>resp w'. dual_write rq k e w = (Inr resp, w') \<and>
     (case upstream e (calls w) (native_call e rq) of
        Inl msg \<Rightarrow> r_status resp = 502 \<and> calls w' = calls w @ [native_call e rq] \<and> same_but_log (db w) (db w')
      | Inr r \<Rightarrow> answers resp (read_result r)
          \<and> (applied rq (read_result r)
             \<or> calls w' = calls w @ [native_call e rq] \<and> same_but_log (db w) (db w')))"
proof -
  let ?P = "\<lambda>resp w'. case upstream e (calls w) (native_call e rq) of
        Inl msg \<Rightarrow> r_status resp = 502 \<and> calls w' = calls w @ [native_call e rq] \<and> same_but_log (db w) (db w')
      | Inr r \<Rightarrow> answers resp (read_result r)
          \<and> (applied rq (read_result r)
             \<or> calls w' = calls w @ [native_call e rq] \<and> same_but_log (db w) (db w'))"
  have tail: "wp e (dual_write_tail rq k r) (\<lambda>_ w'. applied rq r
       \<or> calls w' = calls v \<and> same_but_log (db v) (db w')) (\<lambda>_ _. False) v" for r v
  proof (cases "applied rq r")
    case True
    then show ?thesis
      using tot_tail [of e rq k r] by (auto simp: never_throws_wp)
  next
    case False
    then show ?thesis by (rule tail_idle) (simp add: same_but_log_def)
  qed
  have "wp e (dual_write rq k) ?P (\<lambda>_ _. False) w"
    unfolding dual_write_def
    by (auto simp: Let_def log_native_def native_forward_def answers_def scim_error_def same_but_log_def
        split: sum.split intro!: wp_persist_log wp_upstream_response wp_mono [OF tail])
  then show ?thesis by (auto simp: wp_def split: prod.splits sum.splits)
qed

end
