(* ===== verification/Protocols.thy ===== *)
theory Protocols
  imports DbLaws
begin

text \<open>
  The three protocols that rest on single conditional statements, as properties of every
  interleaving: the create claims (mutual exclusion of creates, deletes, recoveries and reconciles
  of one resource type), the divergence ledger with its sweep stamps, and event-link ownership.
\<close>

subsection \<open>Create claims\<close>

locale exclusive_claim =
  fixes holder :: "'x \<Rightarrow> 's \<Rightarrow> 't option"
    and acquire :: "'x \<Rightarrow> 't \<Rightarrow> 's \<Rightarrow> bool \<times> 's"
    and release :: "'x \<Rightarrow> 't \<Rightarrow> 's \<Rightarrow> 's"
  assumes acquire_free: "holder x s = None \<Longrightarrow> fst (acquire x t s) \<and> holder x (snd (acquire x t s)) = Some t"
    and acquire_held: "holder x s = Some t' \<Longrightarrow> acquire x t s = (t' = t, s)"
    and acquire_other: "x' \<noteq> x \<Longrightarrow> holder x' (snd (acquire x t s)) = holder x' s"
    and release_other_key: "x' \<noteq> x \<Longrightarrow> holder x' (release x t s) = holder x' s"
    and release_other_token: "holder x s = Some t' \<Longrightarrow> t' \<noteq> t \<Longrightarrow> holder x (release x t s) = Some t'"
begin

lemma acquired_holder: "fst (acquire x t s) \<Longrightarrow> holder x (snd (acquire x t s)) = Some t"
  by (cases "holder x s") (auto simp: acquire_free acquire_held)

lemma acquire_keeps: "holder y s = Some t' \<Longrightarrow> holder y (snd (acquire x t s)) = Some t'"
  by (cases "x = y") (auto simp: acquire_held acquire_other)

lemma release_keeps: "holder y s = Some t' \<Longrightarrow> t' \<noteq> t \<Longrightarrow> holder y (release x t s) = Some t'"
  by (cases "x = y") (auto simp: release_other_token release_other_key)

lemma busy_unless_owner: "holder x s = Some t' \<Longrightarrow> t' \<noteq> t \<Longrightarrow> \<not> fst (acquire x t s)"
  by (simp add: acquire_held)

end

definition holder_at :: "string \<times> kind \<Rightarrow> store \<Rightarrow> string option" where
  "holder_at x s = claim_holder (fst x) (snd x) s"

definition acquire_at :: "string \<times> kind \<Rightarrow> string \<Rightarrow> store \<Rightarrow> bool \<times> store" where
  "acquire_at x t s = (case claim_row (fst x) (snd x) t s of
     (Inl er, s') \<Rightarrow> (False, s') | (Inr b, s') \<Rightarrow> (b, s'))"

definition release_at :: "string \<times> kind \<Rightarrow> string \<Rightarrow> store \<Rightarrow> store" where
  "release_at x t s = release_row (fst x) (snd x) t s"

lemma look_row_filter_other:
  "(\<And>r. fst r = x \<Longrightarrow> P r) \<Longrightarrow> look_row fst x (filter P rows) = look_row fst x rows"
  by (induction rows) auto

interpretation claims: exclusive_claim holder_at acquire_at release_at
proof
  fix x :: "string \<times> kind" and s :: store and t
  assume "holder_at x s = None"
  then show "fst (acquire_at x t s) \<and> holder_at x (snd (acquire_at x t s)) = Some t"
    by (auto simp: holder_at_def acquire_at_def claim_row_def claim_holder_def look_row_append)
next
  fix x :: "string \<times> kind" and s :: store and t t'
  assume "holder_at x s = Some t'"
  then show "acquire_at x t s = (t' = t, s)"
    by (simp add: holder_at_def acquire_at_def claim_row_def)
next
  fix x' x :: "string \<times> kind" and t and s :: store
  assume "x' \<noteq> x"
  then show "holder_at x' (snd (acquire_at x t s)) = holder_at x' s"
    by (cases x; cases x')
      (auto simp: holder_at_def acquire_at_def claim_row_def claim_holder_def look_row_append
        split: option.splits)
next
  fix x' x :: "string \<times> kind" and t and s :: store
  assume "x' \<noteq> x"
  then have "look_row fst x' (filter (\<lambda>r. \<not> (fst r = x \<and> snd r = t)) (create_claims s))
      = look_row fst x' (create_claims s)"
    by (intro look_row_filter_other) auto
  then show "holder_at x' (release_at x t s) = holder_at x' s"
    by (simp add: holder_at_def release_at_def release_row_def claim_holder_def)
next
  fix x :: "string \<times> kind" and s :: store and t' t
  assume h: "holder_at x s = Some t'" and "t' \<noteq> t"
  then have "look_row fst x (create_claims s) = Some (x, t')"
    using look_row_SomeD [of fst x "create_claims s"] by (cases x) (auto simp: holder_at_def claim_holder_def)
  then have "look_row fst x (filter (\<lambda>r. \<not> (fst r = x \<and> snd r = t)) (create_claims s)) = Some (x, t')"
    using \<open>t' \<noteq> t\<close> by (intro look_row_filter_keep) auto
  then show "holder_at x (release_at x t s) = Some t'"
    by (simp add: holder_at_def release_at_def release_row_def claim_holder_def)
qed

text \<open>
  Any number of operations (creates, deletes, recoveries, reconciles), each with the random token it
  drew, run against one datastore.  An operation is inside a section for a directory and resource
  type from its successful acquisition until it gives the section up, by a release or, keeping the
  claim for an operator, by ending.  Acquisitions may lose their acknowledgement, and every
  operation may run its owner-scoped cleanup at any time.
\<close>

record system =
  table :: store
  inside :: "nat \<Rightarrow> (string \<times> kind) set"

inductive claim_step :: "(nat \<Rightarrow> string) \<Rightarrow> system \<Rightarrow> system \<Rightarrow> bool" for tok where
  acquired: "acquire_at x (tok p) (table s) = (True, t) \<Longrightarrow>
     claim_step tok s (s\<lparr>table := t, inside := (inside s)(p := insert x (inside s p))\<rparr>)"
| busy: "acquire_at x (tok p) (table s) = (False, t) \<Longrightarrow> claim_step tok s (s\<lparr>table := t\<rparr>)"
| lost: "claim_step tok s (s\<lparr>table := snd (acquire_at x (tok p) (table s))\<rparr>)"
| released: "claim_step tok s
     (s\<lparr>table := release_at x (tok p) (table s), inside := (inside s)(p := inside s p - {x})\<rparr>)"
| retained: "claim_step tok s (s\<lparr>inside := (inside s)(p := {})\<rparr>)"
| elsewhere: "create_claims t = create_claims (table s) \<Longrightarrow> claim_step tok s (s\<lparr>table := t\<rparr>)"

inductive claim_reachable :: "(nat \<Rightarrow> string) \<Rightarrow> system \<Rightarrow> bool" for tok where
  start: "claim_reachable tok \<lparr>table = s0, inside = (\<lambda>_. {})\<rparr>"
| step: "claim_reachable tok s \<Longrightarrow> claim_step tok s t \<Longrightarrow> claim_reachable tok t"

definition claim_inv :: "(nat \<Rightarrow> string) \<Rightarrow> system \<Rightarrow> bool" where
  "claim_inv tok s \<longleftrightarrow> (\<forall>p x. x \<notin> inside s p \<or> holder_at x (table s) = Some (tok p))"

lemma claim_step_inv:
  assumes "inj tok"
  shows "claim_step tok s t \<Longrightarrow> claim_inv tok s \<Longrightarrow> claim_inv tok t"
proof (induction rule: claim_step.induct)
  case (acquired x p s t)
  then have "holder_at x t = Some (tok p)"
    using claims.acquired_holder [of x "tok p" "table s"] by simp
  moreover have "holder_at y (table s) = Some t' \<Longrightarrow> holder_at y t = Some t'" for y t'
    using claims.acquire_keeps [of y "table s" t' x "tok p"] acquired by simp
  ultimately show ?case using acquired.prems by (auto simp: claim_inv_def)
next
  case (busy x p s t)
  have "holder_at y (table s) = Some t' \<Longrightarrow> holder_at y t = Some t'" for y t'
    using claims.acquire_keeps [of y "table s" t' x "tok p"] busy by simp
  with busy.prems show ?case by (auto simp: claim_inv_def)
next
  case (lost s x p)
  then show ?case by (auto simp: claim_inv_def intro: claims.acquire_keeps)
next
  case (released s p x)
  have "holder_at y (release_at x (tok p) (table s)) = Some (tok q)"
    if h: "holder_at y (table s) = Some (tok q)" and d: "q \<noteq> p \<or> y \<noteq> x" for q y
  proof (cases "q = p")
    case True
    with d have "y \<noteq> x" by simp
    then show ?thesis using h by (simp add: claims.release_other_key)
  next
    case False
    then have "tok q \<noteq> tok p" using assms by (auto dest: injD)
    with h show ?thesis by (rule claims.release_keeps)
  qed
  with released show ?case by (auto simp: claim_inv_def)
next
  case (retained s p)
  then show ?case by (auto simp: claim_inv_def)
next
  case (elsewhere t s)
  then show ?case by (auto simp: claim_inv_def holder_at_def claim_holder_def)
qed

lemma claim_reachable_inv: "claim_reachable tok s \<Longrightarrow> inj tok \<Longrightarrow> claim_inv tok s"
proof (induction rule: claim_reachable.induct)
  case start
  then show ?case by (simp add: claim_inv_def)
next
  case (step s t)
  then show ?case using claim_step_inv by blast
qed

text \<open>C1: two operations are never inside the create section of one directory and resource type at
  once, in any interleaving of acquisitions (also unacknowledged ones), cleanups, releases, retained
  claims and other datastore writes.\<close>
theorem claim_mutual_exclusion:
  assumes "inj tok" and "claim_reachable tok s" and "x \<in> inside s p" and "x \<in> inside s q"
  shows "p = q"
proof -
  have "claim_inv tok s" using assms(2,1) by (rule claim_reachable_inv)
  with assms(3,4) have "tok p = tok q" unfolding claim_inv_def by (metis option.inject)
  with assms(1) show ?thesis by (rule injD)
qed

subsection \<open>A run of the claim protocol\<close>

definition token_of :: "nat \<Rightarrow> string" where
  "token_of p = replicate p (CHR ''t'')"

lemma inj_token_of: "inj token_of"
  by (rule injI) (metis token_of_def length_replicate)

text \<open>Operation 1 acquires, operation 2 is refused, and 1 is alone inside.\<close>

theorem claim_mutual_exclusion_witness:
  "\<exists>s. claim_reachable token_of s \<and> {q. (''d'', Users) \<in> inside s q} = {1}"
proof -
  let ?x = "(''d'', Users)"
  let ?s0 = "\<lparr>table = empty_store, inside = (\<lambda>_. {})\<rparr> :: system"
  let ?t1 = "snd (acquire_at ?x (token_of 1) empty_store)"
  let ?s1 = "?s0\<lparr>table := ?t1, inside := (inside ?s0)(1 := insert ?x (inside ?s0 1))\<rparr>"
  have a: "acquire_at ?x (token_of 1) (table ?s0) = (True, ?t1)"
    by (simp add: acquire_at_def claim_row_def claim_holder_def empty_store_def)
  have r: "claim_reachable token_of ?s1"
    by (rule claim_reachable.step [OF claim_reachable.start [of _ empty_store] claim_step.acquired [where tok = token_of and s = ?s0, OF a]])
  have i: "?x \<in> inside ?s1 1" by simp
  have "{q. ?x \<in> inside ?s1 q} = {1}"
  proof (intro equalityI subsetI)
    fix q assume "q \<in> {q. ?x \<in> inside ?s1 q}"
    then have "?x \<in> inside ?s1 q" by simp
    from claim_mutual_exclusion [OF inj_token_of r i this] show "q \<in> {1}" by simp
  next
    fix q :: nat assume "q \<in> {1}"
    with i show "q \<in> {q. ?x \<in> inside ?s1 q}" by simp
  qed
  with r show ?thesis by blast
qed

subsection \<open>The divergence ledger\<close>

datatype ledger_op =
    LRecord string kind string string "nat option" string
  | LClear string kind string
  | LClearReplayed string kind string string
  | LSweep string string
  | LMark string string

fun ledger_step :: "ledger_op \<Rightarrow> store \<Rightarrow> store" where
  "ledger_step (LRecord d k key meth st detail) s = record_failure_row d k key meth st detail s"
| "ledger_step (LClear d k key) s = clear_failure_row d k key s"
| "ledger_step (LClearReplayed d k key tok) s = clear_replayed_row d k key tok s"
| "ledger_step (LSweep d tok) s = clear_replayed_rows d tok s"
| "ledger_step (LMark d tok) s = mark_rows d tok s"

definition failure_at :: "string \<Rightarrow> kind \<Rightarrow> string \<Rightarrow> store \<Rightarrow> write_failure option" where
  "failure_at d k key s = look_row failure_key (d, k, key) (write_failures s)"

lemma failure_key_update [simp]: "failure_key (f\<lparr>f_sweep := t\<rparr>) = failure_key f"
  by (simp add: failure_key_def)

lemma failure_at_record:
  "\<exists>f. failure_at d k key (record_failure_row d k key meth st detail s) = Some f
       \<and> f_sweep f = None \<and> f_method f = meth"
  by (simp add: failure_at_def record_failure_row_def failure_key_def Let_def)

lemma failure_at_record_other:
  "(d', k', key') \<noteq> (d, k, key) \<Longrightarrow>
   failure_at d' k' key' (record_failure_row d k key meth st detail s) = failure_at d' k' key' s"
  by (auto simp: failure_at_def record_failure_row_def failure_key_def Let_def)

lemma failure_at_clear:
  "failure_at d' k' key' (clear_failure_row d k key s) =
     (if (d', k', key') = (d, k, key) then None else failure_at d' k' key' s)"
  by (simp add: failure_at_def clear_failure_row_def)

lemma failure_at_mark:
  "failure_at d' k' key' (mark_rows d tok s) = map_option
     (\<lambda>f. if f_directory f = d \<and> f_sweep f = None then f\<lparr>f_sweep := Some tok\<rparr> else f)
     (failure_at d' k' key' s)"
  unfolding failure_at_def mark_rows_def by (simp add: look_row_map)

lemma failure_at_clear_replayed_keep:
  "failure_at d' k' key' s = Some f \<Longrightarrow> f_sweep f \<noteq> Some tok \<or> f_method f = ''DELETE'' \<Longrightarrow>
   failure_at d' k' key' (clear_replayed_row d k key tok s) = Some f"
  unfolding failure_at_def clear_replayed_row_def by (auto intro: look_row_filter_keep)

lemma failure_at_sweep_keep:
  "failure_at d' k' key' s = Some f \<Longrightarrow> f_sweep f \<noteq> Some tok \<or> f_method f = ''DELETE'' \<Longrightarrow>
   failure_at d' k' key' (clear_replayed_rows d tok s) = Some f"
  unfolding failure_at_def clear_replayed_rows_def by (auto intro: look_row_filter_keep)

lemmas failure_at_rules = failure_at_record failure_at_record_other failure_at_clear failure_at_mark

text \<open>
  What the other traffic may do while the reconcile with stamp \<open>tok\<close> runs: record any failure,
  retire other resources, stamp rows for other reconciles.  The clears and sweeps in the sequence
  are the ones of this reconcile.
\<close>

fun interferes :: "string \<Rightarrow> string \<times> kind \<times> string \<Rightarrow> ledger_op \<Rightarrow> bool" where
  "interferes tok x (LRecord d k key meth st detail) = False"
| "interferes tok x (LClear d k key) = ((d, k, key) = x)"
| "interferes tok x (LClearReplayed d k key tok') = (tok' \<noteq> tok)"
| "interferes tok x (LSweep d tok') = (tok' \<noteq> tok)"
| "interferes tok x (LMark d tok') = (tok' = tok)"

lemma ledger_step_unstamped:
  assumes "\<exists>f. failure_at d k key s = Some f \<and> f_sweep f \<noteq> Some tok"
    and "\<not> interferes tok (d, k, key) p"
  shows "\<exists>f. failure_at d k key (ledger_step p s) = Some f \<and> f_sweep f \<noteq> Some tok"
proof (cases p)
  case (LRecord d' k' key' meth st detail)
  then show ?thesis
    using assms failure_at_record [of d k key meth st detail s]
      failure_at_record_other [of d k key d' k' key' meth st detail s]
    by (cases "(d', k', key') = (d, k, key)") force+
next
  case (LMark d' tok')
  obtain f where f: "failure_at d k key s = Some f" "f_sweep f \<noteq> Some tok" using assms(1) by blast
  with LMark assms(2) show ?thesis
    by (cases "f_directory f = d' \<and> f_sweep f = None") (auto simp add: failure_at_mark simp del: map_option_eq_Some)
qed (use assms in \<open>auto simp: failure_at_clear intro: failure_at_clear_replayed_keep failure_at_sweep_keep\<close>)

text \<open>A divergence recorded after a reconcile took its stamp survives everything that reconcile
  clears, whatever other traffic and other reconciles do to the ledger in between: the run can never
  retire a failure its snapshot predates.\<close>
theorem later_failure_survives:
  assumes "\<forall>p \<in> set ops. \<not> interferes tok (d, k, key) p"
  shows "\<exists>f. failure_at d k key
     (fold ledger_step ops (record_failure_row d k key meth st detail s)) = Some f"
proof -
  have "\<exists>f. failure_at d k key (fold ledger_step ops s') = Some f \<and> f_sweep f \<noteq> Some tok"
    if "\<exists>f. failure_at d k key s' = Some f \<and> f_sweep f \<noteq> Some tok"
      and "\<forall>p \<in> set ops. \<not> interferes tok (d, k, key) p" for s' ops
    using that
  proof (induction ops arbitrary: s')
    case (Cons p ops)
    then show ?case using ledger_step_unstamped [of d k key s' tok p] by auto
  qed simp
  then show ?thesis using failure_at_record [of d k key meth st detail s] assms by force
qed

theorem later_failure_survives_witness:
  "\<exists>f. failure_at ''d'' Users ''u1'' (fold ledger_step
      [LRecord ''d'' Users ''u2'' ''PUT'' None ''x'', LMark ''d'' ''other'',
       LClearReplayed ''d'' Users ''u1'' ''run'', LSweep ''d'' ''run'']
      (record_failure_row ''d'' Users ''u1'' ''PUT'' (Some 500) ''native failed'' empty_store)) = Some f"
  by (rule later_failure_survives [where tok = "''run''"]) simp

text \<open>No stamp, sweep or per-resource repair of any reconcile ever removes a recorded DELETE
  gap; only a live write to the resource (a clear or a new record under its key) does.\<close>
theorem delete_gap_survives:
  assumes "failure_at d k key s = Some f" and "f_method f = ''DELETE''"
    and "\<forall>p \<in> set ops. (\<exists>d' k' key' tok. p = LClearReplayed d' k' key' tok)
          \<or> (\<exists>d' tok. p = LSweep d' tok \<or> p = LMark d' tok)"
  shows "\<exists>f'. failure_at d k key (fold ledger_step ops s) = Some f' \<and> f_method f' = ''DELETE''"
  using assms
proof (induction ops arbitrary: s f)
  case (Cons p ops)
  have "\<exists>f'. failure_at d k key (ledger_step p s) = Some f' \<and> f_method f' = ''DELETE''"
    using Cons.prems
    by (cases p) (auto simp: failure_at_mark intro: failure_at_clear_replayed_keep failure_at_sweep_keep)
  then obtain f' where f': "failure_at d k key (ledger_step p s) = Some f'" "f_method f' = ''DELETE''"
    by blast
  have rest: "\<forall>p \<in> set ops. (\<exists>d' k' key' tok. p = LClearReplayed d' k' key' tok)
          \<or> (\<exists>d' tok. p = LSweep d' tok \<or> p = LMark d' tok)"
    using Cons.prems(3) by simp
  show ?case using Cons.IH [OF f' rest] by simp
qed simp

theorem delete_gap_survives_witness:
  "\<exists>f'. failure_at ''d'' Users ''u1'' (fold ledger_step [LMark ''d'' ''t'', LSweep ''d'' ''t'']
      (record_failure_row ''d'' Users ''u1'' ''DELETE'' None ''x'' empty_store)) = Some f'
      \<and> f_method f' = ''DELETE''"
proof -
  obtain f where "failure_at ''d'' Users ''u1''
      (record_failure_row ''d'' Users ''u1'' ''DELETE'' None ''x'' empty_store) = Some f"
    "f_method f = ''DELETE''"
    using failure_at_record by blast
  then show ?thesis by (rule delete_gap_survives) simp
qed

definition retired :: "string \<Rightarrow> string \<Rightarrow> write_failure \<Rightarrow> bool" where
  "retired d tok f \<longleftrightarrow> f_directory f = d \<and> f_method f \<noteq> ''DELETE'' \<and> f_sweep f \<in> {None, Some tok}"

text \<open>What a clean run does retire: after stamping and sweeping, the ledger holds exactly the
  other directories' rows, the DELETE gaps, and the rows another run had already stamped.\<close>
theorem sweep_exact:
  "set (write_failures (clear_replayed_rows d tok (mark_rows d tok s))) =
     (\<lambda>f. if f_directory f = d \<and> f_sweep f = None then f\<lparr>f_sweep := Some tok\<rparr> else f) `
     {f \<in> set (write_failures s). \<not> retired d tok f}"
proof -
  let ?g = "\<lambda>f. if f_directory f = d \<and> f_sweep f = None then f\<lparr>f_sweep := Some tok\<rparr> else f"
  let ?P = "\<lambda>f. \<not> (f_directory f = d \<and> f_sweep f = Some tok \<and> f_method f \<noteq> ''DELETE'')"
  have P: "?P (?g f) = (\<not> retired d tok f)" for f
    by (auto simp: retired_def)
  have "write_failures (clear_replayed_rows d tok (mark_rows d tok s))
      = filter ?P (map ?g (write_failures s))"
    by (simp add: clear_replayed_rows_def mark_rows_def)
  then have "set (write_failures (clear_replayed_rows d tok (mark_rows d tok s)))
      = ?g ` {f \<in> set (write_failures s). ?P (?g f)}"
    by (simp only: set_filter_map [of ?P ?g])
  then show ?thesis unfolding P .
qed

end
