(* ===== verification/PrimaryLaws.thy ===== *)
theory PrimaryLaws
  imports DualLaws Protocols
begin

text \<open>
  The rung \<open>workos-primary\<close>: the answer the IdP gets as a table over the two legs' outcomes, with
  the divergence ledger it leaves; the delete claim, kept whenever a side may still hold an
  unfinished delete; and the create claim, kept whenever the two sides are not provably linked or
  provably untouched.
\<close>

subsection \<open>Statements under faults\<close>

text \<open>A statement that answered was executed on some state.\<close>

lemma run_attempts_applied:
  "run_attempts n f e w = (Inr x, w') \<Longrightarrow> \<exists>j s. w' = w\<lparr>db_ops := j, db := snd (f s)\<rparr> \<and> fst (f s) = Inr x"
proof (induction n arbitrary: w)
  case (Suc n)
  obtain y s where fs: "f (db w) = (y, s)" by (cases "f (db w)")
  let ?w1 = "w\<lparr>db_ops := Suc (db_ops w)\<rparr>"
  show ?case
  proof (cases "db_fault e (db_ops w)")
    case Fine
    with Suc.prems fs show ?thesis
      by (auto simp: Let_def intro!: exI [of _ "Suc (db_ops w)"] exI [of _ "db w"])
  next
    case (Refused t)
    with Suc.prems show ?thesis using Suc.IH [of ?w1] by (cases t) (auto simp: Let_def)
  next
    case (LostAck t)
    with Suc.prems fs show ?thesis using Suc.IH [of "?w1\<lparr>db := s\<rparr>"] by (cases t) (auto simp: Let_def)
  qed
qed simp

lemma wp_record_failure:
  assumes "\<And>j s f. failure_at d k key s = Some f \<Longrightarrow> f_method f = meth \<Longrightarrow> f_native_status f = st
      \<Longrightarrow> Q () (w\<lparr>db_ops := j, db := s\<rparr>)"
    and "\<And>er w'. X er w'"
  shows "wp e (record_native_write_failure d k key meth st detail) Q X w"
proof (rule wpI)
  fix x w' assume "record_native_write_failure d k key meth st detail e w = (Inr x, w')"
  then obtain j s where "w' = w\<lparr>db_ops := j, db := record_failure_row d k key meth st detail s\<rparr>"
    by (auto simp: record_native_write_failure_def execute_def with_datastore_retry_def dest: run_attempts_applied)
  moreover obtain f where "failure_at d k key (record_failure_row d k key meth st detail s) = Some f"
    "f_method f = meth" "f_native_status f = st"
    by (simp add: failure_at_def record_failure_row_def failure_key_def Let_def)
  ultimately show "Q x w'" using assms(1) by simp
qed (rule assms(2))

lemma wp_clear_failure:
  assumes "\<And>j. Q () (w\<lparr>db_ops := j, db := clear_failure_row d k key (db w)\<rparr>)" and "\<And>er w'. X er w'"
  shows "wp e (clear_native_write_failure d k key) Q X w"
  unfolding clear_native_write_failure_def
  by (rule wp_execute [OF clear_stmt.replayable_axioms]) (auto simp: assms)

lemma wp_delete_mapping:
  assumes "\<And>j. Q () (w\<lparr>db_ops := j, db := delete_mapping_row d k n (db w)\<rparr>)"
    and "\<And>er j s. X er (w\<lparr>db_ops := j, db := s\<rparr>)"
  shows "wp e (delete_mapping d k n) Q X w"
proof -
  have "X er (w\<lparr>db_ops := j\<rparr>)" for er j using assms(2) [of er "db w" j] by simp
  then show ?thesis
    unfolding delete_mapping_def
    by (intro wp_execute [OF delete_stmt.replayable_axioms]) (auto simp: assms)
qed

lemma wp_any: "(\<And>x v. Q x v) \<Longrightarrow> (\<And>er v. X er v) \<Longrightarrow> wp e mm Q X w"
  by (rule wpI) auto

lemma failure_at_log [simp]: "failure_at d k key (s\<lparr>proxy_logs := l\<rparr>) = failure_at d k key s"
  by (simp add: failure_at_def)

subsection \<open>The answer as a table\<close>

definition standing_failure :: "inbound \<Rightarrow> kind \<Rightarrow> world \<Rightarrow> write_failure option" where
  "standing_failure rq k w = failure_at (dir_id (i_directory rq)) k (resource_key rq) (db w)"

text \<open>What a PUT or PATCH on \<open>workos-primary\<close> tells the IdP and the operator, for every
  combination of the two answers.  A native failure is always reported as native's own 4xx or as 502,
  and when WorkOS had committed the write, the divergence is on record with its method and native's
  status; a WorkOS failure alone is reported as such and records nothing; only two successes are
  answered with success, and they leave no divergence standing for the resource.\<close>
theorem primary_answer_table:
  assumes "i_method rq \<noteq> ''DELETE''"
    and "primary_answer rq k workos native e w = (Inr (resp, can_release), w')"
  shows "if \<not> leg_landed rq k native
     then resp = native_failure_response native
       \<and> (if is_success (r_status workos)
          then (case standing_failure rq k w' of None \<Rightarrow> False
                | Some f \<Rightarrow> f_method f = i_method rq \<and> f_native_status f = leg_status native)
          else write_failures (db w') = write_failures (db w))
     else resp = workos
       \<and> (if is_success (r_status workos) then standing_failure rq k w' = None
          else write_failures (db w') = write_failures (db w))"
    (is "?T resp w'")
proof -
  have "wp e (primary_answer rq k workos native) (\<lambda>(resp, _) w'. ?T resp w') (\<lambda>_ _. True) w"
    unfolding primary_answer_def settle_both_def native_leg_failed_def log_native_def
    using assms(1)
    by (auto simp: Let_def standing_failure_def leg_landed_def failure_at_clear
        split: option.split intro!: wp_finish wp_record_failure wp_clear_failure)
  with assms(2) show ?thesis by (auto simp: wp_def)
qed

definition native_down :: native_leg where
  "native_down = \<lparr>leg_result = None, leg_error = Some ''connect ECONNREFUSED''\<rparr>"

theorem primary_answer_table_witness:
  "\<exists>resp c w'. primary_answer (sample_inbound WorkosPrimary ''PUT'' ''u1'' []) Users (json_response 200 []) native_down
        quiet_env (fresh_world empty_store) = (Inr (resp, c), w')
     \<and> resp = native_failure_response native_down
     \<and> standing_failure (sample_inbound WorkosPrimary ''PUT'' ''u1'' []) Users w' \<noteq> None"
proof -
  let ?rq = "sample_inbound WorkosPrimary ''PUT'' ''u1'' []"
  let ?run = "primary_answer ?rq Users (json_response 200 []) native_down quiet_env (fresh_world empty_store)"
  have "case ?run of (Inr _, _) \<Rightarrow> True | _ \<Rightarrow> False" by code_simp
  then obtain resp c w' where run: "?run = (Inr (resp, c), w')" by (auto split: prod.splits sum.splits)
  have "i_method ?rq \<noteq> ''DELETE''" "\<not> leg_landed ?rq Users native_down" "is_success (r_status (json_response 200 []))"
    by code_simp+
  with primary_answer_table [OF _ run] run show ?thesis by (auto split: option.splits)
qed

subsection \<open>The delete claim\<close>

interpretation claims_kept: store_frame "\<lambda>s s'. create_claims s' = create_claims s"
  by unfold_locales auto

abbreviation claims_same :: "world \<Rightarrow> world \<Rightarrow> bool" where
  "claims_same \<equiv> on_db (\<lambda>s s'. create_claims s' = create_claims s)"

lemma claims_fetch [eff]:
  "pres claims_same e (scim_fetch sd u meth tok b ct mig hs)" "pres claims_same e (plain_fetch sd u meth tok b)"
  "pres claims_same e (join_scim_url base path)" "pres claims_same e (from_res r)"
  unfolding plain_fetch_def scim_fetch_def join_scim_url_def from_res_def by (intro eff)+

lemma claims_db [eff]:
  "pres claims_same e (get_mapping d k n)" "pres claims_same e (get_mapping_by_workos_id d k wid)"
  "pres claims_same e (delete_mapping d k n)" "pres claims_same e (upsert_mapping m)"
  "pres claims_same e (record_native_write_failure d k key meth st detail)"
  "pres claims_same e (clear_native_write_failure d k key)"
  "pres claims_same e (insert_proxy_log l)" "pres claims_same e (load_id_maps d strict)"
  unfolding get_mapping_def get_mapping_by_workos_id_def delete_mapping_def upsert_mapping_def
    record_native_write_failure_def clear_native_write_failure_def insert_proxy_log_def load_id_maps_def Let_def
  by (intro eff claims_kept.pres_execute;
      simp add: delete_mapping_row_def upsert_row_def record_failure_row_def clear_failure_row_def Let_def)+

lemma claims_log [eff]:
  "pres claims_same e (finish d r)" "pres claims_same e (persist_log d)" "pres claims_same e (apply_workos_leg u)"
  "pres claims_same e (log_native x)"
  unfolding finish_def persist_log_def apply_workos_leg_def log_native_def by (intro eff)+

lemma claims_rewrite [eff]: "pres claims_same e (rewrite_location v fw)"
  unfolding rewrite_location_def Let_def by (intro eff)

lemma claims_forward [eff]: "pres claims_same e (forward_headers fw hs)"
  by (induction fw hs rule: forward_headers.induct) (auto intro!: eff)

lemma claims_response [eff]: "pres claims_same e (upstream_response r fw)" "pres claims_same e (proxied_headers r fw)"
  unfolding upstream_response_def proxied_headers_def by (intro eff)+

lemma claims_exchange [eff]: "pres claims_same e (workos_exchange rq p b maps ret)"
  unfolding workos_exchange_def translated_response_def prune_mapping_def Let_def by (intro eff)

lemma claims_workos_only: "i_method rq = ''DELETE'' \<Longrightarrow> pres claims_same e (workos_only rq ret)"
  unfolding workos_only_def Let_def by (auto intro!: eff split: option.split)

lemma claims_native_write [eff]: "pres claims_same e (native_write rq)"
  unfolding native_write_def native_fetch_def by (intro eff)

lemma claims_answer [eff]: "pres claims_same e (primary_answer rq k wr n)"
  unfolding primary_answer_def settle_both_def native_leg_failed_def Let_def by (intro eff)

lemma claims_checks [eff]: "pres claims_same e (member_refusal rq k)" "pres claims_same e (id_refusal rq k)"
proof -
  have [eff]: "pres claims_same e (first_unmapped d xs)" for d xs
    by (induction d xs rule: first_unmapped.induct) (auto intro!: eff)
  show "pres claims_same e (member_refusal rq k)" "pres claims_same e (id_refusal rq k)"
    unfolding member_refusal_def id_refusal_def Let_def by (intro eff)+
qed

text \<open>Both outcomes of a delete, as the request log records them, are certain.\<close>

definition outcomes_certain :: "world \<Rightarrow> bool" where
  "outcomes_certain w \<longleftrightarrow> certain_delete_outcome (l_native_status (rlog w))
     \<and> certain_delete_outcome (l_workos_status (rlog w))"

lemma answer_release:
  "wp e (primary_answer rq k wr n) (\<lambda>(_, free) w'. \<not> free \<or> outcomes_certain w') (\<lambda>_ _. True) w"
  unfolding primary_answer_def settle_both_def native_leg_failed_def log_native_def
  by (auto simp: Let_def outcomes_certain_def leg_status_def split: option.split
      intro!: wp_finish wp_record_failure wp_clear_failure wp_delete_mapping)

definition claim_held :: "string \<Rightarrow> kind \<Rightarrow> string \<Rightarrow> world \<Rightarrow> bool" where
  "claim_held d k t w \<longleftrightarrow> claim_holder d k (db w) = Some t"

lemma claim_held_cong: "claims_same w w' \<Longrightarrow> claim_held d k t w' = claim_held d k t w"
  by (simp add: claim_held_def claim_holder_def on_db_def)

lemma wp_held:
  assumes "pres claims_same e mm" "claim_held d k t w" "wp e mm Q X w"
  shows "wp e mm (\<lambda>x w'. Q x w' \<and> claim_held d k t w') (\<lambda>er w'. X er w' \<and> claim_held d k t w') w"
  by (rule wp_mono [OF wp_conj [OF assms(3) wp_pres [OF assms(1)]]])
    (use assms(2) in \<open>auto simp: claim_held_cong\<close>)

lemma held_bnd:
  assumes "pres claims_same e mm" "claim_held d k t w"
    and "\<And>x u. claim_held d k t u \<Longrightarrow> wp e (f x) Q X u" "\<And>er u. X er u"
  shows "wp e (bnd mm f) Q X w"
  unfolding wp_bnd
  by (rule wp_mono [OF wp_held [OF assms(1,2) wp_trivial]]) (use assms(3,4) in auto)

lemma held_thn:
  "pres claims_same e mm \<Longrightarrow> claim_held d k t w \<Longrightarrow> (\<And>u. claim_held d k t u \<Longrightarrow> wp e nn Q X u) \<Longrightarrow>
   (\<And>er u. X er u) \<Longrightarrow> wp e (thn mm nn) Q X w"
  unfolding thn_def by (rule held_bnd)

lemma legs_release:
  assumes "i_method rq = ''DELETE''" "claim_held d k' t w"
  shows "wp e (primary_legs rq k) (\<lambda>(_, free) w'. claim_held d k' t w' \<and> (free \<longrightarrow> outcomes_certain w'))
     (\<lambda>_ w'. claim_held d k' t w') w"
proof -
  have "pres claims_same e (both (workos_only rq ret) (native_write rq))"
    by (intro eff claims_workos_only assms(1))
  from wp_held [OF this assms(2) wp_trivial]
  have both: "wp e (both (workos_only rq ret) (native_write rq)) (\<lambda>_. claim_held d k' t) (\<lambda>_. claim_held d k' t) w"
    by simp
  have answer: "wp e (primary_answer rq k wr n) (\<lambda>(_, free) w'. claim_held d k' t w' \<and> (free \<longrightarrow> outcomes_certain w'))
     (\<lambda>_ w'. claim_held d k' t w') v" if "claim_held d k' t v" for wr n v
    by (rule wp_mono [OF wp_held [OF claims_answer that answer_release]]) auto
  show ?thesis
    unfolding primary_legs_def wp_bnd
    by (rule wp_mono [OF both]) (auto intro: answer)
qed

text \<open>What a delete guarantees at each of its ends: no upstream was called, or the claim is still
  held, or both outcomes are certain.\<close>

definition delete_end :: "string \<Rightarrow> kind \<Rightarrow> string \<Rightarrow> world \<Rightarrow> world \<Rightarrow> bool" where
  "delete_end d k t w w' \<longleftrightarrow> calls w' = calls w \<or> claim_held d k t w' \<or> outcomes_certain w'"

lemma wp_calls_kept:
  assumes "pres (sends {}) e mm"
  shows "wp e mm (\<lambda>_ w'. calls w' = calls w) (\<lambda>_ w'. calls w' = calls w) w"
  by (rule wp_mono [OF wp_pres [OF assms]]) (auto simp: sends_def)

lemma wp_certain_kept:
  assumes "pres (\<lambda>w w'. rlog w' = rlog w) e mm" "outcomes_certain w"
  shows "wp e mm (\<lambda>_. outcomes_certain) (\<lambda>_. outcomes_certain) w"
  by (rule wp_mono [OF wp_pres [OF assms(1)]]) (use assms(2) in \<open>auto simp: outcomes_certain_def\<close>)

lemma rlog_statement: "pres (\<lambda>w w'. rlog w' = rlog w) e (with_datastore_retry f)"
proof -
  have "rlog (snd (run_attempts n f e w)) = rlog w" for n w
    by (induction n arbitrary: w) (auto simp: Let_def split: fault.splits prod.splits)
  then show ?thesis by (simp add: pres_def with_datastore_retry_def)
qed

lemma rlog_release: "pres (\<lambda>w w'. rlog w' = rlog w) e (release_workos_primary_create d k t)"
  unfolding release_workos_primary_create_def execute_def by (rule rlog_statement)

lemma wp_claim_acquired:
  assumes "\<And>w'. calls w' = calls w \<Longrightarrow> claim_held d k t w' \<Longrightarrow> Q True w'"
    and "\<And>w'. calls w' = calls w \<Longrightarrow> \<not> claim_held d k t w' \<Longrightarrow> Q False w'" "\<And>er w'. calls w' = calls w \<Longrightarrow> X er w'"
  shows "wp e (claim_workos_primary_create d k t) Q X w"
  unfolding claim_workos_primary_create_def
proof (rule claim_stmt.wp_statement)
  fix j x assume "fst (claim_row d k t (db w)) = Inr x"
  then show "Q x (w\<lparr>db_ops := j, db := snd (claim_row d k t (db w))\<rparr>)"
    using assms(1,2)
    by (cases x) (auto simp: claim_row_def claim_held_def claim_holder_def look_row_append split: option.splits)
qed (auto simp: assms(3))

text \<open>C5: a delete on \<open>workos-primary\<close> that reached an upstream gives its claim up only when both
  sides' outcomes are certain (200, 204, or a 4xx other than 408); otherwise, however it ends, by an
  answer or by an exception and under every datastore fault, the claim still excludes creates,
  recoveries and reconciles of the resource type.\<close>
theorem delete_claim_retained:
  assumes "i_method rq = ''DELETE''" and "primary_delete rq k e w = (r, w')"
  shows "calls w' = calls w
     \<or> claim_holder (dir_id (i_directory rq)) k (db w') = Some (uuid e (uuids w))
     \<or> outcomes_certain w'"
proof -
  let ?d = "dir_id (i_directory rq)" and ?t = "uuid e (uuids w)"
  let ?E = "delete_end ?d k ?t w"
  let ?w0 = "w\<lparr>uuids := Suc (uuids w)\<rparr>"
  have quiet: "wp e mm (\<lambda>_. ?E) (\<lambda>_. ?E) v" if "calls v = calls w" "pres (sends {}) e mm" for v and mm :: "response m"
    by (rule wp_mono [OF wp_calls_kept [OF that(2)]]) (auto simp: delete_end_def that(1))
  have abandon: "wp e (thn (release_workos_primary_create ?d k ?t)
      (bnd (prewrite_failure er) (finish (Some (i_directory rq))))) (\<lambda>_. ?E) (\<lambda>_. ?E) v"
    if "calls v = calls w" for v er
    by (rule quiet [OF that]) (intro eff)
  have fin: "wp e (finish (Some (i_directory rq)) x) (\<lambda>_. ?E) (\<lambda>_. ?E) v" if "calls v = calls w" for v x
    by (rule quiet [OF that]) (intro eff)
  let ?pre = "\<lambda>v. calls v = calls w \<and> claim_held ?d k ?t v"
  have phase: "wp e mm (\<lambda>_. ?pre) (\<lambda>_. ?pre) v" if "?pre v" "pres claims_same e mm" "pres (sends {}) e mm"
    for v and mm :: "'b m"
    using wp_held [OF that(2) conjunct2 [OF that(1)] wp_calls_kept [OF that(3)]] that(1)
    by (auto elim!: wp_mono)
  have maps: "wp e (bnd (load_id_maps ?d False) (\<lambda>maps. case p_id (i_path rq) of None \<Rightarrow> ret ()
        | Some i \<Rightarrow> bnd (from_res (map_get (native_to_workos maps k) i)) (\<lambda>_. ret ()))) (\<lambda>_. ?pre) (\<lambda>_. ?pre) v"
    if "?pre v" for v
    by (rule phase [OF that]; intro eff)
  have checks: "wp e (bnd (member_refusal rq k) (\<lambda>r. case r of Some x \<Rightarrow> ret (Some (x, False))
        | None \<Rightarrow> bnd (id_refusal rq k) (\<lambda>r'. ret (map_option (\<lambda>x. (x, True)) r')))) (\<lambda>_. ?pre) (\<lambda>_. ?pre) v"
    if "?pre v" for v
    by (rule phase [OF that]; intro eff)
  have legs: "wp e (bnd (primary_legs rq k) (\<lambda>(x, free). if free then thn (release_workos_primary_create ?d k ?t) (ret x)
        else ret x)) (\<lambda>_. ?E) (\<lambda>_. ?E) v" if "?pre v" for v
    unfolding wp_bnd
    by (rule wp_mono [OF legs_release [OF assms(1) conjunct2 [OF that]]])
      (auto simp: delete_end_def intro: wp_mono [OF wp_certain_kept [OF rlog_release]])
  have refusal: "wp e (bnd (finish (Some (i_directory rq)) x) (\<lambda>y. if free then thn (release_workos_primary_create ?d k ?t) (ret y)
        else ret y)) (\<lambda>_. ?E) (\<lambda>_. ?E) v" if "calls v = calls w" for v x free
    by (rule quiet [OF that]) (intro eff)
  have "wp e (primary_delete rq k) (\<lambda>_. ?E) (\<lambda>_. ?E) w"
    unfolding primary_delete_def Let_def wp_bnd [of e random_uuid] wp_random_uuid wp_bnd [of e "settle mm" for mm] wp_settle
  proof (rule wp_claim_acquired, goal_cases)
    case (1 v)
    then have v: "?pre v" by simp
    show ?case
      apply (simp only: sum.case not_True_eq_False if_False wp_bnd [of e "settle mm" for mm] wp_settle)
      apply (rule wp_mono [OF maps [OF v]])
       apply (simp only: sum.case wp_bnd [of e "settle mm" for mm] wp_settle)
       apply (rule wp_mono [OF checks], assumption)
        apply (auto simp only: sum.case wp_case_option option.case wp_case_prod split: option.split intro: legs refusal abandon)
      done
  qed (auto simp: abandon [simplified] fin)
  then have "?E w'" using assms(2) by (auto simp: wp_def split: sum.splits)
  then show ?thesis by (auto simp: delete_end_def claim_held_def)
qed

text \<open>Neither upstream answers: the claim stays.\<close>

theorem delete_claim_retained_witness:
  "\<exists>r w'. primary_delete (sample_inbound WorkosPrimary ''DELETE'' ''u1'' []) Users quiet_env
        (fresh_world (upsert_row (row_of ''u1'' ''w1'') empty_store)) = (r, w')
     \<and> length (calls w') = 2 \<and> claim_holder ''d'' Users (db w') = Some ''u''"
proof -
  let ?rq = "sample_inbound WorkosPrimary ''DELETE'' ''u1'' []"
  let ?w = "fresh_world (upsert_row (row_of ''u1'' ''w1'') empty_store)"
  obtain r w' where run: "primary_delete ?rq Users quiet_env ?w = (r, w')"
    by (cases "primary_delete ?rq Users quiet_env ?w")
  have "length (calls (snd (primary_delete ?rq Users quiet_env ?w))) = 2
      \<and> \<not> outcomes_certain (snd (primary_delete ?rq Users quiet_env ?w))" by code_simp
  moreover have "i_method ?rq = ''DELETE''" "dir_id (i_directory ?rq) = ''d''" "uuid quiet_env (uuids ?w) = ''u''"
    by (simp_all add: sample_inbound_def sample_def sample_directory_def quiet_env_def fresh_world_def)
  ultimately show ?thesis using delete_claim_retained [OF _ run] run by (auto simp: fresh_world_def)
qed

subsection \<open>The create claim\<close>

definition linked :: "directory \<Rightarrow> kind \<Rightarrow> string \<Rightarrow> world \<Rightarrow> bool" where
  "linked d k n w \<longleftrightarrow> mapping_of (dir_id d) k n (db w) \<noteq> None"

lemma mapping_of_other [simp]:
  "mapping_of d k n (clear_failure_row d' k' key s) = mapping_of d k n s"
  "mapping_of d k n (s\<lparr>proxy_logs := l\<rparr>) = mapping_of d k n s"
  by (simp_all add: mapping_of_def clear_failure_row_def)

lemma linked_release: "id_mappings s = id_mappings (db w) \<Longrightarrow> linked d k n (w\<lparr>db_ops := j, db := s\<rparr>) = linked d k n w"
  by (simp add: linked_def mapping_of_def)

text \<open>When the claim may be given up: the sides are linked and the answer is 201, or native refused
  the create for good.\<close>

definition response_id :: "response \<Rightarrow> string option" where
  "response_id r = as_string (object_prop (parse_json (r_body r)) ''id'')"

definition safe_release :: "directory \<Rightarrow> kind \<Rightarrow> native_create_leg \<Rightarrow> response \<Rightarrow> world \<Rightarrow> bool" where
  "safe_release d k native resp w = (case leg_id native of
       Some n \<Rightarrow> r_status resp = 201 \<and> response_id resp = Some n \<and> linked d k n w
     | None \<Rightarrow> resp = native_failure_response (plain_leg native) \<and> leg_error native = None
         \<and> is_definitive_create_rejection (map_option u_status (leg_result native)))"

lemma refusal_status:
  assumes "is_definitive_create_rejection (map_option u_status (leg_result native))"
  shows "400 \<le> r_status (native_failure_response (plain_leg native))
     \<and> r_status (native_failure_response (plain_leg native)) < 500"
  using assms
  by (auto simp: native_failure_response_def plain_leg_def is_definitive_create_rejection_def split: option.splits)

lemma wp_outcome [simp]:
  "wp e (outcome b r) Q X w = (if b then Q (r, True) w else
     Q (scim_error 502 ''The create's upstream writes are unresolved. Further creates of this resource type are blocked until an operator checks both upstreams and recovers the create claim.'', False)
       (w\<lparr>rlog := (rlog w)\<lparr>l_error := (case l_error (rlog w) of
               None \<Rightarrow> Some ''Create claim retained: upstream writes are unresolved or lack a mapping.''
             | Some er \<Rightarrow> Some er)\<rparr>\<rparr>))"
  by (simp add: outcome_def)

lemma wp_load_maps:
  "(\<And>maps j. Q maps (w\<lparr>db_ops := j\<rparr>)) \<Longrightarrow> (\<And>er j. X er (w\<lparr>db_ops := j\<rparr>)) \<Longrightarrow> wp e (load_id_maps d strict) Q X w"
  unfolding load_id_maps_def by (auto intro!: wp_query simp: Let_def split: sum.split)

definition settled :: "directory \<Rightarrow> kind \<Rightarrow> native_create_leg \<Rightarrow> response \<times> bool \<Rightarrow> world \<Rightarrow> bool" where
  "settled d k native x w \<longleftrightarrow>
     (if snd x then safe_release d k native (fst x) w else r_status (fst x) = 502)"

lemma linked_settled:
  "leg_id native = Some n \<Longrightarrow>
   wp e (create_linked rq k plan n mr sink) (settled (i_directory rq) k native) (\<lambda>_ _. True) w"
  unfolding create_linked_def Let_def
  by (auto simp: settled_def safe_release_def json_response_def response_id_def object_prop_def as_string_def linked_def split: sum.split
      intro!: wp_upsert_mapping wp_clear_failure wp_load_maps)

lemma answer_settled:
  "leg_id native = Some n \<Longrightarrow>
   wp e (create_answer rq k plan n mirror False) (settled (i_directory rq) k native) (\<lambda>_ _. True) w"
  unfolding create_answer_def
  by (auto simp: settled_def scim_error_def split: option.split intro!: linked_settled)

lemma compensate_settled:
  "wp e (compensate rq k plan native mirror) (\<lambda>removed _. \<not> removed \<or> (leg_error native = None
     \<and> is_definitive_create_rejection (map_option u_status (leg_result native)))) (\<lambda>_ _. True) w"
  unfolding compensate_def Let_def
  by (auto split: option.split intro!: wp_any)

lemma refused_settled:
  assumes "leg_id native = None"
    and "release_claim \<longrightarrow> leg_error native = None
       \<and> is_definitive_create_rejection (map_option u_status (leg_result native))"
  shows "wp e (create_refused rq k plan native mirror release_claim) (settled (i_directory rq) k native) (\<lambda>_ _. True) w"
proof -
  have fail: "wp e (thn (case mirror of Some mr \<Rightarrow> if mr_ok mr then
           record_native_write_failure (dir_id (i_directory rq)) k (plan_key plan) ''POST''
             (map_option u_status (leg_result native)) detail
         else ret () | None \<Rightarrow> ret ())
      (outcome release_claim (native_failure_response (plain_leg native))))
      (settled (i_directory rq) k native) (\<lambda>_ _. True) v" for v detail
    using assms by (auto simp: settled_def safe_release_def scim_error_def split: option.split intro!: wp_any)
  show ?thesis
    unfolding create_refused_def wp_bnd
    by (rule wp_mono [OF compensate_settled])
      (use assms fail in \<open>auto simp: settled_def safe_release_def simp del: wp_thn\<close>)
qed

lemma create_settled_wp:
  "wp e (create_settled rq k plan native mirror) (settled (i_directory rq) k native) (\<lambda>_ _. True) w"
proof -
  have retained: "settled (i_directory rq) k native (scim_error 502 msg, False) v" for msg v
    by (simp add: settled_def scim_error_def)
  show ?thesis
    unfolding create_settled_def Let_def
    by (auto simp: retained split: option.split intro!: refused_settled answer_settled)
qed

text \<open>Once a create has touched an upstream, its claim is given up only when the two sides are
  provably in step: the answer is 201 and the mapping of the native id is in the datastore, or native
  refused the create definitively (a 4xx other than 408 and 409, with no doubt about the exchange) and
  its refusal is the answer.  In every other case the IdP gets 502 and the claim stays for recovery.\<close>
theorem create_release_is_safe:
  assumes "create_settled rq k plan native mirror e w = (Inr (resp, release), w')"
  shows "if release
     then (case leg_id native of
         Some n \<Rightarrow> r_status resp = 201 \<and> response_id resp = Some n
           \<and> mapping_of (dir_id (i_directory rq)) k n (db w') \<noteq> None
       | None \<Rightarrow> resp = native_failure_response (plain_leg native) \<and> leg_error native = None
           \<and> is_definitive_create_rejection (map_option u_status (leg_result native)))
     else r_status resp = 502"
  using create_settled_wp [of e rq k plan native mirror w] assms
  by (auto simp: wp_def settled_def safe_release_def linked_def split: option.splits)

definition create_made :: native_create_leg where
  "create_made = \<lparr>leg_result = Some (reply 201 [(''id'', JStr ''n7'')]), leg_error = None, leg_id = Some ''n7''\<rparr>"

definition mirror_made :: "mirror_result \<times> sink" where
  "mirror_made = (mirror_ok ''POST /Users'' (reply 201 [(''id'', JStr ''x1'')]), Some [row_of ''x1'' ''x1''])"

definition plain_plan :: create_plan where
  "plain_plan = \<lparr>plan_body = [(''userName'', JStr ''a'')], plan_external = Some ''x1'', plan_mint = Some ''x1'',
     plan_claimed = None, plan_key = ''x1''\<rparr>"

theorem create_release_is_safe_witness:
  "\<exists>resp w'. create_settled (sample_inbound WorkosPrimary ''POST'' [] []) Users plain_plan create_made (Some mirror_made)
        quiet_env (fresh_world empty_store) = (Inr (resp, True), w')
     \<and> r_status resp = 201 \<and> mapping_of ''d'' Users ''n7'' (db w') \<noteq> None"
proof -
  let ?rq = "sample_inbound WorkosPrimary ''POST'' [] []"
  let ?run = "create_settled ?rq Users plain_plan create_made (Some mirror_made) quiet_env (fresh_world empty_store)"
  have "case ?run of (Inr (resp, release), _) \<Rightarrow> release | _ \<Rightarrow> False" by code_simp
  then obtain resp w' where run: "?run = (Inr (resp, True), w')" by (auto split: prod.splits sum.splits)
  have "dir_id (i_directory ?rq) = ''d''" "leg_id create_made = Some ''n7''"
    by (simp_all add: sample_inbound_def sample_def sample_directory_def create_made_def)
  with create_release_is_safe [OF run] run show ?thesis by auto
qed

subsection \<open>The create as a whole\<close>

text \<open>Every value a computation can answer satisfies a predicate.\<close>

named_theorems yl "rules for the values of a computation"

definition yields :: "('a \<Rightarrow> bool) \<Rightarrow> env \<Rightarrow> 'a m \<Rightarrow> bool" where
  "yields P e mm \<longleftrightarrow> (\<forall>w. wp e mm (\<lambda>x _. P x) (\<lambda>_ _. True) w)"

lemma yields_wp: "yields P e mm \<Longrightarrow> wp e mm (\<lambda>x _. P x) (\<lambda>_ _. True) w"
  by (simp add: yields_def)

lemma yields_ret [yl]: "P x \<Longrightarrow> yields P e (ret x)"
  by (simp add: yields_def)

lemma yields_bnd [yl]: "(\<And>x. yields P e (f x)) \<Longrightarrow> yields P e (bnd mm f)"
  by (auto simp: yields_def intro!: wp_any)

lemma yields_thn [yl]: "yields P e nn \<Longrightarrow> yields P e (thn mm nn)"
  unfolding thn_def by (rule yields_bnd)

lemma yields_if [yl]: "(b \<Longrightarrow> yields P e mm) \<Longrightarrow> (\<not> b \<Longrightarrow> yields P e nn) \<Longrightarrow> yields P e (if b then mm else nn)"
  by simp

lemma yields_option [yl]:
  "yields P e mm \<Longrightarrow> (\<And>y. yields P e (f y)) \<Longrightarrow> yields P e (case x of None \<Rightarrow> mm | Some y \<Rightarrow> f y)"
  by (cases x) auto

lemma checks_refuse:
  "yields (\<lambda>x. case x of Inl refusal \<Rightarrow> r_status refusal = 409 | Inr _ \<Rightarrow> True) e (create_checks rq k)"
  unfolding create_checks_def Let_def by (intro yl) (simp_all add: scim_error_def)

lemma released_not_held: "claim_holder d k (release_row d k t s) \<noteq> Some t"
  by (auto simp: claim_holder_def release_row_def dest!: look_row_SomeD)

lemma wp_release:
  assumes "\<And>j. Q () (w\<lparr>db_ops := j, db := release_row d k t (db w)\<rparr>)" "\<And>er w'. X er w'"
  shows "wp e (release_workos_primary_create d k t) Q X w"
  unfolding release_workos_primary_create_def
  by (rule wp_execute [OF release_stmt.replayable_axioms]) (auto simp: assms)

lemma claim_holder_log [simp]: "claim_holder d k (s\<lparr>proxy_logs := l\<rparr>) = claim_holder d k s"
  by (simp add: claim_holder_def)

text \<open>Nothing between the acquisition and the release of a create touches the claims: the mirror only
  does when it serializes a recovery.\<close>

lemma claims_mirror [eff]: "pres claims_same e (mirror_upsert dir k n raw sink False)"
proof -
  have [eff]: "pres claims_same e (record_mapping row sk)" for row sk
    unfolding record_mapping_def by (intro eff)
  have [eff]: "pres claims_same e (put_workos dir k i res mig)" for i res mig
    unfolding put_workos_def by (intro eff)
  have [eff]: "pres claims_same e (claimed_by_another dir k wid n' sk)" for wid n' sk
    unfolding claimed_by_another_def by (intro eff)
  have [eff]: "pres claims_same e (resolve_create_race dir k n res create sk)" for res create sk
    unfolding resolve_create_race_def Let_def by (intro eff)
  have [eff]: "pres claims_same e (create_via_post dir k n res sk)" for res sk
    unfolding create_via_post_def Let_def by (intro eff)
  show ?thesis
    unfolding mirror_upsert_def update_mapped_def first_touch_def Let_def
    by (auto intro!: eff)
qed

lemma claims_directories [eff]:
  "pres claims_same e list_directories" "pres claims_same e (native_namespace_is_shared d)"
proof -
  have [eff]: "pres claims_same e (decrypt_directory x)" for x
    unfolding decrypt_directory_def decrypt_secret_def Let_def by (intro eff)
  have [eff]: "pres claims_same e (decrypt_all ds)" for ds
    by (induction ds) (auto intro!: eff)
  show "pres claims_same e list_directories" "pres claims_same e (native_namespace_is_shared d)"
    unfolding native_namespace_is_shared_def list_directories_def Let_def by (intro eff)+
qed

lemma claims_native_create [eff]: "pres claims_same e (native_create rq k)"
proof -
  have [eff]: "pres claims_same e (find_native_by_unique_attribute d k res)" for d res
    unfolding find_native_by_unique_attribute_def Let_def
    by (intro eff; (auto split: json.split intro!: eff)?)
  show ?thesis
    unfolding native_create_def unattributable_def Let_def by (intro eff)
qed

lemma claims_create_checks [eff]: "pres claims_same e (create_checks rq k)"
proof -
  have [eff]: "pres claims_same e (find_native_by_unique_attribute d k res)" for d res
    unfolding find_native_by_unique_attribute_def Let_def
    by (intro eff; (auto split: json.split intro!: eff)?)
  show ?thesis
    unfolding create_checks_def proven_retry_def Let_def by (intro eff)
qed

lemma claims_create_legs [eff]: "pres claims_same e (create_legs rq k plan)"
  unfolding create_legs_def Let_def by (intro eff)

lemma claims_create_settled [eff]: "pres claims_same e (create_settled rq k plan native mirror)"
  unfolding create_settled_def create_answer_def create_linked_def create_refused_def compensate_def
    outcome_def Let_def
  by (intro eff)

definition names_linked :: "directory \<Rightarrow> kind \<Rightarrow> response \<Rightarrow> store \<Rightarrow> bool" where
  "names_linked d k resp s \<longleftrightarrow> r_status resp \<noteq> 201
     \<or> (case response_id resp of None \<Rightarrow> False | Some n \<Rightarrow> mapping_of (dir_id d) k n s \<noteq> None)"

definition create_end :: "directory \<Rightarrow> kind \<Rightarrow> string \<Rightarrow> response \<Rightarrow> world \<Rightarrow> bool" where
  "create_end d k t resp w \<longleftrightarrow>
     (if claim_holder (dir_id d) k (db w) = Some t then r_status resp = 502
      else r_status resp \<noteq> 502 \<and> names_linked d k resp (db w))"

lemma names_linked_simps [simp]:
  "names_linked d k x (s\<lparr>proxy_logs := l\<rparr>) = names_linked d k x s"
  "names_linked d k x (release_row d' k' t s) = names_linked d k x s"
  "r_status x \<noteq> 201 \<Longrightarrow> names_linked d k x s"
  by (simp_all add: names_linked_def mapping_of_def release_row_def split: option.split)

lemma fin_end:
  assumes "if claim_holder (dir_id d) k (db v) = Some t then r_status x = 502
     else r_status x \<noteq> 502 \<and> names_linked d k x (db v)"
  shows "wp e (finish d' x) (create_end d k t) (\<lambda>_ _. True) v"
  by (rule wp_finish) (use assms in \<open>auto simp: create_end_def\<close>)

lemma free_end:
  assumes "r_status x \<noteq> 502 \<and> names_linked d k x (db v)"
  shows "wp e (thn (release_workos_primary_create (dir_id d) k t) (finish d' x)) (create_end d k t) (\<lambda>_ _. True) v"
  unfolding wp_thn
  by (rule wp_release) (use assms in \<open>auto intro!: fin_end simp: released_not_held\<close>)

lemma settled_end:
  "settled d k native (x, release) v \<Longrightarrow>
   if release then r_status x \<noteq> 502 \<and> names_linked d k x (db v) else r_status x = 502"
proof -
  have "r_status x \<noteq> 502 \<and> names_linked d k x (db v)" if "safe_release d k native x v"
    using that refusal_status [of native]
    by (auto simp: safe_release_def names_linked_def linked_def split: option.splits)
  then show "settled d k native (x, release) v \<Longrightarrow> ?thesis" by (simp add: settled_def split: if_splits)
qed

text \<open>C4: a create on \<open>workos-primary\<close> that answers leaves one of two states, under every datastore
  fault and upstream behaviour: its claim still excludes the resource type and the answer is 502, or
  the claim is gone, the answer is not 502, and an answer of 201 names an id that has a mapping in the
  datastore.\<close>
theorem create_answer_and_claim:
  assumes "primary_create rq k e w = (Inr resp, w')"
  shows "create_end (i_directory rq) k (uuid e (uuids w)) resp w'"
proof -
  let ?d = "i_directory rq" and ?t = "uuid e (uuids w)"
  let ?release = "release_workos_primary_create (dir_id ?d) k ?t" and ?fin = "finish (Some ?d)"
  let ?T = "create_end ?d k ?t"
  have abandon: "wp e (thn ?release (bnd (prewrite_failure er) ?fin)) ?T (\<lambda>_ _. True) v" for er v
    unfolding wp_thn
    by (rule wp_release) (auto intro!: fin_end simp: released_not_held prewrite_failure_def retry_after_def scim_error_def)
  have legs: "wp e (bnd (create_legs rq k plan) (\<lambda>(native, mirror).
      thn (case mirror of None \<Rightarrow> ret () | Some (mr, _) \<Rightarrow> apply_mirror_result mr)
      (thn (log_native (leg_result native))
      (bnd (create_settled rq k plan native mirror) (\<lambda>(x, release).
        if release then thn ?release (?fin x) else ?fin x))))) ?T (\<lambda>_ _. True) v"
    if held: "claim_held (dir_id ?d) k ?t v" for plan v
  proof -
    have ending: "wp e (bnd (create_settled rq k plan native mirror) (\<lambda>(x, release).
        if release then thn ?release (?fin x) else ?fin x)) ?T (\<lambda>_ _. True) u"
      if "claim_held (dir_id ?d) k ?t u" for native mirror u
      unfolding wp_bnd [of e "create_settled rq k plan native mirror"]
      by (rule wp_mono [OF wp_held [OF claims_create_settled that create_settled_wp]])
        (auto dest!: settled_end simp: claim_held_def simp del: wp_thn intro!: free_end fin_end)
    have mirrored: "pres claims_same e (case mirror of None \<Rightarrow> ret () | Some (mr, _) \<Rightarrow> apply_mirror_result mr)"
      for mirror :: "(mirror_result \<times> sink) option"
      unfolding apply_mirror_result_def by (intro eff)
    show ?thesis
      by (rule held_bnd [OF claims_create_legs held])
        (auto simp del: wp_thn wp_bnd intro!: held_thn [OF mirrored] held_thn [OF claims_log(4)] ending)
  qed
  have "wp e (primary_create rq k) ?T (\<lambda>_ _. True) w"
    unfolding primary_create_def Let_def wp_bnd [of e random_uuid] wp_random_uuid wp_bnd [of e "settle mm" for mm] wp_settle
  proof (rule wp_claim_acquired, goal_cases)
    case (1 v)
    show ?case
      apply (simp only: sum.case not_True_eq_False if_False wp_bnd [of e "settle mm" for mm] wp_settle)
      apply (rule wp_mono [OF wp_held [OF claims_create_checks 1(2) yields_wp [OF checks_refuse]]])
       apply (auto simp only: sum.case wp_case_sum split: sum.splits intro!: free_end abandon legs)
      apply simp
      done
  next
    case (2 v)
    then show ?case by (auto intro!: fin_end simp: retry_after_def scim_error_def claim_held_def)
  next
    case (3 er v)
    show ?case using abandon by simp
  qed
  then show ?thesis using assms by (simp add: wp_def)
qed

theorem create_answer_and_claim_witness:
  "\<exists>resp w'. primary_create (sample_inbound WorkosPrimary ''POST'' [] [(''userName'', JStr ''a''), (''externalId'', JStr ''x1'')])
        Users quiet_env (fresh_world empty_store) = (Inr resp, w')
     \<and> claim_holder ''d'' Users (db w') = Some ''u'' \<and> r_status resp = 502"
proof -
  let ?rq = "sample_inbound WorkosPrimary ''POST'' [] [(''userName'', JStr ''a''), (''externalId'', JStr ''x1'')]"
  let ?run = "primary_create ?rq Users quiet_env (fresh_world empty_store)"
  have "case ?run of (Inr resp, w') \<Rightarrow> claim_holder ''d'' Users (db w') = Some ''u'' | _ \<Rightarrow> False" by code_simp
  then obtain resp w' where run: "?run = (Inr resp, w')" "claim_holder ''d'' Users (db w') = Some ''u''"
    by (auto split: prod.splits sum.splits)
  have "dir_id (i_directory ?rq) = ''d''" "uuid quiet_env (uuids (fresh_world empty_store)) = ''u''"
    by (simp_all add: sample_inbound_def sample_def sample_directory_def quiet_env_def fresh_world_def)
  with create_answer_and_claim [OF run(1)] run show ?thesis by (auto simp: create_end_def)
qed

end
