(* ===== verification/EventMapping.thy ===== *)
theory EventMapping
  imports Proxy
begin

text \<open>
  Resolving the identity a Directory Sync event carries (\<open>workers/shared/event-mapping.ts\<close>): the
  attributes an event is recognised by, the confirmation of an identity against WorkOS SCIM and
  against the Directory Sync API, and the native id an event may be applied to.
\<close>

subsection \<open>JSON values as JavaScript sees them\<close>

text \<open>Truthiness, and \<open>===\<close> on values that were parsed independently: objects are never identical.\<close>

definition truthy :: "json option \<Rightarrow> bool" where
  "truthy v = (case v of None \<Rightarrow> False | Some JNull \<Rightarrow> False | Some (JBool b) \<Rightarrow> b | Some (JNum n) \<Rightarrow> n \<noteq> 0
     | Some (JStr s) \<Rightarrow> s \<noteq> [] | Some (JArr xs) \<Rightarrow> True | Some (JObj obj) \<Rightarrow> True)"

definition strict_equal :: "json option \<Rightarrow> json option \<Rightarrow> bool" where
  "strict_equal a b \<longleftrightarrow> a = b \<and> (case a of Some (JArr xs) \<Rightarrow> False | Some (JObj obj) \<Rightarrow> False | _ \<Rightarrow> True)"

definition record_or_empty :: "json option \<Rightarrow> object" where
  "record_or_empty v = (case as_object v of None \<Rightarrow> [] | Some obj \<Rightarrow> obj)"

text \<open>\<open>JSON.stringify\<close> of a string.\<close>

definition json_char :: "char \<Rightarrow> string" where
  "json_char c = (let n = of_char c :: nat in
     if n = 34 then [backslash, dquote]
     else if n = 92 then [backslash, backslash]
     else if n = 8 then [backslash, CHR ''b'']
     else if n = 9 then [backslash, CHR ''t'']
     else if n = 10 then [backslash, CHR ''n'']
     else if n = 12 then [backslash, CHR ''f'']
     else if n = 13 then [backslash, CHR ''r'']
     else if n < 32 then [backslash] @ ''u00'' @ map lower_char [hex_digit (n div 16), hex_digit (n mod 16)]
     else [c])"

definition json_quote :: "string \<Rightarrow> string" where
  "json_quote s = [dquote] @ concat (map json_char s) @ [dquote]"

subsection \<open>The identity of an event\<close>

definition dsync_prefix :: "kind \<Rightarrow> string" where
  "dsync_prefix k = (case k of Users \<Rightarrow> ''directory_user_'' | Groups \<Rightarrow> ''directory_group_'')"

definition is_directory_sync_resource_id :: "string \<Rightarrow> bool" where
  "is_directory_sync_resource_id i \<longleftrightarrow> starts_with i (dsync_prefix Users) \<or> starts_with i (dsync_prefix Groups)"

definition first_some :: "'a option list \<Rightarrow> 'a option" where
  "first_some xs = (case filter (\<lambda>x. x \<noteq> None) xs of [] \<Rightarrow> None | x # _ \<Rightarrow> x)"

definition event_name :: "kind \<Rightarrow> object \<Rightarrow> string option" where
  "event_name k resource = (case k of
       Groups \<Rightarrow> string_value (getp resource ''name'')
     | Users \<Rightarrow> first_some
         [string_value (getp resource ''username''),
          string_value (getp (record_or_empty (getp resource ''custom_attributes'')) ''username''),
          string_value (getp (record_or_empty (getp resource ''raw_attributes'')) ''userName''),
          string_value (getp resource ''email'')])"

definition matches_event_identity :: "kind \<Rightarrow> object \<Rightarrow> object \<Rightarrow> bool" where
  "matches_event_identity k event scim =
     (let raw = record_or_empty (getp event ''raw_attributes'');
          ext = first_some [string_value (getp raw ''externalId''), string_value (getp event ''idp_id'')];
          name = event_name k event;
          attribute = unique_attribute k;
          named = (\<lambda>n. getp scim attribute = Some (JStr n)) in
      if (case name of None \<Rightarrow> False | Some n \<Rightarrow> \<not> named n) then False
      else if (case ext of None \<Rightarrow> False | Some x \<Rightarrow> getp scim ''externalId'' = Some (JStr x)) then True
      else if k = Groups \<and> \<not> truthy (getp raw ''externalId'')
         \<and> (case name of None \<Rightarrow> False | Some n \<Rightarrow> getp event ''idp_id'' = Some (JStr n)
              \<and> getp scim ''displayName'' = Some (JStr n)) then True
      else string_value (getp scim ''externalId'') = None
         \<and> (case name of None \<Rightarrow> False | Some n \<Rightarrow> named n
              \<and> (case ext of None \<Rightarrow> True | Some x \<Rightarrow> x = n)))"

definition id_for_new_event_resource :: "object \<Rightarrow> string option \<Rightarrow> string \<Rightarrow> string res" where
  "id_for_new_event_resource resource native fallback = (case nonempty_or_none native of
       Some n \<Rightarrow> Inr n
     | None \<Rightarrow> (case as_string (getp resource ''id'') of
         Some i \<Rightarrow> if is_directory_sync_resource_id i
           then Inl (Failed ''Directory Sync resource has no confirmed native SCIM ID; resolve its identity or reconcile before retrying'')
           else Inr fallback
       | None \<Rightarrow> Inr fallback))"

subsection \<open>Confirming an identity against WorkOS SCIM\<close>

fun verify_candidates :: "directory \<Rightarrow> kind \<Rightarrow> object \<Rightarrow> string list \<Rightarrow> id_mapping option m" where
  "verify_candidates d k event [] = ret None"
| "verify_candidates d k event (c # cs) =
     bnd (get_mapping_by_workos_id (dir_id d) k c) (\<lambda>mp.
     case mp of
       None \<Rightarrow> verify_candidates d k event cs
     | Some m \<Rightarrow>
         bnd (join_scim_url (workos_url d) (resource_path k (m_workos m))) (\<lambda>u.
         bnd (plain_fetch Workos u ''GET'' (workos_token d) None) (\<lambda>r.
         if u_status r = 404 then verify_candidates d k event cs
         else if \<not> is_success (u_status r) then
           throw (Failed (''WorkOS SCIM identity lookup returned '' @ show_nat (u_status r)))
         else case parse_json (u_body r) of
             None \<Rightarrow> verify_candidates d k event cs
           | Some resolved \<Rightarrow>
               if getp resolved ''id'' = Some (JStr (m_workos m)) \<and> matches_event_identity k event resolved
               then ret (Some m) else verify_candidates d k event cs)))"

text \<open>The one resource of a complete listing of at most one; \<open>Inr None\<close> when it is empty.\<close>

definition single_listed :: "payload option \<Rightarrow> object option res" where
  "single_listed body =
     (let refuse = Inl (Failed ''WorkOS SCIM identity lookup is incomplete or ambiguous'') in
      case parse_json body of
        None \<Rightarrow> refuse
      | Some listing \<Rightarrow> (case as_array (getp listing ''Resources'') of
          None \<Rightarrow> refuse
        | Some rs \<Rightarrow>
            let n = Some (JNum (int (length rs))) in
            if getp listing ''totalResults'' \<noteq> n \<or> 1 < length rs
               \<or> getp listing ''startIndex'' \<noteq> Some (JNum 1) \<or> getp listing ''itemsPerPage'' \<noteq> n
            then refuse
            else (case rs of
                [] \<Rightarrow> Inr None
              | r # _ \<Rightarrow> (case as_object (Some r) of None \<Rightarrow> refuse | Some obj \<Rightarrow> Inr (Some obj)))))"

definition verified_workos_event_mapping :: "directory \<Rightarrow> kind \<Rightarrow> object \<Rightarrow> id_mapping option m" where
  "verified_workos_event_mapping d k event =
     (let raw = record_or_empty (getp event ''raw_attributes'');
          attribute = unique_attribute k in
      bnd (verify_candidates d k event
             (present [string_value (getp raw ''externalId''), string_value (getp event ''idp_id'')])) (\<lambda>found.
      case found of
        Some m \<Rightarrow> ret (Some m)
      | None \<Rightarrow>
          (case first_some [event_name k event, string_value (getp event ''idp_id'')] of
             None \<Rightarrow> throw (Failed ''Event has no usable SCIM identity attributes'')
           | Some v \<Rightarrow>
               bnd (join_scim_url (workos_url d) (collection_path k)) (\<lambda>u.
               bnd (plain_fetch Workos (u @ ''?filter='' @ encode_uri_component (attribute @ '' eq '' @ json_quote v)
                      @ ''&startIndex=1&count=2'') ''GET'' (workos_token d) None) (\<lambda>r.
               if \<not> is_success (u_status r) then
                 throw (Failed (''WorkOS SCIM identity lookup returned '' @ show_nat (u_status r)))
               else bnd (from_res (single_listed (u_body r))) (\<lambda>one.
                 case one of
                   None \<Rightarrow> ret None
                 | Some resolved \<Rightarrow>
                     if getp resolved attribute \<noteq> Some (JStr v) \<or> \<not> matches_event_identity k event resolved
                     then throw (Failed ''WorkOS SCIM lookup did not confirm the event identity'')
                     else (case string_value (getp resolved ''id'') of
                         None \<Rightarrow> throw (Failed ''WorkOS SCIM identity has no resource id'')
                       | Some i \<Rightarrow> get_mapping_by_workos_id (dir_id d) k i)))))))"

subsection \<open>Confirming an identity against the Directory Sync API\<close>

definition identity_confirmed :: "directory \<Rightarrow> kind \<Rightarrow> object \<Rightarrow> string \<Rightarrow> object \<Rightarrow> bool" where
  "identity_confirmed d k event i current \<longleftrightarrow>
     getp current ''object'' = Some (JStr (case k of Users \<Rightarrow> ''directory_user'' | Groups \<Rightarrow> ''directory_group''))
     \<and> getp current ''id'' = Some (JStr i)
     \<and> getp current ''directory_id'' = Some (case workos_directory_id d of None \<Rightarrow> JNull | Some s \<Rightarrow> JStr s)
     \<and> strict_equal (getp current ''idp_id'') (getp event ''idp_id'')
     \<and> event_name k current = event_name k event"

definition external_id_changed :: "object \<Rightarrow> object \<Rightarrow> bool" where
  "external_id_changed event current =
     (case string_value (getp (record_or_empty (getp event ''raw_attributes'')) ''externalId'') of
        None \<Rightarrow> False
      | Some a \<Rightarrow> (case string_value (getp (record_or_empty (getp current ''raw_attributes'')) ''externalId'') of
          None \<Rightarrow> False | Some b \<Rightarrow> a \<noteq> b))"

definition verify_dsync_event_identity :: "directory \<Rightarrow> kind \<Rightarrow> object \<Rightarrow> string option \<Rightarrow> unit m" where
  "verify_dsync_event_identity d k event api_key =
     (let missing = throw (Failed ''Learning a Directory Sync binding requires WORKOS_API_KEY and an exact resource id'') in
      case nonempty_or_none api_key of
        None \<Rightarrow> missing
      | Some key \<Rightarrow> (case string_value (getp event ''id'') of
          None \<Rightarrow> missing
        | Some i \<Rightarrow>
            if \<not> starts_with i (dsync_prefix k) then missing
            else
              bnd (fetch \<lparr>c_side = WorkosApi, c_method = ''GET'',
                    c_url = ''https://api.workos.com/'' @ (case k of Users \<Rightarrow> ''directory_users'' | Groups \<Rightarrow> ''directory_groups'')
                      @ ''/'' @ encode_uri_component i,
                    c_token = key, c_body = None, c_content_type = None, c_migrated = None, c_headers = []\<rparr>) (\<lambda>r.
              if \<not> is_success (u_status r) then
                throw (Failed (''Directory Sync identity lookup returned '' @ show_nat (u_status r)))
              else (case u_body r of
                  Some (Doc v) \<Rightarrow> (case as_object (Some v) of
                      None \<Rightarrow> throw (Failed ''Directory Sync lookup did not confirm the exact event identity'')
                    | Some current \<Rightarrow>
                        if \<not> identity_confirmed d k event i current
                        then throw (Failed ''Directory Sync lookup did not confirm the exact event identity'')
                        else if external_id_changed event current
                        then throw (Failed ''Directory Sync external identity changed'')
                        else ret ())
                | _ \<Rightarrow> throw (Failed ''Unexpected end of JSON input'')))))"

subsection \<open>The native id of an event\<close>

record identity_proof =
  native_resource :: "string \<Rightarrow> object option m"
  stored_identities :: "(string \<times> object) list m"
  remote_mapping :: "(string option m) option"
  allow_absent :: bool

text \<open>The walk over the candidate ids: \<open>Inl\<close> is a confirmed native id, \<open>Inr\<close> the absent mappings
  and the number of unverified ones.\<close>

fun event_candidates ::
    "string \<Rightarrow> kind \<Rightarrow> object \<Rightarrow> identity_proof \<Rightarrow> string list \<Rightarrow> id_mapping list \<Rightarrow> nat
      \<Rightarrow> (string + id_mapping list \<times> nat) m" where
  "event_candidates d k event proof_of [] absent unverified = ret (Inr (absent, unverified))"
| "event_candidates d k event proof_of (c # cs) absent unverified =
     bnd (get_mapping_by_workos_id d k c) (\<lambda>mp.
     case mp of
       None \<Rightarrow> event_candidates d k event proof_of cs absent unverified
     | Some m \<Rightarrow>
         bnd (native_resource proof_of (m_native m)) (\<lambda>native.
         case native of
           Some res \<Rightarrow>
             if matches_event_identity k event res then ret (Inl (m_native m))
             else event_candidates d k event proof_of cs absent (Suc unverified)
         | None \<Rightarrow> event_candidates d k event proof_of cs
             (if allow_absent proof_of then absent @ [m] else absent) (Suc unverified)))"

definition ask_remote :: "identity_proof \<Rightarrow> string option m" where
  "ask_remote proof_of = (case remote_mapping proof_of of
       None \<Rightarrow> throw (Failed ''Event has no authenticated mapping resolver'') | Some r \<Rightarrow> r)"

definition native_id_for_event :: "string \<Rightarrow> kind \<Rightarrow> object \<Rightarrow> identity_proof \<Rightarrow> string option m" where
  "native_id_for_event d k event proof_of =
     (case string_value (getp event ''id'') of
        Some i \<Rightarrow>
          if is_directory_sync_resource_id i then
            bnd (get_event_link d k i) (\<lambda>l. case l of
              Some linked \<Rightarrow> ret (Some (e_native linked))
            | None \<Rightarrow> ask_remote proof_of)
          else bnd (get_mapping_by_workos_id d k i) (\<lambda>mp.
            ret (Some (case mp of None \<Rightarrow> i | Some m \<Rightarrow> m_native m)))
      | None \<Rightarrow>
          let raw = record_or_empty (getp event ''raw_attributes'');
              candidates = concat (map (\<lambda>v. case string_value v of None \<Rightarrow> [] | Some s \<Rightarrow> [s])
                [getp raw ''externalId'', getp event ''idp_id'', getp event ''id'']) in
          bnd (event_candidates d k event proof_of candidates [] 0) (\<lambda>walked.
          case walked of
            Inl n \<Rightarrow> ret (Some n)
          | Inr (absent, unverified) \<Rightarrow>
              bnd (stored_identities proof_of) (\<lambda>entries.
              case filter (\<lambda>en. matches_event_identity k event (snd en)) entries of
                a # b # more_entries \<Rightarrow> throw (Failed ''Event identity matches multiple native SCIM mappings'')
              | [a] \<Rightarrow> ret (Some (fst a))
              | [] \<Rightarrow>
                  (case absent of
                     [m] \<Rightarrow> ret (Some (m_native m))
                   | m # m' # more_absent \<Rightarrow> throw (Failed ''Absent event SCIM mapping is ambiguous'')
                   | [] \<Rightarrow>
                       if unverified = 0 then ret None
                       else bnd (get_directory_by_id d) (\<lambda>dir.
                         case dir of
                           None \<Rightarrow> throw (Failed ''Event directory no longer exists'')
                         | Some directory \<Rightarrow>
                             if workos_url directory = [] \<or> workos_token directory = [] then ask_remote proof_of
                             else bnd (verified_workos_event_mapping directory k event) (\<lambda>mp.
                               ret (map_option m_native mp)))))))"

end
