(* ===== verification/Status.thy ===== *)
theory Status
  imports EventMapping
begin

text \<open>
  The status endpoint of \<open>workers/proxy/status.ts\<close>, which tells a native app's event listener
  whether to apply a directory's events and resolves the ids the events carry, and the proxy's entry
  point (\<open>handler.fetch\<close> of \<open>workers/proxy/index.ts\<close>).
\<close>

definition status_prefix :: string where "status_prefix = ''/status/directories''"

definition applies_dsync_events :: "mode \<Rightarrow> bool" where
  "applies_dsync_events m \<longleftrightarrow> m = WorkosOnly"

definition json_reply :: "nat \<Rightarrow> object \<Rightarrow> (string \<times> string) list \<Rightarrow> response" where
  "json_reply st obj hs = \<lparr>r_status = st, r_body = Some (Doc (JObj obj)),
     r_headers = hs @ [(''Content-Type'', ''application/json'')]\<rparr>"

definition status_error :: "nat \<Rightarrow> string \<Rightarrow> response" where
  "status_error st msg = json_reply st [(''error'', JStr msg)] []"

definition json_or_null :: "string option \<Rightarrow> json" where
  "json_or_null v = (case v of None \<Rightarrow> JNull | Some s \<Rightarrow> JStr s)"

definition strategy_name :: "strategy \<Rightarrow> string" where
  "strategy_name s = (case s of MigratedId \<Rightarrow> ''migrated-id'' | FallbackPost \<Rightarrow> ''fallback-post'')"

definition mapping_response ::
    "directory \<Rightarrow> kind \<Rightarrow> string \<Rightarrow> string \<Rightarrow> strategy option \<Rightarrow> string option \<Rightarrow> response" where
  "mapping_response d k n wid st dsync = json_reply 200
     ([(''directory_id'', JStr (dir_id d)), (''workos_directory_id'', json_or_null (workos_directory_id d)),
       (''resource_type'', JStr (kind_name k)), (''workos_scim_id'', JStr wid), (''native_id'', JStr n)]
      @ (case st of None \<Rightarrow> [] | Some s \<Rightarrow> [(''strategy'', JStr (strategy_name s))])
      @ (case dsync of None \<Rightarrow> [] | Some i \<Rightarrow> [(''dsync_id'', JStr i)]))
     [(''Cache-Control'', ''no-store'')]"

definition bool_digit :: "bool \<Rightarrow> string" where
  "bool_digit b = (if b then ''1'' else ''0'')"

definition status_etag :: "directory \<Rightarrow> string" where
  "status_etag d = [dquote] @ mode_name (dir_mode d) @ '':''
     @ (case workos_directory_id d of None \<Rightarrow> [] | Some i \<Rightarrow> i) @ '':''
     @ replace_char (CHR '' '') ''T'' (updated_at d) @ '':apply=''
     @ bool_digit (applies_dsync_events (dir_mode d)) @ [dquote]"

definition status_body :: "directory \<Rightarrow> object" where
  "status_body d =
     [(''directory_id'', JStr (dir_id d)), (''workos_directory_id'', json_or_null (workos_directory_id d)),
      (''mode'', JStr (mode_name (dir_mode d))),
      (''native_authoritative'', JBool (native_is_authoritative (dir_mode d))),
      (''apply_dsync_events'', JBool (applies_dsync_events (dir_mode d))),
      (''updated_at'', JStr (updated_at d))]"

definition status_answer :: "directory \<Rightarrow> string option \<Rightarrow> response" where
  "status_answer d if_none_match =
     (let hs = [(''ETag'', status_etag d), (''Cache-Control'', ''private, max-age=5'')] in
      if if_none_match = Some (status_etag d) then \<lparr>r_status = 304, r_body = None, r_headers = hs\<rparr>
      else json_reply 200 (status_body d) hs)"

subsection \<open>The event mapping route\<close>

definition search_param :: "url \<Rightarrow> string \<Rightarrow> string option" where
  "search_param u name = map_option snd (find (\<lambda>p. fst p = name) (url_params u))"

definition unconfirmed :: response where
  "unconfirmed = json_reply 503
     [(''error'', JStr ''The proxy could not confirm a unique SCIM mapping for this event identity.'')]
     [(''Cache-Control'', ''no-store''), (''Retry-After'', ''5'')]"

definition learned_identity :: "kind \<Rightarrow> string \<Rightarrow> string \<Rightarrow> string \<Rightarrow> string option \<Rightarrow> object" where
  "learned_identity k dsync idp name external =
     [(''id'', JStr dsync), (''idp_id'', JStr idp),
      ((case k of Users \<Rightarrow> ''username'' | Groups \<Rightarrow> ''name''), JStr name)]
     @ (case external of None \<Rightarrow> [] | Some x \<Rightarrow> [(''raw_attributes'', JObj [(''externalId'', JStr x)])])"

definition learn_binding :: "directory \<Rightarrow> kind \<Rightarrow> string option \<Rightarrow> url \<Rightarrow> string \<Rightarrow> response m" where
  "learn_binding d k api_key u dsync =
     (let name = nonempty_or_none (search_param u (unique_attribute k));
          idp = nonempty_or_none (search_param u ''idp_id'');
          external = nonempty_or_none (search_param u ''externalId'') in
      bnd (get_event_link (dir_id d) k dsync) (\<lambda>l.
      case l of
        Some linked \<Rightarrow> ret (mapping_response d k (e_native linked) (e_workos linked) None (Some dsync))
      | None \<Rightarrow>
          if search_param u ''existing_only'' = Some ''1'' then throw (Failed ''No verified existing event link'')
          else (case (idp, name) of
              (Some i, Some nm) \<Rightarrow>
                let identity = learned_identity k dsync i nm external in
                thn (verify_dsync_event_identity d k identity api_key)
                (bnd (verified_workos_event_mapping d k identity) (\<lambda>mp.
                 case mp of
                   None \<Rightarrow> throw (Failed ''No verified event mapping'')
                 | Some m \<Rightarrow>
                     thn (bind_event_link \<lparr>e_directory = dir_id d, e_kind = k, e_dsync = dsync,
                            e_native = m_native m, e_workos = m_workos m\<rparr>)
                       (ret (mapping_response d k (m_native m) (m_workos m) (Some (m_strategy m)) (Some dsync)))))
            | _ \<Rightarrow> ret (status_error 400 ''Supply idp_id and userName or displayName to learn a binding.''))))"

definition event_mapping_route :: "directory \<Rightarrow> string \<Rightarrow> string option \<Rightarrow> url \<Rightarrow> response m" where
  "event_mapping_route d type api_key u = (case kind_of type of
       None \<Rightarrow> ret (status_error 404 ''Unknown resource type.'')
     | Some k \<Rightarrow> (case nonempty_or_none (search_param u ''dsync_id'') of
         None \<Rightarrow> ret (status_error 400 ''Supply a Directory Sync id matching the resource type.'')
       | Some dsync \<Rightarrow>
           if \<not> starts_with dsync (dsync_prefix k)
           then ret (status_error 400 ''Supply a Directory Sync id matching the resource type.'')
           else try_catch (learn_binding d k api_key u dsync) (\<lambda>_. ret unconfirmed)))"

subsection \<open>The mapping route\<close>

definition mapping_route :: "directory \<Rightarrow> string \<Rightarrow> string \<Rightarrow> response m" where
  "mapping_route d type segment = (case kind_of type of
       None \<Rightarrow> ret (status_error 404 ''Unknown resource type.'')
     | Some k \<Rightarrow> (case decode_uri_component segment of
         None \<Rightarrow> ret (status_error 404 ''Invalid WorkOS SCIM ID.'')
       | Some wid \<Rightarrow> try_catch
           (bnd (get_mapping_by_workos_id (dir_id d) k wid) (\<lambda>mp. case mp of
              None \<Rightarrow> ret (status_error 404 ''No mapping exists for this WorkOS SCIM ID.'')
            | Some m \<Rightarrow> ret (mapping_response d k (m_native m) (m_workos m) (Some (m_strategy m)) None)))
           (\<lambda>er. ret (if er = Ambiguous
              then json_reply 503
                [(''error'', JStr ''Multiple native owners exist for this WorkOS SCIM ID; repair the mapping before retrying.'')]
                [(''Cache-Control'', ''no-store''), (''Retry-After'', ''5'')]
              else status_error 500 ''The proxy could not resolve this SCIM mapping.''))))"

subsection \<open>The endpoint\<close>

datatype status_route = StatusRoute | EventMappingRoute string | MappingRoute string string

definition status_route_of :: "string list \<Rightarrow> (string \<times> status_route) option" where
  "status_route_of segments = (case segments of
       [i] \<Rightarrow> Some (i, StatusRoute)
     | [i, a, t] \<Rightarrow> if a = ''event-mapping'' then Some (i, EventMappingRoute t) else None
     | [i, a, t, wid] \<Rightarrow> if a = ''mappings'' then Some (i, MappingRoute t wid) else None
     | _ \<Rightarrow> None)"

definition handle_status :: "request \<Rightarrow> string option \<Rightarrow> response m" where
  "handle_status q api_key =
     (let u = q_url q;
          nothing = status_error 404 (''Nothing is served at '' @ url_pathname u @ ''. Try '' @ status_prefix @ ''/{id}.'') in
      if q_method q \<noteq> ''GET'' \<and> q_method q \<noteq> ''HEAD''
      then ret (status_error 405 ''The status endpoint only accepts GET.'')
      else (case status_route_of (path_segments (drop (length status_prefix) (url_pathname u))) of
          None \<Rightarrow> ret nothing
        | Some (segment, route) \<Rightarrow> (case decode_uri_component segment of
            None \<Rightarrow> ret nothing
          | Some requested \<Rightarrow>
              bnd (settle (get_directory_by_token (authorization_token (header_get ''Authorization'' (q_headers q))))) (\<lambda>found.
              case found of
                Inl er \<Rightarrow> ret (status_error 500 ''The proxy could not resolve the directory for this token.'')
              | Inr None \<Rightarrow> ret (status_error 401 ''The bearer token in the Authorization header does not match any proxy directory.'')
              | Inr (Some d) \<Rightarrow>
                  if requested \<noteq> dir_id d \<and> Some requested \<noteq> workos_directory_id d
                  then ret (status_error 404 (''This token's directory is not '' @ requested @ ''.''))
                  else (case route of
                      EventMappingRoute t \<Rightarrow> event_mapping_route d t api_key u
                    | MappingRoute t wid \<Rightarrow> mapping_route d t wid
                    | StatusRoute \<Rightarrow> ret (status_answer d (header_get ''If-None-Match'' (q_headers q))))))))"

definition under_prefix :: "string \<Rightarrow> string \<Rightarrow> bool" where
  "under_prefix prefix p \<longleftrightarrow> p = prefix \<or> starts_with p (prefix @ ''/'')"

definition proxy_fetch :: "request \<Rightarrow> string option \<Rightarrow> response m" where
  "proxy_fetch q api_key =
     (let p = url_pathname (q_url q) in
      if p = ''/'' then ret (json_reply 200 [(''service'', JStr ''scim-migration-proxy'')] [])
      else if p = ''/healthz'' then ret (json_reply 200 [(''ok'', JBool True)] [])
      else if under_prefix scim_prefix p then handle_scim q
      else if under_prefix status_prefix p then handle_status q api_key
      else ret (scim_error 404 (''Nothing is served at '' @ p @ ''.'')))"

end
