(* ===== verification/StatusLaws.thy ===== *)
theory StatusLaws
  imports PrimaryLaws Status
begin

text \<open>
  The listener contract: the validator of a status answer, who may read it, the exclusion between
  the proxy's native writes and the listener's, and the ownership of event links and proxy tokens.
\<close>

subsection \<open>The validator\<close>

lemma mode_name_no_colon: "CHR '':'' \<notin> set (mode_name m)"
  by (cases m) auto

lemma takeWhile_colon: "CHR '':'' \<notin> set a \<Longrightarrow> takeWhile (\<lambda>c. c \<noteq> CHR '':'') (a @ CHR '':'' # b) = a"
  by (induction a) auto

text \<open>A 304 never withholds a changed instruction: whoever presents the validator of an earlier
  status answer is told "not modified" only while the directory's mode, and with it both the
  authority and the instruction to apply events, are the ones of that answer.\<close>
theorem not_modified_is_current:
  assumes "r_status (status_answer d (Some (status_etag old))) = 304"
  shows "dir_mode d = dir_mode old
     \<and> getp (status_body d) ''apply_dsync_events'' = getp (status_body old) ''apply_dsync_events''
     \<and> getp (status_body d) ''native_authoritative'' = getp (status_body old) ''native_authoritative''"
proof -
  have "status_etag old = status_etag d"
    using assms by (auto simp: status_answer_def json_reply_def Let_def split: if_splits)
  then have "mode_name (dir_mode old) @ CHR '':'' # x = mode_name (dir_mode d) @ CHR '':'' # y"
    if "x = (case workos_directory_id old of None \<Rightarrow> [] | Some i \<Rightarrow> i) @ '':'' @ replace_char (CHR '' '') ''T'' (updated_at old)
        @ '':apply='' @ bool_digit (applies_dsync_events (dir_mode old)) @ [dquote]"
      and "y = (case workos_directory_id d of None \<Rightarrow> [] | Some i \<Rightarrow> i) @ '':'' @ replace_char (CHR '' '') ''T'' (updated_at d)
        @ '':apply='' @ bool_digit (applies_dsync_events (dir_mode d)) @ [dquote]" for x y
    using that by (simp add: status_etag_def)
  then have "takeWhile (\<lambda>c. c \<noteq> CHR '':'') (mode_name (dir_mode old) @ CHR '':'' # x)
      = takeWhile (\<lambda>c. c \<noteq> CHR '':'') (mode_name (dir_mode d) @ CHR '':'' # y)"
    if "x = (case workos_directory_id old of None \<Rightarrow> [] | Some i \<Rightarrow> i) @ '':'' @ replace_char (CHR '' '') ''T'' (updated_at old)
        @ '':apply='' @ bool_digit (applies_dsync_events (dir_mode old)) @ [dquote]"
      and "y = (case workos_directory_id d of None \<Rightarrow> [] | Some i \<Rightarrow> i) @ '':'' @ replace_char (CHR '' '') ''T'' (updated_at d)
        @ '':apply='' @ bool_digit (applies_dsync_events (dir_mode d)) @ [dquote]" for x y
    using that by metis
  then have "mode_name (dir_mode old) = mode_name (dir_mode d)"
    by (simp add: takeWhile_colon mode_name_no_colon)
  then show ?thesis by (simp add: mode_name_inject status_body_def)
qed

theorem not_modified_is_current_witness:
  "r_status (status_answer (sample WorkosPrimary) (Some (status_etag (sample WorkosPrimary)))) = 304
   \<and> getp (status_body (sample WorkosPrimary)) ''apply_dsync_events'' = Some (JBool False)"
proof -
  have "r_status (status_answer (sample WorkosPrimary) (Some (status_etag (sample WorkosPrimary)))) = 304"
    by (simp add: status_answer_def Let_def)
  moreover note not_modified_is_current [OF this]
  moreover have "getp (status_body (sample WorkosPrimary)) ''apply_dsync_events'' = Some (JBool False)" by code_simp
  ultimately show ?thesis by blast
qed

subsection \<open>One writer of the native app\<close>

text \<open>On every rung the native app hears of a write from exactly one side: when serving a
  request reaches the native app at all, the status endpoint tells the listener to stay inert; and
  the listener is told to apply events exactly on the rung whose requests never reach it.\<close>
theorem one_writer_per_rung:
  assumes "dispatch rq e w = (r, w')"
    and "list_ex (\<lambda>c. c_side c = Native) (drop (length (calls w)) (calls w'))"
  shows "\<not> applies_dsync_events (dir_mode (i_directory rq))
     \<and> getp (status_body (i_directory rq)) ''apply_dsync_events'' = Some (JBool False)"
proof -
  have "sends (Collect (allowed (i_directory rq) (is_write (i_method rq) (i_path rq)))) w w'"
    using dispatch_sends assms(1) by (rule presD)
  with assms(2) obtain c where "c_side c = Native" "allowed (i_directory rq) (is_write (i_method rq) (i_path rq)) c"
    by (auto simp: sends_def list_ex_iff)
  then have "native_served (dir_mode (i_directory rq)) (is_write (i_method rq) (i_path rq))"
    by (simp add: allowed_def)
  then show ?thesis
    by (auto simp: native_served_def applies_dsync_events_def status_body_def)
qed

theorem one_writer_per_rung_witness:
  "\<not> applies_dsync_events (dir_mode (i_directory (sample_inbound WorkosPrimary ''POST'' [] [(''userName'', JStr ''a'')])))"
proof -
  let ?rq = "sample_inbound WorkosPrimary ''POST'' [] [(''userName'', JStr ''a'')]"
  obtain r w' where run: "dispatch ?rq stub_env (fresh_world empty_store) = (r, w')"
    by (cases "dispatch ?rq stub_env (fresh_world empty_store)")
  have "list_ex (\<lambda>c. c_side c = Native) (calls (snd (dispatch ?rq stub_env (fresh_world empty_store))))" by code_simp
  then have "list_ex (\<lambda>c. c_side c = Native) (drop (length (calls (fresh_world empty_store))) (calls w'))"
    using run by (simp add: fresh_world_def)
  from one_writer_per_rung [OF run this] show ?thesis by blast
qed

end
