(* ===== verification/Backfill.thy ===== *)
theory Backfill
  imports PrimaryCreate
begin

text \<open>
  The two bulk operations of \<open>workers/shared/backfill.ts\<close> share this theory's paged snapshot; the
  backfill (native to WorkOS) is here, the reconcile (WorkOS to native) in theory Reconcile.

  The paging loop ends when the upstream's own numbers say so, which nothing forces it to do.  It
  takes the number of pages it may still fetch; \<open>None\<close> is a loop that has not ended by then.  Theory
  BackfillLaws says how many pages are enough.
\<close>

definition page_size :: nat where "page_size = 100"
definition mapping_flush_size :: nat where "mapping_flush_size = 100"
definition error_cap :: nat where "error_cap = 20"

record snapshot =
  sn_resources :: "object list"
  sn_complete :: bool

record resource_counts =
  n_total :: nat
  n_mirrored :: nat
  n_failed :: nat

record summary =
  s_users :: resource_counts
  s_groups :: resource_counts
  s_errors :: "string list"

definition no_counts :: resource_counts where
  "no_counts = \<lparr>n_total = 0, n_mirrored = 0, n_failed = 0\<rparr>"

definition push_error :: "string list \<Rightarrow> string \<Rightarrow> string list" where
  "push_error errors msg = (if length errors < error_cap then errors @ [msg] else errors)"

subsection \<open>Paging\<close>

definition upstream_side :: "side \<Rightarrow> string" where
  "upstream_side sd = (if sd = Native then ''native'' else ''workos'')"

definition records_in :: "json list \<Rightarrow> object list" where
  "records_in vs = concat (map (\<lambda>v. case as_object (Some v) of None \<Rightarrow> [] | Some obj \<Rightarrow> [obj]) vs)"

definition page_url :: "string \<Rightarrow> nat \<Rightarrow> string" where
  "page_url u start = u @ ''?startIndex='' @ show_nat start @ ''&count='' @ show_nat page_size"

definition fetch_page :: "side \<Rightarrow> string \<Rightarrow> string \<Rightarrow> kind \<Rightarrow> nat \<Rightarrow> upstream_result m" where
  "fetch_page sd base token k start =
     bnd (join_scim_url base (collection_path k)) (\<lambda>u.
       plain_fetch sd (page_url u start) ''GET'' token None)"

definition reported_total :: "object \<Rightarrow> int option \<Rightarrow> int option" where
  "reported_total body before =
     (case getp body ''totalResults'' of Some (JNum n) \<Rightarrow> Some n | _ \<Rightarrow> before)"

definition gave_up :: "object list \<Rightarrow> string list \<Rightarrow> string \<Rightarrow> (snapshot \<times> string list) option" where
  "gave_up out errors msg =
     Some (\<lparr>sn_resources = out, sn_complete = False\<rparr>, push_error errors msg)"

text \<open>What one page does to the loop: \<open>Inl\<close> leaves it, \<open>Inr\<close> holds the rows of the page and the
  total that is carried on.\<close>

definition read_page ::
    "side \<Rightarrow> kind \<Rightarrow> object list \<Rightarrow> int option \<Rightarrow> string list \<Rightarrow> err + upstream_result
      \<Rightarrow> (snapshot \<times> string list) option + object list \<times> int option" where
  "read_page sd k out known errors page =
     (let snap = kind_name k @ '' snapshot: ''; named = snap @ upstream_side sd in
      case page of
        Inl er \<Rightarrow> Inl (gave_up out errors (snap @ error_message er))
      | Inr r \<Rightarrow>
          if \<not> is_success (u_status r) then
            Inl (gave_up out errors (named @ '' returned '' @ show_nat (u_status r)))
          else (case parse_json (u_body r) of
              None \<Rightarrow> Inl (gave_up out errors (named @ '' returned a list response that is not JSON''))
            | Some body \<Rightarrow> (case as_array (getp body ''Resources'') of
                None \<Rightarrow> Inl (gave_up out errors (named @ '' returned a list response without a Resources array''))
              | Some vs \<Rightarrow>
                  let rows = records_in vs; all = out @ rows;
                      carried = reported_total body known;
                      total' = (case carried of None \<Rightarrow> int (length all) | Some n \<Rightarrow> n) in
                  if total' \<le> int (length all) then
                    Inl (Some (\<lparr>sn_resources = all, sn_complete = True\<rparr>, errors))
                  else if rows = [] then
                    Inl (gave_up all errors (named @ '' returned an empty page at '' @ show_nat (length all)
                      @ '' of '' @ show_nat (nat total') @ '' resources''))
                  else Inr (rows, carried))))"

fun snapshot_pages ::
    "nat \<Rightarrow> side \<Rightarrow> string \<Rightarrow> string \<Rightarrow> kind \<Rightarrow> object list \<Rightarrow> int option \<Rightarrow> nat \<Rightarrow> string list
      \<Rightarrow> (snapshot \<times> string list) option m" where
  "snapshot_pages 0 sd base token k out known start errors = ret None"
| "snapshot_pages (Suc fuel) sd base token k out known start errors =
     bnd (settle (fetch_page sd base token k start)) (\<lambda>page.
     case read_page sd k out known errors page of
       Inl result \<Rightarrow> ret result
     | Inr (rows, carried) \<Rightarrow>
         snapshot_pages fuel sd base token k (out @ rows) carried (start + length rows) errors)"

definition take_snapshot ::
    "nat \<Rightarrow> side \<Rightarrow> string \<Rightarrow> string \<Rightarrow> kind \<Rightarrow> string list \<Rightarrow> (snapshot \<times> string list) option m" where
  "take_snapshot fuel sd base token k errors = snapshot_pages fuel sd base token k [] None 1 errors"

subsection \<open>One resource of the backfill\<close>

text \<open>What the loop carries: the counts of the current type, the errors and the queued mappings.\<close>

record progress =
  g_counts :: resource_counts
  g_errors :: "string list"
  g_sink :: "id_mapping list"

definition counted :: "progress \<Rightarrow> progress" where
  "counted g = g\<lparr>g_counts := (g_counts g)\<lparr>n_total := n_total (g_counts g) + 1\<rparr>\<rparr>"

definition failed_with :: "string \<Rightarrow> progress \<Rightarrow> progress" where
  "failed_with msg g = g\<lparr>g_counts := (g_counts g)\<lparr>n_failed := n_failed (g_counts g) + 1\<rparr>,
     g_errors := push_error (g_errors g) msg\<rparr>"

definition mirrored_one :: "progress \<Rightarrow> progress" where
  "mirrored_one g = g\<lparr>g_counts := (g_counts g)\<lparr>n_mirrored := n_mirrored (g_counts g) + 1\<rparr>\<rparr>"

definition backfill_log :: "directory \<Rightarrow> kind \<Rightarrow> string \<Rightarrow> object \<Rightarrow> mirror_result \<Rightarrow> log_entry" where
  "backfill_log d k n body r = blank_log\<lparr>l_directory := Some (dir_id d), l_source := ''backfill'',
     l_mode := mode_name (dir_mode d), l_method := ''PUT'', l_path := ''/'' @ kind_name k @ ''/'' @ n,
     l_request_body := Some (Doc (JObj body)), l_workos_request := Some (mr_request r),
     l_workos_status := mr_status r, l_workos_body := mr_body r, l_response_status := mr_status r,
     l_error := mr_error r\<rparr>"

definition quiet_log :: "directory \<Rightarrow> log_entry \<Rightarrow> unit m" where
  "quiet_log d l = (if should_persist_logs (Some d)
     then try_catch (insert_proxy_log l) (\<lambda>_. ret ()) else ret ())"

definition mirror_problem :: "mirror_result \<Rightarrow> string" where
  "mirror_problem r = (case mr_error r of Some er \<Rightarrow> er
     | None \<Rightarrow> ''WorkOS returned '' @ (case mr_status r of None \<Rightarrow> ''null'' | Some st \<Rightarrow> show_nat st))"

definition mirror_resource :: "directory \<Rightarrow> kind \<Rightarrow> object \<Rightarrow> object \<Rightarrow> progress \<Rightarrow> progress m" where
  "mirror_resource d k original body g0 =
     (let g = counted g0 in
      case string_value (getp original ''id'') of
        None \<Rightarrow> ret (failed_with (kind_name k @ '': snapshot resource is missing an id'') g)
      | Some n \<Rightarrow>
          bnd (unattributable d k n) (\<lambda>foreign.
          if foreign then
            ret (failed_with (kind_name k @ ''/'' @ n @ '': another directory fronts this native app, so this unscoped native row cannot be attributed to this directory; backfill skipped it rather than claim a neighbour's row. Migrate this directory against a native namespace it has to itself.'') g)
          else
            bnd (mirror_upsert d k n body (Some (g_sink g)) False) (\<lambda>(r, sink).
            let g' = g\<lparr>g_sink := (case sink of None \<Rightarrow> g_sink g | Some rows \<Rightarrow> rows)\<rparr> in
            thn (quiet_log d (backfill_log d k n body r))
              (ret (if mr_ok r then mirrored_one g'
                    else failed_with (kind_name k @ ''/'' @ n @ '': '' @ mirror_problem r) g')))))"

subsection \<open>Writing the queued mappings\<close>

definition flush_problem :: "string \<Rightarrow> id_mapping \<Rightarrow> string" where
  "flush_problem detail m = kind_name (m_kind m) @ '' '' @ m_native m
     @ '': mirrored to WorkOS, but recording its id mapping failed ('' @ detail
     @ ''). Re-run the backfill to reconcile it.''"

definition flush_mappings :: "progress \<Rightarrow> progress m" where
  "flush_mappings g =
     (if g_sink g = [] then ret g
      else
        let drained = g\<lparr>g_sink := []\<rparr> in
        try_catch (thn (upsert_mappings (g_sink g)) (ret drained))
          (\<lambda>er. ret (drained\<lparr>g_errors :=
             foldl push_error (g_errors g) (map (flush_problem (error_message er)) (g_sink g))\<rparr>)))"

definition flush_when_full :: "progress \<Rightarrow> progress m" where
  "flush_when_full g = (if mapping_flush_size \<le> length (g_sink g) then flush_mappings g else ret g)"

subsection \<open>The backfill\<close>

fun mirror_all :: "directory \<Rightarrow> kind \<Rightarrow> (object \<Rightarrow> object res) \<Rightarrow> object list \<Rightarrow> progress \<Rightarrow> progress m" where
  "mirror_all d k body_of [] g = ret g"
| "mirror_all d k body_of (obj # objs) g =
     bnd (from_res (body_of obj)) (\<lambda>body.
     bnd (mirror_resource d k obj body g) (\<lambda>g1.
     bnd (flush_when_full g1) (\<lambda>g2. mirror_all d k body_of objs g2)))"

text \<open>Only the members are translated here; the resource's own id is its native id.\<close>

definition backfill_body :: "translator \<Rightarrow> object \<Rightarrow> object res" where
  "backfill_body tr obj = (case as_array (getp obj ''members'') of
       None \<Rightarrow> Inr obj
     | Some ms \<Rightarrow> res_map (\<lambda>ms'. set_prop ''members'' (JArr ms') obj) (res_list (translate_member tr) ms))"

definition run_backfill :: "nat \<Rightarrow> directory \<Rightarrow> summary option m" where
  "run_backfill fuel d =
     bnd_some (take_snapshot fuel Native (native_url d) (native_token d) Users []) (\<lambda>(users, er0).
     bnd (mirror_all d Users Inr (sn_resources users)
            \<lparr>g_counts = no_counts, g_errors = er0, g_sink = []\<rparr>) (\<lambda>g1.
     bnd_some (take_snapshot fuel Native (native_url d) (native_token d) Groups (g_errors g1)) (\<lambda>(groups, er1).
     bnd (flush_mappings (g1\<lparr>g_errors := er1\<rparr>)) (\<lambda>g2.
     bnd (load_id_maps (dir_id d) False) (\<lambda>maps.
     bnd (mirror_all d Groups (backfill_body (make_translator (native_to_workos maps)))
            (sn_resources groups) (g2\<lparr>g_counts := no_counts\<rparr>)) (\<lambda>g3.
     bnd (flush_mappings g3) (\<lambda>g4.
       ret (Some \<lparr>s_users = g_counts g2, s_groups = g_counts g4, s_errors = g_errors g4\<rparr>))))))))"

end
