(* ===== verification/Reconcile.thy ===== *)
theory Reconcile
  imports Backfill
begin

text \<open>
  The reconcile of \<open>workers/shared/backfill.ts\<close> (\<open>runReconcileFromWorkos\<close> and what it calls): it
  replays the WorkOS directory into the native app.  It holds the run lease and both create claims,
  and gives the claims up only when no native write is left unresolved.
\<close>

subsection \<open>Helpers\<close>

definition resource_id :: "json option \<Rightarrow> string option" where
  "resource_id v = (case as_string v of None \<Rightarrow> None | Some s \<Rightarrow> if trim s = [] then None else Some s)"

definition put_native :: "directory \<Rightarrow> kind \<Rightarrow> string \<Rightarrow> object \<Rightarrow> upstream_result m" where
  "put_native d k i resource =
     bnd (join_scim_url (native_url d) (resource_path k i)) (\<lambda>u.
       plain_fetch Native u ''PUT'' (native_token d) (Some (Doc (JObj (set_prop ''id'' (JStr i) resource)))))"

definition post_native :: "directory \<Rightarrow> kind \<Rightarrow> object \<Rightarrow> upstream_result m" where
  "post_native d k resource =
     bnd (join_scim_url (native_url d) (collection_path k)) (\<lambda>u.
       plain_fetch Native u ''POST'' (native_token d)
         (Some (Doc (JObj (del_prop ''meta'' (del_prop ''id'' resource))))))"

definition describe_failure :: "upstream_result \<Rightarrow> string" where
  "describe_failure r =
     (if u_status r = 409 then ''native returned 409 (userName/displayName exists under a different id; drift unresolved)''
      else ''native returned '' @ show_nat (u_status r)
        @ (case nonempty_or_none (scim_error_detail (u_body r)) of None \<Rightarrow> [] | Some s \<Rightarrow> '' ('' @ s @ '')''))"

definition escape_filter :: "string \<Rightarrow> string" where
  "escape_filter s = concat (map (\<lambda>c. if c = backslash \<or> c = dquote then [backslash, c] else [c]) s)"

subsection \<open>Who may be addressed by a native id\<close>

definition sharing_owner :: "(string \<Rightarrow> url option) \<Rightarrow> directory \<Rightarrow> (id_mapping \<times> directory) list \<Rightarrow> string option" where
  "sharing_owner parse d others = map_option (\<lambda>(m, _). m_directory m)
     (find (\<lambda>(_, r). shares_native_namespace parse (endpoint_of d) (endpoint_of r)) others)"

definition unattributed_reason :: "directory \<Rightarrow> kind \<Rightarrow> string \<Rightarrow> string \<Rightarrow> string option m" where
  "unattributed_reason d k wid n =
     bnd (get_event_link_by_native_id (dir_id d) k n) (\<lambda>link.
     if (case link of None \<Rightarrow> False | Some l \<Rightarrow> e_workos l \<noteq> wid) then
       ret (Some (''is reserved by Directory Sync '' @ e_dsync (the link) @ '' for WorkOS '' @ e_workos (the link)))
     else
     bnd (list_other_mappings_by_native_id d k n) (\<lambda>others.
     bnd (asks (\<lambda>e. sharing_owner (parse_url e) d others)) (\<lambda>foreign.
     case foreign of
       Some other \<Rightarrow> ret (Some (''is already mapped by directory '' @ other))
     | None \<Rightarrow>
         bnd (get_mapping_by_workos_id (dir_id d) k n) (\<lambda>alias.
         if (case alias of None \<Rightarrow> False | Some a \<Rightarrow> m_workos a \<noteq> wid \<and> m_native a \<noteq> n) then
           ret (Some (''aliases WorkOS '' @ m_workos (the alias) @ '', which already maps to native '' @ m_native (the alias)))
         else
         bnd (get_mapping (dir_id d) k n) (\<lambda>mine.
         case mine of
           Some m \<Rightarrow> ret (if m_workos m = wid then None else Some (''is already mapped to WorkOS '' @ m_workos m))
         | None \<Rightarrow>
             bnd (native_namespace_is_shared d) (\<lambda>shared.
               ret (if shared then Some ''is unmapped, and another directory fronts this native app'' else None)))))))"

definition whole_listing :: "object \<Rightarrow> json list \<Rightarrow> bool" where
  "whole_listing body rs \<longleftrightarrow> (let n = Some (JNum (int (length rs))) in
     getp body ''totalResults'' = n
     \<and> (getp body ''startIndex'' = None \<or> getp body ''startIndex'' = Some (JNum 1))
     \<and> (getp body ''itemsPerPage'' = None \<or> getp body ''itemsPerPage'' = n))"

text \<open>The one verified match of a complete listing.\<close>

definition verified_match :: "string \<Rightarrow> string \<Rightarrow> json option \<Rightarrow> json list \<Rightarrow> string option res" where
  "verified_match attribute v expected rs = (case filter (carries_value attribute v) rs of
       [] \<Rightarrow> if rs \<noteq> [] then Inl (Failed ''native did not honor the identity filter'') else Inr None
     | [found] \<Rightarrow>
         let obj = (case found of JObj ps \<Rightarrow> ps | _ \<Rightarrow> []) in
         (case resource_id (getp obj ''id'') of
            None \<Rightarrow> Inl (Failed ''native match is missing an id'')
          | Some i \<Rightarrow>
              if resource_id (getp obj ''externalId'') = None
                 \<or> resource_id (getp obj ''externalId'') \<noteq> resource_id expected
              then Inl (Failed ''native name match lacks a matching externalId; verify ownership and restore a mapping before replay'')
              else Inr (Some i))
     | _ \<Rightarrow> Inl (Failed (''native returned multiple '' @ attribute @ '' matches'')))"

definition find_native_id_by_attr ::
    "directory \<Rightarrow> kind \<Rightarrow> string \<Rightarrow> string \<Rightarrow> json option \<Rightarrow> string option m" where
  "find_native_id_by_attr d k attribute v expected =
     bnd (join_scim_url (native_url d) (collection_path k)) (\<lambda>u.
     bnd (plain_fetch Native (u @ ''?filter=''
            @ encode_uri_component (attribute @ '' eq '' @ [dquote] @ escape_filter v @ [dquote])
            @ ''&startIndex=1&count='' @ show_nat page_size) ''GET'' (native_token d) None) (\<lambda>page.
     if \<not> is_success (u_status page) then throw (Failed (''native returned '' @ show_nat (u_status page)))
     else (case object_prop (parse_json (u_body page)) ''Resources'' of
         Some (JArr rs) \<Rightarrow>
           if \<not> (case parse_json (u_body page) of None \<Rightarrow> False | Some body \<Rightarrow> whole_listing body rs)
           then throw (Failed ''native returned an incomplete or inconsistent identity lookup'')
           else from_res (verified_match attribute v expected rs)
       | _ \<Rightarrow> throw (Failed ''native returned an invalid list response''))))"

subsection \<open>One resource of the reconcile\<close>

text \<open>\<open>native_id ?? workos_id\<close> in messages.\<close>

definition replay_label :: "kind \<Rightarrow> string \<Rightarrow> string option \<Rightarrow> string" where
  "replay_label k wid n = kind_name k @ ''/'' @ (case n of None \<Rightarrow> wid | Some i \<Rightarrow> i)"

text \<open>Whom the replay may address: \<open>Inl\<close> is the reason to skip the resource, \<open>Inr\<close> its mapping and
  native id as far as they are known.\<close>

definition look_up_identity ::
    "directory \<Rightarrow> kind \<Rightarrow> string \<Rightarrow> object \<Rightarrow> (string + id_mapping option \<times> string option) m" where
  "look_up_identity d k wid resource =
     (let attribute = unique_attribute k; label = replay_label k wid None in
      case string_value (getp resource attribute) of
        None \<Rightarrow> ret (Inl (label @ '': no '' @ attribute @ '' to resolve a native identity; replay skipped.''))
      | Some v \<Rightarrow>
          bnd (settle (find_native_id_by_attr d k attribute v (getp resource ''externalId''))) (\<lambda>found.
          case found of
            Inl er \<Rightarrow> ret (Inl (label @ '': resolving native '' @ attribute @ '': '' @ error_message er))
          | Inr n \<Rightarrow>
              bnd (get_mapping_by_workos_id (dir_id d) k wid) (\<lambda>current.
                ret (Inr (current, case current of None \<Rightarrow> n | Some m \<Rightarrow> Some (m_native m))))))"

definition replay_target ::
    "directory \<Rightarrow> kind \<Rightarrow> string \<Rightarrow> object \<Rightarrow> (string + id_mapping option \<times> string option) m" where
  "replay_target d k wid resource =
     bnd (get_mapping_by_workos_id (dir_id d) k wid) (\<lambda>mapped.
     let n0 = map_option m_native mapped; label = replay_label k wid n0 in
     bnd (get_mapping (dir_id d) k (case n0 of None \<Rightarrow> wid | Some i \<Rightarrow> i)) (\<lambda>alias.
     if (case alias of None \<Rightarrow> False | Some a \<Rightarrow> m_workos a \<noteq> wid) then
       ret (Inl (label @ '': this native id already maps to WorkOS '' @ m_workos (the alias)
         @ ''; the reconcile did not replay a different resource onto it.''))
     else
     bnd (if mapped = None then native_namespace_is_shared d else ret False) (\<lambda>shared.
     if shared then
       ret (Inl (replay_label k wid None @ '': unmapped, and another directory fronts this native app, so this id cannot be attributed to this directory; the reconcile did not replay it rather than write over a neighbour's row. Migrate this directory against a native namespace it has to itself.''))
     else
     bnd (if mapped = None then look_up_identity d k wid resource else ret (Inr (mapped, n0))) (\<lambda>target.
     case target of
       Inl msg \<Rightarrow> ret (Inl msg)
     | Inr (mp, n) \<Rightarrow>
         (case nonempty_or_none n of
            Some i \<Rightarrow>
              bnd (unattributed_reason d k wid i) (\<lambda>unowned. case unowned of
                Some reason \<Rightarrow> ret (Inl (replay_label k wid None @ '': native id '' @ i @ '' '' @ reason @ ''; replay skipped.''))
              | None \<Rightarrow> ret (Inr (mp, Some i)))
          | None \<Rightarrow>
              bnd (native_namespace_is_shared d) (\<lambda>shared'.
                ret (if shared' then Inl (replay_label k wid None @ '': native namespace became shared; create skipped.'')
                     else Inr (mp, None))))))))"

text \<open>The write itself, and the repair of a POST that native answered 409.  The state is what the
  caller reads on: the native id, the method, the last answer.\<close>

record replay =
  y_native :: "string option"
  y_method :: string
  y_result :: upstream_result

definition unresolved :: "unit m" where
  "unresolved = set_replay (\<lambda>st. st\<lparr>unresolved_write := True\<rparr>)"

definition first_write :: "directory \<Rightarrow> kind \<Rightarrow> object \<Rightarrow> string option \<Rightarrow> upstream_result m" where
  "first_write d k resource n = (case n of
       Some i \<Rightarrow> put_native d k i resource | None \<Rightarrow> post_native d k resource)"

definition repair_collision ::
    "directory \<Rightarrow> kind \<Rightarrow> string \<Rightarrow> object \<Rightarrow> replay \<Rightarrow> string list \<Rightarrow> (replay \<times> string list) m" where
  "repair_collision d k wid resource y errors =
     (let label = replay_label k wid None; attribute = unique_attribute k;
          problem = (\<lambda>er. label @ '': resolving native collision: '' @ error_message er) in
      case string_value (getp resource attribute) of
        None \<Rightarrow> ret (y, errors)
      | Some v \<Rightarrow>
          bnd (settle (find_native_id_by_attr d k attribute v (getp resource ''externalId''))) (\<lambda>found.
          case found of
            Inl er \<Rightarrow> ret (y, push_error errors (problem er))
          | Inr None \<Rightarrow> ret (y, errors)
          | Inr (Some i) \<Rightarrow>
              bnd (settle (bnd (unattributed_reason d k wid i) (\<lambda>unowned.
                     bnd (get_mapping_by_workos_id (dir_id d) k wid) (\<lambda>current. ret (unowned, current))))) (\<lambda>chk.
              case chk of
                Inl er \<Rightarrow> ret (y, push_error errors (problem er))
              | Inr (unowned, current) \<Rightarrow>
                  if unowned = None \<and> (case current of None \<Rightarrow> True | Some m \<Rightarrow> m_native m = i) then
                    let y' = y\<lparr>y_native := Some i, y_method := ''PUT''\<rparr> in
                    bnd (settle (put_native d k i resource)) (\<lambda>r. case r of
                      Inl er \<Rightarrow> thn unresolved (ret (y', push_error errors (problem er)))
                    | Inr res \<Rightarrow> ret (y'\<lparr>y_result := res\<rparr>, errors))
                  else ret (y, push_error errors (label @ '': native collision cannot be attributed; operator recovery required.'')))))"

definition replay_log :: "directory \<Rightarrow> kind \<Rightarrow> object \<Rightarrow> replay \<Rightarrow> log_entry" where
  "replay_log d k resource y =
     (let r = y_result y in
      blank_log\<lparr>l_directory := Some (dir_id d), l_source := ''backfill'', l_mode := mode_name (dir_mode d),
        l_method := y_method y,
        l_path := (if y_method y = ''PUT''
          then ''/'' @ kind_name k @ ''/'' @ (case y_native y of None \<Rightarrow> ''null'' | Some i \<Rightarrow> i)
          else ''/'' @ kind_name k),
        l_request_body := Some (Doc (JObj resource)), l_native_status := Some (u_status r),
        l_native_body := u_body r, l_response_status := Some (u_status r),
        l_error := (if is_success (u_status r) then None
          else Some (''native returned '' @ show_nat (u_status r)))\<rparr>)"

text \<open>Linking a confirmed native id; \<open>Inl\<close> is the reason why it is not recorded.\<close>

definition confirm_identity :: "directory \<Rightarrow> kind \<Rightarrow> string \<Rightarrow> replay \<Rightarrow> (string + string) m" where
  "confirm_identity d k wid y =
     (case resource_id (object_prop (parse_json (u_body (y_result y))) ''id'') of
        None \<Rightarrow> ret (Inl (replay_label k wid (y_native y) @ '': native replay succeeded without confirming a usable native id; no mapping was recorded and the create claims require operator recovery.''))
      | Some i \<Rightarrow>
          if (case y_native y of None \<Rightarrow> False | Some n \<Rightarrow> n \<noteq> i) then
            ret (Inl (replay_label k wid (y_native y) @ '': native replay succeeded without confirming a usable native id; no mapping was recorded and the create claims require operator recovery.''))
          else
            bnd (get_mapping_by_workos_id (dir_id d) k wid) (\<lambda>current.
            bnd (unattributed_reason d k wid i) (\<lambda>unowned.
            if (case current of None \<Rightarrow> False | Some m \<Rightarrow> m_native m \<noteq> i) \<or> unowned \<noteq> None then
              ret (Inl (replay_label k wid None @ '': native replay returned a conflicting identity; operator recovery required.''))
            else
              thn (if current = None then upsert_mapping (mapping_row d k i wid
                     (if i = wid then MigratedId else FallbackPost)) else ret ())
                (ret (Inr i)))))"

definition repaired_keys :: "kind \<Rightarrow> object \<Rightarrow> string option list \<Rightarrow> string list" where
  "repaired_keys k resource ids = present (ids @ [as_string (getp resource ''externalId''),
     as_string (getp resource (unique_attribute k))])"

definition clear_repaired_divergences ::
    "directory \<Rightarrow> kind \<Rightarrow> object \<Rightarrow> string option list \<Rightarrow> string \<Rightarrow> unit m" where
  "clear_repaired_divergences d k resource ids token =
     each (\<lambda>key. clear_replayed_divergence_for_resource (dir_id d) k key token) (repaired_keys k resource ids)"

definition uncertain_status :: "nat \<Rightarrow> bool" where
  "uncertain_status st \<longleftrightarrow> 500 \<le> st \<or> st = 408"

definition replay_outcome ::
    "directory \<Rightarrow> kind \<Rightarrow> string \<Rightarrow> object \<Rightarrow> id_mapping option \<Rightarrow> string \<Rightarrow> replay \<Rightarrow> progress \<Rightarrow> progress m" where
  "replay_outcome d k wid resource mp token y g =
     (let st = u_status (y_result y) in
      thn (quiet_log d (replay_log d k resource y))
       (if is_success st then
          let g' = mirrored_one g in
          thn (clear_repaired_divergences d k resource [y_native y, Some wid] token) (ret g')
        else
          let recovery = (case mp of None \<Rightarrow> [] | Some m \<Rightarrow>
                if st = 404 \<or> st = 409 then ''; WorkOS already maps to native id '' @ m_native m
                  @ ''; operator recovery is required before changing its mapping'' else []) in
          ret (failed_with (replay_label k wid (y_native y) @ '': '' @ describe_failure (y_result y) @ recovery) g)))"

text \<open>Everything after the first answer of the native app.\<close>

definition replay_answered ::
    "directory \<Rightarrow> kind \<Rightarrow> string \<Rightarrow> object \<Rightarrow> id_mapping option \<Rightarrow> string \<Rightarrow> replay \<Rightarrow> progress \<Rightarrow> progress m" where
  "replay_answered d k wid resource mp token y0 g =
     bnd (if y_method y0 = ''POST'' \<and> u_status (y_result y0) = 409
          then repair_collision d k wid resource y0 (g_errors g) else ret (y0, g_errors g)) (\<lambda>(y, errors).
     let g1 = g\<lparr>g_errors := errors\<rparr>; st = u_status (y_result y) in
     thn (if uncertain_status st \<or> (y_native y \<noteq> None \<and> mp = None \<and> \<not> is_success st)
          then unresolved else ret ())
     (if is_success st then
        bnd (confirm_identity d k wid y) (\<lambda>c. case c of
          Inl msg \<Rightarrow> thn unresolved (ret (failed_with msg g1))
        | Inr i \<Rightarrow> replay_outcome d k wid resource mp token (y\<lparr>y_native := Some i\<rparr>) g1)
      else replay_outcome d k wid resource mp token y g1))"

definition push_to_native :: "directory \<Rightarrow> kind \<Rightarrow> object \<Rightarrow> string \<Rightarrow> progress \<Rightarrow> progress m" where
  "push_to_native d k resource token g0 =
     (let g = counted g0 in
      case resource_id (getp resource ''id'') of
        None \<Rightarrow> ret (failed_with (kind_name k @ '': WorkOS resource is missing an id'') g)
      | Some wid \<Rightarrow>
          bnd (replay_target d k wid resource) (\<lambda>target. case target of
            Inl msg \<Rightarrow> ret (failed_with msg g)
          | Inr (mp, n) \<Rightarrow>
              thn (set_replay (\<lambda>st. st\<lparr>write_started := True\<rparr>))
              (bnd (settle (first_write d k resource n)) (\<lambda>r. case r of
                 Inl er \<Rightarrow> thn unresolved (ret (failed_with (replay_label k wid n @ '': '' @ error_message er) g))
               | Inr res \<Rightarrow> replay_answered d k wid resource mp token
                   \<lparr>y_native = n, y_method = (if n = None then ''POST'' else ''PUT''), y_result = res\<rparr> g))))"

subsection \<open>The two snapshots\<close>

fun push_all :: "directory \<Rightarrow> kind \<Rightarrow> string \<Rightarrow> object list \<Rightarrow> progress \<Rightarrow> progress m" where
  "push_all d k token [] g = ret g"
| "push_all d k token (obj # objs) g = bnd (push_to_native d k obj token g) (push_all d k token objs)"

definition shown_id :: "object \<Rightarrow> string" where
  "shown_id obj = (case getp obj ''id'' of None \<Rightarrow> ''unknown'' | Some JNull \<Rightarrow> ''unknown'' | Some v \<Rightarrow> js_text v)"

text \<open>The members of a group in native-id space, up to the first one without a mapping.\<close>

fun native_members :: "string \<Rightarrow> json list \<Rightarrow> json list \<Rightarrow> (string option + json list) m" where
  "native_members d [] members = ret (Inr members)"
| "native_members d (v # vs) members =
     (let wid = (case as_object (Some v) of None \<Rightarrow> None | Some obj \<Rightarrow> as_string (getp obj ''value'')) in
      bnd (case nonempty_or_none wid of
             None \<Rightarrow> ret None | Some i \<Rightarrow> get_mapping_by_workos_id d Users i) (\<lambda>mp.
      case mp of
        None \<Rightarrow> ret (Inl wid)
      | Some m \<Rightarrow> native_members d vs (members @
          [JObj (set_prop ''value'' (JStr (m_native m)) (case v of JObj obj \<Rightarrow> obj | _ \<Rightarrow> []))])))"

definition push_group :: "directory \<Rightarrow> string \<Rightarrow> object \<Rightarrow> progress \<Rightarrow> progress m" where
  "push_group d token obj g = (case as_array (getp obj ''members'') of
       None \<Rightarrow> push_to_native d Groups obj token g
     | Some vs \<Rightarrow>
         bnd (native_members (dir_id d) vs []) (\<lambda>r. case r of
           Inl wid \<Rightarrow> ret (failed_with (''Groups/'' @ shown_id obj @ '': member ''
               @ (case wid of None \<Rightarrow> ''without an id'' | Some i \<Rightarrow> i)
               @ '' has no confirmed native user mapping; group replay skipped.'') (counted g))
         | Inr members \<Rightarrow> push_to_native d Groups (set_prop ''members'' (JArr members) obj) token g))"

fun push_groups :: "directory \<Rightarrow> string \<Rightarrow> object list \<Rightarrow> progress \<Rightarrow> progress m" where
  "push_groups d token [] g = ret g"
| "push_groups d token (obj # objs) g = bnd (push_group d token obj g) (push_groups d token objs)"

definition clean_replay :: "resource_counts \<Rightarrow> resource_counts \<Rightarrow> snapshot \<Rightarrow> snapshot \<Rightarrow> bool" where
  "clean_replay users groups us gs \<longleftrightarrow> n_failed users = 0 \<and> n_failed groups = 0
     \<and> sn_complete us \<and> sn_complete gs"

definition reconcile_from_workos :: "nat \<Rightarrow> directory \<Rightarrow> summary option m" where
  "reconcile_from_workos fuel d =
     bnd random_uuid (\<lambda>token.
     thn (mark_divergences_for_sweep (dir_id d) token)
     (bnd_some (take_snapshot fuel Workos (workos_url d) (workos_token d) Users []) (\<lambda>(users, er0).
      bnd (push_all d Users token (sn_resources users)
             \<lparr>g_counts = no_counts, g_errors = er0, g_sink = []\<rparr>) (\<lambda>g1.
      bnd_some (take_snapshot fuel Workos (workos_url d) (workos_token d) Groups (g_errors g1)) (\<lambda>(groups, er1).
      bnd (push_groups d token (sn_resources groups) \<lparr>g_counts = no_counts, g_errors = er1, g_sink = []\<rparr>) (\<lambda>g2.
      thn (if clean_replay (g_counts g1) (g_counts g2) users groups
           then clear_replayed_divergences (dir_id d) token else ret ())
        (ret (Some \<lparr>s_users = g_counts g1, s_groups = g_counts g2, s_errors = g_errors g2\<rparr>))))))))"

subsection \<open>The claims around a reconcile\<close>

definition release_reconcile_create_claims :: "string \<Rightarrow> string \<Rightarrow> unit m" where
  "release_reconcile_create_claims d token =
     each (\<lambda>k. release_workos_primary_create d k token) [Users, Groups]"

definition in_flight :: "string \<Rightarrow> kind option \<Rightarrow> err" where
  "in_flight d k = Failed (case k of
       Some k' \<Rightarrow> ''A '' @ kind_name k' @ '' create or reconcile is unresolved for directory '' @ d
         @ ''. Wait for the active operation to finish; a retained claim requires operator recovery.''
     | None \<Rightarrow> ''A reconcile is already running for directory '' @ d @ ''.'')"

definition claim_both :: "string \<Rightarrow> string \<Rightarrow> unit m" where
  "claim_both d token = each (\<lambda>k. bnd (claim_workos_primary_create d k token) (\<lambda>got.
     if got then ret () else throw (in_flight d (Some k)))) [Users, Groups]"

definition retained_notice :: string where
  "retained_notice = ''Create claims retained: a native replay is unresolved. An operator must check both upstreams and recover the claims before another create or reconcile.''"

text \<open>The run between the acquisition and the release of the claims.\<close>

definition guarded_reconcile :: "nat \<Rightarrow> directory \<Rightarrow> string \<Rightarrow> summary option m" where
  "guarded_reconcile fuel d token =
     try_catch
       (thn (load_id_maps (dir_id d) True)
         (bnd_some (reconcile_from_workos fuel d) (\<lambda>sm.
          bnd get_replay (\<lambda>st.
          if unresolved_write st then
            ret (Some (sm\<lparr>s_errors := take error_cap (retained_notice # s_errors sm)\<rparr>))
          else thn (release_reconcile_create_claims (dir_id d) token) (ret (Some sm))))))
       (\<lambda>er. bnd get_replay (\<lambda>st.
          thn (if write_started st then ret () else release_reconcile_create_claims (dir_id d) token)
            (throw er)))"

definition run_reconcile_from_workos :: "nat \<Rightarrow> directory \<Rightarrow> summary option m" where
  "run_reconcile_from_workos fuel d =
     bnd random_uuid (\<lambda>token.
     bnd (claim_reconcile_run (dir_id d) token) (\<lambda>got.
     if \<not> got then throw (in_flight (dir_id d) None)
     else finally_do
       (thn (try_catch (claim_both (dir_id d) token)
              (\<lambda>er. thn (release_reconcile_create_claims (dir_id d) token) (throw er)))
         (thn (set_replay (\<lambda>_. \<lparr>unresolved_write = False, write_started = False\<rparr>))
           (guarded_reconcile fuel d token)))
       (release_reconcile_run (dir_id d) token)))"

end
