(* ===== verification/BackfillLaws.thy ===== *)
theory BackfillLaws
  imports Reconcile PrimaryLaws
begin

text \<open>
  What the bulk operations guarantee: the paging loop ends when the upstream's totals are bounded,
  and the summary accounts for every resource.
\<close>

subsection \<open>The paging loop\<close>

text \<open>An upstream whose list answers never report more than \<open>b\<close> resources.\<close>

definition totals_bounded :: "env \<Rightarrow> nat \<Rightarrow> bool" where
  "totals_bounded e b \<longleftrightarrow> (\<forall>cs c. case upstream e cs c of Inl msg \<Rightarrow> True
     | Inr r \<Rightarrow> (case parse_json (u_body r) of None \<Rightarrow> True
         | Some body \<Rightarrow> (case getp body ''totalResults'' of Some (JNum n) \<Rightarrow> n \<le> int b | _ \<Rightarrow> True)))"

definition carried_bounded :: "int option \<Rightarrow> nat \<Rightarrow> bool" where
  "carried_bounded known b \<longleftrightarrow> (case known of None \<Rightarrow> True | Some n \<Rightarrow> n \<le> int b)"

definition listed_bounded :: "err + upstream_result \<Rightarrow> nat \<Rightarrow> bool" where
  "listed_bounded page b \<longleftrightarrow> (case page of Inl er \<Rightarrow> True
     | Inr r \<Rightarrow> (case parse_json (u_body r) of None \<Rightarrow> True
         | Some body \<Rightarrow> carried_bounded (reported_total body None) b))"

lemma read_page_continues:
  assumes "read_page sd k out known errors page = Inr (rows, carried)"
    and "listed_bounded page b" "carried_bounded known b"
  shows "rows \<noteq> [] \<and> length out + length rows < b \<and> carried_bounded carried b"
  using assms
  by (auto simp: read_page_def Let_def gave_up_def listed_bounded_def carried_bounded_def reported_total_def
      split: sum.splits if_splits option.splits json.splits)

text \<open>How the loop leaves: complete, with as many rows as the total it knows, or with an error.\<close>

definition accounted :: "string list \<Rightarrow> snapshot \<times> string list \<Rightarrow> bool" where
  "accounted errors res \<longleftrightarrow> (if sn_complete (fst res) then snd res = errors
     else \<exists>msg. snd res = push_error errors msg)"

definition leaves_well :: "string list \<Rightarrow> (snapshot \<times> string list) option \<Rightarrow> bool" where
  "leaves_well errors result \<longleftrightarrow> (\<exists>res. result = Some res \<and> accounted errors res)"

lemma leaves_gave_up [simp]: "leaves_well errors (gave_up out errors msg)"
  by (auto simp: leaves_well_def gave_up_def accounted_def)

lemma leaves_complete [simp]:
  "leaves_well errors (Some (\<lparr>sn_resources = out, sn_complete = True\<rparr>, errors))"
  by (simp add: leaves_well_def accounted_def)

lemma read_page_leaves: "read_page sd k out known errors page = Inl result \<Longrightarrow> leaves_well errors result"
  by (auto simp: read_page_def Let_def split: sum.splits if_splits option.splits)

lemma run_settled_page:
  obtains page w' where "settle (fetch_page sd base tok k start) e w = (Inr page, w')"
    "calls w' = calls w \<or> (\<exists>c. calls w' = calls w @ [c])"
    "totals_bounded e b \<Longrightarrow> listed_bounded page b"
proof -
  have fetched: "\<exists>page w'. settle (fetch_page sd base tok k start) e w = (Inr page, w')
     \<and> (calls w' = calls w \<or> (\<exists>c. calls w' = calls w @ [c]))
     \<and> (totals_bounded e b \<longrightarrow> listed_bounded page b)"
    unfolding fetch_page_def plain_fetch_def scim_fetch_def join_scim_url_def settle_def bnd_def fetch_def asks_def ret_def throw_def
    by (auto simp: totals_bounded_def listed_bounded_def carried_bounded_def reported_total_def read_result_def
        split: sum.splits option.splits json.splits)
  with that show thesis by blast
qed

lemma snapshot_pages_run:
  assumes "totals_bounded e b" "carried_bounded known b" "Suc b \<le> fuel + length out" "0 < fuel"
  shows "\<exists>res w'. snapshot_pages fuel sd base tok k out known start errors e w = (Inr (Some res), w')
     \<and> accounted errors res \<and> length (calls w') \<le> length (calls w) + max 1 (b - length out)"
  using assms
proof (induction fuel arbitrary: out known start w)
  case (Suc fuel)
  obtain page w1 where page: "settle (fetch_page sd base tok k start) e w = (Inr page, w1)"
    and sent: "calls w1 = calls w \<or> (\<exists>c. calls w1 = calls w @ [c])" and lb: "listed_bounded page b"
    using run_settled_page Suc.prems(1) by metis
  show ?case
  proof (cases "read_page sd k out known errors page")
    case (Inl result)
    with page sent read_page_leaves [OF Inl] show ?thesis
      by (auto simp: run_bnd_Inr ret_def leaves_well_def)
  next
    case (Inr next_page)
    obtain rows carried where rc: "next_page = (rows, carried)" by (cases next_page)
    with Inr have step: "rows \<noteq> []" "length out + length rows < b" "carried_bounded carried b"
      using read_page_continues lb Suc.prems(2) by blast+
    have more: "Suc 0 \<le> length rows" using step(1) by (cases rows) simp_all
    have fuel: "Suc b \<le> fuel + length (out @ rows)"
      using add_mono [OF Suc.prems(3) more] by simp
    then have pos: "0 < fuel" using step(2) by simp
    obtain res w' where run: "snapshot_pages fuel sd base tok k (out @ rows) carried (start + length rows) errors e w1
        = (Inr (Some res), w')" "accounted errors res"
      and len: "length (calls w') \<le> length (calls w1) + max 1 (b - length (out @ rows))"
      using Suc.IH [OF Suc.prems(1) step(3) fuel pos] by blast
    have "length (calls w1) \<le> Suc (length (calls w))" using sent by auto
    with len step(2) more have "length (calls w') \<le> length (calls w) + max 1 (b - length out)" by simp
    with page Inr rc run show ?thesis by (auto simp: run_bnd_Inr)
  qed
qed simp

text \<open>C35: the paging loop ends: when no list answer reports more than \<open>b\<close> resources, \<open>b + 1\<close> pages of
  fuel are enough, at most \<open>max 1 b\<close> calls are made, the loop never throws, and a listing that came up
  short leaves an error in the summary.\<close>
theorem snapshot_terminates:
  assumes "totals_bounded e b" and "b < fuel"
  shows "\<exists>res w'. take_snapshot fuel sd base tok k errors e w = (Inr (Some res), w')
     \<and> accounted errors res \<and> length (calls w') \<le> length (calls w) + max 1 b"
  using snapshot_pages_run [of e b None fuel "[]" sd base tok k 1 errors w] assms
  by (auto simp: take_snapshot_def carried_bounded_def)

subsection \<open>The summary\<close>

lemma yields_then:
  assumes "yields P' e mm" "\<And>x. P' x \<Longrightarrow> yields P e (f x)"
  shows "yields P e (bnd mm f)"
  unfolding yields_def
proof
  fix w
  show "wp e (bnd mm f) (\<lambda>x _. P x) (\<lambda>_ _. True) w"
    unfolding wp_bnd
    by (rule wp_mono [OF yields_wp [OF assms(1)]]) (use assms(2) in \<open>auto simp: yields_def\<close>)
qed

lemma yields_some:
  "yields (\<lambda>r. case r of None \<Rightarrow> True | Some x \<Rightarrow> P' x) e mm \<Longrightarrow> P None \<Longrightarrow>
   (\<And>x. P' x \<Longrightarrow> yields P e (f x)) \<Longrightarrow> yields P e (bnd_some mm f)"
  unfolding bnd_some_def by (erule yields_then) (auto intro: yl split: option.split)

lemma yields_sum [yl]:
  "(\<And>y. x = Inl y \<Longrightarrow> yields P e (f y)) \<Longrightarrow> (\<And>y. x = Inr y \<Longrightarrow> yields P e (g y)) \<Longrightarrow>
   yields P e (case x of Inl y \<Rightarrow> f y | Inr y \<Rightarrow> g y)"
  by (cases x) auto

lemma yields_prod [yl]:
  "(\<And>a b. x = (a, b) \<Longrightarrow> yields P e (f a b)) \<Longrightarrow> yields P e (case x of (a, b) \<Rightarrow> f a b)"
  by (cases x) auto

lemma yields_try [yl]: "yields P e mm \<Longrightarrow> (\<And>er. yields P e (h er)) \<Longrightarrow> yields P e (try_catch mm h)"
  by (auto simp: yields_def intro: wp_mono)

lemma yields_throw [yl]: "yields P e (throw er)"
  by (simp add: yields_def)

lemma yields_finally [yl]:
  assumes "yields P e mm"
  shows "yields P e (finally_do mm cleanup)"
  unfolding yields_def
proof
  fix w
  show "wp e (finally_do mm cleanup) (\<lambda>x _. P x) (\<lambda>_ _. True) w"
    unfolding wp_finally
    by (rule wp_mono [OF yields_wp [OF assms]]) (auto split: option.split intro: wp_any)
qed

text \<open>Errors are only appended, up to the cap.\<close>

definition kept :: "string list \<Rightarrow> string list \<Rightarrow> bool" where
  "kept errors errors' \<longleftrightarrow> (length errors \<le> error_cap \<longrightarrow> length errors' \<le> error_cap)
     \<and> (errors \<noteq> [] \<longrightarrow> errors' \<noteq> [])"

lemma kept_refl [simp]: "kept errors errors"
  by (simp add: kept_def)

lemma kept_trans: "kept a b \<Longrightarrow> kept b c \<Longrightarrow> kept a c"
  by (auto simp: kept_def)

lemma kept_push [simp]: "kept errors (push_error errors msg)"
  by (auto simp: kept_def push_error_def)

lemma kept_fold: "kept errors (foldl push_error errors msgs)"
  by (induction msgs arbitrary: errors) (auto intro: kept_trans [OF kept_push])

text \<open>A tally between two resources, and while one resource is being handled; the flag tells that an
  earlier type had failures.\<close>

definition tally :: "bool \<Rightarrow> progress \<Rightarrow> bool" where
  "tally b g \<longleftrightarrow> n_total (g_counts g) = n_mirrored (g_counts g) + n_failed (g_counts g)
     \<and> length (g_errors g) \<le> error_cap \<and> (b \<or> 0 < n_failed (g_counts g) \<longrightarrow> g_errors g \<noteq> [])"

definition pending :: "bool \<Rightarrow> progress \<Rightarrow> bool" where
  "pending b g \<longleftrightarrow> n_total (g_counts g) = Suc (n_mirrored (g_counts g) + n_failed (g_counts g))
     \<and> length (g_errors g) \<le> error_cap \<and> (b \<or> 0 < n_failed (g_counts g) \<longrightarrow> g_errors g \<noteq> [])"

lemma pending_counted: "tally b g \<Longrightarrow> pending b (counted g)"
  by (auto simp: tally_def pending_def counted_def)

lemma tally_failed: "pending b g \<Longrightarrow> tally b (failed_with msg g)"
  by (auto simp: tally_def pending_def failed_with_def push_error_def error_cap_def)

lemma tally_mirrored: "pending b g \<Longrightarrow> tally b (mirrored_one g)"
  by (auto simp: tally_def pending_def mirrored_one_def)

lemma pending_sink [simp]: "pending b (g\<lparr>g_sink := rows\<rparr>) = pending b g"
  by (simp add: pending_def)

lemma pending_errors: "pending b g \<Longrightarrow> kept (g_errors g) er \<Longrightarrow> pending b (g\<lparr>g_errors := er\<rparr>)"
  by (auto simp: pending_def kept_def)

lemma tally_errors: "tally b g \<Longrightarrow> kept (g_errors g) er \<Longrightarrow> tally b (g\<lparr>g_sink := rows, g_errors := er\<rparr>)"
  by (auto simp: tally_def kept_def)

lemma tally_sink: "tally b (g\<lparr>g_sink := rows\<rparr>) = tally b g"
  by (simp add: tally_def)

lemma tally_start:
  "kept er0 er \<Longrightarrow> length er0 \<le> error_cap \<Longrightarrow> (b \<longrightarrow> er0 \<noteq> []) \<Longrightarrow>
   tally b \<lparr>g_counts = no_counts, g_errors = er, g_sink = rows\<rparr>"
  by (auto simp: tally_def kept_def no_counts_def)

definition snap_kept :: "string list \<Rightarrow> (snapshot \<times> string list) option \<Rightarrow> bool" where
  "snap_kept errors r \<longleftrightarrow> (case r of None \<Rightarrow> True | Some res \<Rightarrow> kept errors (snd res))"

lemma snap_kept_leaves: "leaves_well errors result \<Longrightarrow> snap_kept errors result"
  by (auto simp: leaves_well_def snap_kept_def accounted_def split: if_splits)

lemma snapshot_kept: "yields (snap_kept errors) e (take_snapshot fuel sd base tok k errors)"
proof -
  have "yields (snap_kept errors) e (snapshot_pages fuel sd base tok k out known start errors)" for out known start
  proof (induction fuel arbitrary: out known start)
    case (Suc fuel)
    show ?case
      unfolding snapshot_pages.simps
      by (intro yl) (auto intro: Suc.IH snap_kept_leaves read_page_leaves)
  qed (simp add: yields_ret snap_kept_def)
  then show ?thesis by (simp add: take_snapshot_def)
qed

lemma mirror_resource_tally: "tally b g \<Longrightarrow> yields (tally b) e (mirror_resource d k original body g)"
  unfolding mirror_resource_def Let_def
  by (intro yl) (auto intro!: tally_failed tally_mirrored pending_counted)

lemma flush_tally: "tally b g \<Longrightarrow> yields (tally b) e (flush_mappings g)"
  unfolding flush_mappings_def Let_def
  by (intro yl) (auto simp: tally_sink intro!: tally_errors kept_fold)

lemma mirror_all_tally: "tally b g \<Longrightarrow> yields (tally b) e (mirror_all d k body_of objs g)"
proof (induction objs arbitrary: g)
  case (Cons obj objs)
  have flush: "yields (tally b) e (flush_when_full g')" if "tally b g'" for g'
    using that unfolding flush_when_full_def by (intro yl flush_tally)
  have step: "yields (tally b) e (bnd (mirror_resource d k obj body g)
      (\<lambda>g1. bnd (flush_when_full g1) (mirror_all d k body_of objs)))" for body
    by (rule yields_then [OF mirror_resource_tally [OF Cons.prems]]) (rule yields_then [OF flush Cons.IH])
  then show ?case by (simp add: yields_bnd)
qed (auto intro: yl)

text \<open>What a summary owes its reader.\<close>

definition adds_up :: "summary \<Rightarrow> bool" where
  "adds_up sm \<longleftrightarrow> n_total (s_users sm) = n_mirrored (s_users sm) + n_failed (s_users sm)
     \<and> n_total (s_groups sm) = n_mirrored (s_groups sm) + n_failed (s_groups sm)
     \<and> length (s_errors sm) \<le> error_cap
     \<and> (0 < n_failed (s_users sm) + n_failed (s_groups sm) \<longrightarrow> s_errors sm \<noteq> [])"

definition summed :: "summary option \<Rightarrow> bool" where
  "summed r \<longleftrightarrow> (case r of None \<Rightarrow> True | Some sm \<Rightarrow> adds_up sm)"

lemma snap_yields:
  "yields (\<lambda>r. case r of None \<Rightarrow> True | Some res \<Rightarrow> kept errors (snd res)) e
     (take_snapshot fuel sd base tok k errors)"
  using snapshot_kept [of errors e fuel sd base tok k] by (simp add: snap_kept_def [abs_def])

lemma backfill_summed: "yields summed e (run_backfill fuel d)"
proof -
  have last: "yields summed e (bnd (mirror_all d Groups body_of objs (g\<lparr>g_counts := no_counts\<rparr>)) (\<lambda>g3.
      bnd (flush_mappings g3) (\<lambda>g4. ret (Some \<lparr>s_users = g_counts g, s_groups = g_counts g4, s_errors = g_errors g4\<rparr>))))"
    if "tally False g" for body_of objs g
  proof -
    let ?b = "0 < n_failed (g_counts g)"
    from that have start: "tally ?b (g\<lparr>g_counts := no_counts\<rparr>)"
      by (auto simp: tally_def no_counts_def)
    show ?thesis
      by (rule yields_then [OF mirror_all_tally [OF start]], rule yields_then [OF flush_tally], assumption)
        (use that in \<open>auto simp: summed_def adds_up_def tally_def intro!: yields_ret\<close>)
  qed
  show ?thesis
    unfolding run_backfill_def
    apply (rule yields_some [OF snap_yields])
     apply (simp add: summed_def)
    apply (clarsimp split: prod.split)
    apply (rule yields_then [OF mirror_all_tally [where b = False]])
     apply (auto simp: kept_def tally_def no_counts_def)[1]
    apply (rule yields_some [OF snap_yields])
     apply (simp add: summed_def)
    apply (clarsimp split: prod.split)
    apply (rule yields_then [OF flush_tally [where b = False]])
     apply (auto simp: tally_def kept_def)[1]
    apply (rule yields_bnd)
    apply (erule last)
    done
qed

lemma repair_kept: "yields (\<lambda>(y', errors'). kept errors errors') e (repair_collision d k wid resource y errors)"
  unfolding repair_collision_def Let_def by (intro yl) auto

lemma outcome_tally: "pending b g \<Longrightarrow> yields (tally b) e (replay_outcome d k wid resource mp token y g)"
  unfolding replay_outcome_def Let_def by (intro yl tally_mirrored tally_failed)

lemma answered_tally: "pending b g \<Longrightarrow> yields (tally b) e (replay_answered d k wid resource mp token y g)"
proof -
  assume g: "pending b g"
  have first: "yields (\<lambda>(y', errors'). kept (g_errors g) errors') e
      (if y_method y = ''POST'' \<and> u_status (y_result y) = 409
       then repair_collision d k wid resource y (g_errors g) else ret (y, g_errors g))"
    by (intro yl repair_kept) auto
  show ?thesis
    unfolding replay_answered_def Let_def
    by (rule yields_then [OF first]) (auto intro!: yl outcome_tally tally_failed pending_errors g)
qed

lemma push_tally: "tally b g \<Longrightarrow> yields (tally b) e (push_to_native d k resource token g)"
  unfolding push_to_native_def Let_def
  by (intro yl) (auto intro!: yl tally_failed pending_counted answered_tally)

lemma push_all_tally: "tally b g \<Longrightarrow> yields (tally b) e (push_all d k token objs g)"
  by (induction objs arbitrary: g) (auto intro!: yields_ret yields_then [OF push_tally])

lemma push_group_tally: "tally b g \<Longrightarrow> yields (tally b) e (push_group d token obj g)"
  unfolding push_group_def by (intro yl push_tally) (auto intro!: tally_failed pending_counted)

lemma push_groups_tally: "tally b g \<Longrightarrow> yields (tally b) e (push_groups d token objs g)"
  by (induction objs arbitrary: g) (auto intro!: yields_ret yields_then [OF push_group_tally])

lemma reconcile_summed: "yields summed e (reconcile_from_workos fuel d)"
  unfolding reconcile_from_workos_def
  apply (rule yields_bnd)
  apply (rule yields_thn)
  apply (rule yields_some [OF snap_yields])
   apply (simp add: summed_def)
  apply (clarsimp split: prod.split)
  apply (rule yields_then [OF push_all_tally [where b = False]])
   apply (auto simp: kept_def tally_def no_counts_def)[1]
  subgoal for tok users er0 g1
    apply (rule yields_some [OF snap_yields])
     apply (simp add: summed_def)
    apply (clarsimp split: prod.split)
    apply (rule yields_then [OF push_groups_tally [where b = "0 < n_failed (g_counts g1)"]])
     apply (auto simp: tally_def kept_def no_counts_def)[1]
    apply (rule yields_thn)
    apply (auto simp: tally_def summed_def adds_up_def intro!: yields_ret)
    done
  done

lemma guarded_summed: "yields summed e (guarded_reconcile fuel d token)"
proof -
  have summed_some: "yields (\<lambda>r. case r of None \<Rightarrow> True | Some sm \<Rightarrow> adds_up sm) e (reconcile_from_workos fuel d)"
    using reconcile_summed [of e fuel d] by (simp add: summed_def [abs_def])
  have retained: "summed (Some (sm\<lparr>s_errors := take error_cap (retained_notice # s_errors sm)\<rparr>))"
    if "adds_up sm" for sm
    using that by (simp add: summed_def adds_up_def error_cap_def)
  show ?thesis
    unfolding guarded_reconcile_def
    by (intro yl yields_some [OF summed_some]) (auto simp: summed_def intro: retained [unfolded summed_def, simplified])
qed

lemma run_reconcile_summed: "yields summed e (run_reconcile_from_workos fuel d)"
  unfolding run_reconcile_from_workos_def
  by (intro yl guarded_summed)


end
