(* ===== verification/ReconcileLaws.thy ===== *)
theory ReconcileLaws
  imports BackfillLaws
begin

text \<open>
  What a reconcile may change: it only adds mappings, never moves one, and keeps the claims of a
  native write whose outcome is unknown.
\<close>

subsection \<open>Read-only parts\<close>

text \<open>A relation that statements of the datastore without a write, and GET requests, respect.  Every
  read-only function of the reconcile respects it then.\<close>

locale reader = effect R for R :: "world \<Rightarrow> world \<Rightarrow> bool" +
  assumes R_ops: "R w (w\<lparr>db_ops := j\<rparr>)"
    and R_get: "c_method c = ''GET'' \<Longrightarrow> R w (w\<lparr>calls := calls w @ [c]\<rparr>)"
begin

lemma reads_query [eff]: "pres R e (query q)"
  by (rule pres_wp) (auto intro!: wp_query R_ops)

lemma reads_fetch [eff]: "pres R e (plain_fetch sd u ''GET'' tok b)"
  unfolding plain_fetch_def
  by (rule pres_wp) (auto simp: Let_def scim_call_def intro!: R_get split: sum.split)

lemma reads_basic [eff]:
  "pres R e (join_scim_url base path)" "pres R e (from_res r)"
  unfolding join_scim_url_def from_res_def by (intro eff)+

lemma reads_rows [eff]:
  "pres R e (get_mapping d k n)" "pres R e (get_mapping_by_workos_id d k n)"
  "pres R e (get_event_link_by_native_id d k n)" "pres R e (load_id_maps d strict)"
  unfolding get_mapping_def get_mapping_by_workos_id_def get_event_link_by_native_id_def
    load_id_maps_def Let_def
  by (intro eff)+

lemma reads_secret [eff]: "pres R e (decrypt_secret s)"
  unfolding decrypt_secret_def Let_def by (intro eff)

lemma reads_directories [eff]:
  "pres R e (native_namespace_is_shared d)" "pres R e (list_other_mappings_by_native_id d k n)"
proof -
  have [eff]: "pres R e (decrypt_directory x)" for x
    unfolding decrypt_directory_def Let_def by (intro eff)
  have [eff]: "pres R e (decrypt_all ds)" for ds
    by (induction ds) (auto intro!: eff)
  have [eff]: "pres R e (decrypt_joined rows)" for rows
    by (induction rows rule: decrypt_joined.induct) (auto intro!: eff)
  show "pres R e (native_namespace_is_shared d)" "pres R e (list_other_mappings_by_native_id d k n)"
    unfolding native_namespace_is_shared_def list_directories_def list_other_mappings_by_native_id_def Let_def
    by (intro eff)+
qed

lemma reads_snapshot [eff]: "pres R e (take_snapshot fuel sd base tok k errors)"
proof -
  have "pres R e (snapshot_pages fuel sd base tok k out known start errors)" for out known start
    unfolding fetch_page_def [abs_def]
    by (induction fuel arbitrary: out known start) (auto intro!: eff simp: fetch_page_def)
  then show ?thesis by (simp add: take_snapshot_def)
qed

lemma reads_find [eff]: "pres R e (find_native_id_by_attr d k attribute v ext)"
  unfolding find_native_id_by_attr_def
  by (intro eff; (auto split: json.split intro!: eff)?)

lemma reads_unattributed [eff]: "pres R e (unattributed_reason d k wid n)"
  unfolding unattributed_reason_def Let_def by (intro eff)

lemma reads_target [eff]: "pres R e (replay_target d k wid res)"
  unfolding replay_target_def look_up_identity_def Let_def by (intro eff)

lemma reads_members [eff]: "pres R e (native_members d vs ms)"
  by (induction d vs ms rule: native_members.induct) (auto intro!: eff simp: Let_def)

end

interpretation quiet: reader untouched
  by unfold_locales (simp_all add: on_db_def)

lemma pres_lift:
  assumes "\<And>s. S s s" "pres untouched e mm"
  shows "pres (on_db S) e mm"
  by (rule pres_mono [OF assms(2)]) (auto simp: on_db_def assms(1))

lemma quiet_writes:
  "pres untouched e (put_native d k i res)" "pres untouched e (post_native d k res)"
  "pres untouched e (first_write d k res n)" "pres untouched e unresolved"
  unfolding put_native_def post_native_def first_write_def unresolved_def plain_fetch_def
  by (intro eff)+

lemma quiet_repair: "pres untouched e (repair_collision d k wid res y errors)"
  unfolding repair_collision_def Let_def by (intro eff quiet_writes)

lemmas quiet_steps = quiet.reads_target quiet.reads_members quiet.reads_snapshot quiet_writes quiet_repair

text \<open>Nothing is written, in the datastore or at the native app, and the reconcile's own flags stay.\<close>

definition native_write_call :: "call \<Rightarrow> bool" where
  "native_write_call c \<longleftrightarrow> c_side c = Native \<and> (c_method c = ''PUT'' \<or> c_method c = ''POST'')"

definition silent :: "world \<Rightarrow> world \<Rightarrow> bool" where
  "silent w w' \<longleftrightarrow> db w' = db w \<and> replaying w' = replaying w \<and> sends {c. \<not> native_write_call c} w w'"

interpretation still: reader silent
proof
  fix a b c assume "silent a b" "silent b c"
  then show "silent a c" using sends.R_trans by (simp add: silent_def) blast
qed (auto simp: silent_def native_write_call_def sends_def)

text \<open>What every relation shares that the replay of one resource and the sweep statements respect: the
  whole reconcile respects it.\<close>

locale replay_frame = effect R for R :: "world \<Rightarrow> world \<Rightarrow> bool" +
  fixes e :: env and d :: directory
  assumes silent_R: "silent w w' \<Longrightarrow> R w w'"
    and push: "pres R e (push_to_native d k res tok g)"
    and sweeps: "pres R e (mark_divergences_for_sweep (dir_id d) tok)"
      "pres R e (clear_replayed_divergences (dir_id d) tok)"
begin

lemma silent_lift: "pres silent e mm \<Longrightarrow> pres R e mm"
  by (erule pres_mono) (rule silent_R)

lemma reconcile_respects: "pres R e (reconcile_from_workos fuel d)"
proof -
  have [eff]: "pres R e (push_all d k tok objs g)" for k tok objs g
    by (induction objs arbitrary: g) (auto intro!: eff push)
  have members: "pres R e (native_members x vs ms)" for x vs ms
    by (rule silent_lift) (rule still.reads_members)
  have [eff]: "pres R e (push_groups d tok objs g)" for tok objs g
    by (induction objs arbitrary: g) (auto intro!: eff push members simp: push_group_def)
  have [eff]: "pres R e random_uuid"
    by (rule silent_lift) (simp add: pres_def random_uuid_def silent_def sends_def)
  have [eff]: "pres R e (take_snapshot fuel sd base tok k errors)" for sd base tok k errors
    by (rule silent_lift) (rule still.reads_snapshot)
  show ?thesis unfolding reconcile_from_workos_def by (intro eff sweeps)
qed

end

text \<open>For a relation on the datastore content it is enough that the log and the divergence ledger are
  free and that linking a confirmed id respects it.\<close>

locale store_replay = store_frame S for S :: "store \<Rightarrow> store \<Rightarrow> bool" +
  fixes d :: directory
  assumes S_log: "S s (s\<lparr>proxy_logs := l\<rparr>)"
    and S_failures: "S s (s\<lparr>write_failures := fs\<rparr>)"
    and S_confirm: "pres (on_db S) e (confirm_identity d k wid y)"
begin

lemma frame_lift: "pres untouched e mm \<Longrightarrow> pres (on_db S) e mm"
  by (rule pres_lift) (rule S_refl)

lemma frame_push: "pres (on_db S) e (push_to_native d k res tok g)"
proof -
  have [eff]: "pres (on_db S) e (quiet_log d l)" for l
    unfolding quiet_log_def insert_proxy_log_def by (intro eff pres_execute S_log)
  have [eff]: "pres (on_db S) e (clear_repaired_divergences d k res ids tok)" for ids
    unfolding clear_repaired_divergences_def clear_replayed_divergence_for_resource_def clear_replayed_row_def
    by (intro eff pres_execute S_failures)
  show ?thesis
    unfolding push_to_native_def replay_answered_def replay_outcome_def Let_def
    by (intro eff S_confirm quiet_steps [THEN frame_lift])
qed

end

sublocale store_replay \<subseteq> bulk: replay_frame "on_db S" e d for e
proof unfold_locales
  show "silent w w' \<Longrightarrow> on_db S w w'" for w w'
    by (simp add: silent_def on_db_def S_refl)
  show "pres (on_db S) e (mark_divergences_for_sweep (dir_id d) tok)"
    "pres (on_db S) e (clear_replayed_divergences (dir_id d) tok)" for tok
    unfolding mark_divergences_for_sweep_def clear_replayed_divergences_def mark_rows_def clear_replayed_rows_def
    by (intro pres_execute S_failures)+
qed (rule frame_push)

subsection \<open>Mappings are only added\<close>

text \<open>Every row stays as it is, and a WorkOS id that had one native owner still has one.\<close>

definition only_adds :: "string \<Rightarrow> store \<Rightarrow> store \<Rightarrow> bool" where
  "only_adds d s s' \<longleftrightarrow>
     (\<forall>d' k n m. mapping_of d' k n s = Some m \<longrightarrow> mapping_of d' k n s' = Some m)
     \<and> (\<forall>k. exclusive d k s \<longrightarrow> exclusive d k s')"

interpretation grows: store_frame "only_adds d" for d
  by unfold_locales (auto simp: only_adds_def)

lemma only_adds_same: "id_mappings s' = id_mappings s \<Longrightarrow> only_adds d s s'"
  unfolding only_adds_def using exclusive_cong [of s' s] by (auto simp: mapping_of_def)

lemma grows_lift: "pres untouched e mm \<Longrightarrow> pres (on_db (only_adds d)) e mm"
  by (rule pres_lift) (rule grows.S_refl)

lemma wp_unattributed:
  assumes none: "\<And>w'. db w' = db w \<Longrightarrow> (case mapping_of (dir_id d) k n (db w) of None \<Rightarrow> True | Some m \<Rightarrow> m_workos m = wid)
      \<Longrightarrow> Q None w'"
    and some: "\<And>r w'. db w' = db w \<Longrightarrow> Q (Some r) w'" and fail: "\<And>er w'. db w' = db w \<Longrightarrow> X er w'"
  shows "wp e (unattributed_reason d k wid n) Q X w"
proof -
  have reads: "wp e mm (\<lambda>_ w'. db w' = db w) (\<lambda>_ w'. db w' = db w) v"
    if "pres untouched e mm" "db v = db w" for mm :: "'a m" and v
    by (rule wp_mono [OF wp_pres [OF that(1)]]) (auto simp: on_db_def that(2))
  show ?thesis
    unfolding unattributed_reason_def get_event_link_by_native_id_def wp_bnd wp_ifs wp_asks wp_case_option wp_ret
    by (rule wp_query, auto intro!: wp_mono [OF reads] eff wp_query wp_get_mapping wp_get_mapping_by_workos_id
        some fail none split: option.split)
qed

lemma grows_execute: "(\<And>s. id_mappings (f s) = id_mappings s) \<Longrightarrow> pres (on_db (only_adds d)) e (execute f)"
  by (rule grows.pres_execute) (rule only_adds_same)

text \<open>The one write: the WorkOS id has no owner, and the native id no other row.\<close>

lemma only_adds_fresh:
  assumes "owners (dir_id d) k wid s = []"
    and "case mapping_of (dir_id d) k i s of None \<Rightarrow> True | Some m \<Rightarrow> m_workos m = wid"
  shows "only_adds (dir_id d) s (upsert_row (mapping_row d k i wid st) s)"
proof -
  let ?m = "mapping_row d k i wid st"
  have free: "unclaimed (dir_id d) k wid i s" using assms(1) by (simp add: unclaimed_def)
  have other: "exclusive (dir_id d) k' (upsert_row ?m s)" if "exclusive (dir_id d) k' s" for k'
  proof (cases "k' = k")
    case True
    with exclusive_upsert free that show ?thesis by simp
  next
    case False
    have rows: "p \<in> set (id_mappings s)" if "p \<in> set (id_mappings (upsert_row ?m s))" "m_kind p = k'" for p
      using that False set_put_row(1) [of mapping_key ?m "id_mappings s"]
      by (auto simp: upsert_row_def mapping_row_def)
    show ?thesis by (rule exclusiveI) (use rows exclusiveD [OF that] in blast)
  qed
  have absent: "mapping_of (dir_id d) k i s = None"
  proof (cases "mapping_of (dir_id d) k i s")
    case (Some m)
    then have "m \<in> set (id_mappings s)" "mapping_key m = (dir_id d, k, i)"
      unfolding mapping_of_def by (auto dest: look_row_SomeD)
    with assms Some have "m \<in> set (owners (dir_id d) k wid s)"
      by (auto simp: owners_def mapping_key_def filter_empty_conv)
    with assms(1) show ?thesis by simp
  qed
  have "mapping_of d' k' n (upsert_row ?m s) = Some m" if "mapping_of d' k' n s = Some m" for d' k' n m
    using that absent
    by (cases "(d', k', n) = mapping_key ?m")
      (auto simp: mapping_of_def upsert_row_def mapping_key_def mapping_row_def look_put_row)
  with other show ?thesis by (simp add: only_adds_def)
qed

lemma grows_confirm: "pres (on_db (only_adds (dir_id d))) e (confirm_identity d k wid y)"
proof (rule presI)
  fix w r w' assume run: "confirm_identity d k wid y e w = (r, w')"
  let ?G = "\<lambda>v. only_adds (dir_id d) (db w) (db v)"
  have same: "?G v" if "db v = db w" for v using that grows.S_refl by simp
  have upsert: "wp e (upsert_mapping (mapping_row d k i wid st)) (\<lambda>_. ?G) (\<lambda>_. ?G) v"
    if "db v = db w" "owners (dir_id d) k wid (db w) = []"
      "case mapping_of (dir_id d) k i (db w) of None \<Rightarrow> True | Some m \<Rightarrow> m_workos m = wid" for i st v
    by (rule wp_upsert_mapping) (use that only_adds_fresh grows.S_refl in auto)
  have "wp e (confirm_identity d k wid y) (\<lambda>_. ?G) (\<lambda>_. ?G) w"
    unfolding confirm_identity_def
    by (auto intro!: wp_get_mapping_by_workos_id wp_unattributed upsert same split: option.split)
  with run show "on_db (only_adds (dir_id d)) w w'"
    by (simp add: wp_def on_db_def split: sum.splits)
qed

interpretation grows_replay: store_replay "only_adds (dir_id d)" d for d
  by unfold_locales (auto intro: grows_confirm only_adds_same)

lemma grows_run: "pres (on_db (only_adds (dir_id d))) e (run_reconcile_from_workos fuel d)"
proof -
  have claims: "pres (on_db (only_adds x)) e (claim_workos_primary_create y k t)"
    "pres (on_db (only_adds x)) e (release_workos_primary_create y k t)"
    "pres (on_db (only_adds x)) e (claim_reconcile_run y t)"
    "pres (on_db (only_adds x)) e (release_reconcile_run y t)" for x y k t
    unfolding claim_workos_primary_create_def release_workos_primary_create_def claim_reconcile_run_def
      release_reconcile_run_def
    by (intro eff grows_execute; auto intro!: only_adds_same simp: claim_row_def release_row_def claim_lease_def
        split: option.split)+
  have [eff]: "pres (on_db (only_adds x)) e (load_id_maps y True)" for x y
    by (rule grows_lift) (rule quiet.reads_rows)
  show ?thesis
    unfolding run_reconcile_from_workos_def guarded_reconcile_def claim_both_def release_reconcile_create_claims_def
    by (intro eff grows_replay.bulk.reconcile_respects claims)
qed

text \<open>C7: a reconcile only adds mappings, however it ends: every mapping recorded before it, of this
  directory or of another, is unchanged after it, and a WorkOS id never gets a second native owner in
  the directory.\<close>
theorem reconcile_only_adds:
  assumes "run_reconcile_from_workos fuel d e w = (r, w')"
    and "exclusive (dir_id d) k (db w)" and "mapping_of d' k' n (db w) = Some m"
  shows "exclusive (dir_id d) k (db w') \<and> mapping_of d' k' n (db w') = Some m"
  using presD [OF grows_run assms(1)] assms(2,3) by (auto simp: on_db_def only_adds_def)

end
