(* ===== verification/ReplayLaws.thy ===== *)
theory ReplayLaws
  imports ReconcileLaws
begin

text \<open>
  A reconcile whose native write may have been applied unseen keeps both create claims, so that no
  create can duplicate the resource before an operator has looked.
\<close>

subsection \<open>Writes whose outcome is unknown\<close>

definition uncertain_answer :: "string + upstream_result \<Rightarrow> bool" where
  "uncertain_answer r = (case r of Inl msg \<Rightarrow> True | Inr res \<Rightarrow> uncertain_status (u_status res))"

text \<open>The \<open>i\<close>-th call of a history is a native write that was answered with a network error, a 5xx or a
  408.\<close>

definition lost_write :: "env \<Rightarrow> call list \<Rightarrow> nat \<Rightarrow> bool" where
  "lost_write e cs i \<longleftrightarrow> native_write_call (cs ! i) \<and> uncertain_answer (upstream e (take i cs) (cs ! i))"

lemma lost_write_append: "i < length cs \<Longrightarrow> lost_write e (cs @ ds) i = lost_write e cs i"
  by (simp add: lost_write_def nth_append)

text \<open>The flags of the run cover every lost write after \<open>w\<close>, unless \<open>P\<close> holds for the answer in hand.\<close>

definition tracks :: "env \<Rightarrow> bool \<Rightarrow> world \<Rightarrow> world \<Rightarrow> bool" where
  "tracks e P w w' \<longleftrightarrow> sends UNIV w w'
     \<and> (unresolved_write (replaying w) \<longrightarrow> unresolved_write (replaying w'))
     \<and> (write_started (replaying w) \<longrightarrow> write_started (replaying w'))
     \<and> (\<forall>i. length (calls w) \<le> i \<and> i < length (calls w') \<and> lost_write e (calls w') i
          \<longrightarrow> write_started (replaying w') \<and> (P \<or> unresolved_write (replaying w')))"

lemma tracks_then:
  assumes "tracks e P a b" "tracks e Q b c"
  shows "tracks e (P \<or> Q) a c"
proof -
  from assms obtain ys where ys: "calls c = calls b @ ys" by (auto simp: tracks_def sends_def)
  have "sends UNIV a c" using assms sends.R_trans by (simp add: tracks_def) blast
  moreover have "write_started (replaying c) \<and> ((P \<or> Q) \<or> unresolved_write (replaying c))"
    if i: "length (calls a) \<le> i" "i < length (calls c)" and l: "lost_write e (calls c) i" for i
  proof (cases "i < length (calls b)")
    case True
    with l ys have "lost_write e (calls b) i" by (simp add: lost_write_append)
    with True i assms show ?thesis by (auto simp: tracks_def)
  next
    case False
    with i l assms(2) show ?thesis by (auto simp: tracks_def)
  qed
  ultimately show ?thesis using assms by (auto simp: tracks_def)
qed

interpretation tracked: effect "tracks e False" for e
proof
  show "tracks e False w w" for w by (auto simp: tracks_def sends.R_refl)
  show "tracks e False a b \<Longrightarrow> tracks e False b c \<Longrightarrow> tracks e False a c" for a b c
    using tracks_then [of e False a b False c] by simp
qed

lemma tracks_weaken: "tracks e P w w' \<Longrightarrow> (P \<Longrightarrow> Q) \<Longrightarrow> tracks e Q w w'"
  by (auto simp: tracks_def)

lemma tracks_quiet: "tracks e P w w' \<Longrightarrow> tracks e False w' w'' \<Longrightarrow> tracks e P w w''"
  using tracks_then [of e P w w' False w''] by simp

lemma tracks_unresolved:
  "tracks e P w w' \<Longrightarrow> tracks e Q w (w'\<lparr>replaying := (replaying w')\<lparr>unresolved_write := True\<rparr>\<rparr>)"
  by (auto simp: tracks_def sends_def)

lemma tracks_silent: "silent w w' \<Longrightarrow> tracks e False w w'"
proof -
  assume s: "silent w w'"
  then obtain xs where xs: "calls w' = calls w @ xs" "\<forall>c \<in> set xs. \<not> native_write_call c"
    by (auto simp: silent_def sends_def)
  have "\<not> lost_write e (calls w') i" if "length (calls w) \<le> i" "i < length (calls w')" for i
  proof -
    from that xs have "calls w' ! i \<in> set xs" by (auto simp: nth_append)
    with xs(2) show ?thesis by (simp add: lost_write_def)
  qed
  with s xs show ?thesis by (auto simp: tracks_def silent_def sends_def)
qed

lemma tracked_silent: "pres silent e mm \<Longrightarrow> pres (tracks e False) e mm"
  by (erule pres_mono) (rule tracks_silent)

lemma run_attempts_replaying: "replaying (snd (run_attempts n f e w)) = replaying w"
proof (induction n arbitrary: w)
  case (Suc n)
  then show ?case by (auto simp: Let_def split: fault.splits prod.splits)
qed simp

lemma tracked_statement [eff]: "pres (tracks e False) e (with_datastore_retry f)"
  by (auto simp: pres_def tracks_def sends_def with_datastore_retry_def run_attempts_calls run_attempts_replaying)

lemma tracked_execute [eff]: "pres (tracks e False) e (execute f)"
  unfolding execute_def by (rule tracked_statement)

lemma tracked_unresolved [eff]: "pres (tracks e False) e unresolved"
  by (auto simp: unresolved_def pres_def set_replay_def tracks_def sends_def)

subsection \<open>The replay of one resource\<close>

text \<open>One native write: afterwards only its own answer may be a loss the flags do not cover.\<close>

lemma wp_native_call:
  assumes "write_started (replaying w)"
  shows "wp e (bnd (join_scim_url base path) (\<lambda>u. plain_fetch Native u meth tok b))
     (\<lambda>r. tracks e (uncertain_status (u_status r)) w) (\<lambda>_. tracks e True w) w"
proof -
  let ?c = "scim_call Native (joined_url e base path) meth tok b None None []"
  let ?w = "w\<lparr>calls := calls w @ [?c]\<rparr>"
  have "tracks e (uncertain_answer (upstream e (calls w) ?c)) w ?w"
    using assms by (auto simp: tracks_def sends_def lost_write_def nth_append)
  then show ?thesis
    by (auto simp: join_scim_url_def plain_fetch_def scim_fetch_def uncertain_answer_def read_result_def
        split: sum.split elim: tracks_weaken)
qed

lemma started_after: "tracks e P w u \<Longrightarrow> write_started (replaying w) \<Longrightarrow> write_started (replaying u)"
  by (simp add: tracks_def)

lemma wp_writes:
  assumes "tracks e False v w" "write_started (replaying v)"
  shows "wp e (put_native d k i res) (\<lambda>r. tracks e (uncertain_status (u_status r)) v) (\<lambda>_. tracks e True v) w"
    and "wp e (first_write d k res n) (\<lambda>r. tracks e (uncertain_status (u_status r)) v) (\<lambda>_. tracks e True v) w"
proof -
  have "wp e (bnd (join_scim_url base path) (\<lambda>u. plain_fetch Native u meth tok b))
     (\<lambda>r. tracks e (uncertain_status (u_status r)) v) (\<lambda>_. tracks e True v) w" for base path meth tok b
    by (rule wp_mono [OF wp_native_call [OF started_after [OF assms]]])
      (auto dest: tracks_then [OF assms(1)])
  then show "wp e (put_native d k i res) (\<lambda>r. tracks e (uncertain_status (u_status r)) v) (\<lambda>_. tracks e True v) w"
    "wp e (first_write d k res n) (\<lambda>r. tracks e (uncertain_status (u_status r)) v) (\<lambda>_. tracks e True v) w"
    unfolding first_write_def put_native_def post_native_def by (auto split: option.split)
qed

lemma wp_after:
  assumes "pres silent e mm" "tracks e False w v"
    and "\<And>x u. tracks e False w u \<Longrightarrow> Q x u" "\<And>er u. tracks e False w u \<Longrightarrow> X er u"
  shows "wp e mm Q X v"
  by (rule wp_mono [OF wp_pres [OF tracked_silent [OF assms(1)]]])
    (auto intro: assms(3,4) tracks_quiet [OF assms(2)])

lemma wp_repair:
  assumes started: "write_started (replaying w)" and known: "\<not> uncertain_status (u_status (y_result y))"
  shows "wp e (repair_collision d k wid res y errors)
     (\<lambda>(y', _). tracks e (uncertain_status (u_status (y_result y'))) w) (\<lambda>_. tracks e False w) w"
proof -
  have same: "tracks e (uncertain_status (u_status (y_result y))) w v" if "tracks e False w v" for v
    using that by (rule tracks_weaken) simp
  have here: "tracks e False w w" by (rule tracked.R_refl)
  have reads: "pres silent e (find_native_id_by_attr d k a v x)" "pres silent e (unattributed_reason d k i n)"
    "pres silent e (get_mapping_by_workos_id x' k i)" for a v x i n x'
    by (intro still.reads_find still.reads_unattributed still.reads_rows)+
  show ?thesis
    unfolding repair_collision_def Let_def
    by (auto simp: unresolved_def split: option.split sum.split
        intro!: same here reads [THEN wp_after] wp_mono [OF wp_writes(1) [OF _ started]] tracks_unresolved)
qed

lemma tracked_confirm [eff]: "pres (tracks e False) e (confirm_identity d k wid y)"
proof -
  have [eff]: "pres (tracks e False) e (unattributed_reason d k i n)"
    "pres (tracks e False) e (get_mapping_by_workos_id x k i)" for i n x
    by (intro tracked_silent still.reads_unattributed still.reads_rows)+
  show ?thesis unfolding confirm_identity_def upsert_mapping_def by (intro eff)
qed

lemma tracked_outcome [eff]: "pres (tracks e False) e (replay_outcome d k wid res mp tok y g)"
  unfolding replay_outcome_def Let_def quiet_log_def insert_proxy_log_def clear_repaired_divergences_def
    clear_replayed_divergence_for_resource_def
  by (intro eff)

lemma wp_then_tracked:
  "pres (tracks e False) e mm \<Longrightarrow> tracks e False v w \<Longrightarrow> wp e mm (\<lambda>_. tracks e False v) (\<lambda>_. tracks e False v) w"
  by (rule wp_mono [OF wp_pres [where R = "tracks e False"]]) (auto intro: tracks_quiet)

lemma wp_answered:
  assumes v: "tracks e (uncertain_status (u_status (y_result y0))) v w" and started: "write_started (replaying v)"
  shows "wp e (replay_answered d k wid res mp tok y0 g) (\<lambda>_. tracks e False v) (\<lambda>_. tracks e False v) w"
proof -
  have rest: "wp e (thn (if uncertain_status (u_status (y_result y)) \<or> b then unresolved else ret ()) mm)
       (\<lambda>_. tracks e False v) (\<lambda>_. tracks e False v) u"
    if u: "tracks e (uncertain_status (u_status (y_result y))) v u" and mm: "pres (tracks e False) e mm"
    for y b u and mm :: "progress m"
    using u by (auto simp: unresolved_def intro!: wp_then_tracked [OF mm] tracks_unresolved elim: tracks_weaken)
  have collision: "wp e (if y_method y0 = ''POST'' \<and> u_status (y_result y0) = 409
        then repair_collision d k wid res y0 (g_errors g) else ret (y0, g_errors g))
      (\<lambda>(y, _). tracks e (uncertain_status (u_status (y_result y))) v) (\<lambda>_. tracks e False v) w"
  proof (cases "y_method y0 = ''POST'' \<and> u_status (y_result y0) = 409")
    case True
    then have known: "\<not> uncertain_status (u_status (y_result y0))" by (simp add: uncertain_status_def)
    with v have w: "tracks e False v w" by simp
    from True show ?thesis
      by (auto intro!: wp_mono [OF wp_repair [OF started_after [OF w started] known]]
          dest: tracks_then [OF w])
  next
    case False
    with v show ?thesis by (simp only: if_False wp_ret split)
  qed
  show ?thesis
    unfolding replay_answered_def Let_def wp_bnd
    by (rule wp_mono [OF collision]; (clarsimp simp only: prod.case)?, (rule rest; (intro eff)?)?)
qed

lemma tracked_write:
  assumes y: "\<And>a. y_result (y a) = a"
  shows "pres (tracks e False) e (thn (set_replay (\<lambda>st. st\<lparr>write_started := True\<rparr>))
       (bnd (settle (first_write d k res n)) (\<lambda>r. case r of
          Inl er \<Rightarrow> thn unresolved (ret (f er))
        | Inr a \<Rightarrow> replay_answered d k wid res mp tok (y a) h)))"
    (is "pres _ _ ?mm")
proof -
  have "wp e ?mm (\<lambda>_. tracks e False w) (\<lambda>_. tracks e False w) w" for w
  proof -
    let ?w = "w\<lparr>replaying := (replaying w)\<lparr>write_started := True\<rparr>\<rparr>"
    have here: "tracks e False ?w ?w" by (rule tracked.R_refl)
    have begun: "write_started (replaying ?w)" by simp
    have onward: "tracks e P w v" if "tracks e P ?w v" for v P
      using that by (auto simp: tracks_def sends_def)
    show ?thesis
      by (auto simp: unresolved_def y intro!: wp_mono [OF wp_writes(2) [OF here begun]] onward tracks_unresolved
          wp_mono [OF wp_answered [OF _ begun]])
  qed
  then show ?thesis by (rule pres_wp)
qed

lemma tracked_push: "pres (tracks e False) e (push_to_native d k res tok g)"
proof -
  have target: "pres (tracks e False) e (replay_target d k wid res)" for wid
    by (rule tracked_silent) (rule still.reads_target)
  show ?thesis
    unfolding push_to_native_def Let_def by (intro eff target tracked_write) simp
qed

subsection \<open>The whole run\<close>

interpretation track_replay: replay_frame "tracks e False" e d for e d
proof unfold_locales
  show "pres (tracks e False) e (mark_divergences_for_sweep (dir_id d) tok)"
    "pres (tracks e False) e (clear_replayed_divergences (dir_id d) tok)" for tok
    unfolding mark_divergences_for_sweep_def clear_replayed_divergences_def by (rule tracked_execute)+
qed (auto intro: tracks_silent tracked_push)

interpretation claims_replay: store_replay "\<lambda>s s'. create_claims s' = create_claims s" d for d
proof unfold_locales
  show "pres claims_same e (confirm_identity d k wid y)" for e k wid y
    unfolding confirm_identity_def
    by (intro eff pres_lift [where S = "\<lambda>s s'. create_claims s' = create_claims s"] quiet.reads_unattributed) simp
qed simp_all

text \<open>No native write is lost, or both claims are still held.\<close>

definition claims_kept_after_loss :: "env \<Rightarrow> nat \<Rightarrow> string \<Rightarrow> string \<Rightarrow> world \<Rightarrow> bool" where
  "claims_kept_after_loss e n d t w \<longleftrightarrow>
     (\<exists>i. n \<le> i \<and> i < length (calls w) \<and> lost_write e (calls w) i) \<longrightarrow> (\<forall>k. claim_held d k t w)"

lemma kept_no_calls: "calls w = calls v \<Longrightarrow> n = length (calls v) \<Longrightarrow> claims_kept_after_loss e n d t w"
  by (auto simp: claims_kept_after_loss_def)

definition calm :: "world \<Rightarrow> world \<Rightarrow> bool" where
  "calm w w' \<longleftrightarrow> calls w' = calls w \<and> create_claims (db w') = create_claims (db w)"

lemma kept_calm: "claims_kept_after_loss e n d t w \<Longrightarrow> calm w w' \<Longrightarrow> claims_kept_after_loss e n d t w'"
  by (simp add: claims_kept_after_loss_def calm_def claim_held_def claim_holder_def)

lemma sends_none: "sends {} w w' \<longleftrightarrow> calls w' = calls w"
  by (auto simp: sends_def)

lemma calm_release_run: "pres calm e (release_reconcile_run d t)"
proof -
  have "pres claims_same e (release_reconcile_run d t)" "pres (sends {}) e (release_reconcile_run d t)"
    unfolding release_reconcile_run_def by (intro eff claims_kept.pres_execute; simp)+
  then show ?thesis by (simp add: pres_def on_db_def sends_none calm_def)
qed

lemma no_calls:
  "pres (sends {}) e (release_reconcile_create_claims d t)" "pres (sends {}) e (claim_reconcile_run d t)"
  unfolding release_reconcile_create_claims_def release_workos_primary_create_def claim_reconcile_run_def
  by (intro eff)+

lemma wp_calls_same:
  "pres (sends {}) e mm \<Longrightarrow> (\<And>x u. calls u = calls w \<Longrightarrow> Q x u) \<Longrightarrow> (\<And>er u. calls u = calls w \<Longrightarrow> X er u) \<Longrightarrow>
   wp e mm Q X w"
  by (rule wp_mono [OF wp_pres [where R = "sends {}"]]) (auto simp: sends_none)

interpretation holders_stay: store_frame
    "\<lambda>s s'. \<forall>d k t. claim_holder d k s = Some t \<longrightarrow> claim_holder d k s' = Some t"
  by unfold_locales auto

lemma wp_claim_both:
  assumes claimed: "\<And>u. calls u = calls w \<Longrightarrow> \<forall>k. claim_held d k t u \<Longrightarrow> Q () u"
    and refused: "\<And>er u. calls u = calls w \<Longrightarrow> X er u"
  shows "wp e (claim_both d t) Q X w"
proof -
  have stay: "pres (on_db (\<lambda>s s'. \<forall>d k t. claim_holder d k s = Some t \<longrightarrow> claim_holder d k s' = Some t)) e
      (claim_workos_primary_create d k t)" for k
    unfolding claim_workos_primary_create_def
    by (rule holders_stay.pres_statement) (auto simp: claim_row_def claim_holder_def look_row_append split: option.split)
  have second: "wp e (claim_workos_primary_create d Groups t)
      (\<lambda>got u. calls u = calls w \<and> claim_held d Users t u \<and> (got \<longrightarrow> claim_held d Groups t u)) (\<lambda>_ u. calls u = calls w) v"
    if "calls v = calls w" "claim_held d Users t v" for v
    by (rule wp_mono [OF wp_conj [OF wp_pres [OF stay] wp_claim_acquired [where Q = "\<lambda>got u. calls u = calls w \<and> (got \<longrightarrow> claim_held d Groups t u)"
          and X = "\<lambda>_ u. calls u = calls w"]]])
      (use that in \<open>auto simp: on_db_def claim_held_def\<close>)
  have all: "claim_held d k t u" if "claim_held d Users t u" "claim_held d Groups t u" for k u
    using that by (cases k) simp_all
  have first: "wp e (claim_workos_primary_create d Users t)
      (\<lambda>got u. calls u = calls w \<and> (got \<longrightarrow> claim_held d Users t u)) (\<lambda>_ u. calls u = calls w) w"
    by (rule wp_claim_acquired) auto
  show ?thesis
    unfolding claim_both_def
    by (auto intro!: wp_mono [OF first] wp_mono [OF second] claimed refused all)
qed

lemma wp_guarded:
  assumes held: "\<forall>k. claim_held (dir_id d) k t v"
  shows "wp e (guarded_reconcile fuel d t) (\<lambda>_. claims_kept_after_loss e (length (calls v)) (dir_id d) t)
     (\<lambda>_. claims_kept_after_loss e (length (calls v)) (dir_id d) t) v"
proof -
  let ?kept = "claims_kept_after_loss e (length (calls v)) (dir_id d) t"
  let ?inv = "\<lambda>u. tracks e False v u \<and> (\<forall>k. claim_held (dir_id d) k t u)"
  have unresolved: "?kept u" if "?inv u" for u
    using that by (simp add: claims_kept_after_loss_def)
  let ?fine = "\<lambda>u. \<not> (\<exists>i. length (calls v) \<le> i \<and> i < length (calls u) \<and> lost_write e (calls u) i)"
  have fine: "?kept u" if "?fine u" for u
    using that by (auto simp: claims_kept_after_loss_def)
  have kept: "?kept u" if "?inv u \<or> ?fine u" for u
    using that fine unresolved by blast
  have settled: "?fine u" if "?inv u" "\<not> (unresolved_write (replaying u) \<and> write_started (replaying u))" for u
    using that by (auto simp: tracks_def)
  have step: "wp e mm (\<lambda>_. ?inv) (\<lambda>_. ?inv) u"
    if "pres (tracks e False) e mm" "pres claims_same e mm" "?inv u" for mm :: "'a m" and u
    by (rule wp_mono [OF wp_conj [OF wp_pres [OF that(1)] wp_pres [OF that(2)]]])
      (use that(3) in \<open>auto intro: tracks_quiet simp: claim_held_cong\<close>)
  have maps: "pres (tracks e False) e (load_id_maps (dir_id d) True)" "pres claims_same e (load_id_maps (dir_id d) True)"
    by (rule tracked_silent [OF still.reads_rows(4)], rule claims_db)
  have start: "?inv v" using held tracked.R_refl by blast
  have released: "wp e (release_reconcile_create_claims (dir_id d) t) (\<lambda>_. ?fine) (\<lambda>_. ?fine) u"
    if "?inv u \<or> ?fine u" "\<not> (unresolved_write (replaying u) \<and> write_started (replaying u)) \<or> ?fine u" for u
  proof -
    have "?fine u" using that settled by blast
    then show ?thesis by (intro wp_calls_same [OF no_calls(1)]) simp_all
  qed
  show ?thesis
    unfolding guarded_reconcile_def
    by (auto intro!: wp_mono [OF step [OF maps start]]
        wp_mono [OF step [OF track_replay.reconcile_respects claims_replay.bulk.reconcile_respects]]
        wp_mono [OF released] kept split: option.split)
qed

lemma wp_run_reconcile:
  "wp e (run_reconcile_from_workos fuel d)
     (\<lambda>_. claims_kept_after_loss e (length (calls w)) (dir_id d) (uuid e (uuids w)))
     (\<lambda>_. claims_kept_after_loss e (length (calls w)) (dir_id d) (uuid e (uuids w))) w"
proof -
  let ?t = "uuid e (uuids w)"
  let ?kept = "claims_kept_after_loss e (length (calls w)) (dir_id d) ?t"
  have unsent: "?kept u" if "calls u = calls w" for u
    using that by (rule kept_no_calls) simp
  have lease: "wp e (claim_reconcile_run (dir_id d) ?t) (\<lambda>_ u. calls u = calls w) (\<lambda>_ u. calls u = calls w)
      (w\<lparr>uuids := Suc (uuids w)\<rparr>)"
    by (rule wp_calls_same [OF no_calls(2)]) simp_all
  have undo: "wp e (release_reconcile_create_claims (dir_id d) ?t) (\<lambda>_ u. calls u = calls w) (\<lambda>_ u. calls u = calls w) u"
    if "calls u = calls w" for u
    by (rule wp_calls_same [OF no_calls(1)]) (simp_all add: that)
  have leave: "wp e (release_reconcile_run (dir_id d) ?t) (\<lambda>_. ?kept) (\<lambda>_. ?kept) u" if "?kept u" for u
    by (rule wp_mono [OF wp_pres [OF calm_release_run]]) (auto intro: kept_calm [OF that])
  have run: "wp e (guarded_reconcile fuel d ?t) (\<lambda>_. ?kept) (\<lambda>_. ?kept)
      (u\<lparr>replaying := st\<rparr>)" if "calls u = calls w" "\<forall>k. claim_held (dir_id d) k ?t u" for u st
    using that wp_guarded [of d ?t "u\<lparr>replaying := st\<rparr>" e fuel]
    by (simp add: claim_held_def)
  show ?thesis
    unfolding run_reconcile_from_workos_def
    by (auto intro!: wp_mono [OF lease] wp_claim_both wp_mono [OF undo] wp_mono [OF leave] wp_mono [OF run] unsent
        split: option.split)
qed

text \<open>C6: a reconcile that lost the outcome of a native write (a network error, a 5xx or a 408 on a PUT
  or POST it sent) never gives up its create claims: however it ends, with a summary or by an error, and
  whatever the datastore loses, both claims are still held by this run's token, so no create or second
  reconcile can duplicate the resource before an operator has looked.\<close>
theorem lost_replay_keeps_claims:
  assumes "run_reconcile_from_workos fuel d e w = (r, w')"
    and "length (calls w) \<le> i" and "i < length (calls w')" and "lost_write e (calls w') i"
  shows "claim_holder (dir_id d) k (db w') = Some (uuid e (uuids w))"
  using wp_run_reconcile [of e fuel d w] assms
  by (cases r) (auto simp: wp_def claims_kept_after_loss_def claim_held_def)

end
