(* ===== verification/BackfillRuns.thy ===== *)
theory BackfillRuns
  imports ReplayLaws
begin

text \<open>
  Concrete runs of the bulk operations: the witnesses of BackfillLaws and two runs that show where the
  reconcile departs from what its comments promise.
\<close>

subsection \<open>An upstream that ignores \<open>startIndex\<close>\<close>

text \<open>WorkOS holds two users but answers every page request with the first one; the native app applies
  every PUT.\<close>

definition first_user :: object where
  "first_user = [(''id'', JStr ''wa''), (''userName'', JStr ''ann'')]"

definition repeating :: "call list \<Rightarrow> call \<Rightarrow> string + upstream_result" where
  "repeating h c = Inr
     (if c_side c = Native then reply 200 [(''id'', JStr (put_target c))]
      else if starts_with (c_url c) ''/w/Users''
      then reply 200 [(''Resources'', JArr [JObj first_user]), (''totalResults'', JNum 2)]
      else reply 200 [(''Resources'', JArr []), (''totalResults'', JNum 0)])"

definition repeating_env :: env where
  "repeating_env = quiet_env\<lparr>upstream := repeating\<rparr>"

definition diverged :: store where
  "diverged = record_failure_row ''d'' Users ''b'' ''PUT'' (Some 500) ''native failed''
     (upsert_row (row_of ''a'' ''wa'') (empty_store\<lparr>directories := [sample WorkosPrimary]\<rparr>))"

lemma repeating_bounded: "totals_bounded repeating_env 2"
  by (simp add: totals_bounded_def repeating_env_def repeating_def reply_def parse_json_def)

theorem snapshot_terminates_witness:
  "\<exists>res w'. take_snapshot 3 Workos ''/w'' ''wt'' Users [] repeating_env (fresh_world diverged) = (Inr (Some res), w')
     \<and> accounted [] res \<and> length (calls w') \<le> 2"
  using snapshot_terminates [OF repeating_bounded, of 3 Workos "''/w''" "''wt''" Users "[]" "fresh_world diverged"]
  by (auto simp: fresh_world_def numeral_2_eq_2)



theorem reconcile_only_adds_witness:
  "\<exists>r w'. run_reconcile_from_workos 3 (sample WorkosPrimary) repeating_env (fresh_world diverged) = (r, w')
     \<and> length (calls w') = 5 \<and> mapping_of ''d'' Users ''a'' (db w') = Some (row_of ''a'' ''wa'')"
proof -
  let ?run = "run_reconcile_from_workos 3 (sample WorkosPrimary) repeating_env (fresh_world diverged)"
  obtain r w' where run: "?run = (r, w')" by (cases ?run)
  have "length (calls (snd ?run)) = 5" "exclusive ''d'' Users (db (fresh_world diverged))"
    "mapping_of ''d'' Users ''a'' (db (fresh_world diverged)) = Some (row_of ''a'' ''wa'')" "dir_id (sample WorkosPrimary) = ''d''"
    by code_simp+
  with reconcile_only_adds [OF run, of Users "''d''" Users "''a''"] run show ?thesis by simp
qed

subsection \<open>A native app that stops answering\<close>

definition native_down :: env where
  "native_down = repeating_env\<lparr>upstream := (\<lambda>h c. if c_side c = Native then Inl ''unreachable'' else repeating h c)\<rparr>"

theorem lost_replay_keeps_claims_witness:
  "\<exists>w'. run_reconcile_from_workos 3 (sample WorkosPrimary) native_down (fresh_world diverged)
       = (Inr (Some \<lparr>s_users = \<lparr>n_total = 2, n_mirrored = 0, n_failed = 2\<rparr>, s_groups = no_counts,
           s_errors = [retained_notice, ''Users/a: unreachable'', ''Users/a: unreachable'']\<rparr>), w')
     \<and> claim_holder ''d'' Groups (db w') = Some ''u''"
proof -
  let ?run = "run_reconcile_from_workos 3 (sample WorkosPrimary) native_down (fresh_world diverged)"
  have "fst ?run = Inr (Some \<lparr>s_users = \<lparr>n_total = 2, n_mirrored = 0, n_failed = 2\<rparr>, s_groups = no_counts,
           s_errors = [retained_notice, ''Users/a: unreachable'', ''Users/a: unreachable'']\<rparr>)" by code_simp
  then obtain w' where run: "?run = (Inr (Some \<lparr>s_users = \<lparr>n_total = 2, n_mirrored = 0, n_failed = 2\<rparr>,
      s_groups = no_counts, s_errors = [retained_notice, ''Users/a: unreachable'', ''Users/a: unreachable'']\<rparr>), w')"
    by (metis prod.collapse)
  have "2 < length (calls (snd ?run))" "lost_write native_down (calls (snd ?run)) 2" "calls (fresh_world diverged) = []"
    "dir_id (sample WorkosPrimary) = ''d''" "uuid native_down (uuids (fresh_world diverged)) = ''u''"
    by code_simp+
  with lost_replay_keeps_claims [OF run, of 2 Groups] run show ?thesis by simp
qed

subsection \<open>A lease whose acknowledgement is lost\<close>

definition lost_first :: env where
  "lost_first = quiet_env\<lparr>db_fault := (\<lambda>k. if k = 0 then LostAck True else Fine)\<rparr>"

text \<open>The statement that takes the run lease is retried although it does not recognise its own
  token: when the first attempt commits and only its acknowledgement is lost, the run refuses to start
  because "a reconcile is already running", and leaves the lease taken by nobody.\<close>
theorem lost_lease_ack_blocks_reconcile:
  "case run_reconcile_from_workos 3 (sample WorkosPrimary) lost_first (fresh_world diverged) of
     (Inl er, w') \<Rightarrow> er = in_flight ''d'' None \<and> calls w' = []
       \<and> map reconcile_token (directories (db w')) = [Some ''u'']
   | _ \<Rightarrow> False"
  by code_simp

end
