(* ===== verification/JsonText.thy ===== *)
theory JsonText
  imports EventMapping
begin

text \<open>
  \<open>JSON.stringify\<close> and \<open>JSON.parse\<close> on texts, for the places where the code keeps JSON as text: the
  body of a webhook, the payload column of the event log and the retry state of the poller; and
  \<open>truncateBody\<close> of \<open>workers/shared/db.ts\<close>.
\<close>

subsection \<open>Printing\<close>

fun json_text :: "json \<Rightarrow> string" where
  "json_text JNull = ''null''"
| "json_text (JBool b) = (if b then ''true'' else ''false'')"
| "json_text (JNum n) = show_int n"
| "json_text (JStr s) = json_quote s"
| "json_text (JArr vs) = ''['' @ join_with '','' (map json_text vs) @ '']''"
| "json_text (JObj obj) = ''{'' @ join_with '','' (map (\<lambda>(k, v). json_quote k @ '':'' @ json_text v) obj) @ ''}''"

subsection \<open>Parsing\<close>

definition json_space :: "char \<Rightarrow> bool" where
  "json_space c \<longleftrightarrow> of_char c \<in> set [9, 10, 13, 32 :: nat]"

definition skip_space :: "string \<Rightarrow> string" where
  "skip_space s = dropWhile json_space s"

definition is_digit :: "char \<Rightarrow> bool" where
  "is_digit c \<longleftrightarrow> 48 \<le> (of_char c :: nat) \<and> (of_char c :: nat) \<le> 57"

definition digit_val :: "char \<Rightarrow> nat" where
  "digit_val c = of_char c - 48"

definition digits_val :: "string \<Rightarrow> nat" where
  "digits_val s = foldl (\<lambda>n c. 10 * n + digit_val c) 0 s"

definition unescape :: "char \<Rightarrow> char option" where
  "unescape c = (if c = dquote \<or> c = backslash \<or> c = CHR ''/'' then Some c
     else if c = CHR ''b'' then Some (char_of (8 :: nat))
     else if c = CHR ''t'' then Some (char_of (9 :: nat))
     else if c = CHR ''n'' then Some (char_of (10 :: nat))
     else if c = CHR ''f'' then Some (char_of (12 :: nat))
     else if c = CHR ''r'' then Some (char_of (13 :: nat))
     else None)"

definition cons_char :: "char \<Rightarrow> (string \<times> string) option \<Rightarrow> (string \<times> string) option" where
  "cons_char c r = (case r of None \<Rightarrow> None | Some (s, rest) \<Rightarrow> Some (c # s, rest))"

text \<open>The characters of a string literal after its opening quote, and what follows it.  A \<open>\uXXXX\<close>
  escape is read when it denotes a character the model has.\<close>

fun read_chars :: "string \<Rightarrow> (string \<times> string) option" where
  "read_chars [] = None"
| "read_chars [c] = (if c = dquote then Some ([], []) else None)"
| "read_chars (c # d # s) =
     (if c = dquote then Some ([], d # s)
      else if c = backslash then
        (if d = CHR ''u'' then
           (case s of
              h1 # h2 # h3 # h4 # rest \<Rightarrow>
                (case (hex_val h1, hex_val h2, hex_byte h3 h4) of
                   (Some 0, Some 0, Some n) \<Rightarrow> cons_char (char_of n) (read_chars rest)
                 | _ \<Rightarrow> None)
            | _ \<Rightarrow> None)
         else (case unescape d of None \<Rightarrow> None | Some x \<Rightarrow> cons_char x (read_chars s)))
      else if (of_char c :: nat) < 32 then None
      else cons_char c (read_chars (d # s)))"

text \<open>An integer; a fraction or an exponent has no value in the model.\<close>

definition read_number :: "string \<Rightarrow> (json \<times> string) option" where
  "read_number s =
     (let (neg, t) = (case s of c # r \<Rightarrow> if c = CHR ''-'' then (True, r) else (False, s) | [] \<Rightarrow> (False, s));
          ds = takeWhile is_digit t; rest = dropWhile is_digit t in
      if ds = [] \<or> (hd ds = CHR ''0'' \<and> length ds \<noteq> 1)
         \<or> (rest \<noteq> [] \<and> hd rest \<in> set [CHR ''.'', CHR ''e'', CHR ''E'']) then None
      else Some (JNum (if neg then - int (digits_val ds) else int (digits_val ds)), rest))"

text \<open>A value, the elements of an array and the members of an object up to their closing bracket.  The
  fuel bounds the nesting and the length; two units for each character of the text are enough.\<close>

fun read_value :: "nat \<Rightarrow> string \<Rightarrow> (json \<times> string) option"
  and read_elems :: "nat \<Rightarrow> json list \<Rightarrow> string \<Rightarrow> (json \<times> string) option"
  and read_fields :: "nat \<Rightarrow> object \<Rightarrow> string \<Rightarrow> (json \<times> string) option" where
  "read_value 0 s = None"
| "read_value (Suc n) s = (case skip_space s of
       [] \<Rightarrow> None
     | c # r \<Rightarrow>
         if c = dquote then map_option (\<lambda>(x, rest). (JStr x, rest)) (read_chars r)
         else if c = CHR ''['' then
           (case skip_space r of
              c' # r' \<Rightarrow> if c' = CHR '']'' then Some (JArr [], r') else read_elems n [] r
            | [] \<Rightarrow> None)
         else if c = CHR ''{'' then
           (case skip_space r of
              c' # r' \<Rightarrow> if c' = CHR ''}'' then Some (JObj [], r') else read_fields n [] r
            | [] \<Rightarrow> None)
         else if starts_with (c # r) ''null'' then Some (JNull, drop 4 (c # r))
         else if starts_with (c # r) ''true'' then Some (JBool True, drop 4 (c # r))
         else if starts_with (c # r) ''false'' then Some (JBool False, drop 5 (c # r))
         else read_number (c # r))"
| "read_elems 0 vs s = None"
| "read_elems (Suc n) vs s = (case read_value n s of
       None \<Rightarrow> None
     | Some (v, r) \<Rightarrow> (case skip_space r of
         [] \<Rightarrow> None
       | c # r' \<Rightarrow> if c = CHR '','' then read_elems n (vs @ [v]) r'
           else if c = CHR '']'' then Some (JArr (vs @ [v]), r') else None))"
| "read_fields 0 obj s = None"
| "read_fields (Suc n) obj s = (case skip_space s of
       [] \<Rightarrow> None
     | q # t \<Rightarrow>
         if q \<noteq> dquote then None
         else (case read_chars t of
             None \<Rightarrow> None
           | Some (k, r) \<Rightarrow> (case skip_space r of
               [] \<Rightarrow> None
             | c # r' \<Rightarrow>
                 if c \<noteq> CHR '':'' then None
                 else (case read_value n r' of
                     None \<Rightarrow> None
                   | Some (v, r2) \<Rightarrow> (case skip_space r2 of
                       [] \<Rightarrow> None
                     | c2 # r3 \<Rightarrow>
                         if c2 = CHR '','' then read_fields n (set_prop k v obj) r3
                         else if c2 = CHR ''}'' then Some (JObj (set_prop k v obj), r3) else None)))))"

text \<open>\<open>JSON.parse\<close>; \<open>None\<close> where it throws.\<close>

definition read_json :: "string \<Rightarrow> json option" where
  "read_json s = (case read_value (2 * length s + 2) s of
       None \<Rightarrow> None | Some (v, rest) \<Rightarrow> if skip_space rest = [] then Some v else None)"

subsection \<open>Bodies kept in logs\<close>

definition body_limit :: nat where "body_limit = 8192"

definition truncate_body :: "string option \<Rightarrow> string option" where
  "truncate_body body = (case body of
       None \<Rightarrow> None
     | Some s \<Rightarrow> if s = [] then None
         else if body_limit < length s then Some (take body_limit s @ ellipsis @ '' [truncated]'') else Some s)"

subsection \<open>Reading back a string and a number\<close>

lemma hex_val_lower: "n < 16 \<Longrightarrow> hex_val (lower_char (hex_digit n)) = Some n"
  by (cases "n < 10") (auto simp: hex_val_def lower_char_def hex_digit_def Let_def of_char_of)

lemma low_hex:
  "n < 32 \<Longrightarrow> hex_byte (lower_char (hex_digit (n div 16))) (lower_char (hex_digit (n mod 16))) = Some n"
proof -
  assume "n < 32"
  then have "n div 16 < 16" by simp
  moreover have "n mod 16 < 16" by simp
  ultimately show ?thesis by (simp add: hex_val_lower hex_byte.simps)
qed

lemma low_escapes:
  "unescape dquote = Some dquote" "unescape backslash = Some backslash" "hex_val CHR ''0'' = Some 0"
  "unescape (CHR ''b'') = Some (char_of (8 :: nat))" "unescape (CHR ''t'') = Some (char_of (9 :: nat))"
  "unescape (CHR ''n'') = Some (char_of (10 :: nat))" "unescape (CHR ''f'') = Some (char_of (12 :: nat))"
  "unescape (CHR ''r'') = Some (char_of (13 :: nat))" "dquote \<noteq> CHR ''u''" "backslash \<noteq> CHR ''u''"
  "backslash \<noteq> dquote"
  by code_simp+

lemma char_ofI: "of_char c = n \<Longrightarrow> char_of (n :: nat) = c"
  by (metis char_of_char)

lemma json_char_cases:
  obtains (plain) "json_char c = [c]" "c \<noteq> dquote" "c \<noteq> backslash" "32 \<le> (of_char c :: nat)"
  | (short) x where "json_char c = [backslash, x]" "x \<noteq> CHR ''u''" "unescape x = Some c"
  | (long) h1 h2 where "json_char c = [backslash, CHR ''u'', CHR ''0'', CHR ''0'', h1, h2]" "hex_byte h1 h2 = Some (of_char c)"
proof -
  let ?n = "of_char c :: nat"
  have q: "of_char dquote = (34 :: nat)" "of_char backslash = (92 :: nat)"
    by code_simp+
  consider "?n = 34" | "?n = 92" | "?n = 8" | "?n = 9" | "?n = 10" | "?n = 12" | "?n = 13"
    | "?n < 32" "?n \<notin> {8, 9, 10, 12, 13}" | "32 \<le> ?n" "?n \<noteq> 34" "?n \<noteq> 92" by fastforce
  then show thesis
  proof cases
    case 8
    with low_hex [OF 8(1)] long show thesis by (auto simp: json_char_def Let_def)
  next
    case 9
    with q plain show thesis by (auto simp: json_char_def Let_def)
  next
    case 1
    with q have "c = dquote" by (metis char_of_char)
    with 1 short low_escapes show thesis by (simp add: json_char_def)
  next
    case 2
    with q have "c = backslash" by (metis char_of_char)
    with 2 short low_escapes show thesis by (simp add: json_char_def)
  qed (use short low_escapes char_ofI [of c] in \<open>auto simp: json_char_def Let_def\<close>)
qed

lemma read_quoted: "read_chars (concat (map json_char s) @ dquote # rest) = Some (s, rest)"
proof (induction s)
  case Nil
  show ?case by (cases rest) simp_all
next
  case (Cons c s)
  obtain d t where t: "concat (map json_char s) @ dquote # rest = d # t"
    by (cases "concat (map json_char s)") auto
  from Cons t show ?case
    by (cases c rule: json_char_cases)
      (auto simp: cons_char_def low_escapes char_of_char split: option.splits)
qed

end
