(* ===== verification/NativeStore.thy ===== *)
theory NativeStore
  imports JsonText "HOL-Library.List_Lexorder"
begin

text \<open>
  The directory tables of the reference native app (\<open>workers/native/store.ts\<close>) and the client tokens
  (\<open>workers/shared/client-tokens.ts\<close>).  One class serves two sets of tables: the native app's own and
  those of the mock WorkOS directory.
\<close>

subsection \<open>The two sets of tables\<close>

datatype table_set = NativeTables | MockTables

fun tables_of :: "table_set \<Rightarrow> store \<Rightarrow> scim_tables" where
  "tables_of NativeTables s = native_tables s"
| "tables_of MockTables s = mock_tables s"

fun on_tables :: "table_set \<Rightarrow> (scim_tables \<Rightarrow> scim_tables) \<Rightarrow> store \<Rightarrow> store" where
  "on_tables NativeTables f s = s\<lparr>native_tables := f (native_tables s)\<rparr>"
| "on_tables MockTables f s = s\<lparr>mock_tables := f (mock_tables s)\<rparr>"

text \<open>\<open>lower()\<close> of the datastore folds ASCII letters only.\<close>

definition sql_lower :: "string \<Rightarrow> string" where
  "sql_lower s = map (\<lambda>c. let n = of_char c :: nat in
     if 65 \<le> n \<and> n \<le> 90 then char_of (n + 32) else c) s"

subsection \<open>Users\<close>

definition user_by_id :: "table_set \<Rightarrow> string \<Rightarrow> user_row option m" where
  "user_by_id ts i = query (\<lambda>s. look_row ur_id i (t_users (tables_of ts s)))"

definition user_by_user_name :: "table_set \<Rightarrow> string \<Rightarrow> user_row option m" where
  "user_by_user_name ts name = query (\<lambda>s.
     find (\<lambda>u. sql_lower (ur_name u) = sql_lower name) (t_users (tables_of ts s)))"

definition user_by_external_id :: "table_set \<Rightarrow> string \<Rightarrow> user_row option m" where
  "user_by_external_id ts x = query (\<lambda>s. find (\<lambda>u. ur_external u = Some x) (t_users (tables_of ts s)))"

text \<open>A new row takes the engine's clock twice; an existing one keeps its creation time.  A user name
  held by another row violates the column's unique constraint.\<close>

record user_input =
  ui_id :: string
  ui_name :: string
  ui_external :: "string option"
  ui_active :: bool
  ui_resource :: object

definition user_row_of :: "user_input \<Rightarrow> string \<Rightarrow> user_row option \<Rightarrow> user_row" where
  "user_row_of u at old = \<lparr>ur_id = ui_id u, ur_name = ui_name u, ur_external = ui_external u,
     ur_active = ui_active u, ur_resource = Doc (JObj (ui_resource u)),
     ur_created = (case old of None \<Rightarrow> at | Some r \<Rightarrow> ur_created r), ur_updated = at\<rparr>"

definition put_user :: "table_set \<Rightarrow> user_input \<Rightarrow> string \<Rightarrow> unit statement" where
  "put_user ts u at s =
     (let rows = t_users (tables_of ts s) in
      if \<exists>r \<in> set rows. ur_id r \<noteq> ui_id u \<and> ur_name r = ui_name u
      then (Inl (DbError ''UNIQUE constraint failed''), s)
      else (Inr (), on_tables ts (\<lambda>t. t\<lparr>t_users :=
        put_row ur_id (user_row_of u at (look_row ur_id (ui_id u) rows)) rows\<rparr>) s))"

definition upsert_user :: "table_set \<Rightarrow> user_input \<Rightarrow> unit m" where
  "upsert_user ts u = bnd sql_now (\<lambda>at. with_datastore_retry (put_user ts u at))"

definition clear_memberships :: "table_set \<Rightarrow> string \<Rightarrow> nat m" where
  "clear_memberships ts uid = with_datastore_retry (\<lambda>s.
     (Inr (length (filter (\<lambda>m. snd m = uid) (t_members (tables_of ts s)))),
      on_tables ts (\<lambda>t. t\<lparr>t_members := filter (\<lambda>m. snd m \<noteq> uid) (t_members t)\<rparr>) s))"

definition delete_user :: "table_set \<Rightarrow> string \<Rightarrow> bool m" where
  "delete_user ts i = bnd (clear_memberships ts i) (\<lambda>_. with_datastore_retry (\<lambda>s.
     (Inr (look_row ur_id i (t_users (tables_of ts s)) \<noteq> None),
      on_tables ts (\<lambda>t. t\<lparr>t_users := del_row ur_id i (t_users t)\<rparr>) s)))"

subsection \<open>Groups\<close>

definition group_by_id :: "table_set \<Rightarrow> string \<Rightarrow> group_row option m" where
  "group_by_id ts i = query (\<lambda>s. look_row gr_id i (t_groups (tables_of ts s)))"

definition group_by_display_name :: "table_set \<Rightarrow> string \<Rightarrow> group_row option m" where
  "group_by_display_name ts name = query (\<lambda>s.
     find (\<lambda>g. sql_lower (gr_name g) = sql_lower name) (t_groups (tables_of ts s)))"

definition group_by_external_id :: "table_set \<Rightarrow> string \<Rightarrow> group_row option m" where
  "group_by_external_id ts x = query (\<lambda>s. find (\<lambda>g. gr_external g = Some x) (t_groups (tables_of ts s)))"

record group_input =
  gi_id :: string
  gi_name :: string
  gi_external :: "string option"
  gi_resource :: object

definition group_row_of :: "group_input \<Rightarrow> string \<Rightarrow> group_row option \<Rightarrow> group_row" where
  "group_row_of g at old = \<lparr>gr_id = gi_id g, gr_name = gi_name g, gr_external = gi_external g,
     gr_resource = Doc (JObj (gi_resource g)),
     gr_created = (case old of None \<Rightarrow> at | Some r \<Rightarrow> gr_created r), gr_updated = at\<rparr>"

definition put_group :: "table_set \<Rightarrow> group_input \<Rightarrow> string \<Rightarrow> store \<Rightarrow> store" where
  "put_group ts g at s = on_tables ts (\<lambda>t. t\<lparr>t_groups :=
     put_row gr_id (group_row_of g at (look_row gr_id (gi_id g) (t_groups t))) (t_groups t)\<rparr>) s"

definition upsert_group :: "table_set \<Rightarrow> group_input \<Rightarrow> unit m" where
  "upsert_group ts g = bnd sql_now (\<lambda>at. execute (put_group ts g at))"

definition drop_members :: "table_set \<Rightarrow> string \<Rightarrow> store \<Rightarrow> store" where
  "drop_members ts gid = on_tables ts (\<lambda>t. t\<lparr>t_members := filter (\<lambda>m. fst m \<noteq> gid) (t_members t)\<rparr>)"

definition delete_group :: "table_set \<Rightarrow> string \<Rightarrow> bool m" where
  "delete_group ts i = thn (execute (drop_members ts i)) (with_datastore_retry (\<lambda>s.
     (Inr (look_row gr_id i (t_groups (tables_of ts s)) \<noteq> None),
      on_tables ts (\<lambda>t. t\<lparr>t_groups := del_row gr_id i (t_groups t)\<rparr>) s)))"

subsection \<open>Members\<close>

text \<open>The members of a group in the order of their ids, with the user name where the user exists.\<close>

definition members_of :: "table_set \<Rightarrow> string \<Rightarrow> (string \<times> string option) list m" where
  "members_of ts gid = query (\<lambda>s. let t = tables_of ts s in
     map (\<lambda>uid. (uid, map_option ur_name (look_row ur_id uid (t_users t))))
       (sort (map snd (filter (\<lambda>m. fst m = gid) (t_members t)))))"

definition add_member :: "table_set \<Rightarrow> string \<Rightarrow> string \<Rightarrow> bool m" where
  "add_member ts gid uid = with_datastore_retry (\<lambda>s.
     if (gid, uid) \<in> set (t_members (tables_of ts s)) then (Inr False, s)
     else (Inr True, on_tables ts (\<lambda>t. t\<lparr>t_members := t_members t @ [(gid, uid)]\<rparr>) s))"

definition remove_member :: "table_set \<Rightarrow> string \<Rightarrow> string \<Rightarrow> bool m" where
  "remove_member ts gid uid = with_datastore_retry (\<lambda>s.
     (Inr ((gid, uid) \<in> set (t_members (tables_of ts s))),
      on_tables ts (\<lambda>t. t\<lparr>t_members := filter (\<lambda>m. m \<noteq> (gid, uid)) (t_members t)\<rparr>) s))"

definition set_members :: "table_set \<Rightarrow> string \<Rightarrow> string list \<Rightarrow> unit m" where
  "set_members ts gid uids = thn (execute (drop_members ts gid))
     (each (\<lambda>uid. bnd (add_member ts gid uid) (\<lambda>_. ret ())) (dedupe uids))"

subsection \<open>Listing\<close>

datatype filter_column = ByName | ByExternalId

record list_filter =
  lf_column :: filter_column
  lf_value :: string
  lf_fold :: bool

definition cell_matches :: "list_filter option \<Rightarrow> string option \<Rightarrow> string option \<Rightarrow> bool" where
  "cell_matches flt name external = (case flt of
       None \<Rightarrow> True
     | Some f \<Rightarrow> (case (case lf_column f of ByName \<Rightarrow> name | ByExternalId \<Rightarrow> external) of
         None \<Rightarrow> False
       | Some v \<Rightarrow> if lf_fold f then sql_lower v = sql_lower (lf_value f) else v = lf_value f))"

text \<open>\<open>SELECT COUNT(*)\<close>, then the page \<open>ORDER BY created_at, id LIMIT ? OFFSET ?\<close>: two statements.\<close>

definition list_rows ::
    "(store \<Rightarrow> 'r list) \<Rightarrow> ('r \<Rightarrow> bool) \<Rightarrow> ('r \<Rightarrow> string) \<Rightarrow> ('r \<Rightarrow> string) \<Rightarrow> nat \<Rightarrow> nat \<Rightarrow> (nat \<times> 'r list) m" where
  "list_rows rows keep created ident offset limit =
     bnd (query (\<lambda>s. length (filter keep (rows s)))) (\<lambda>total.
     bnd (query (\<lambda>s. take limit (drop offset (sort_key created (sort_key ident (filter keep (rows s))))))) (\<lambda>page.
       ret (total, page)))"

definition list_users :: "table_set \<Rightarrow> list_filter option \<Rightarrow> nat \<Rightarrow> nat \<Rightarrow> (nat \<times> user_row list) m" where
  "list_users ts flt = list_rows (\<lambda>s. t_users (tables_of ts s))
     (\<lambda>u. cell_matches flt (Some (ur_name u)) (ur_external u)) ur_created ur_id"

definition list_groups :: "table_set \<Rightarrow> list_filter option \<Rightarrow> nat \<Rightarrow> nat \<Rightarrow> (nat \<times> group_row list) m" where
  "list_groups ts flt = list_rows (\<lambda>s. t_groups (tables_of ts s))
     (\<lambda>g. cell_matches flt (Some (gr_name g)) (gr_external g)) gr_created gr_id"

subsection \<open>Client tokens\<close>

definition demo_directory_id_key :: string where
  "demo_directory_id_key = ''idp.demo_directory_id''"

definition demo_directory_id :: "string option m" where
  "demo_directory_id = get_config demo_directory_id_key"

definition remember_client_token :: "string \<Rightarrow> string \<Rightarrow> unit m" where
  "remember_client_token d token = set_proc (\<lambda>p. p\<lparr>remembered := put_row fst (d, token) (remembered p)\<rparr>)"

definition forget_client_tokens :: "unit m" where
  "forget_client_tokens = set_proc (\<lambda>p. p\<lparr>remembered := []\<rparr>)"

definition client_token_key :: "string \<Rightarrow> string" where
  "client_token_key d = ''idp.proxy_token.'' @ d"

definition store_client_token :: "string \<Rightarrow> string \<Rightarrow> unit m" where
  "store_client_token d token = set_config (client_token_key d) token"

definition client_token_for :: "string \<Rightarrow> string option m" where
  "client_token_for d = bnd get_proc (\<lambda>p. case map_of (remembered p) d of
     Some t \<Rightarrow> ret (Some t) | None \<Rightarrow> get_config (client_token_key d))"

definition publish_minted_token :: "string \<Rightarrow> string \<Rightarrow> bool \<Rightarrow> unit m" where
  "publish_minted_token d token demo_mode =
     (if \<not> demo_mode then ret ()
      else bnd demo_directory_id (\<lambda>demo.
        if demo \<noteq> Some d then ret () else store_client_token d token))"

end
