(* ===== verification/StatusClient.thy ===== *)
theory StatusClient
  imports NativeStore Status
begin

text \<open>
  What the bundled listener asks the bridge (\<open>workers/native/status-client.ts\<close>): the migration status of
  a directory, cached for a short time and revalidated with its ETag, and the native id of an event.
\<close>

subsection \<open>The status of a directory\<close>

definition ttl_ms :: int where "ttl_ms = 5000"

definition is_usable :: "cache_entry \<Rightarrow> int \<Rightarrow> int option \<Rightarrow> bool" where
  "is_usable c t since \<longleftrightarrow> \<not> ce_validated c + ttl_ms \<le> t
     \<and> (case since of None \<Rightarrow> True | Some a \<Rightarrow> a \<le> ce_validated c)"

definition remember_status :: "string \<Rightarrow> cache_entry \<Rightarrow> unit m" where
  "remember_status d c = set_proc (\<lambda>p. p\<lparr>status_cache := put_row fst (d, c) (status_cache p)\<rparr>)"

definition back_off :: "string \<Rightarrow> int \<Rightarrow> unit m" where
  "back_off d t = set_proc (\<lambda>p. p\<lparr>failed_until := put_row fst (d, t + ttl_ms) (failed_until p)\<rparr>)"

definition bridge_base :: "string option m" where
  "bridge_base = bnd (get_config ''proxy.loopback_url'') (\<lambda>l.
     bnd (case l of Some u \<Rightarrow> ret (Some u) | None \<Rightarrow> get_config ''proxy.public_url'') (\<lambda>base.
       ret (map_option strip_trailing_slashes base)))"

definition bridge_call :: "string \<Rightarrow> string \<Rightarrow> (string \<times> string) list \<Rightarrow> call" where
  "bridge_call u token hs = \<lparr>c_side = Bridge, c_method = ''GET'', c_url = u, c_token = token,
     c_body = None, c_content_type = None, c_migrated = None, c_headers = hs\<rparr>"

definition status_request :: "string \<Rightarrow> string \<Rightarrow> string \<Rightarrow> cache_entry option \<Rightarrow> call" where
  "status_request base d token cached =
     bridge_call (base @ ''/status/directories/'' @ encode_uri_component d) token
       (case cached of None \<Rightarrow> [] | Some c \<Rightarrow>
          (case nonempty_or_none (ce_etag c) of None \<Rightarrow> [] | Some t \<Rightarrow> [(''If-None-Match'', t)]))"

text \<open>One exchange with the origin at time \<open>t\<close>; \<open>stale\<close> is what the caller gets when the origin
  cannot be asked.\<close>

definition ask_origin :: "string \<Rightarrow> int \<Rightarrow> cache_entry option \<Rightarrow> json option \<Rightarrow> call \<Rightarrow> json option m" where
  "ask_origin d t cached stale c = try_catch
     (bnd (fetch c) (\<lambda>r.
        case (if u_status r = 304 then cached else None) of
          Some held \<Rightarrow> thn (remember_status d (held\<lparr>ce_validated := t\<rparr>)) (ret (Some (ce_status held)))
        | None \<Rightarrow>
            if \<not> is_success (u_status r) then thn (back_off d t) (ret stale)
            else (case u_body r of
                Some (Doc v) \<Rightarrow> thn (remember_status d
                    \<lparr>ce_status = v, ce_etag = header_get ''ETag'' (u_headers r), ce_validated = t\<rparr>)
                  (ret (Some v))
              | _ \<Rightarrow> throw (Failed ''Unexpected end of JSON input''))))
     (\<lambda>_. thn (back_off d t) (ret stale))"

definition fetch_directory_status :: "directory \<Rightarrow> int option \<Rightarrow> json option m" where
  "fetch_directory_status d since =
     bnd now (\<lambda>t. bnd get_proc (\<lambda>p.
     let cached = map_of (status_cache p) (dir_id d) in
     case (case cached of Some c \<Rightarrow> if is_usable c t since then Some (ce_status c) else None | None \<Rightarrow> None) of
       Some v \<Rightarrow> ret (Some v)
     | None \<Rightarrow>
         let stale = (if since = None then None else map_option ce_status cached) in
         if t < (case map_of (failed_until p) (dir_id d) of None \<Rightarrow> 0 | Some u \<Rightarrow> u) then ret stale
         else bnd bridge_base (\<lambda>base.
           case nonempty_or_none base of
             None \<Rightarrow> ret stale
           | Some b \<Rightarrow> bnd (client_token_for (dir_id d)) (\<lambda>token.
               case nonempty_or_none token of
                 None \<Rightarrow> ret stale
               | Some tk \<Rightarrow> ask_origin (dir_id d) t cached stale (status_request b (dir_id d) tk cached)))))"

subsection \<open>The native id of an event\<close>

text \<open>\<open>URLSearchParams\<close>: \<open>application/x-www-form-urlencoded\<close>.\<close>

definition form_unreserved :: "char \<Rightarrow> bool" where
  "form_unreserved c \<longleftrightarrow> (let n = of_char c :: nat in
     (65 \<le> n \<and> n \<le> 90) \<or> (97 \<le> n \<and> n \<le> 122) \<or> (48 \<le> n \<and> n \<le> 57) \<or> n \<in> set [42, 45, 46, 95])"

definition form_char :: "char \<Rightarrow> string" where
  "form_char c = (let n = of_char c :: nat in
     if form_unreserved c then [c]
     else if n = 32 then ''+''
     else if n < 128 then percent_byte n
     else percent_byte (192 + n div 64) @ percent_byte (128 + n mod 64))"

definition form_text :: "(string \<times> string) list \<Rightarrow> string" where
  "form_text ps = join_with ''&'' (map (\<lambda>(k, v).
     concat (map form_char k) @ ''='' @ concat (map form_char v)) ps)"

definition event_query :: "kind \<Rightarrow> object \<Rightarrow> bool \<Rightarrow> (string \<times> string) list" where
  "event_query k resource existing_only =
     [(''dsync_id'', case getp resource ''id'' of None \<Rightarrow> [] | Some JNull \<Rightarrow> [] | Some v \<Rightarrow> js_text v)]
     @ (case string_value (getp resource ''idp_id'') of None \<Rightarrow> [] | Some i \<Rightarrow> [(''idp_id'', i)])
     @ (case event_name k resource of None \<Rightarrow> [] | Some n \<Rightarrow> [(unique_attribute k, n)])
     @ (if existing_only then [(''existing_only'', ''1'')] else [])
     @ (case string_value (getp (record_or_empty (getp resource ''raw_attributes'')) ''externalId'') of
          None \<Rightarrow> [] | Some x \<Rightarrow> [(''externalId'', x)])"

definition strategy_of :: "json option \<Rightarrow> strategy option option" where
  "strategy_of v = (case v of
       None \<Rightarrow> Some None
     | Some (JStr s) \<Rightarrow> if s = ''migrated-id'' then Some (Some MigratedId)
         else if s = ''fallback-post'' then Some (Some FallbackPost) else None
     | _ \<Rightarrow> None)"

text \<open>The answer of the bridge, checked field by field: native id, WorkOS id and strategy.\<close>

definition bridge_identity :: "directory \<Rightarrow> kind \<Rightarrow> object \<Rightarrow> object \<Rightarrow> (string \<times> string \<times> strategy option) option" where
  "bridge_identity d k resource mapping =
     (if getp mapping ''workos_directory_id'' = Some (json_or_null (workos_directory_id d))
         \<and> getp mapping ''resource_type'' = Some (JStr (kind_name k))
         \<and> strict_equal (getp mapping ''dsync_id'') (getp resource ''id'')
      then (case (string_value (getp mapping ''native_id''), string_value (getp mapping ''workos_scim_id''),
                  strategy_of (getp mapping ''strategy'')) of
          (Some n, Some wid, Some st) \<Rightarrow> Some (n, wid, st) | _ \<Rightarrow> None)
      else None)"

text \<open>\<open>INSERT ... SELECT ... WHERE NOT EXISTS (a conflicting row) ON CONFLICT DO NOTHING\<close>.\<close>

definition insert_verified :: "id_mapping \<Rightarrow> store \<Rightarrow> store" where
  "insert_verified m s =
     (if (\<exists>r \<in> set (id_mappings s). m_directory r = m_directory m \<and> m_kind r = m_kind m
            \<and> ((m_native r = m_native m \<and> m_workos r \<noteq> m_workos m)
               \<or> (m_workos r = m_workos m \<and> m_native r \<noteq> m_native m)))
         \<or> look_row mapping_key (mapping_key m) (id_mappings s) \<noteq> None then s
      else s\<lparr>id_mappings := id_mappings s @ [m]\<rparr>)"

definition read_owners :: "string \<Rightarrow> kind \<Rightarrow> string \<Rightarrow> string list m" where
  "read_owners d k wid = query (\<lambda>s. map m_native (take 2 (owners d k wid s)))"

definition learn_verified :: "directory \<Rightarrow> kind \<Rightarrow> object \<Rightarrow> string \<Rightarrow> string \<Rightarrow> strategy option \<Rightarrow> string m" where
  "learn_verified d k resource n wid st =
     (let conflict = throw (Failed ''Verified bridge identity conflicts with an existing local mapping'') in
      bnd (get_mapping (dir_id d) k n) (\<lambda>previous.
      bnd (read_owners (dir_id d) k wid) (\<lambda>before.
      if (case previous of None \<Rightarrow> False | Some m \<Rightarrow> m_workos m \<noteq> wid) \<or> (\<exists>x \<in> set before. x \<noteq> n)
      then conflict
      else thn (bind_event_link \<lparr>e_directory = dir_id d, e_kind = k,
             e_dsync = (case getp resource ''id'' of None \<Rightarrow> ''undefined'' | Some v \<Rightarrow> js_text v),
             e_native = n, e_workos = wid\<rparr>)
        (case st of
           None \<Rightarrow> ret n
         | Some strat \<Rightarrow> thn (execute (insert_verified (mapping_row d k n wid strat)))
             (bnd (get_mapping (dir_id d) k n) (\<lambda>by_native.
              bnd (read_owners (dir_id d) k wid) (\<lambda>after.
              if map_option m_workos by_native \<noteq> Some wid \<or> after \<noteq> [n] then conflict else ret n)))))))"

definition fetch_event_native_id :: "directory \<Rightarrow> kind \<Rightarrow> object \<Rightarrow> bool \<Rightarrow> string option m" where
  "fetch_event_native_id d k resource existing_only =
     bnd bridge_base (\<lambda>base. bnd (client_token_for (dir_id d)) (\<lambda>token.
     case (nonempty_or_none base, nonempty_or_none token) of
       (Some b, Some tk) \<Rightarrow>
         if \<not> existing_only \<and> (event_name k resource = None \<or> string_value (getp resource ''idp_id'') = None)
         then throw (Failed ''Event has no usable SCIM identity attributes'')
         else bnd (fetch (bridge_call (b @ ''/status/directories/'' @ encode_uri_component (dir_id d)
                @ ''/event-mapping/'' @ kind_name k @ ''?'' @ form_text (event_query k resource existing_only)) tk [])) (\<lambda>r.
           if \<not> is_success (u_status r) then
             throw (Failed (''Bridge event mapping resolver returned '' @ show_nat (u_status r)))
           else (case u_body r of
               Some (Doc v) \<Rightarrow> (case as_object (Some v) of
                   None \<Rightarrow> throw (Failed ''Bridge returned an invalid event mapping'')
                 | Some mapping \<Rightarrow> (case bridge_identity d k resource mapping of
                     None \<Rightarrow> throw (Failed ''Bridge returned an invalid event mapping'')
                   | Some (n, wid, st) \<Rightarrow> bnd (learn_verified d k resource n wid st) (\<lambda>i. ret (Some i))))
             | _ \<Rightarrow> throw (Failed ''Unexpected end of JSON input'')))
     | _ \<Rightarrow> throw (Failed ''Event has no authenticated bridge mapping resolver'')))"

end
