(* ===== verification/Listener.thy ===== *)
theory Listener
  imports StatusClient
begin

text \<open>
  The Directory Sync listener of the reference native app (\<open>workers/native/listener.ts\<close>): whether an
  event is applied at all, the guards against replayed and out-of-order events, and what each event
  does to the native tables.
\<close>

subsection \<open>Reading an event\<close>

text \<open>\<open>asString\<close> and \<open>asObject\<close> of the source are \<open>string_value\<close> and \<open>as_object\<close>.\<close>

definition email_entries :: "json option \<Rightarrow> object list" where
  "email_entries v = (case as_array v of None \<Rightarrow> []
     | Some vs \<Rightarrow> concat (map (\<lambda>x. case as_object (Some x) of None \<Rightarrow> [] | Some obj \<Rightarrow> [obj]) vs))"

definition is_primary :: "object \<Rightarrow> bool" where
  "is_primary entry \<longleftrightarrow> getp entry ''primary'' = Some (JBool True)"

definition head_opt :: "'a list \<Rightarrow> 'a option" where
  "head_opt xs = (case xs of [] \<Rightarrow> None | x # _ \<Rightarrow> Some x)"

definition primary_email :: "json option \<Rightarrow> string option" where
  "primary_email v = (let entries = email_entries v in
     case first_some [find is_primary entries, head_opt entries] of
       None \<Rightarrow> None | Some entry \<Rightarrow> string_value (getp entry ''value''))"

definition user_name_from_event :: "object \<Rightarrow> string option" where
  "user_name_from_event data = first_some
     [string_value (getp data ''username''),
      string_value (getp (record_or_empty (getp data ''custom_attributes'')) ''username''),
      primary_email (getp data ''emails''),
      string_value (getp data ''email'')]"

definition group_key_from_event :: "object \<Rightarrow> string option" where
  "group_key_from_event g = first_some
     [string_value (getp (record_or_empty (getp g ''raw_attributes'')) ''externalId''),
      string_value (getp g ''idp_id''), string_value (getp g ''name'')]"

subsection \<open>The scopes of an event\<close>

definition is_membership :: "string \<Rightarrow> bool" where
  "is_membership ty \<longleftrightarrow> ty = ''dsync.group.user_added'' \<or> ty = ''dsync.group.user_removed''"

definition scope_for :: "string \<Rightarrow> object \<Rightarrow> string option" where
  "scope_for ty data =
     (if starts_with ty ''dsync.user.'' then
        map_option (\<lambda>i. ''user:'' @ i) (string_value (getp data ''idp_id''))
      else if is_membership ty then
        (let user_key = (case as_object (getp data ''user'') of None \<Rightarrow> None
               | Some u \<Rightarrow> first_some [string_value (getp u ''idp_id''), primary_email (getp u ''emails'')]);
             group_key = (case as_object (getp data ''group'') of None \<Rightarrow> None | Some g \<Rightarrow> group_key_from_event g) in
         case (group_key, user_key) of
           (Some g, Some u) \<Rightarrow> Some (''member:'' @ g @ '':'' @ u)
         | _ \<Rightarrow> None)
      else if starts_with ty ''dsync.group.'' then
        map_option (\<lambda>k. ''group:'' @ k) (group_key_from_event data)
      else None)"

definition resource_of :: "object option \<Rightarrow> string option" where
  "resource_of obj = (case obj of None \<Rightarrow> None | Some ps \<Rightarrow> string_value (getp ps ''id''))"

definition real_id :: "kind \<Rightarrow> string option \<Rightarrow> string option" where
  "real_id k i = (case i of None \<Rightarrow> None | Some s \<Rightarrow> if starts_with s (dsync_prefix k) then Some s else None)"

text \<open>The user and the group an event speaks about.\<close>

definition event_users :: "string \<Rightarrow> object \<Rightarrow> object option" where
  "event_users ty data = (if is_membership ty then as_object (getp data ''user'')
     else if starts_with ty ''dsync.user.'' then Some data else None)"

definition event_groups :: "string \<Rightarrow> object \<Rightarrow> object option" where
  "event_groups ty data = (if is_membership ty then as_object (getp data ''group'')
     else if starts_with ty ''dsync.group.'' then Some data else None)"

definition stable_scope :: "string \<Rightarrow> string \<Rightarrow> string option \<Rightarrow> string option \<Rightarrow> string option" where
  "stable_scope d ty real_user real_group =
     (if is_membership ty then
        (case (real_user, real_group) of
           (Some u, Some g) \<Rightarrow> Some (''dsync-member:'' @ json_text (JArr [JStr d, JStr g, JStr u]))
         | _ \<Rightarrow> None)
      else (case real_user of
          Some u \<Rightarrow> Some (''dsync-resource:'' @ json_text (JArr [JStr d, JStr ''Users'', JStr u]))
        | None \<Rightarrow> (case real_group of
            Some g \<Rightarrow> Some (''dsync-resource:'' @ json_text (JArr [JStr d, JStr ''Groups'', JStr g]))
          | None \<Rightarrow> None)))"

text \<open>The native row an event's resource is linked to, if any, with the key it is known by now.\<close>

definition known_as :: "string \<Rightarrow> string option \<Rightarrow> object" where
  "known_as name external = [(''idp_id'', JStr (case external of None \<Rightarrow> name | Some x \<Rightarrow> x))]"

definition link_for :: "string \<Rightarrow> kind \<Rightarrow> string option \<Rightarrow> event_link option m" where
  "link_for d k i = (case i of None \<Rightarrow> ret None | Some x \<Rightarrow> get_event_link d k x)"

definition linked_user :: "event_link option \<Rightarrow> object option m" where
  "linked_user l = (case l of None \<Rightarrow> ret None
     | Some link \<Rightarrow> bnd (user_by_id NativeTables (e_native link)) (\<lambda>r.
         ret (map_option (\<lambda>u. known_as (ur_name u) (ur_external u)) r)))"

definition linked_group :: "event_link option \<Rightarrow> object option m" where
  "linked_group l = (case l of None \<Rightarrow> ret None
     | Some link \<Rightarrow> bnd (group_by_id NativeTables (e_native link)) (\<lambda>r.
         ret (map_option (\<lambda>g. known_as (gr_name g) (gr_external g)) r)))"

definition object_or_null :: "object option \<Rightarrow> json" where
  "object_or_null v = (case v of None \<Rightarrow> JNull | Some obj \<Rightarrow> JObj obj)"

definition current_scope :: "string \<Rightarrow> object \<Rightarrow> object option \<Rightarrow> object option \<Rightarrow> string option" where
  "current_scope ty data usr grp =
     (if is_membership ty then
        scope_for ty [(''user'', object_or_null (case usr of None \<Rightarrow> event_users ty data | Some u \<Rightarrow> Some u)),
                      (''group'', object_or_null (case grp of None \<Rightarrow> event_groups ty data | Some g \<Rightarrow> Some g))]
      else (case usr of
          Some u \<Rightarrow> scope_for ty u
        | None \<Rightarrow> (case grp of None \<Rightarrow> None | Some g \<Rightarrow> scope_for ty g)))"

definition event_scopes :: "string \<Rightarrow> string \<Rightarrow> object \<Rightarrow> string list m" where
  "event_scopes d ty data =
     (let real_user = real_id Users (resource_of (event_users ty data));
          real_group = real_id Groups (resource_of (event_groups ty data)) in
      bnd (link_for d Users real_user) (\<lambda>lu.
      bnd (link_for d Groups real_group) (\<lambda>lg.
      bnd (linked_user lu) (\<lambda>usr.
      bnd (linked_group lg) (\<lambda>grp.
        ret (present [scope_for ty data, stable_scope d ty real_user real_group,
          current_scope ty data usr grp]))))))"

subsection \<open>The ledgers\<close>

text \<open>Timestamps are compared as strings.\<close>

definition version_of :: "string \<Rightarrow> store \<Rightarrow> string option" where
  "version_of scope s = map_of (listener_versions s) scope"

definition bump_version :: "string \<Rightarrow> string \<Rightarrow> store \<Rightarrow> store" where
  "bump_version scope at s =
     (if (case version_of scope s of None \<Rightarrow> True | Some t \<Rightarrow> t < at)
      then s\<lparr>listener_versions := put_row fst (scope, at) (listener_versions s)\<rparr> else s)"

definition is_newest_event :: "string \<Rightarrow> string option \<Rightarrow> bool m" where
  "is_newest_event scope at = (case at of
       None \<Rightarrow> ret True
     | Some t \<Rightarrow> bnd (query (version_of scope)) (\<lambda>v.
         ret (case v of None \<Rightarrow> True | Some t' \<Rightarrow> t' \<le> t)))"

fun is_newest_across :: "string list \<Rightarrow> string option \<Rightarrow> bool m" where
  "is_newest_across [] at = ret True"
| "is_newest_across (sc # scs) at = bnd (is_newest_event sc at) (\<lambda>ok.
     if ok then is_newest_across scs at else ret False)"

definition record_event_version :: "string option \<Rightarrow> string \<Rightarrow> unit m" where
  "record_event_version at scope = (case at of None \<Rightarrow> ret () | Some t \<Rightarrow> execute (bump_version scope t))"

definition handled_before :: "string \<Rightarrow> store \<Rightarrow> bool" where
  "handled_before i s \<longleftrightarrow> (\<exists>v \<in> set (listener_events s). v_id v = Some i \<and> v_action v \<noteq> Ignored)"

definition is_duplicate :: "string \<Rightarrow> bool m" where
  "is_duplicate i = query (handled_before i)"

definition record_event ::
    "string option \<Rightarrow> string \<Rightarrow> string option \<Rightarrow> event_action \<Rightarrow> string \<Rightarrow> string option \<Rightarrow> unit m" where
  "record_event i ty idp act detail payload = execute (\<lambda>s. s\<lparr>listener_events := listener_events s
     @ [\<lparr>v_id = i, v_type = ty, v_idp = idp, v_action = act, v_detail = detail,
         v_payload = truncate_body payload\<rparr>]\<rparr>)"

subsection \<open>The instruction\<close>

record instruction =
  in_apply :: bool
  in_mode :: "string option"
  in_directory :: "string option"

definition apply_from_mode_fallback :: "json option \<Rightarrow> bool" where
  "apply_from_mode_fallback v \<longleftrightarrow> v = Some (JStr ''workos-only'')"

definition instruction_from :: "directory \<Rightarrow> json option \<Rightarrow> instruction" where
  "instruction_from d status =
     (if \<not> truthy status then
        \<lparr>in_apply = apply_from_mode_fallback (Some (JStr (mode_name (dir_mode d)))),
         in_mode = Some (mode_name (dir_mode d)), in_directory = Some (dir_id d)\<rparr>
      else
        let st = record_or_empty status; md = getp st ''mode'' in
        \<lparr>in_apply = (case getp st ''apply_dsync_events'' of
             None \<Rightarrow> apply_from_mode_fallback md
           | Some JNull \<Rightarrow> apply_from_mode_fallback md
           | Some v \<Rightarrow> truthy (Some v)),
         in_mode = (case md of None \<Rightarrow> None | Some JNull \<Rightarrow> None | Some v \<Rightarrow> Some (js_text v)),
         in_directory = Some (dir_id d)\<rparr>)"

definition event_directory :: "directory list \<Rightarrow> object \<Rightarrow> directory option" where
  "event_directory ds data =
     (let by_id = (case string_value (getp data ''directory_id'') of
            None \<Rightarrow> None
          | Some i \<Rightarrow> find (\<lambda>d. dir_id d = i \<or> workos_directory_id d = Some i) ds);
          lone = (case ds of [d] \<Rightarrow> if nonempty_or_none (workos_directory_id d) = None then Some d else None
                  | _ \<Rightarrow> None) in
      first_some [by_id, lone])"

definition dsync_instruction_for_event :: "object \<Rightarrow> instruction m" where
  "dsync_instruction_for_event data =
     bnd now (\<lambda>arrived.
     bnd list_directories (\<lambda>ds.
     case event_directory ds data of
       None \<Rightarrow> ret \<lparr>in_apply = False, in_mode = None, in_directory = None\<rparr>
     | Some d \<Rightarrow>
         bnd (fetch_directory_status d None) (\<lambda>status.
         if in_apply (instruction_from d status) then ret (instruction_from d status)
         else bnd (fetch_directory_status d (Some arrived)) (\<lambda>confirmed.
           ret (instruction_from d confirmed)))))"

end
