(* ===== verification/ListenerApply.thy ===== *)
theory ListenerApply
  imports Listener
begin

text \<open>
  What each Directory Sync event does to the native tables, and the processing of one event or one
  webhook delivery around it (\<open>workers/native/listener.ts\<close>).
\<close>

record event_outcome =
  o_action :: event_action
  o_detail :: string
  o_idp :: "string option"

abbreviation outcome_of :: "event_action \<Rightarrow> string \<Rightarrow> string option \<Rightarrow> event_outcome" where
  "outcome_of a s i \<equiv> \<lparr>o_action = a, o_detail = s, o_idp = i\<rparr>"

definition quoted :: "string \<Rightarrow> string" where
  "quoted s = [dquote] @ s @ [dquote]"

subsection \<open>The resources an event leaves behind\<close>

definition user_schema :: string where "user_schema = ''urn:ietf:params:scim:core:2.0:User''"
definition group_schema :: string where "group_schema = ''urn:ietf:params:scim:core:2.0:Group''"

definition schemas_of :: "object \<Rightarrow> string \<Rightarrow> json" where
  "schemas_of base schema = (case as_array (getp base ''schemas'') of
       Some (v # vs) \<Rightarrow> JArr (v # vs) | _ \<Rightarrow> JArr [JStr schema])"

definition meta_of :: "object \<Rightarrow> string \<Rightarrow> json" where
  "meta_of base type = JObj (set_prop ''resourceType'' (JStr type) (record_or_empty (getp base ''meta'')))"

text \<open>The index of the stored primary address.\<close>

fun index_of :: "('a \<Rightarrow> bool) \<Rightarrow> 'a list \<Rightarrow> nat option" where
  "index_of P [] = None"
| "index_of P (x # xs) = (if P x then Some 0 else map_option Suc (index_of P xs))"

definition emails_from_event :: "object \<Rightarrow> json option \<Rightarrow> object list option" where
  "emails_from_event data base =
     (let from_event = email_entries (getp data ''emails'') in
      if from_event \<noteq> [] then Some from_event
      else (case string_value (getp data ''email'') of
          None \<Rightarrow> None
        | Some email \<Rightarrow>
            let stored = email_entries base;
                is_mail = (\<lambda>en. string_value (getp en ''value'') = Some email);
                p = (case index_of is_primary stored of None \<Rightarrow> 0 | Some i \<Rightarrow> i);
                others = take p stored @ drop (Suc p) stored;
                start = (case find is_mail stored of
                    Some en \<Rightarrow> en
                  | None \<Rightarrow> if p < length stored then stored ! p else []) in
            Some (set_prop ''primary'' (JBool True) (set_prop ''value'' (JStr email) start)
              # filter (\<lambda>en. \<not> is_mail en) others)))"

definition name_from_event :: "object \<Rightarrow> object \<Rightarrow> object option" where
  "name_from_event data base =
     (let given = string_value (getp data ''first_name''); family = string_value (getp data ''last_name'');
          add = (\<lambda>k v obj. case v of None \<Rightarrow> obj | Some s \<Rightarrow> set_prop k (JStr s) obj) in
      if given = None \<and> family = None then None
      else Some (add ''familyName'' family (add ''givenName'' given (record_or_empty (getp base ''name'')))))"

definition user_resource_from_event ::
    "string \<Rightarrow> string option \<Rightarrow> string \<Rightarrow> bool \<Rightarrow> object \<Rightarrow> object \<Rightarrow> object" where
  "user_resource_from_event i idp name active data base =
     (let r0 = set_prop ''meta'' (meta_of base ''User'') (set_prop ''active'' (JBool active)
           (set_prop ''externalId'' (json_or_null idp) (set_prop ''userName'' (JStr name)
           (set_prop ''id'' (JStr i) (set_prop ''schemas'' (schemas_of base user_schema) base)))));
          r1 = (case name_from_event data base of None \<Rightarrow> r0 | Some n \<Rightarrow> set_prop ''name'' (JObj n) r0) in
      case emails_from_event data (getp base ''emails'') of
        None \<Rightarrow> r1 | Some es \<Rightarrow> set_prop ''emails'' (JArr (map JObj es)) r1)"

definition group_resource_from_event :: "string \<Rightarrow> string option \<Rightarrow> string \<Rightarrow> object \<Rightarrow> object" where
  "group_resource_from_event i idp name base =
     set_prop ''meta'' (meta_of base ''Group'') (set_prop ''externalId'' (json_or_null idp)
       (set_prop ''displayName'' (JStr name) (set_prop ''id'' (JStr i)
       (set_prop ''schemas'' (schemas_of base group_schema) base))))"

definition parse_resource :: "payload \<Rightarrow> object" where
  "parse_resource p = (case parse_json (Some p) of None \<Rightarrow> [] | Some obj \<Rightarrow> obj)"

subsection \<open>Which row an event addresses\<close>

definition native_resource_of :: "kind \<Rightarrow> string \<Rightarrow> object option m" where
  "native_resource_of k i = (case k of
       Users \<Rightarrow> bnd (user_by_id NativeTables i) (\<lambda>r. ret (map_option (\<lambda>u.
         [(''userName'', JStr (ur_name u)), (''externalId'', json_or_null (ur_external u))]) r))
     | Groups \<Rightarrow> bnd (group_by_id NativeTables i) (\<lambda>r. ret (map_option (\<lambda>g.
         [(''displayName'', JStr (gr_name g)), (''externalId'', json_or_null (gr_external g))]) r)))"

text \<open>The rows of this directory that carry the event's external id or name.\<close>

definition stored_rows :: "string \<Rightarrow> kind \<Rightarrow> string option \<Rightarrow> string option \<Rightarrow> store \<Rightarrow> (string \<times> object) list" where
  "stored_rows d k external name s =
     (let mapped = (\<lambda>i. mapping_of d k i s \<noteq> None);
          hit = (\<lambda>x n. (external \<noteq> None \<and> x = external) \<or> name = Some n) in
      case k of
        Users \<Rightarrow> map (\<lambda>u. (ur_id u, [(''externalId'', json_or_null (ur_external u)), (''userName'', JStr (ur_name u))]))
          (filter (\<lambda>u. mapped (ur_id u) \<and> hit (ur_external u) (ur_name u)) (t_users (native_tables s)))
      | Groups \<Rightarrow> map (\<lambda>g. (gr_id g, [(''externalId'', json_or_null (gr_external g)), (''displayName'', JStr (gr_name g))]))
          (filter (\<lambda>g. mapped (gr_id g) \<and> hit (gr_external g) (gr_name g)) (t_groups (native_tables s))))"

definition ask_bridge :: "string \<Rightarrow> kind \<Rightarrow> object \<Rightarrow> bool \<Rightarrow> string option m" where
  "ask_bridge d k resource allow = bnd (get_directory_by_id d) (\<lambda>dir. case dir of
       None \<Rightarrow> throw (Failed ''Event directory no longer exists'')
     | Some directory \<Rightarrow> fetch_event_native_id directory k resource allow)"

definition resolve_native_event_id :: "string \<Rightarrow> kind \<Rightarrow> object \<Rightarrow> bool \<Rightarrow> string option m" where
  "resolve_native_event_id d k resource allow =
     (let external = first_some
           [string_value (getp (record_or_empty (getp resource ''raw_attributes'')) ''externalId''),
            string_value (getp resource ''idp_id'')] in
      native_id_for_event d k resource
        \<lparr>native_resource = native_resource_of k,
         stored_identities = query (stored_rows d k external (event_name k resource)),
         remote_mapping = Some (ask_bridge d k resource allow), allow_absent = allow\<rparr>)"

definition find_user :: "string option \<Rightarrow> string option \<Rightarrow> string option \<Rightarrow> user_row option m" where
  "find_user idp name native = (case nonempty_or_none native of
       Some i \<Rightarrow> user_by_id NativeTables i
     | None \<Rightarrow>
         bnd (case nonempty_or_none idp of None \<Rightarrow> ret None | Some x \<Rightarrow> user_by_external_id NativeTables x) (\<lambda>r.
         case r of
           Some u \<Rightarrow> ret (Some u)
         | None \<Rightarrow> (case nonempty_or_none name of None \<Rightarrow> ret None | Some n \<Rightarrow> user_by_user_name NativeTables n)))"

definition find_group :: "string option \<Rightarrow> string option \<Rightarrow> string option \<Rightarrow> group_row option m" where
  "find_group idp name native = (case nonempty_or_none native of
       Some i \<Rightarrow> group_by_id NativeTables i
     | None \<Rightarrow>
         bnd (case nonempty_or_none idp of None \<Rightarrow> ret None | Some x \<Rightarrow> group_by_external_id NativeTables x) (\<lambda>r.
         case r of
           Some g \<Rightarrow> ret (Some g)
         | None \<Rightarrow> (case nonempty_or_none name of None \<Rightarrow> ret None | Some n \<Rightarrow> group_by_display_name NativeTables n)))"

subsection \<open>Users\<close>

text \<open>A row that changes hands loses the previous occupant's memberships; a row without an external id
  is the stub of this very user.\<close>

definition changes_hands :: "user_row \<Rightarrow> string \<Rightarrow> bool" where
  "changes_hands u idp \<longleftrightarrow> ur_external u \<noteq> None \<and> ur_external u \<noteq> Some idp"

definition upsert_user_from_event :: "object \<Rightarrow> string \<Rightarrow> event_outcome m" where
  "upsert_user_from_event data d = (case string_value (getp data ''idp_id'') of
       None \<Rightarrow> ret (outcome_of Ignored ''user event carries no idp_id'' None)
     | Some idp \<Rightarrow>
         let name = (case user_name_from_event data of None \<Rightarrow> idp | Some n \<Rightarrow> n);
             active = (getp data ''state'' = Some (JStr ''active'')) in
         bnd (resolve_native_event_id d Users data (\<not> active)) (\<lambda>native.
         bnd (find_user (Some idp) (Some name) native) (\<lambda>existing.
         case existing of
           None \<Rightarrow>
             bnd (from_res (id_for_new_event_resource data native idp)) (\<lambda>i.
             thn (upsert_user NativeTables \<lparr>ui_id = i, ui_name = name, ui_external = Some idp, ui_active = active,
                    ui_resource = user_resource_from_event i (Some idp) name active data []\<rparr>)
               (ret (outcome_of Applied (if active then ''onboard()'' else ''provisioned inactive'') (Some idp))))
         | Some u \<Rightarrow>
             let resource = user_resource_from_event (ur_id u) (Some idp) name active data (parse_resource (ur_resource u)) in
             if ur_active u = active \<and> ur_name u = name \<and> ur_external u = Some idp
                \<and> ur_resource u = Doc (JObj resource)
             then ret (outcome_of Skipped ''no transition'' (Some idp))
             else
               thn (if changes_hands u idp then bnd (clear_memberships NativeTables (ur_id u)) (\<lambda>_. ret ()) else ret ())
               (thn (upsert_user NativeTables \<lparr>ui_id = ur_id u, ui_name = name, ui_external = Some idp,
                       ui_active = active, ui_resource = resource\<rparr>)
                 (ret (outcome_of Applied
                   ((if \<not> ur_active u \<and> active then ''onboard()''
                     else if ur_active u \<and> \<not> active then ''offboard()'' else ''attributes updated'')
                    @ (if changes_hands u idp then ''; inherited memberships cleared'' else []))
                   (Some idp)))))))"

definition delete_user_from_event :: "object \<Rightarrow> string \<Rightarrow> event_outcome m" where
  "delete_user_from_event data d = (case string_value (getp data ''idp_id'') of
       None \<Rightarrow> ret (outcome_of Ignored ''user event carries no idp_id'' None)
     | Some idp \<Rightarrow>
         bnd (resolve_native_event_id d Users data True) (\<lambda>native.
         bnd (find_user (Some idp) (user_name_from_event data) native) (\<lambda>existing.
         case existing of
           None \<Rightarrow> ret (outcome_of Skipped ''no-op: user already absent'' (Some idp))
         | Some u \<Rightarrow>
             bnd (get_config ''native.delete_policy'') (\<lambda>policy.
             if policy = Some ''hard'' then
               bnd (delete_user NativeTables (ur_id u)) (\<lambda>_.
                 ret (outcome_of Applied ''offboard() -- hard-deleted'' (Some idp)))
             else
               thn (upsert_user NativeTables \<lparr>ui_id = ur_id u, ui_name = ur_name u, ui_external = Some idp,
                      ui_active = False,
                      ui_resource = user_resource_from_event (ur_id u) (Some idp) (ur_name u) False data
                        (parse_resource (ur_resource u))\<rparr>)
                 (ret (outcome_of Applied ''offboard() -- deactivated in place'' (Some idp)))))))"

subsection \<open>Groups\<close>

definition upsert_group_from_event :: "object \<Rightarrow> string \<Rightarrow> event_outcome m" where
  "upsert_group_from_event data d = (case group_key_from_event data of
       None \<Rightarrow> ret (outcome_of Ignored ''group event carries no key'' None)
     | Some idp \<Rightarrow>
         let name = string_value (getp data ''name'') in
         bnd (resolve_native_event_id d Groups data False) (\<lambda>native.
         bnd (find_group (Some idp) name native) (\<lambda>existing.
         case existing of
           None \<Rightarrow> (case name of
               None \<Rightarrow> ret (outcome_of Ignored ''group event carries no name'' (Some idp))
             | Some n \<Rightarrow>
                 bnd (from_res (id_for_new_event_resource data native idp)) (\<lambda>i.
                 thn (upsert_group NativeTables \<lparr>gi_id = i, gi_name = n, gi_external = Some idp,
                        gi_resource = group_resource_from_event i (Some idp) n []\<rparr>)
                   (ret (outcome_of Applied (''group '' @ quoted n @ '' created'') (Some idp)))))
         | Some g \<Rightarrow>
             let shown = (case name of None \<Rightarrow> gr_name g | Some n \<Rightarrow> n) in
             if gr_name g = shown \<and> gr_external g = Some idp
             then ret (outcome_of Skipped ''no transition'' (Some idp))
             else
               thn (upsert_group NativeTables \<lparr>gi_id = gr_id g, gi_name = shown, gi_external = Some idp,
                      gi_resource = group_resource_from_event (gr_id g) (Some idp) shown (parse_resource (gr_resource g))\<rparr>)
                 (ret (outcome_of Applied (if gr_name g \<noteq> shown then ''renamed to '' @ quoted shown
                    else ''attributes updated'') (Some idp))))))"

definition delete_group_from_event :: "object \<Rightarrow> string \<Rightarrow> event_outcome m" where
  "delete_group_from_event data d = (case group_key_from_event data of
       None \<Rightarrow> ret (outcome_of Ignored ''group event carries no key'' None)
     | Some idp \<Rightarrow>
         bnd (resolve_native_event_id d Groups data True) (\<lambda>native.
         bnd (find_group (Some idp) (string_value (getp data ''name'')) native) (\<lambda>existing.
         case existing of
           None \<Rightarrow> ret (outcome_of Skipped ''no-op: group already absent'' (Some idp))
         | Some g \<Rightarrow> bnd (delete_group NativeTables (gr_id g)) (\<lambda>_.
             ret (outcome_of Applied (''group '' @ quoted (gr_name g) @ '' removed; its users retained'') (Some idp))))))"

subsection \<open>Memberships\<close>

text \<open>\<open>idpId ?? crypto.randomUUID()\<close>.\<close>

definition id_or_uuid :: "string option \<Rightarrow> string m" where
  "id_or_uuid i = (case i of Some x \<Rightarrow> ret x | None \<Rightarrow> random_uuid)"

definition or_empty :: "string option list \<Rightarrow> string" where
  "or_empty xs = (case first_some xs of None \<Rightarrow> [] | Some s \<Rightarrow> s)"

text \<open>The rows a membership event names, and the ids of the stubs for those that are missing.\<close>

record membership =
  mb_user_data :: object
  mb_group_data :: object
  mb_user_idp :: "string option"
  mb_user_name :: string
  mb_group_idp :: "string option"
  mb_group_name :: "string option"
  mb_idp :: "string option"

definition read_membership :: "object \<Rightarrow> event_outcome + membership" where
  "read_membership data = (case (as_object (getp data ''user''), as_object (getp data ''group'')) of
       (Some u, Some g) \<Rightarrow>
         let user_idp = string_value (getp u ''idp_id''); group_idp = group_key_from_event g;
             group_name = string_value (getp g ''name'') in
         (case first_some [user_name_from_event u, user_idp] of
            None \<Rightarrow> Inl (outcome_of Ignored ''membership event user has no usable key'' None)
          | Some name \<Rightarrow>
              if group_idp = None \<and> group_name = None
              then Inl (outcome_of Ignored ''membership event group has no usable key'' user_idp)
              else Inr \<lparr>mb_user_data = u, mb_group_data = g, mb_user_idp = user_idp, mb_user_name = name,
                     mb_group_idp = group_idp, mb_group_name = group_name,
                     mb_idp = first_some [user_idp, group_idp]\<rparr>)
     | _ \<Rightarrow> Inl (outcome_of Ignored ''membership event carries no user or group'' None))"

definition stub_user :: "membership \<Rightarrow> string \<Rightarrow> bool \<Rightarrow> user_input" where
  "stub_user mb i active = \<lparr>ui_id = i, ui_name = mb_user_name mb, ui_external = mb_user_idp mb, ui_active = active,
     ui_resource = user_resource_from_event i (mb_user_idp mb) (mb_user_name mb) active (mb_user_data mb) []\<rparr>"

definition stub_group :: "membership \<Rightarrow> string \<Rightarrow> string \<Rightarrow> group_input" where
  "stub_group mb i name = \<lparr>gi_id = i, gi_name = name, gi_external = mb_group_idp mb,
     gi_resource = group_resource_from_event i (mb_group_idp mb) name []\<rparr>"

definition stub_note :: "nat \<Rightarrow> string" where
  "stub_note n = (if 0 < n then '' ('' @ show_nat n @ '' stub row'' @ (if 1 < n then ''s'' else []) @ '' created)'' else [])"

text \<open>The change of the edge, once both rows exist.\<close>

definition change_edge :: "membership \<Rightarrow> bool \<Rightarrow> string \<Rightarrow> string \<Rightarrow> string \<Rightarrow> nat \<Rightarrow> bool \<Rightarrow> event_outcome m" where
  "change_edge mb add gid uid label stubs onboarded =
     (if add then
        bnd (add_member NativeTables gid uid) (\<lambda>added. ret (if added
          then outcome_of Applied (''added '' @ mb_user_name mb @ '' to '' @ quoted label @ stub_note stubs
                 @ (if onboarded then ''; onboard()'' else [])) (mb_idp mb)
          else outcome_of Skipped ''no-op: membership edge already present'' (mb_idp mb)))
      else
        bnd (remove_member NativeTables gid uid) (\<lambda>removed. ret (if removed
          then outcome_of Applied (''removed '' @ mb_user_name mb @ '' from '' @ quoted label) (mb_idp mb)
          else outcome_of Skipped ''no-op: membership edge not present'' (mb_idp mb))))"

definition with_group :: "membership \<Rightarrow> bool \<Rightarrow> group_row option \<Rightarrow> string \<Rightarrow> string \<Rightarrow> nat \<Rightarrow> bool \<Rightarrow> event_outcome m" where
  "with_group mb add grp new_gid uid stubs onboarded = (case grp of
       Some g \<Rightarrow> change_edge mb add (gr_id g) uid (gr_name g) stubs onboarded
     | None \<Rightarrow>
         let name = (case first_some [mb_group_name mb, mb_group_idp mb] of None \<Rightarrow> ''unknown group'' | Some n \<Rightarrow> n) in
         thn (upsert_group NativeTables (stub_group mb new_gid name))
           (change_edge mb add new_gid uid name (Suc stubs) onboarded))"

definition with_user ::
    "membership \<Rightarrow> bool \<Rightarrow> string option \<Rightarrow> string \<Rightarrow> user_row option \<Rightarrow> string \<Rightarrow> group_row option \<Rightarrow> string
      \<Rightarrow> event_outcome m" where
  "with_user mb add at d usr new_uid grp new_gid = (case usr of
       Some u \<Rightarrow> with_group mb add grp new_gid (ur_id u) 0 False
     | None \<Rightarrow>
         bnd (bnd (event_scopes d ''dsync.user.updated'' (mb_user_data mb)) (\<lambda>scs. is_newest_across scs at)) (\<lambda>newest.
         if \<not> newest then
           ret (outcome_of Skipped (''no-op: '' @ mb_user_name mb
             @ '' was removed by a newer event; not resurrecting via stale membership'') (mb_idp mb))
         else
           let state = getp (mb_user_data mb) ''state'';
               active = (state = None \<or> state = Some (JStr ''active'')) in
           thn (upsert_user NativeTables (stub_user mb new_uid active))
             (with_group mb add grp new_gid new_uid 1 active)))"

definition change_membership :: "object \<Rightarrow> bool \<Rightarrow> string option \<Rightarrow> string \<Rightarrow> event_outcome m" where
  "change_membership data add at d = (case read_membership data of
       Inl out \<Rightarrow> ret out
     | Inr mb \<Rightarrow>
         bnd (resolve_native_event_id d Users (mb_user_data mb) (\<not> add)) (\<lambda>nu.
         bnd (resolve_native_event_id d Groups (mb_group_data mb) (\<not> add)) (\<lambda>ng.
         bnd (find_user (mb_user_idp mb) (Some (mb_user_name mb)) nu) (\<lambda>usr.
         if usr = None \<and> \<not> add then ret (outcome_of Skipped ''no-op: user not present'' (mb_idp mb))
         else
         bnd (find_group (mb_group_idp mb) (mb_group_name mb) ng) (\<lambda>grp.
         if grp = None \<and> \<not> add then ret (outcome_of Skipped ''no-op: group not present'' (mb_idp mb))
         else
         bnd (if grp \<noteq> None then ret True
              else bnd (event_scopes d ''dsync.group.updated'' (mb_group_data mb)) (\<lambda>scs. is_newest_across scs at)) (\<lambda>newest.
         if \<not> newest then
           ret (outcome_of Skipped (''no-op: group '' @ quoted (or_empty [mb_group_name mb, mb_group_idp mb])
             @ '' was removed by a newer event; not resurrecting'') (mb_idp mb))
         else
         bnd (if usr \<noteq> None then ret []
              else bnd (id_or_uuid (mb_user_idp mb)) (\<lambda>f. from_res (id_for_new_event_resource (mb_user_data mb) nu f))) (\<lambda>new_uid.
         bnd (if grp \<noteq> None then ret []
              else bnd (id_or_uuid (mb_group_idp mb)) (\<lambda>f. from_res (id_for_new_event_resource (mb_group_data mb) ng f))) (\<lambda>new_gid.
           with_user mb add at d usr new_uid grp new_gid))))))))"

subsection \<open>One event\<close>

definition apply_event :: "string \<Rightarrow> object \<Rightarrow> string option \<Rightarrow> string \<Rightarrow> event_outcome m" where
  "apply_event ty data at d =
     (if ty = ''dsync.user.created'' \<or> ty = ''dsync.user.updated'' then upsert_user_from_event data d
      else if ty = ''dsync.user.deleted'' then delete_user_from_event data d
      else if ty = ''dsync.group.created'' \<or> ty = ''dsync.group.updated'' then upsert_group_from_event data d
      else if ty = ''dsync.group.deleted'' then delete_group_from_event data d
      else if ty = ''dsync.group.user_added'' then change_membership data True at d
      else if ty = ''dsync.group.user_removed'' then change_membership data False at d
      else if ty = ''dsync.activated'' then
        ret (outcome_of Ignored ''directory activated; informational, no per-user work'' None)
      else if ty = ''dsync.deleted'' then
        ret (outcome_of Ignored ''directory deleted; flagged for review, users retained'' None)
      else if starts_with ty ''dsync.token.'' then
        ret (outcome_of Ignored ''sync credential lifecycle; not directory data'' None)
      else ret (outcome_of Ignored (''no handler for event type '' @ ty) None))"

definition dispatch_event :: "string \<Rightarrow> object \<Rightarrow> string option \<Rightarrow> string \<Rightarrow> event_outcome m" where
  "dispatch_event ty data at d =
     bnd (event_scopes d ty data) (\<lambda>scs.
     bnd (is_newest_across scs at) (\<lambda>newest.
     if \<not> newest then
       ret (outcome_of Skipped ''superseded by a newer event (out-of-order delivery)''
         (string_value (getp data ''idp_id'')))
     else bnd (apply_event ty data at d) (\<lambda>out.
       thn (each (record_event_version at) scs) (ret out))))"

record processed_event =
  pe_action :: event_action
  pe_error :: bool

definition inert_detail :: "instruction \<Rightarrow> string" where
  "inert_detail i = ''listener inactive in '' @ (case in_mode i of None \<Rightarrow> ''pre-cutover'' | Some md \<Rightarrow> md)
     @ '' mode -- the proxy writes the native app directly until cutover''"

text \<open>An event that may be applied: the duplicate check, the dispatch, and what is recorded of it.\<close>

definition handle_event ::
    "string \<Rightarrow> string option \<Rightarrow> string option \<Rightarrow> object \<Rightarrow> string option \<Rightarrow> bool \<Rightarrow> string
      \<Rightarrow> processed_event m" where
  "handle_event ty i at data payload record_error d =
     bnd (case i of None \<Rightarrow> ret False | Some x \<Rightarrow> is_duplicate x) (\<lambda>dup.
     bnd (if dup then ret (outcome_of Skipped ''duplicate delivery'' (string_value (getp data ''idp_id'')), False)
          else bnd (settle (dispatch_event ty data at d)) (\<lambda>r. case r of
              Inr out \<Rightarrow> ret (out, False)
            | Inl er \<Rightarrow> ret (outcome_of Ignored ((case i of
                  Some x \<Rightarrow> ''handler error (event '' @ x @ ''): '' | None \<Rightarrow> ''handler error: '')
                @ error_message er) None, True))) (\<lambda>(out, failed).
     thn (if \<not> failed \<or> record_error
          then record_event (if failed then None else i) ty (o_idp out) (o_action out) (o_detail out) payload
          else ret ())
       (ret \<lparr>pe_action = o_action out, pe_error = failed\<rparr>)))"

text \<open>An event the listener must not apply: its versions are recorded, nothing else.\<close>

definition ignore_event ::
    "string \<Rightarrow> string option \<Rightarrow> string option \<Rightarrow> object \<Rightarrow> string option \<Rightarrow> instruction \<Rightarrow> processed_event m" where
  "ignore_event ty i at data payload ins =
     bnd (case nonempty_or_none (in_directory ins) of
            Some d \<Rightarrow> event_scopes d ty data
          | None \<Rightarrow> ret (present [scope_for ty data])) (\<lambda>scs.
     thn (each (record_event_version at) scs)
     (thn (record_event i ty (string_value (getp data ''idp_id'')) Ignored (inert_detail ins) payload)
       (ret \<lparr>pe_action = Ignored, pe_error = False\<rparr>)))"

definition process_dsync_event :: "object option \<Rightarrow> string option \<Rightarrow> bool \<Rightarrow> processed_event m" where
  "process_dsync_event envelope raw record_error =
     (let payload = Some (case raw of Some s \<Rightarrow> s | None \<Rightarrow> json_text (object_or_null envelope)) in
      case (case envelope of None \<Rightarrow> None
            | Some ev \<Rightarrow> map_option (Pair ev) (string_value (getp ev ''event''))) of
        None \<Rightarrow> thn (record_event None ''unknown'' None Ignored ''payload is not a WorkOS webhook envelope'' payload)
          (ret \<lparr>pe_action = Ignored, pe_error = False\<rparr>)
      | Some (ev, ty) \<Rightarrow>
          let i = string_value (getp ev ''id''); at = string_value (getp ev ''created_at'');
              data = record_or_empty (getp ev ''data'') in
          bnd (dsync_instruction_for_event data) (\<lambda>ins.
          if \<not> in_apply ins then ignore_event ty i at data payload ins
          else handle_event ty i at data payload record_error (the (in_directory ins))))"

subsection \<open>The webhook\<close>

definition signature_tolerance_ms :: int where "signature_tolerance_ms = 5 * 60 * 1000"

datatype signature_result = Valid | Invalid | Stale

definition is_hex :: "char \<Rightarrow> bool" where "is_hex c \<longleftrightarrow> hex_val c \<noteq> None"

text \<open>\<open>t=(\d+)\s*,\s*v1=([0-9a-fA-F]+)\<close> at the start of the text, and its first match anywhere.\<close>

definition match_signature_here :: "string \<Rightarrow> (string \<times> string) option" where
  "match_signature_here s =
     (if \<not> starts_with s ''t='' then None
      else let t = takeWhile is_digit (drop 2 s); r = trim_start (dropWhile is_digit (drop 2 s)) in
        if t = [] then None
        else (case r of
            c # r' \<Rightarrow>
              let v = trim_start r' in
              if c = CHR '','' \<and> starts_with v ''v1='' \<and> takeWhile is_hex (drop 3 v) \<noteq> []
              then Some (t, takeWhile is_hex (drop 3 v)) else None
          | [] \<Rightarrow> None))"

fun match_signature :: "string \<Rightarrow> (string \<times> string) option" where
  "match_signature [] = None"
| "match_signature (c # s) = (case match_signature_here (c # s) of
     Some r \<Rightarrow> Some r | None \<Rightarrow> match_signature s)"

definition verify_signature :: "string \<Rightarrow> string option \<Rightarrow> string \<Rightarrow> int \<Rightarrow> env \<Rightarrow> signature_result" where
  "verify_signature secret header body t e = (case header of
       None \<Rightarrow> Invalid
     | Some h \<Rightarrow> (case match_signature h of
         None \<Rightarrow> Invalid
       | Some (ts, v1) \<Rightarrow>
           if \<not> timing_safe_equal (hmac_hex e secret (ts @ ''.'' @ body)) (to_lower v1) then Invalid
           else if \<bar>t - int (digits_val ts)\<bar> \<le> signature_tolerance_ms then Valid else Stale))"

definition webhook_refusal :: "signature_result \<Rightarrow> response" where
  "webhook_refusal r = json_reply 401
     [(''received'', JBool False),
      (''error'', JStr (if r = Stale
        then ''Webhook timestamp is outside the 5 minute tolerance window -- check this host's clock.''
        else ''Webhook signature verification failed.''))] []"

definition webhook_answer :: "processed_event \<Rightarrow> response" where
  "webhook_answer p = (if pe_error p
     then json_reply 503 [(''received'', JBool False),
       (''error'', JStr ''Directory Sync event could not be applied; retry required'')] [(''Retry-After'', ''5'')]
     else json_reply 200 [(''received'', JBool True)] [])"

definition handle_dsync_webhook :: "string \<Rightarrow> string option \<Rightarrow> response m" where
  "handle_dsync_webhook body signature =
     bnd (get_config ''native.webhook_secret'') (\<lambda>cfg.
     let secret = (case cfg of None \<Rightarrow> [] | Some s \<Rightarrow> s);
         accept = bnd (process_dsync_event (as_object (read_json body)) (Some body) True) (\<lambda>p. ret (webhook_answer p)) in
     if secret = [] then accept
     else bnd now (\<lambda>t. bnd (asks (verify_signature secret signature body t)) (\<lambda>r.
       if r \<noteq> Valid then ret (webhook_refusal r) else accept)))"

end
