(* ===== verification/ListenerLaws.thy ===== *)
theory ListenerLaws
  imports ListenerApply ReconcileLaws
begin

text \<open>
  What the listener keeps, whatever an event says and however the datastore fails: the contracts of its
  parts as locales, and their instances.
\<close>

subsection \<open>Frames\<close>

text \<open>Finding out what an event is about may learn an identity, nothing else.\<close>

locale lookup_frame = store_frame S for S :: "store \<Rightarrow> store \<Rightarrow> bool" +
  assumes S_link: "S s (insert_link l s)"
    and S_learn: "S s (insert_verified m s)"
begin

lemma look_bind [eff]: "pres (on_db S) e (bind_event_link l)"
  unfolding bind_event_link_def get_event_link_def by (intro eff pres_execute S_link)

lemma look_rows [eff]:
  "pres (on_db S) e (get_mapping d k n)" "pres (on_db S) e (get_mapping_by_workos_id d k n)"
  "pres (on_db S) e (get_event_link d k n)" "pres (on_db S) e (get_config c)"
  "pres (on_db S) e (user_by_id ts n)" "pres (on_db S) e (group_by_id ts n)"
  "pres (on_db S) e (user_by_external_id ts n)" "pres (on_db S) e (group_by_external_id ts n)"
  "pres (on_db S) e (user_by_user_name ts n)" "pres (on_db S) e (group_by_display_name ts n)"
  "pres (on_db S) e (read_owners d k n)"
  unfolding get_mapping_def get_mapping_by_workos_id_def get_event_link_def get_config_def user_by_id_def
    group_by_id_def user_by_external_id_def group_by_external_id_def user_by_user_name_def
    group_by_display_name_def read_owners_def
  by (intro eff)+

lemma look_basic [eff]: "pres (on_db S) e (from_res r)" "pres (on_db S) e (join_scim_url base path)"
  "pres (on_db S) e (plain_fetch sd u meth tok b)"
  unfolding from_res_def join_scim_url_def plain_fetch_def scim_fetch_def by (intro eff)+

lemma look_directories [eff]:
  "pres (on_db S) e list_directories" "pres (on_db S) e (get_directory_by_id i)"
proof -
  have [eff]: "pres (on_db S) e (decrypt_secret x)" for x
    unfolding decrypt_secret_def Let_def by (intro eff)
  have [eff]: "pres (on_db S) e (decrypt_directory x)" for x
    unfolding decrypt_directory_def Let_def by (intro eff)
  have [eff]: "pres (on_db S) e (decrypt_all ds)" for ds
    by (induction ds) (auto intro!: eff)
  show "pres (on_db S) e list_directories" "pres (on_db S) e (get_directory_by_id i)"
    unfolding list_directories_def get_directory_by_id_def by (intro eff)+
qed

lemma look_bridge [eff]:
  "pres (on_db S) e bridge_base" "pres (on_db S) e (client_token_for d)"
  "pres (on_db S) e (fetch_directory_status dir since)"
proof -
  show [eff]: "pres (on_db S) e bridge_base" "pres (on_db S) e (client_token_for d)" for d
    unfolding bridge_base_def client_token_for_def by (intro eff)+
  have [eff]: "pres (on_db S) e (ask_origin d t cached stale c)" for d t cached stale c
    unfolding ask_origin_def remember_status_def back_off_def
    by (intro eff; auto split: payload.split intro!: eff)
  show "pres (on_db S) e (fetch_directory_status dir since)"
    unfolding fetch_directory_status_def Let_def by (intro eff)
qed

lemma look_event_id [eff]: "pres (on_db S) e (fetch_event_native_id dir k resource only)"
proof -
  have [eff]: "pres (on_db S) e (learn_verified dir k resource n wid st)" for n wid st
    unfolding learn_verified_def Let_def by (intro eff pres_execute S_learn)
  show ?thesis
    unfolding fetch_event_native_id_def by (intro eff; auto split: payload.split prod.split intro!: eff)
qed

lemma look_candidates [eff]:
  "(\<And>i. pres (on_db S) e (native_resource p i)) \<Longrightarrow> pres (on_db S) e (event_candidates d k ev p cs absent n)"
  by (induction cs arbitrary: absent n) (auto intro!: eff)

lemma look_verified [eff]: "pres (on_db S) e (verified_workos_event_mapping dir k ev)"
proof -
  have [eff]: "pres (on_db S) e (verify_candidates dir k ev cs)" for cs
    by (induction cs) (auto intro!: eff)
  show ?thesis
    unfolding verified_workos_event_mapping_def Let_def by (intro eff)
qed

lemma look_resolve [eff]: "pres (on_db S) e (resolve_native_event_id d k resource allow)"
proof -
  have [eff]: "pres (on_db S) e (native_resource_of k i)" for i
    unfolding native_resource_of_def by (cases k) (auto intro!: eff)
  show ?thesis
    unfolding resolve_native_event_id_def native_id_for_event_def ask_remote_def ask_bridge_def Let_def
    by (intro eff; simp; (intro eff)?; auto split: list.split intro!: eff)
qed

lemma look_scopes [eff]: "pres (on_db S) e (event_scopes d ty data)"
  unfolding event_scopes_def link_for_def linked_user_def linked_group_def Let_def by (intro eff)

lemma look_newest [eff]: "pres (on_db S) e (is_newest_across scs at)"
  by (induction scs) (auto intro!: eff simp: is_newest_event_def split: option.split)

lemma look_find [eff]: "pres (on_db S) e (find_user idp name native)" "pres (on_db S) e (find_group idp name native)"
  unfolding find_user_def find_group_def by (intro eff)+

lemma look_instruction [eff]: "pres (on_db S) e (dsync_instruction_for_event data)"
  unfolding dsync_instruction_for_event_def by (intro eff)

lemma look_duplicate [eff]: "pres (on_db S) e (is_duplicate i)"
  unfolding is_duplicate_def by (intro eff)

end

text \<open>The bookkeeping of an event: its version and its row in the event log.\<close>

locale ledger_frame = lookup_frame S for S :: "store \<Rightarrow> store \<Rightarrow> bool" +
  assumes S_version: "S s (bump_version scope t s)"
    and S_event: "S s (s\<lparr>listener_events := listener_events s @ [v]\<rparr>)"
begin

lemma keep_version [eff]: "pres (on_db S) e (record_event_version at scope)"
  unfolding record_event_version_def by (intro eff pres_execute S_version)

lemma keep_event [eff]: "pres (on_db S) e (record_event i ty idp act detail payload)"
  unfolding record_event_def by (intro pres_execute S_event)

lemma ignore_keeps [eff]: "pres (on_db S) e (ignore_event ty i at data payload ins)"
  unfolding ignore_event_def by (intro eff)

lemma dispatch_keeps: "pres (on_db S) e (apply_event ty data at d) \<Longrightarrow> pres (on_db S) e (dispatch_event ty data at d)"
  unfolding dispatch_event_def by (intro eff)

lemma handle_keeps:
  "pres (on_db S) e (apply_event ty data at d) \<Longrightarrow> pres (on_db S) e (handle_event ty i at data payload b d)"
  unfolding handle_event_def by (intro eff dispatch_keeps)

lemma process_keeps:
  "(\<And>ty data at d. pres (on_db S) e (apply_event ty data at d)) \<Longrightarrow> pres (on_db S) e (process_dsync_event envelope raw b)"
  unfolding process_dsync_event_def Let_def by (intro eff handle_keeps)

end

text \<open>The writes of the native tables.\<close>

locale listener_frame = ledger_frame S for S :: "store \<Rightarrow> store \<Rightarrow> bool" +
  assumes S_put_user: "S s (snd (put_user NativeTables u at s))"
    and S_put_group: "S s (put_group NativeTables g at s)"
    and S_keep_members: "S s (on_tables NativeTables (\<lambda>t. t\<lparr>t_members := filter P (t_members t)\<rparr>) s)"
    and S_add_member: "m \<notin> set (t_members (native_tables s)) \<Longrightarrow>
      S s (on_tables NativeTables (\<lambda>t. t\<lparr>t_members := t_members t @ [m]\<rparr>) s)"
    and S_del_user: "S s (on_tables NativeTables (\<lambda>t. t\<lparr>t_users := del_row ur_id i (t_users t)\<rparr>) s)"
    and S_del_group: "S s (on_tables NativeTables (\<lambda>t. t\<lparr>t_groups := del_row gr_id i (t_groups t)\<rparr>) s)"
begin

lemma write_user [eff]: "pres (on_db S) e (upsert_user NativeTables u)"
  unfolding upsert_user_def by (intro eff S_put_user)

lemma write_group [eff]: "pres (on_db S) e (upsert_group NativeTables g)"
  unfolding upsert_group_def by (intro eff pres_execute S_put_group)

lemma write_clear [eff]: "pres (on_db S) e (clear_memberships NativeTables i)"
  unfolding clear_memberships_def by (intro pres_statement) (use S_keep_members in simp)

lemma write_edge [eff]: "pres (on_db S) e (add_member NativeTables g i)" "pres (on_db S) e (remove_member NativeTables g i)"
  unfolding add_member_def remove_member_def
  by (intro pres_statement; use S_refl S_add_member S_keep_members in simp)+

lemma write_delete [eff]: "pres (on_db S) e (delete_user NativeTables i)" "pres (on_db S) e (delete_group NativeTables i)"
  unfolding delete_user_def delete_group_def drop_members_def
  by (intro eff pres_execute; use S_del_user S_del_group S_keep_members in simp)+

lemma write_membership [eff]: "pres (on_db S) e (change_membership data add at d)"
  unfolding change_membership_def id_or_uuid_def with_user_def with_group_def change_edge_def Let_def
  by (intro eff)

lemma write_apply: "pres (on_db S) e (apply_event ty data at d)"
  unfolding apply_event_def upsert_user_from_event_def delete_user_from_event_def upsert_group_from_event_def
    delete_group_from_event_def Let_def
  by (intro eff)

lemma write_process: "pres (on_db S) e (process_dsync_event envelope raw b)"
  by (rule process_keeps) (rule write_apply)

end

subsection \<open>The native tables stay well formed\<close>

definition well_formed :: "scim_tables \<Rightarrow> bool" where
  "well_formed t \<longleftrightarrow> distinct (map ur_id (t_users t)) \<and> distinct (map ur_name (t_users t))
     \<and> distinct (map gr_id (t_groups t)) \<and> distinct (t_members t)"

lemma put_user_names:
  assumes "distinct (map ur_id rows)" "distinct (map ur_name rows)"
    and "\<not> (\<exists>r \<in> set rows. ur_id r \<noteq> ur_id u \<and> ur_name r = ur_name u)"
  shows "distinct (map ur_name (put_row ur_id u rows))"
  using assms
proof (induction rows)
  case (Cons r rows)
  show ?case
  proof (cases "ur_id r = ur_id u")
    case True
    with Cons.prems have "ur_name u \<notin> ur_name ` set rows" by (auto simp: image_iff) (metis image_eqI)
    with True Cons.prems show ?thesis by simp
  next
    case False
    have "ur_name r \<noteq> ur_name u" using Cons.prems(3) False by auto
    with False Cons show ?thesis using set_put_row(1) [of ur_id u rows] by (auto simp: image_iff)
  qed
qed simp

interpretation shapes: listener_frame "\<lambda>s s'. well_formed (native_tables s) \<longrightarrow> well_formed (native_tables s')"
proof unfold_locales
  show "well_formed (native_tables s) \<longrightarrow> well_formed (native_tables (snd (put_user NativeTables u at s)))" for s u at
    using put_user_names [of "t_users (native_tables s)" "user_row_of u at (look_row ur_id (ui_id u) (t_users (native_tables s)))"]
    by (auto simp: well_formed_def put_user_def Let_def user_row_of_def distinct_put_row)
  show "well_formed (native_tables s) \<longrightarrow> well_formed (native_tables (put_group NativeTables g at s))" for s g at
    by (auto simp: well_formed_def put_group_def distinct_put_row)
qed (auto simp: well_formed_def insert_link_def insert_verified_def bump_version_def del_row_def
    distinct_map_filter split: option.split)

text \<open>Whatever events are processed, whatever the datastore does, the native tables keep their keys:
  ids and user names stay unique, no membership edge is stored twice.\<close>
theorem native_tables_well_formed:
  assumes "process_dsync_event envelope raw record_error e w = (r, w')" and "well_formed (native_tables (db w))"
  shows "well_formed (native_tables (db w'))"
  using presD [OF shapes.write_process assms(1)] assms(2) by (simp add: on_db_def)

subsection \<open>Versions\<close>

definition at_least :: "string option \<Rightarrow> string option \<Rightarrow> bool" where
  "at_least v v' \<longleftrightarrow> (case v of None \<Rightarrow> True | Some t \<Rightarrow> (case v' of None \<Rightarrow> False | Some t' \<Rightarrow> t \<le> t'))"

lemma at_least_refl [simp]: "at_least v v"
  by (simp add: at_least_def split: option.split)

lemma at_least_trans: "at_least a b \<Longrightarrow> at_least b c \<Longrightarrow> at_least a c"
  by (auto simp: at_least_def split: option.splits)

lemma map_of_put_fst: "map_of (put_row fst (k, v) rows) x = (if x = k then Some v else map_of rows x)"
  by (induction rows) auto

lemma version_of_bump: "at_least (version_of sc s) (version_of sc (bump_version scope t s))"
  by (auto simp: bump_version_def version_of_def map_of_put_fst at_least_def split: option.splits)

lemma version_of_other [simp]:
  "version_of sc (s\<lparr>listener_events := a\<rparr>) = version_of sc s" "version_of sc (s\<lparr>native_tables := b\<rparr>) = version_of sc s"
  "version_of sc (s\<lparr>id_mappings := c\<rparr>) = version_of sc s" "version_of sc (s\<lparr>event_links := l\<rparr>) = version_of sc s"
  by (simp_all add: version_of_def)

interpretation versions: listener_frame "\<lambda>s s'. \<forall>sc. at_least (version_of sc s) (version_of sc s')"
proof unfold_locales
  show "\<forall>sc. at_least (version_of sc s) (version_of sc (snd (put_user NativeTables u at s)))" for s u at
    by (simp add: put_user_def Let_def)
qed (auto intro: at_least_trans version_of_bump simp: put_group_def insert_link_def insert_verified_def)

text \<open>The version ledger never goes back: whatever is processed, in whatever order it arrives and
  whatever the datastore loses, the time recorded for a scope only grows.\<close>
theorem versions_never_go_back:
  assumes "process_dsync_event envelope raw record_error e w = (r, w')" and "version_of scope (db w) = Some t"
  shows "\<exists>t'. version_of scope (db w') = Some t' \<and> t \<le> t'"
proof -
  have "at_least (version_of scope (db w)) (version_of scope (db w'))"
    using presD [OF versions.write_process assms(1)] by (simp add: on_db_def)
  with assms(2) show ?thesis by (auto simp: at_least_def split: option.splits)
qed

subsection \<open>Events that change nothing\<close>

interpretation tables_kept: ledger_frame "\<lambda>s s'. native_tables s' = native_tables s"
  by unfold_locales (simp_all add: insert_link_def insert_verified_def bump_version_def)

abbreviation tables_same :: "world \<Rightarrow> world \<Rightarrow> bool" where
  "tables_same \<equiv> on_db (\<lambda>s s'. native_tables s' = native_tables s)"

text \<open>A newer version of one of its scopes stops an event.\<close>

definition outdated :: "string list \<Rightarrow> string \<Rightarrow> store \<Rightarrow> bool" where
  "outdated scs at s \<longleftrightarrow> (\<exists>sc \<in> set scs. \<exists>t. version_of sc s = Some t \<and> at < t)"

lemma newest_refused:
  "outdated scs at (db w) \<Longrightarrow> wp e (is_newest_across scs (Some at)) (\<lambda>b w'. \<not> b \<and> db w' = db w) (\<lambda>_ w'. db w' = db w) w"
proof (induction scs arbitrary: w)
  case (Cons sc scs)
  have rest: "wp e (is_newest_across scs (Some at)) (\<lambda>b w'. \<not> b \<and> db w' = db w) (\<lambda>_ w'. db w' = db w) (w\<lparr>db_ops := k\<rparr>)"
    if "outdated scs at (db w)" for k
    using Cons.IH [of "w\<lparr>db_ops := k\<rparr>"] that by simp
  have "outdated scs at (db w) \<or> (\<exists>t. version_of sc (db w) = Some t \<and> at < t)"
    using Cons.prems by (auto simp: outdated_def)
  then show ?case
    unfolding is_newest_across.simps is_newest_event_def
    by (auto intro!: wp_query rest split: option.split)
qed (simp add: outdated_def)

interpretation ledger_read: lookup_frame "\<lambda>s s'. native_tables s' = native_tables s \<and> listener_versions s' = listener_versions s"
  by unfold_locales (simp_all add: insert_link_def insert_verified_def)

text \<open>C11: an event older than what its resource, its membership edge or the row it is linked to has
  already seen changes neither the native tables nor the versions; it is reported as skipped.\<close>
theorem stale_event_changes_nothing:
  assumes scopes: "event_scopes d ty data e w = (Inr scs, w1)" and old: "outdated scs at (db w1)"
    and run: "dispatch_event ty data (Some at) d e w = (r, w')"
  shows "native_tables (db w') = native_tables (db w) \<and> listener_versions (db w') = listener_versions (db w)
    \<and> (case r of Inl er \<Rightarrow> True | Inr out \<Rightarrow> o_action out = Skipped)"
proof -
  have "native_tables (db w1) = native_tables (db w) \<and> listener_versions (db w1) = listener_versions (db w)"
    using presD [OF ledger_read.look_scopes scopes] by (simp add: on_db_def)
  moreover have "bnd (is_newest_across scs (Some at)) (\<lambda>newest. if \<not> newest then
       ret (outcome_of Skipped ''superseded by a newer event (out-of-order delivery)'' (string_value (getp data ''idp_id'')))
     else bnd (apply_event ty data (Some at) d) (\<lambda>out.
       thn (each (record_event_version (Some at)) scs) (ret out))) e w1 = (r, w')" (is "?mm e w1 = _")
    using run scopes by (simp add: dispatch_event_def run_bnd_Inr)
  moreover have "wp e ?mm (\<lambda>out v. db v = db w1 \<and> o_action out = Skipped) (\<lambda>_ v. db v = db w1) w1"
    by (auto intro!: wp_mono [OF newest_refused [OF old]])
  ultimately show ?thesis by (auto simp: wp_def split: sum.splits)
qed

text \<open>An event that was applied or skipped is in the log under its id; a second delivery finds it there.\<close>

lemma duplicate_found:
  "handled_before i (db w) \<Longrightarrow> wp e (is_duplicate i) (\<lambda>b w'. b \<and> db w' = db w) (\<lambda>_ w'. db w' = db w) w"
  unfolding is_duplicate_def by (rule wp_query) simp_all

lemma duplicate_handled:
  assumes "handled_before i (db w)"
  shows "wp e (handle_event ty (Some i) at data payload b d) (\<lambda>p w'. tables_same w w' \<and> pe_action p = Skipped)
     (\<lambda>_. tables_same w) w"
proof -
  have rec: "wp e (record_event j ty idp act detail payload) (\<lambda>_. tables_same w) (\<lambda>_. tables_same w) v"
    if "db v = db w" for j idp act detail v
    using that by (intro wp_mono [OF wp_pres [OF tables_kept.keep_event]]) (auto simp: on_db_def)
  show ?thesis
    unfolding handle_event_def
    by (auto intro!: wp_mono [OF duplicate_found [OF assms]] wp_mono [OF rec] simp: on_db_def)
qed

interpretation handled: listener_frame "\<lambda>s s'. \<forall>i. handled_before i s \<longrightarrow> handled_before i s'"
proof unfold_locales
  show "\<forall>i. handled_before i s \<longrightarrow> handled_before i (snd (put_user NativeTables u at s))" for s u at
    by (simp add: put_user_def Let_def handled_before_def)
qed (auto simp: handled_before_def put_group_def insert_link_def insert_verified_def bump_version_def split: option.split)

lemma tables_wp:
  "pres tables_same e mm \<Longrightarrow> tables_same w v \<Longrightarrow> (\<And>x u. tables_same w u \<Longrightarrow> Q x u) \<Longrightarrow> (\<And>er u. tables_same w u \<Longrightarrow> X er u) \<Longrightarrow>
   wp e mm Q X v"
  by (rule wp_mono [OF wp_pres [where R = tables_same]]) (auto simp: on_db_def)

lemma recorded_event:
  "record_event (Some i) ty idp act detail payload e w = (Inr u, w') \<Longrightarrow> act \<noteq> Ignored \<Longrightarrow> handled_before i (db w')"
  unfolding record_event_def execute_def with_datastore_retry_def
  by (auto simp: handled_before_def dest!: run_attempts_applied)

lemma handled_after:
  assumes "handle_event ty (Some i) at data payload b d e w = (Inr p, w')" and "pe_action p \<noteq> Ignored"
  shows "handled_before i (db w')"
proof -
  have rec: "wp e (record_event (Some i) ty idp act detail payload) (\<lambda>_ u. act \<noteq> Ignored \<longrightarrow> handled_before i (db u)) (\<lambda>_ _. True) v"
    for idp act detail v
    by (rule wpI) (auto dest: recorded_event)
  have "wp e (handle_event ty (Some i) at data payload b d)
     (\<lambda>p u. pe_action p \<noteq> Ignored \<longrightarrow> handled_before i (db u)) (\<lambda>_ _. True) w"
    unfolding handle_event_def
    by (auto intro!: wp_mono [OF wp_trivial] wp_mono [OF rec])
  with assms show ?thesis by (simp add: wp_def)
qed

text \<open>Any sequence of deliveries, each in an environment of its own, whatever becomes of each.\<close>

type_synonym delivery = "env \<times> object option \<times> string option \<times> bool"

fun deliver :: "delivery list \<Rightarrow> world \<Rightarrow> world" where
  "deliver [] w = w"
| "deliver ((e, envelope, raw, b) # ds) w = deliver ds (snd (process_dsync_event envelope raw b e w))"

lemma deliver_keeps_handled: "handled_before i (db w) \<Longrightarrow> handled_before i (db (deliver ds w))"
proof (induction ds w rule: deliver.induct)
  case (2 e envelope raw b ds w)
  have "handled_before i (db (snd (process_dsync_event envelope raw b e w)))"
    using handled.write_process [of e envelope raw b] 2(2) by (auto simp: pres_def on_db_def)
  with 2(1) show ?case by simp
qed simp

lemma process_event_unfold:
  "string_value (getp ev ''event'') = Some ty \<Longrightarrow> process_dsync_event (Some ev) raw b =
     bnd (dsync_instruction_for_event (record_or_empty (getp ev ''data''))) (\<lambda>ins.
       if \<not> in_apply ins
       then ignore_event ty (string_value (getp ev ''id'')) (string_value (getp ev ''created_at''))
         (record_or_empty (getp ev ''data'')) (Some (case raw of Some s \<Rightarrow> s | None \<Rightarrow> json_text (object_or_null (Some ev)))) ins
       else handle_event ty (string_value (getp ev ''id'')) (string_value (getp ev ''created_at''))
         (record_or_empty (getp ev ''data'')) (Some (case raw of Some s \<Rightarrow> s | None \<Rightarrow> json_text (object_or_null (Some ev)))) b (the (in_directory ins)))"
  by (simp add: process_dsync_event_def Let_def)

text \<open>C10: an event that was processed once (applied or skipped) never touches the native tables again:
  after any sequence of other deliveries, under every fault, a redelivery of it leaves them as they are.\<close>
theorem redelivery_is_harmless:
  assumes event: "string_value (getp ev ''event'') = Some ty" "string_value (getp ev ''id'') = Some i"
    and first: "process_dsync_event (Some ev) raw b e w = (Inr p, w1)" "pe_action p \<noteq> Ignored"
    and again: "process_dsync_event (Some ev) raw' b' e' (deliver ds w1) = (r, w3)"
  shows "native_tables (db w3) = native_tables (db (deliver ds w1))"
proof -
  have "wp e (process_dsync_event (Some ev) raw b) (\<lambda>p u. pe_action p \<noteq> Ignored \<longrightarrow> handled_before i (db u)) (\<lambda>_ _. True) w"
  proof -
    have ignored: "wp e (ignore_event ty' j at data payload ins) (\<lambda>p u. pe_action p = Ignored) (\<lambda>_ _. True) v"
      for ty' j at data payload ins v
      unfolding ignore_event_def by (auto intro!: wp_mono [OF wp_trivial] split: option.split)
    have handled: "wp e (handle_event ty' (Some i) at data payload b' d) (\<lambda>p u. pe_action p \<noteq> Ignored \<longrightarrow> handled_before i (db u))
        (\<lambda>_ _. True) v" for ty' at data payload b' d v
      by (rule wpI) (auto dest: handled_after)
    show ?thesis
      unfolding process_event_unfold [OF event(1)] event(2)
      by (auto intro!: wp_mono [OF wp_trivial] wp_mono [OF ignored] handled)
  qed
  with first have "handled_before i (db w1)" by (simp add: wp_def)
  then have before: "handled_before i (db (deliver ds w1))" by (rule deliver_keeps_handled)
  let ?w2 = "deliver ds w1"
  have dup: "wp e' (handle_event ty' (Some i) at data payload b'' d) (\<lambda>_. tables_same ?w2) (\<lambda>_. tables_same ?w2) v"
    if "handled_before i (db v)" "tables_same ?w2 v" for ty' at data payload b'' d v
    by (rule wp_mono [OF duplicate_handled [OF that(1)]]) (use that(2) in \<open>auto simp: on_db_def\<close>)
  have "wp e' (process_dsync_event (Some ev) raw' b') (\<lambda>_. tables_same ?w2) (\<lambda>_. tables_same ?w2) ?w2"
    unfolding process_event_unfold [OF event(1)] event(2) wp_bnd
    by (rule wp_mono [OF wp_conj [OF wp_pres [OF tables_kept.look_instruction] wp_pres [OF handled.look_instruction]]])
      (use before in \<open>auto intro!: dup tables_wp [OF tables_kept.ignore_keeps] simp: on_db_def\<close>)
  with again show ?thesis by (auto simp: wp_def on_db_def split: sum.splits)
qed

subsection \<open>Before cutover\<close>

text \<open>Every answer of the bridge tells the listener to stay inert, as the status endpoint does for a
  directory that is not fully cut over, and so does every answer the process still holds.\<close>

definition says_inert :: "json \<Rightarrow> bool" where
  "says_inert v \<longleftrightarrow> (\<exists>d. v = JObj (status_body d) \<and> dir_mode d \<noteq> WorkosOnly)"

definition inert_origin :: "env \<Rightarrow> bool" where
  "inert_origin e \<longleftrightarrow> (\<forall>cs c. c_side c = Bridge \<longrightarrow> (case upstream e cs c of Inl msg \<Rightarrow> True
     | Inr r \<Rightarrow> \<not> is_success (u_status r) \<or> (\<exists>v. u_body r = Some (Doc v) \<and> says_inert v)))"

definition inert_process :: "process \<Rightarrow> bool" where
  "inert_process p \<longleftrightarrow> (\<forall>(d, c) \<in> set (status_cache p). says_inert (ce_status c))"

lemma inert_instruction:
  "dir_mode d \<noteq> WorkosOnly \<Longrightarrow> (case status of None \<Rightarrow> True | Some v \<Rightarrow> says_inert v) \<Longrightarrow>
   \<not> in_apply (instruction_from d status)"
proof -
  assume d: "dir_mode d \<noteq> WorkosOnly" and st: "case status of None \<Rightarrow> True | Some v \<Rightarrow> says_inert v"
  have "mode_name m \<noteq> ''workos-only''" if "m \<noteq> WorkosOnly" for m
    using that by (cases m) auto
  with d st show ?thesis
    by (cases status)
      (auto simp: instruction_from_def truthy_def says_inert_def status_body_def applies_dsync_events_def
        apply_from_mode_fallback_def record_or_empty_def as_object_def Let_def)
qed

definition same_process :: "world \<Rightarrow> world \<Rightarrow> bool" where
  "same_process w w' \<longleftrightarrow> db w' = db w \<and> proc w' = proc w"

interpretation process_kept: reader same_process
  by unfold_locales (auto simp: same_process_def)

lemma process_bridge:
  "pres same_process e bridge_base" "pres same_process e (client_token_for d)"
  unfolding bridge_base_def client_token_for_def get_config_def by (intro eff)+

lemma inert_put: "inert_process p \<Longrightarrow> says_inert (ce_status c) \<Longrightarrow>
   inert_process (p\<lparr>status_cache := put_row fst (d, c) (status_cache p)\<rparr>)"
  using set_put_row(1) [of fst "(d, c)" "status_cache p"] by (auto simp: inert_process_def)

lemma inert_ask:
  assumes origin: "inert_origin e" and p: "inert_process (proc w)" and side: "c_side c = Bridge"
    and cached: "case cached of None \<Rightarrow> True | Some x \<Rightarrow> says_inert (ce_status x)"
    and stale: "case stale of None \<Rightarrow> True | Some x \<Rightarrow> says_inert x"
  shows "wp e (ask_origin d t cached stale c)
     (\<lambda>v w'. (case v of None \<Rightarrow> True | Some x \<Rightarrow> says_inert x) \<and> inert_process (proc w') \<and> db w' = db w)
     (\<lambda>_ w'. inert_process (proc w') \<and> db w' = db w) w"
proof -
  have backed: "inert_process (proc w\<lparr>failed_until := x\<rparr>)" for x
    using p by (simp add: inert_process_def)
  have body: "\<exists>v. u_body r = Some (Doc v) \<and> says_inert v"
    if "upstream e cs c = Inr r" "is_success (u_status r)" for cs r
    using origin side that by (auto simp: inert_origin_def dest!: spec [of _ cs] spec [of _ c])
  show ?thesis
    unfolding ask_origin_def remember_status_def back_off_def
    using p cached stale
    by (auto simp: backed intro!: inert_put dest!: body split: sum.split option.split payload.split)
qed

lemma inert_status:
  assumes origin: "inert_origin e" and p: "inert_process (proc w)"
  shows "wp e (fetch_directory_status d since)
     (\<lambda>v w'. (case v of None \<Rightarrow> True | Some x \<Rightarrow> says_inert x) \<and> inert_process (proc w') \<and> db w' = db w)
     (\<lambda>_ w'. inert_process (proc w') \<and> db w' = db w) w"
proof -
  have cached: "says_inert (ce_status c)" if "map_of (status_cache (proc w)) i = Some c" for i c
    using p that by (auto simp: inert_process_def dest: map_of_SomeD)
  have quiet: "wp e mm Q X v" if "pres same_process e mm" "\<And>x u. same_process v u \<Longrightarrow> Q x u" "\<And>er u. same_process v u \<Longrightarrow> X er u"
    for mm :: "'a m" and Q X v
    by (rule wp_mono [OF wp_pres [OF that(1)]]) (use that(2,3) in auto)
  have ask: "wp e (ask_origin (dir_id d) t ch stale (status_request b i tk c))
     (\<lambda>v w'. (case v of None \<Rightarrow> True | Some x \<Rightarrow> says_inert x) \<and> inert_process (proc w') \<and> db w' = db w)
     (\<lambda>_ w'. inert_process (proc w') \<and> db w' = db w) v"
    if "db v = db w" "proc v = proc w" "case ch of None \<Rightarrow> True | Some x \<Rightarrow> says_inert (ce_status x)"
      "case stale of None \<Rightarrow> True | Some x \<Rightarrow> says_inert x" for t ch stale b i tk c v
    using inert_ask [OF origin _ _ that(3,4), of v "status_request b i tk c" "dir_id d" t] that p
    by (simp add: status_request_def bridge_call_def)
  show ?thesis
    unfolding fetch_directory_status_def Let_def
    by (auto simp: p cached same_process_def split: option.split
        intro!: quiet [OF process_bridge(1)] quiet [OF process_bridge(2)] ask)
qed

definition config_of :: "string \<Rightarrow> store \<Rightarrow> string option" where
  "config_of k s = map_option snd (look_row fst k (config s))"

definition mode_kept :: "directory \<Rightarrow> directory \<Rightarrow> bool" where
  "mode_kept d d' \<longleftrightarrow> dir_mode d' = dir_mode d \<and> dir_id d' = dir_id d"

lemma wp_secret: "wp e (decrypt_secret x) (\<lambda>_ v. v = w) (\<lambda>_ v. v = w) w"
  unfolding decrypt_secret_def by (auto split: option.split)

lemma wp_decrypt_all:
  "wp e (decrypt_all ds) (\<lambda>rs v. v = w \<and> (\<forall>r \<in> set rs. \<exists>d \<in> set ds. mode_kept d r)) (\<lambda>_ v. v = w) w"
proof (induction ds)
  case (Cons d ds)
  have one: "wp e (decrypt_directory (Some d)) (\<lambda>r v. v = w \<and> (\<exists>d'. r = Some d' \<and> mode_kept d d')) (\<lambda>_ v. v = w) w"
    unfolding decrypt_directory_def
    by (auto intro!: wp_mono [OF wp_secret] simp: mode_kept_def)
  have rest: "wp e (decrypt_all ds) (\<lambda>rs v. v = w \<and> (\<forall>r \<in> set (d' # rs). \<exists>x \<in> set (d # ds). mode_kept x r))
      (\<lambda>_ v. v = w) w" if "mode_kept d d'" for d'
    by (rule wp_mono [OF Cons.IH]) (use that in auto)
  show ?case
    unfolding decrypt_all.simps wp_bnd
    by (rule wp_mono [OF one]) (auto intro!: wp_mono [OF rest])
qed simp

lemma wp_list_directories:
  "wp e list_directories (\<lambda>rs v. same_process w v \<and> (\<forall>r \<in> set rs. \<exists>d \<in> set (directories (db w)). mode_kept d r))
     (\<lambda>_. same_process w) w"
proof -
  have all: "wp e (decrypt_all (directories (db w))) (\<lambda>rs v. same_process w v \<and>
      (\<forall>r \<in> set rs. \<exists>d \<in> set (directories (db w)). mode_kept d r)) (\<lambda>_. same_process w) (w\<lparr>db_ops := k\<rparr>)" for k
    by (rule wp_mono [OF wp_decrypt_all]) (auto simp: same_process_def)
  show ?thesis
    unfolding list_directories_def wp_bnd by (rule wp_query) (rule all, simp add: same_process_def)
qed

lemma event_directory_in: "event_directory ds data = Some d \<Longrightarrow> d \<in> set ds"
  by (auto simp: event_directory_def first_some_def Let_def find_Some_iff split: option.splits list.splits if_splits)

lemma inert_instructed:
  assumes origin: "inert_origin e" and p: "inert_process (proc w)"
    and modes: "\<forall>d \<in> set (directories (db w)). dir_mode d \<noteq> WorkosOnly"
  shows "wp e (dsync_instruction_for_event data) (\<lambda>ins v. \<not> in_apply ins \<and> db v = db w) (\<lambda>_ v. db v = db w) w"
proof -
  have status: "wp e (fetch_directory_status d since) (\<lambda>st v. \<not> in_apply (instruction_from d st) \<and> inert_process (proc v) \<and> db v = db w)
      (\<lambda>_ v. db v = db w) v" if "dir_mode d \<noteq> WorkosOnly" "inert_process (proc v)" "db v = db w" for d since v
    by (rule wp_mono [OF inert_status [OF origin that(2)]]) (use that inert_instruction in auto)
  have found: "wp e (case event_directory ds data of
       None \<Rightarrow> ret \<lparr>in_apply = False, in_mode = None, in_directory = None\<rparr>
     | Some d \<Rightarrow> bnd (fetch_directory_status d None) (\<lambda>status.
         if in_apply (instruction_from d status) then ret (instruction_from d status)
         else bnd (fetch_directory_status d (Some arrived)) (\<lambda>confirmed. ret (instruction_from d confirmed))))
      (\<lambda>ins v. \<not> in_apply ins \<and> db v = db w) (\<lambda>_ v. db v = db w) v"
    if "\<forall>d \<in> set ds. dir_mode d \<noteq> WorkosOnly" "inert_process (proc v)" "db v = db w" for ds arrived v
    using that
    by (cases "event_directory ds data") (auto dest!: event_directory_in intro!: wp_mono [OF status])
  show ?thesis
    unfolding dsync_instruction_for_event_def wp_bnd wp_now
    by (rule wp_mono [OF wp_list_directories], rule found) (use modes p in \<open>auto simp: same_process_def mode_kept_def\<close>)
qed

text \<open>C8: while no directory is fully cut over, the listener is inert: the status endpoint's answers for
  such directories, and the answers the process has kept, lead it to log every event as ignored and leave
  the native tables alone, also when the endpoint cannot be reached.\<close>
theorem inert_before_cutover:
  assumes "\<forall>d \<in> set (directories (db w)). dir_mode d \<noteq> WorkosOnly"
    and "inert_origin e" and "inert_process (proc w)"
    and "process_dsync_event envelope raw record_error e w = (r, w')"
  shows "native_tables (db w') = native_tables (db w)"
proof -
  have keep: "tables_same w v \<Longrightarrow> wp e (ignore_event ty i at data payload ins) (\<lambda>_. tables_same w) (\<lambda>_. tables_same w) v"
    for ty i at data payload ins v
    by (rule tables_wp [OF tables_kept.ignore_keeps]) auto
  have rec: "wp e (record_event i ty idp act detail payload) (\<lambda>_. tables_same w) (\<lambda>_. tables_same w) w"
    for i ty idp act detail payload
    by (rule wp_pres [OF tables_kept.keep_event])
  have ins: "wp e (dsync_instruction_for_event data) (\<lambda>ins v. \<not> in_apply ins \<and> tables_same w v) (\<lambda>_. tables_same w) w" for data
    by (rule wp_mono [OF inert_instructed [OF assms(2,3,1)]]) (auto simp: on_db_def)
  have "wp e (process_dsync_event envelope raw record_error) (\<lambda>_. tables_same w) (\<lambda>_. tables_same w) w"
    unfolding process_dsync_event_def Let_def
    by (auto intro!: rec keep wp_mono [OF ins] split: option.split)
  with assms(4) show ?thesis by (auto simp: wp_def on_db_def split: sum.splits)
qed

end
