(* ===== verification/ListenerGuards.thy ===== *)
theory ListenerGuards
  imports ListenerLaws
begin

text \<open>
  The guards of the listener that decide over lost or leaked data: the delete policy of a user event, the
  takeover of a row that belonged to somebody else, and the signature of a webhook.
\<close>

subsection \<open>Deleting a user\<close>

interpretation seen: lookup_frame
  "\<lambda>s s'. native_tables s' = native_tables s \<and> config s' = config s"
  by unfold_locales (simp_all add: insert_link_def insert_verified_def)

definition seen_same :: "world \<Rightarrow> world \<Rightarrow> bool" where
  "seen_same w w' \<longleftrightarrow> native_tables (db w') = native_tables (db w) \<and> config (db w') = config (db w)"

lemma seen_resolve: "wp e (resolve_native_event_id d k resource allow) (\<lambda>_. seen_same w) (\<lambda>_. seen_same w) w"
  by (rule wp_mono [OF wp_pres [OF seen.look_resolve]]) (auto simp: on_db_def seen_same_def)

lemma find_in: "find P xs = Some x \<Longrightarrow> x \<in> set xs"
  by (auto simp: find_Some_iff)

lemma found_user:
  "seen_same w v \<Longrightarrow> wp e (find_user idp name native)
     (\<lambda>r v'. seen_same w v' \<and> (case r of None \<Rightarrow> True | Some u \<Rightarrow> u \<in> set (t_users (native_tables (db w)))))
     (\<lambda>_. seen_same w) v"
  unfolding find_user_def user_by_id_def user_by_external_id_def user_by_user_name_def
  by (auto intro!: wp_query dest: find_in look_row_SomeD simp: seen_same_def split: option.split)

lemma tables_on_tables [simp]:
  "tables_of ts (on_tables ts f s) = f (tables_of ts s)"
  "on_tables ts f (on_tables ts g s) = on_tables ts (f \<circ> g) s"
  by (cases ts; simp)+

lemma on_tables_eq: "f (tables_of ts s) = g (tables_of ts s) \<Longrightarrow> on_tables ts f s = on_tables ts g s"
  by (cases ts) simp_all

lemma row_of_again [simp]:
  "user_row_of u at (Some (user_row_of u at old)) = user_row_of u at old"
  "group_row_of g at (Some (group_row_of g at old')) = group_row_of g at old'"
  by (simp_all add: user_row_of_def group_row_of_def split: option.split)

lemma row_of_keys [simp]:
  "ur_id (user_row_of u at old) = ui_id u" "ur_name (user_row_of u at old) = ui_name u"
  "gr_id (group_row_of g at old') = gi_id g" "gr_name (group_row_of g at old') = gi_name g"
  by (simp_all add: user_row_of_def group_row_of_def)

lemma replayable_put_user: "replayable (put_user ts u at)"
proof
  fix s :: store
  let ?rows = "t_users (tables_of ts s)"
  let ?row = "user_row_of u at (look_row ur_id (ui_id u) ?rows)"
  show "put_user ts u at (snd (put_user ts u at s)) = put_user ts u at s"
  proof (cases "\<exists>r \<in> set ?rows. ur_id r \<noteq> ui_id u \<and> ur_name r = ui_name u")
    case False
    then have free: "\<not> (\<exists>r \<in> set (put_row ur_id ?row ?rows). ur_id r \<noteq> ui_id u \<and> ur_name r = ui_name u)"
      using set_put_row(1) [of ur_id ?row ?rows] by fastforce
    show ?thesis using False free by (auto simp: put_user_def Let_def intro!: on_tables_eq)
  qed (simp add: put_user_def Let_def)
qed

lemma replayable_put_group: "replayable (\<lambda>s. (Inr (), put_group ts g at s))"
  by (rule replayable_writing) (auto simp: put_group_def intro!: on_tables_eq)

lemma keys_kept: "key r \<in> key ` set rows \<Longrightarrow> map key (put_row key r rows) = map key rows"
  by (induction key r rows rule: put_row.induct) auto

text \<open>What a deletion that keeps the row may do: edges, groups and the users present stay, and of the
  user rows only the one it names changes.\<close>

definition only_deactivates :: "string \<Rightarrow> world \<Rightarrow> world \<Rightarrow> bool" where
  "only_deactivates idp w w' \<longleftrightarrow> (let t = native_tables (db w); t' = native_tables (db w') in
     t_members t' = t_members t \<and> t_groups t' = t_groups t \<and> map ur_id (t_users t') = map ur_id (t_users t)
     \<and> (\<forall>r \<in> set (t_users t'). r \<in> set (t_users t) \<or> (ur_external r = Some idp \<and> \<not> ur_active r)))"

lemma seen_deactivates: "seen_same w v \<Longrightarrow> only_deactivates idp w v"
  by (simp add: only_deactivates_def seen_same_def)

lemma deactivating:
  assumes same: "seen_same w v" and row: "u \<in> set (t_users (native_tables (db w)))"
    and input: "ui_id i = ur_id u" "ui_external i = Some idp" "\<not> ui_active i"
  shows "wp e (upsert_user NativeTables i) (\<lambda>_. only_deactivates idp w) (\<lambda>_. only_deactivates idp w) v"
proof -
  have put: "only_deactivates idp w (x\<lparr>db := snd (put_user NativeTables i at (db x))\<rparr>)" if "seen_same w x" for x at
  proof -
    let ?r = "user_row_of i at (look_row ur_id (ui_id i) (t_users (native_tables (db x))))"
    have "ur_id ?r \<in> ur_id ` set (t_users (native_tables (db x)))"
      using that row input(1) by (auto simp: seen_same_def user_row_of_def)
    from keys_kept [OF this] that input(2,3) set_put_row(1) [of ur_id ?r "t_users (native_tables (db x))"]
    show ?thesis
      by (auto simp: put_user_def Let_def only_deactivates_def seen_same_def user_row_of_def)
  qed
  have moved: "only_deactivates idp w (x\<lparr>db_ops := k, db := snd (put_user NativeTables i at (db x))\<rparr>)"
    if "seen_same w x" for x at k
    using put [OF that, of at] by (simp add: only_deactivates_def)
  show ?thesis
    unfolding upsert_user_def wp_bnd wp_sql_now
    by (rule replayable.wp_statement [OF replayable_put_user])
      (use moved [of "v\<lparr>ticks := Suc (ticks v)\<rparr>"] seen_deactivates [of w "v\<lparr>ticks := t, db_ops := j\<rparr>" for t j] same
       in \<open>auto simp: seen_same_def\<close>)
qed

text \<open>C15: unless the delete policy is \<open>hard\<close>, a user-deleted event loses nothing: memberships and groups
  stay, no row disappears, and the only row that may change is the user's, deactivated.\<close>
theorem user_deletion_is_soft:
  assumes "delete_user_from_event data d e w = (r, w')"
    and "map_option snd (look_row fst ''native.delete_policy'' (config (db w))) \<noteq> Some ''hard''"
    and "string_value (getp data ''idp_id'') = Some idp"
  shows "t_members (native_tables (db w')) = t_members (native_tables (db w))
    \<and> t_groups (native_tables (db w')) = t_groups (native_tables (db w))
    \<and> map ur_id (t_users (native_tables (db w'))) = map ur_id (t_users (native_tables (db w)))
    \<and> (\<forall>u \<in> set (t_users (native_tables (db w'))). u \<in> set (t_users (native_tables (db w)))
         \<or> (ur_external u = Some idp \<and> \<not> ur_active u))"
proof -
  have policy: "wp e (get_config ''native.delete_policy'') (\<lambda>p v'. p \<noteq> Some ''hard'' \<and> seen_same w v') (\<lambda>_. seen_same w) v"
    if "seen_same w v" for v
    unfolding get_config_def by (rule wp_query) (use that assms(2) in \<open>auto simp: seen_same_def\<close>)
  have "wp e (delete_user_from_event data d) (\<lambda>_. only_deactivates idp w) (\<lambda>_. only_deactivates idp w) w"
    unfolding delete_user_from_event_def assms(3) option.case wp_bnd
    by (intro wp_mono [OF seen_resolve]; (intro wp_mono [OF found_user])?;
        auto intro!: seen_deactivates wp_mono [OF policy] deactivating split: option.splits)
  with assms(1) show ?thesis by (auto simp: wp_def only_deactivates_def Let_def split: sum.splits)
qed

subsection \<open>A row that changes hands\<close>

interpretation shrinking: store_frame
  "\<lambda>s s'. t_users (native_tables s') = t_users (native_tables s)
     \<and> set (t_members (native_tables s')) \<subseteq> set (t_members (native_tables s))"
  by unfold_locales auto

abbreviation users_of :: "world \<Rightarrow> user_row list" where "users_of v \<equiv> t_users (native_tables (db v))"
abbreviation edges_of :: "world \<Rightarrow> (string \<times> string) set" where "edges_of v \<equiv> set (t_members (native_tables (db v)))"

lemma wp_cleared:
  "wp e (clear_memberships NativeTables i)
     (\<lambda>_ v. users_of v = users_of w \<and> edges_of v \<subseteq> edges_of w \<and> (\<forall>g. (g, i) \<notin> edges_of v))
     (\<lambda>_ v. users_of v = users_of w \<and> edges_of v \<subseteq> edges_of w) w"
proof -
  have "wp e (clear_memberships NativeTables i) (\<lambda>_ v. \<forall>g. (g, i) \<notin> edges_of v) (\<lambda>_ _. True) w"
    unfolding clear_memberships_def with_datastore_retry_def
    by (rule wpI) (auto dest!: run_attempts_applied)
  note cleared = this
  have "pres (on_db (\<lambda>s s'. t_users (native_tables s') = t_users (native_tables s)
      \<and> set (t_members (native_tables s')) \<subseteq> set (t_members (native_tables s)))) e (clear_memberships NativeTables i)"
    unfolding clear_memberships_def by (rule shrinking.pres_statement) auto
  from wp_conj [OF cleared wp_pres [OF this, of w]] show ?thesis
    by (rule wp_mono) (simp_all add: on_db_def)
qed

text \<open>A row as the listener writes it: nobody else's row changes, the edges stay.\<close>

lemma wp_written:
  "wp e (upsert_user NativeTables inp)
     (\<lambda>_ v. edges_of v = edges_of w \<and> (\<forall>r \<in> set (users_of v). r \<in> set (users_of w) \<or> ur_id r = ui_id inp))
     (\<lambda>_ v. edges_of v = edges_of w \<and> (\<forall>r \<in> set (users_of v). r \<in> set (users_of w) \<or> ur_id r = ui_id inp)) w"
proof -
  have put: "edges_of (x\<lparr>db_ops := k, db := snd (put_user NativeTables inp at (db x))\<rparr>) = edges_of x
      \<and> (\<forall>r \<in> set (users_of (x\<lparr>db_ops := k, db := snd (put_user NativeTables inp at (db x))\<rparr>)).
          r \<in> set (users_of x) \<or> ur_id r = ui_id inp)" for x :: world and at k
    using set_put_row(1) [of ur_id "user_row_of inp at (look_row ur_id (ui_id inp) (users_of x))" "users_of x"]
    by (auto simp: put_user_def Let_def user_row_of_def)
  show ?thesis
    unfolding upsert_user_def wp_bnd wp_sql_now
    by (rule replayable.wp_statement [OF replayable_put_user])
      (use put [where x = "w\<lparr>ticks := Suc (ticks w)\<rparr>"] in auto)
qed

text \<open>\<open>u\<close> is a row of the start; in the end its id carries \<open>idp\<close> only if its memberships are gone.\<close>

definition not_inherited :: "user_row \<Rightarrow> string \<Rightarrow> world \<Rightarrow> bool" where
  "not_inherited u idp v \<longleftrightarrow> (\<forall>g. (g, ur_id u) \<notin> edges_of v)
     \<or> (\<forall>r \<in> set (users_of v). ur_id r = ur_id u \<longrightarrow> ur_external r \<noteq> Some idp)"

lemma not_inherited_users: "users_of v' = users_of v \<Longrightarrow> edges_of v' \<subseteq> edges_of v \<Longrightarrow> not_inherited u idp v \<Longrightarrow> not_inherited u idp v'"
  by (auto simp: not_inherited_def)

lemma written_elsewhere:
  "not_inherited u idp v \<Longrightarrow> ui_id inp \<noteq> ur_id u \<or> (\<forall>g. (g, ur_id u) \<notin> edges_of v) \<Longrightarrow>
   wp e (upsert_user NativeTables inp) (\<lambda>_. not_inherited u idp) (\<lambda>_. not_inherited u idp) v"
  by (rule wp_mono [OF wp_written]) (auto simp: not_inherited_def)

subsection \<open>The signature of a webhook\<close>

text \<open>C16: with a webhook secret configured, a delivery has an effect on the datastore, or asks the bridge
  anything, only if it carries a signature that is the HMAC of its timestamp and its exact body under
  that secret, and the timestamp is within five minutes of this host's clock.\<close>
theorem webhook_needs_signature:
  assumes run: "handle_dsync_webhook body signature e w = (r, w')"
    and secret: "map_option snd (look_row fst ''native.webhook_secret'' (config (db w))) = Some secret" "secret \<noteq> []"
    and effect: "db w' \<noteq> db w \<or> calls w' \<noteq> calls w"
  shows "\<exists>header ts v1. signature = Some header \<and> match_signature header = Some (ts, v1)
    \<and> hmac_hex e secret (ts @ ''.'' @ body) = to_lower v1
    \<and> \<bar>clock e (ticks w) - int (digits_val ts)\<bar> \<le> signature_tolerance_ms"
proof -
  let ?ok = "\<exists>header ts v1. signature = Some header \<and> match_signature header = Some (ts, v1)
    \<and> hmac_hex e secret (ts @ ''.'' @ body) = to_lower v1
    \<and> \<bar>clock e (ticks w) - int (digits_val ts)\<bar> \<le> signature_tolerance_ms"
  let ?quiet = "\<lambda>v. db v = db w \<and> calls v = calls w"
  have valid: "?ok" if "verify_signature secret signature body (clock e (ticks w)) e = Valid"
    using that by (auto simp: verify_signature_def split: option.splits prod.splits if_splits)
  have "wp e (handle_dsync_webhook body signature) (\<lambda>_ v. ?quiet v \<or> ?ok) (\<lambda>_ v. ?quiet v \<or> ?ok) w"
    unfolding handle_dsync_webhook_def Let_def wp_bnd get_config_def
    by (rule wp_query) (use secret in \<open>auto intro!: wp_mono [OF wp_trivial] dest!: valid\<close>)
  with run effect show ?thesis by (auto simp: wp_def split: sum.splits)
qed

end
