(* ===== verification/StatusClientLaws.thy ===== *)
theory StatusClientLaws
  imports ListenerLaws
begin

text \<open>
  The cutover window: an answer that tells the listener to drop an event is confirmed with the bridge
  before it is acted on, so a cached answer from before the cutover cannot lose an event.
\<close>

lemma first_some_pair: "first_some [a, b] = (case a of None \<Rightarrow> b | Some x \<Rightarrow> Some x)"
  by (simp add: first_some_def split: option.split)

lemma wp_config: "(\<And>k'. Q (config_of k (db w)) (w\<lparr>db_ops := k'\<rparr>)) \<Longrightarrow> wp e (get_config k) Q (\<lambda>_ _. True) w"
  unfolding get_config_def by (rule wp_query) (simp_all add: config_of_def)

text \<open>Every answer of the bridge is the status of a directory that is fully cut over.\<close>

definition cut_over_origin :: "env \<Rightarrow> bool" where
  "cut_over_origin e \<longleftrightarrow> (\<forall>cs c. c_side c = Bridge \<longrightarrow>
     (\<exists>r d. upstream e cs c = Inr r \<and> u_status r = 200 \<and> u_body r = Some (Doc (JObj (status_body d))) \<and> dir_mode d = WorkosOnly))"

definition bridge_reachable :: "directory \<Rightarrow> world \<Rightarrow> bool" where
  "bridge_reachable d w \<longleftrightarrow> (\<exists>b t.
     first_some [config_of ''proxy.loopback_url'' (db w), config_of ''proxy.public_url'' (db w)] = Some b
     \<and> strip_trailing_slashes b \<noteq> []
     \<and> first_some [map_of (remembered (proc w)) (dir_id d), config_of (client_token_key (dir_id d)) (db w)] = Some t \<and> t \<noteq> []
     \<and> map_of (failed_until (proc w)) (dir_id d) = None)"

definition tells_apply :: "json option \<Rightarrow> bool" where
  "tells_apply v \<longleftrightarrow> (\<exists>d. v = Some (JObj (status_body d)) \<and> dir_mode d = WorkosOnly)"

lemma tells_apply_instruction: "tells_apply v \<Longrightarrow> in_apply (instruction_from d v)"
  by (auto simp: tells_apply_def instruction_from_def truthy_def record_or_empty_def as_object_def status_body_def
      applies_dsync_events_def Let_def)

lemma ask_cut_over:
  assumes "cut_over_origin e" "c_side c = Bridge"
  shows "wp e (ask_origin i t cached stale c) (\<lambda>v _. tells_apply v) X w"
proof -
  obtain r d where r: "upstream e (calls w) c = Inr r" "u_status r = 200" "u_body r = Some (Doc (JObj (status_body d)))"
    "dir_mode d = WorkosOnly"
    using assms unfolding cut_over_origin_def by blast
  then show ?thesis
    unfolding ask_origin_def remember_status_def back_off_def
    by (auto simp: tells_apply_def is_success_def split: option.split)
qed

lemma wp_base:
  assumes "first_some [config_of ''proxy.loopback_url'' (db w), config_of ''proxy.public_url'' (db w)] = Some b"
  shows "wp e bridge_base (\<lambda>r v. r = Some (strip_trailing_slashes b) \<and> same_process w v) (\<lambda>_ _. True) w"
  using assms unfolding bridge_base_def wp_bnd first_some_pair
  by (auto intro!: wp_config simp: same_process_def split: option.splits)

lemma wp_token:
  assumes "first_some [map_of (remembered (proc w)) (dir_id d), config_of (client_token_key (dir_id d)) (db w)] = Some t"
  shows "wp e (client_token_for (dir_id d)) (\<lambda>r v. r = Some t) (\<lambda>_ _. True) w"
  using assms unfolding client_token_for_def first_some_pair
  by (auto intro!: wp_config split: option.splits)

lemma bridge_reachable_cong: "same_process w v \<Longrightarrow> bridge_reachable d w \<Longrightarrow> bridge_reachable d v"
  by (simp add: same_process_def bridge_reachable_def)

text \<open>A read that no cached entry answers goes to the origin.\<close>

lemma fetch_cut_over:
  assumes "cut_over_origin e" and reach: "bridge_reachable d w"
    and cold: "\<And>c. map_of (status_cache (proc w)) (dir_id d) = Some c \<Longrightarrow> \<not> is_usable c (clock e (ticks w)) since"
    and t: "0 \<le> clock e (ticks w)"
  shows "wp e (fetch_directory_status d since) (\<lambda>v _. tells_apply v) (\<lambda>_ _. True) w"
proof -
  from reach obtain b tk where cfg: "first_some [config_of ''proxy.loopback_url'' (db w), config_of ''proxy.public_url'' (db w)] = Some b"
      "strip_trailing_slashes b \<noteq> []" "map_of (failed_until (proc w)) (dir_id d) = None" "tk \<noteq> []"
      "first_some [map_of (remembered (proc w)) (dir_id d), config_of (client_token_key (dir_id d)) (db w)] = Some tk"
    unfolding bridge_reachable_def by blast
  have ask: "wp e (ask_origin i s ch st (status_request base j k ch')) (\<lambda>v _. tells_apply v) (\<lambda>_ _. True) v" for i s ch st base j k ch' v
    by (rule ask_cut_over [OF assms(1)]) (simp add: status_request_def bridge_call_def)
  have token: "wp e (client_token_for (dir_id d)) (\<lambda>r v. r = Some tk) (\<lambda>_ _. True) v" if "same_process w v" for v
    by (rule wp_token) (use that cfg(5) in \<open>simp add: same_process_def\<close>)
  have tail: "wp e (bnd bridge_base (\<lambda>base. case nonempty_or_none base of
         None \<Rightarrow> ret stale
       | Some b \<Rightarrow> bnd (client_token_for (dir_id d)) (\<lambda>token. case nonempty_or_none token of
             None \<Rightarrow> ret stale
           | Some tk \<Rightarrow> ask_origin (dir_id d) s ch stale (status_request b (dir_id d) tk ch))))
      (\<lambda>v _. tells_apply v) (\<lambda>_ _. True) v" if "same_process w v" for stale s ch v
  proof -
    have base: "wp e bridge_base (\<lambda>r u. r = Some (strip_trailing_slashes b) \<and> same_process v u) (\<lambda>_ _. True) v"
      by (rule wp_base) (use that cfg(1) in \<open>simp add: same_process_def\<close>)
    have "same_process w u" if "same_process v u" for u
      using that \<open>same_process w v\<close> by (simp add: same_process_def)
    then show ?thesis
      unfolding wp_bnd
      by (rule_tac wp_mono [OF base]) (use cfg(2,4) in \<open>auto simp: nonempty_or_none_def intro!: wp_mono [OF token] ask\<close>)
  qed
  let ?w = "w\<lparr>ticks := Suc (ticks w)\<rparr>"
  have same: "same_process w ?w" by (simp add: same_process_def)
  have missed: "(case map_of (status_cache (proc w)) (dir_id d) of None \<Rightarrow> None
      | Some c \<Rightarrow> if is_usable c (clock e (ticks w)) since then Some (ce_status c) else None) = None"
    using cold by (simp split: option.split)
  show ?thesis
    unfolding fetch_directory_status_def Let_def wp_bnd wp_now wp_get_proc
    using t cfg(3) tail [OF same] by (simp add: missed)
qed

text \<open>A read that a cached entry answers leaves everything as it is.\<close>

lemma fetch_any:
  assumes "cut_over_origin e" and reach: "bridge_reachable d w" and t: "0 \<le> clock e (ticks w)"
  shows "wp e (fetch_directory_status d since) (\<lambda>v w'. tells_apply v \<or> same_process w w') (\<lambda>_ _. True) w"
proof (cases "\<exists>c. map_of (status_cache (proc w)) (dir_id d) = Some c \<and> is_usable c (clock e (ticks w)) since")
  case True
  then obtain c where "map_of (status_cache (proc w)) (dir_id d) = Some c" "is_usable c (clock e (ticks w)) since" by blast
  then show ?thesis
    by (simp add: fetch_directory_status_def Let_def same_process_def)
next
  case False
  then show ?thesis
    by (intro wp_mono [OF fetch_cut_over [OF assms(1) reach _ t]]) auto
qed


end
