(* ===== verification/Poller.thy ===== *)
theory Poller
  imports ListenerApply
begin

text \<open>
  The Events API polling transport (\<open>workers/native/events-poller.ts\<close>): it reads the events after a
  persisted cursor page by page, applies them in the order they come, and gives a failing event a
  bounded number of attempts.  The timer that calls it is not modelled.
\<close>

subsection \<open>Persisted state\<close>

definition events_cursor_key :: string where "events_cursor_key = ''native.events_cursor''"
definition events_retry_key :: string where "events_retry_key = ''native.events_retry''"
definition max_event_attempts :: nat where "max_event_attempts = 5"
definition default_events_url :: string where "default_events_url = ''https://api.workos.com''"
definition default_limit :: nat where "default_limit = 100"

definition dsync_event_types :: "string list" where
  "dsync_event_types = [''dsync.activated'', ''dsync.deleted'', ''dsync.user.created'', ''dsync.user.updated'',
     ''dsync.user.deleted'', ''dsync.group.created'', ''dsync.group.updated'', ''dsync.group.deleted'',
     ''dsync.group.user_added'', ''dsync.group.user_removed'']"

record poller_options =
  po_api_key :: string
  po_base_url :: "string option"
  po_limit :: "nat option"

record retry_state =
  re_id :: string
  re_count :: int

definition retry_text :: "retry_state \<Rightarrow> string" where
  "retry_text r = json_text (JObj [(''id'', JStr (re_id r)), (''count'', JNum (re_count r))])"

definition retry_of_text :: "string \<Rightarrow> retry_state option" where
  "retry_of_text raw = (case as_object (read_json raw) of
       None \<Rightarrow> None
     | Some obj \<Rightarrow> (case (as_string (getp obj ''id''), getp obj ''count'') of
         (Some i, Some (JNum n)) \<Rightarrow> Some \<lparr>re_id = i, re_count = n\<rparr> | _ \<Rightarrow> None))"

definition read_retry_state :: "retry_state option m" where
  "read_retry_state = bnd (get_config events_retry_key) (\<lambda>raw. ret
     (case nonempty_or_none raw of None \<Rightarrow> None | Some s \<Rightarrow> retry_of_text s))"

definition clear_retry_state :: "unit m" where
  "clear_retry_state = delete_config events_retry_key"

definition advance_cursor :: "string option \<Rightarrow> string option \<Rightarrow> unit m" where
  "advance_cursor cursor i = (case nonempty_or_none i of
       None \<Rightarrow> ret ()
     | Some x \<Rightarrow> if Some x \<noteq> cursor then set_config events_cursor_key x else ret ())"

subsection \<open>The events of a page\<close>

record page_state =
  ps_retry :: "retry_state option"
  ps_last :: "string option"
  ps_processed :: nat

definition event_id :: "object option \<Rightarrow> string option" where
  "event_id envelope = (case envelope of None \<Rightarrow> None | Some ev \<Rightarrow> string_value (getp ev ''id''))"

definition last_id :: "string option \<Rightarrow> page_state \<Rightarrow> page_state" where
  "last_id i st = (case i of None \<Rightarrow> st | Some x \<Rightarrow> st\<lparr>ps_last := Some x\<rparr>)"

definition abandoned_detail :: "string option \<Rightarrow> int \<Rightarrow> string" where
  "abandoned_detail i attempts = ''poller abandoned event '' @ (case i of None \<Rightarrow> ''<no id>'' | Some x \<Rightarrow> x)
     @ '' after '' @ show_int attempts
     @ '' attempts -- the event was NOT applied; run Reconcile from WorkOS to repair the resource''"

text \<open>\<open>Inl\<close>: the poll ends here, the failed event stays ahead of the cursor.\<close>

definition after_failure ::
    "string option \<Rightarrow> object option \<Rightarrow> page_state \<Rightarrow> (nat + page_state) m" where
  "after_failure cursor envelope st =
     (let i = event_id envelope;
          attempts = (case (ps_retry st, i) of
              (Some r, Some x) \<Rightarrow> if re_id r = x then re_count r + 1 else 1 | _ \<Rightarrow> 1) in
      case (if attempts < int max_event_attempts then i else None) of
        Some x \<Rightarrow>
          thn (set_config events_retry_key (retry_text \<lparr>re_id = x, re_count = attempts\<rparr>))
          (thn (advance_cursor cursor (ps_last st)) (ret (Inl (ps_processed st))))
      | None \<Rightarrow>
          thn clear_retry_state
          (thn (record_event i
             (case (case envelope of None \<Rightarrow> None | Some ev \<Rightarrow> string_value (getp ev ''event'')) of
                None \<Rightarrow> ''unknown'' | Some ty \<Rightarrow> ty)
             None Ignored (abandoned_detail i attempts) (Some (json_text (object_or_null envelope))))
          (ret (Inr (last_id i (st\<lparr>ps_retry := None\<rparr>))))))"

definition poll_event :: "string option \<Rightarrow> json \<Rightarrow> page_state \<Rightarrow> (nat + page_state) m" where
  "poll_event cursor event st =
     (let envelope = as_object (Some event); i = event_id envelope;
          is_retry = (case (ps_retry st, i) of (Some r, Some x) \<Rightarrow> re_id r = x | _ \<Rightarrow> False) in
      bnd (process_dsync_event envelope None (\<not> is_retry)) (\<lambda>out.
      if \<not> pe_error out then
        thn (if is_retry then clear_retry_state else ret ())
          (ret (Inr (last_id i (st\<lparr>ps_retry := (if is_retry then None else ps_retry st),
             ps_processed := ps_processed st + 1\<rparr>))))
      else after_failure cursor envelope st))"

fun poll_events :: "string option \<Rightarrow> json list \<Rightarrow> page_state \<Rightarrow> (nat + page_state) m" where
  "poll_events cursor [] st = ret (Inr st)"
| "poll_events cursor (ev # evs) st = bnd (poll_event cursor ev st) (\<lambda>r. case r of
       Inl n \<Rightarrow> ret (Inl n) | Inr st' \<Rightarrow> poll_events cursor evs st')"

subsection \<open>The loop over the pages\<close>

text \<open>\<open>new URL(base + "/events")\<close> with the query parameters appended, or the error it throws.\<close>

definition events_url :: "(string \<Rightarrow> url option) \<Rightarrow> string \<Rightarrow> nat \<Rightarrow> string option \<Rightarrow> string res" where
  "events_url parse base limit cursor = (case parse (base @ ''/events'') of
       None \<Rightarrow> Inl (Failed ''Invalid URL'')
     | Some u \<Rightarrow> Inr (url_origin u @ url_pathname u @ ''?'' @ form_text
         (url_params u @ map (Pair ''events[]'') dsync_event_types @ [(''limit'', show_nat limit)]
          @ (case nonempty_or_none cursor of None \<Rightarrow> [] | Some c \<Rightarrow> [(''after'', c)]))))"

definition events_call :: "string \<Rightarrow> string \<Rightarrow> call" where
  "events_call u key = \<lparr>c_side = WorkosApi, c_method = ''GET'', c_url = u, c_token = key,
     c_body = None, c_content_type = None, c_migrated = None, c_headers = []\<rparr>"

text \<open>The events of an answer, and whether the log goes on.\<close>

definition read_events :: "json \<Rightarrow> (json list \<times> bool) res" where
  "read_events v = (if v = JNull then Inl (Failed ''Cannot read properties of null'')
     else let page = record_or_empty (Some v);
         events = (case as_array (getp page ''data'') of None \<Rightarrow> [] | Some evs \<Rightarrow> evs) in
       Inr (events, truthy (getp (record_or_empty (getp page ''list_metadata'')) ''after'') \<and> events \<noteq> []))"

fun poll_pages ::
    "nat \<Rightarrow> poller_options \<Rightarrow> string option \<Rightarrow> retry_state option \<Rightarrow> nat \<Rightarrow> nat option m" where
  "poll_pages 0 opts cursor retry processed = ret None"
| "poll_pages (Suc fuel) opts cursor retry processed =
     (let base = strip_trailing_slashes (case po_base_url opts of None \<Rightarrow> default_events_url | Some b \<Rightarrow> b);
          limit = (case po_limit opts of None \<Rightarrow> default_limit | Some n \<Rightarrow> n) in
      bnd (bnd (asks (\<lambda>e. events_url (parse_url e) base limit cursor)) from_res) (\<lambda>u.
      bnd (fetch (events_call u (po_api_key opts))) (\<lambda>r.
      if u_status r = 400 \<and> nonempty_or_none cursor \<noteq> None then
        thn (delete_config events_cursor_key) (poll_pages fuel opts None retry processed)
      else if \<not> is_success (u_status r) then
        throw (Failed (''events API answered '' @ show_nat (u_status r) @ '' for GET '' @ base @ ''/events''))
      else (case u_body r of
          Some (Doc v) \<Rightarrow>
            bnd (from_res (read_events v)) (\<lambda>(events, more_pages).
            bnd (poll_events cursor events \<lparr>ps_retry = retry, ps_last = cursor, ps_processed = processed\<rparr>) (\<lambda>walked.
            case walked of
              Inl n \<Rightarrow> ret (Some n)
            | Inr st \<Rightarrow>
                thn (advance_cursor cursor (ps_last st))
                  (if more_pages then poll_pages fuel opts (ps_last st) (ps_retry st) (ps_processed st)
                   else ret (Some (ps_processed st)))))
        | _ \<Rightarrow> throw (Failed ''Unexpected end of JSON input'')))))"

definition poll_dsync_events_once :: "nat \<Rightarrow> poller_options \<Rightarrow> nat option m" where
  "poll_dsync_events_once fuel opts =
     bnd (get_config events_cursor_key) (\<lambda>cursor.
     bnd read_retry_state (\<lambda>retry. poll_pages fuel opts cursor retry 0))"

end
