(* ===== verification/JsonLaws.thy ===== *)
theory JsonLaws
  imports JsonText
begin

text \<open>
  What \<open>JSON.stringify\<close> prints, \<open>JSON.parse\<close> reads back: every value of the model whose objects have
  distinct keys survives the trip through its text.
\<close>

subsection \<open>Numbers\<close>

lemma digit_char [simp]: "n < 10 \<Longrightarrow> is_digit (digit_char n)" "n < 10 \<Longrightarrow> digit_val (digit_char n) = n"
  by (simp_all add: is_digit_def digit_val_def digit_char_def of_char_of)

lemma digits_val_snoc: "digits_val (s @ [c]) = 10 * digits_val s + digit_val c"
  by (simp add: digits_val_def)

lemma show_nat_digits: "digits_val (show_nat n) = n \<and> (\<forall>c \<in> set (show_nat n). is_digit c) \<and> show_nat n \<noteq> []"
proof (induction n rule: show_nat.induct)
  case (1 n)
  then show ?case
    by (subst (1 2 3) show_nat.simps) (auto simp: digits_val_snoc, simp add: digits_val_def)
qed

lemma digit_char_zero: "n < 10 \<Longrightarrow> digit_char n = CHR ''0'' \<longleftrightarrow> n = 0"
proof -
  assume n: "n < 10"
  have "digit_val (CHR ''0'') = 0" "digit_char 0 = CHR ''0''" by code_simp+
  with n show ?thesis using digit_char(2) [OF n] by metis
qed

lemma show_nat_hd: "0 < n \<Longrightarrow> hd (show_nat n) \<noteq> CHR ''0''"
proof (induction n rule: show_nat.induct)
  case (1 n)
  show ?case
  proof (cases "n < 10")
    case True
    with 1(2) digit_char_zero [of n] show ?thesis by (simp add: show_nat.simps)
  next
    case False
    with 1(1) have "hd (show_nat (n div 10)) \<noteq> CHR ''0''" by simp
    with False show_nat_digits [of "n div 10"] show ?thesis by (subst show_nat.simps) simp
  qed
qed

lemma show_nat_zero: "show_nat 0 = ''0''"
  by code_simp

text \<open>What may follow a value: the end, or a separator that no number goes on with.\<close>

definition ends_value :: "string \<Rightarrow> bool" where
  "ends_value rest \<longleftrightarrow> rest = [] \<or> hd rest \<in> set [CHR '','', CHR '']'', CHR ''}'']"

lemma ends_value_simps [simp]:
  "ends_value []" "ends_value (CHR '','' # r)" "ends_value (CHR '']'' # r)" "ends_value (CHR ''}'' # r)"
  by (simp_all add: ends_value_def)

lemma ends_value_no_digit:
  assumes "ends_value rest"
  shows "takeWhile is_digit rest = []" "dropWhile is_digit rest = rest"
    "rest = [] \<or> hd rest \<notin> set [CHR ''.'', CHR ''e'', CHR ''E'']"
proof -
  have "\<not> is_digit (CHR '','')" "\<not> is_digit (CHR '']'')" "\<not> is_digit (CHR ''}'')" by code_simp+
  with assms show "takeWhile is_digit rest = []" "dropWhile is_digit rest = rest"
    by (cases rest; auto simp: ends_value_def)+
  show "rest = [] \<or> hd rest \<notin> set [CHR ''.'', CHR ''e'', CHR ''E'']"
    using assms by (auto simp: ends_value_def)
qed

lemma take_digits:
  assumes "ends_value rest"
  shows "takeWhile is_digit (show_nat n @ rest) = show_nat n" "dropWhile is_digit (show_nat n @ rest) = rest"
  using show_nat_digits [of n] ends_value_no_digit [OF assms]
  by (simp_all add: takeWhile_append2 dropWhile_append2)

lemma show_nat_plain: "0 < n \<or> length (show_nat n) = 1"
  by (cases n) (simp_all add: show_nat_zero)

lemma read_show_int:
  assumes "ends_value rest"
  shows "read_number (show_int n @ rest) = Some (JNum n, rest)"
proof -
  have minus: "\<not> is_digit (CHR ''-'')" by code_simp
  have first: "\<exists>c r. show_nat k = c # r \<and> c \<noteq> CHR ''-''" for k
    using show_nat_digits [of k] minus by (cases "show_nat k") auto
  have lead: "\<not> (hd (show_nat k) = CHR ''0'' \<and> length (show_nat k) \<noteq> 1)" for k
    using show_nat_hd [of k] show_nat_plain [of k] by auto
  show ?thesis
  proof (cases "n < 0")
    case True
    with assms take_digits [OF assms] lead show_nat_digits ends_value_no_digit(3) [OF assms] show ?thesis
      by (auto simp: read_number_def show_int_def Let_def)
  next
    case False
    obtain c r where cr: "show_nat (nat n) = c # r" "c \<noteq> CHR ''-''" using first by blast
    have "(case show_nat (nat n) @ rest of c # r \<Rightarrow> if c = CHR ''-'' then (True, r) else (False, show_nat (nat n) @ rest)
        | [] \<Rightarrow> (False, show_nat (nat n) @ rest)) = (False, show_nat (nat n) @ rest)"
      using cr by simp
    with False take_digits [OF assms] lead show_nat_digits ends_value_no_digit(3) [OF assms] show ?thesis
      by (auto simp: read_number_def show_int_def Let_def)
  qed
qed

subsection \<open>The first character of a text\<close>

lemma show_int_first: "\<exists>c r. show_int n = c # r \<and> (is_digit c \<or> c = CHR ''-'')"
  using show_nat_digits [of "nat n"] by (cases "show_nat (nat n)") (auto simp: show_int_def)

definition opens_value :: "char \<Rightarrow> bool" where
  "opens_value c \<longleftrightarrow> \<not> json_space c \<and> c \<noteq> CHR '']''"

lemma opens_value_chars:
  "opens_value (CHR ''n'')" "opens_value (CHR ''t'')" "opens_value (CHR ''f'')" "opens_value dquote"
  "opens_value (CHR ''['')" "opens_value (CHR ''{'')" "opens_value (CHR ''-'')"
  by code_simp+

lemma opens_value_digit: "is_digit c \<Longrightarrow> opens_value c"
proof -
  assume c: "is_digit c"
  have "\<not> is_digit (CHR '']'')" by code_simp
  with c show ?thesis by (auto simp: opens_value_def is_digit_def json_space_def)
qed

lemma text_first: "\<exists>c r. json_text v = c # r \<and> opens_value c"
  using opens_value_chars opens_value_digit show_int_first
  by (cases v) (auto simp: json_quote_def, blast)

lemma skip_space_text [simp]: "skip_space (json_text v @ rest) = json_text v @ rest"
  using text_first [of v] by (auto simp: skip_space_def opens_value_def)

lemma skip_space_opens: "opens_value c \<Longrightarrow> skip_space (c # r) = c # r"
  by (simp add: skip_space_def opens_value_def)

lemma opens_no_close: "opens_value c \<Longrightarrow> c \<noteq> CHR '']''"
  by (simp add: opens_value_def)

lemma not_space: "\<not> json_space c \<Longrightarrow> skip_space (c # r) = c # r"
  by (simp add: skip_space_def)

lemma separators [simp]:
  "\<not> json_space (CHR '','')" "\<not> json_space (CHR '']'')" "\<not> json_space (CHR ''}'')" "\<not> json_space (CHR '':'')"
  "\<not> json_space dquote" "\<not> json_space (CHR ''['')" "\<not> json_space (CHR ''{'')" "\<not> json_space (CHR ''n'')"
  "\<not> json_space (CHR ''t'')" "\<not> json_space (CHR ''f'')"
  "CHR ''['' \<noteq> dquote" "CHR ''{'' \<noteq> dquote" "dquote \<noteq> CHR ''}''" "CHR ''n'' \<noteq> dquote" "CHR ''t'' \<noteq> dquote"
  "CHR ''f'' \<noteq> dquote"
  by code_simp+

lemma skip_space_separator [simp]:
  "skip_space (CHR '','' # r) = CHR '','' # r" "skip_space (CHR '']'' # r) = CHR '']'' # r"
  "skip_space (CHR ''}'' # r) = CHR ''}'' # r" "skip_space (CHR '':'' # r) = CHR '':'' # r"
  "skip_space (dquote # r) = dquote # r" "skip_space (CHR ''['' # r) = CHR ''['' # r"
  "skip_space (CHR ''{'' # r) = CHR ''{'' # r" "skip_space (CHR ''n'' # r) = CHR ''n'' # r"
  "skip_space (CHR ''t'' # r) = CHR ''t'' # r" "skip_space (CHR ''f'' # r) = CHR ''f'' # r"
  by (rule not_space, simp)+

subsection \<open>The round trip\<close>

fun distinct_keys :: "json \<Rightarrow> bool" where
  "distinct_keys (JArr vs) = (\<forall>v \<in> set vs. distinct_keys v)"
| "distinct_keys (JObj obj) = (distinct (map fst obj) \<and> (\<forall>kv \<in> set obj. distinct_keys (snd kv)))"
| "distinct_keys _ = True"

definition reads_back :: "json \<Rightarrow> bool" where
  "reads_back v \<longleftrightarrow> (\<forall>n rest. length (json_text v) \<le> n \<longrightarrow> ends_value rest \<longrightarrow>
     read_value n (json_text v @ rest) = Some (v, rest))"

abbreviation elems_text :: "json list \<Rightarrow> string" where
  "elems_text vs \<equiv> join_with '','' (map json_text vs)"

abbreviation field_text :: "string \<times> json \<Rightarrow> string" where
  "field_text \<equiv> \<lambda>(k, v). json_quote k @ '':'' @ json_text v"

abbreviation fields_text :: "object \<Rightarrow> string" where
  "fields_text obj \<equiv> join_with '','' (map field_text obj)"

lemma join_with_Cons: "join_with sep (x # y # ys) = x @ sep @ join_with sep (y # ys)"
  by (simp add: join_with_def)

lemma join_with_one: "join_with sep [x] = x"
  by (simp add: join_with_def)

lemma read_elems_back:
  "(\<forall>v \<in> set vs. reads_back v) \<Longrightarrow> vs \<noteq> [] \<Longrightarrow> Suc (length (elems_text vs)) \<le> n \<Longrightarrow>
   read_elems n acc (elems_text vs @ CHR '']'' # rest) = Some (JArr (acc @ vs), rest)"
proof (induction vs arbitrary: n acc)
  case (Cons v vs)
  from Cons.prems(3) obtain m where n: "n = Suc m" by (cases n) auto
  show ?case
  proof (cases vs)
    case Nil
    have "read_value m (json_text v @ CHR '']'' # rest) = Some (v, CHR '']'' # rest)"
      using Cons.prems n Nil by (auto simp: reads_back_def join_with_one)
    with n Nil show ?thesis by (simp add: join_with_one)
  next
    case (Cons v' vs')
    have len: "Suc (length (json_text v)) \<le> m" "Suc (length (elems_text vs)) \<le> m"
      using Cons.prems(3) n Cons by (auto simp: join_with_Cons)
    have "read_value m (json_text v @ CHR '','' # elems_text vs @ CHR '']'' # rest)
        = Some (v, CHR '','' # elems_text vs @ CHR '']'' # rest)"
      using Cons.prems(1) len by (auto simp: reads_back_def)
    moreover have "read_elems m (acc @ [v]) (elems_text vs @ CHR '']'' # rest) = Some (JArr (acc @ v # vs), rest)"
      using Cons.IH [of m "acc @ [v]"] Cons.prems(1) len Cons by simp
    ultimately show ?thesis using n Cons by (simp add: join_with_Cons)
  qed
qed simp

lemma set_prop_new: "k \<notin> fst ` set obj \<Longrightarrow> set_prop k v obj = obj @ [(k, v)]"
  by (induction k v obj rule: set_prop.induct) auto

lemma read_fields_back:
  "(\<forall>kv \<in> set obj. reads_back (snd kv)) \<Longrightarrow> obj \<noteq> [] \<Longrightarrow> distinct (map fst (acc @ obj)) \<Longrightarrow>
   Suc (length (fields_text obj)) \<le> n \<Longrightarrow>
   read_fields n acc (fields_text obj @ CHR ''}'' # rest) = Some (JObj (acc @ obj), rest)"
proof (induction obj arbitrary: n acc)
  case (Cons kv obj)
  obtain k v where kv: "kv = (k, v)" by (cases kv)
  from Cons.prems(4) obtain m where n: "n = Suc m" by (cases n) auto
  have new: "set_prop k v acc = acc @ [kv]"
    using Cons.prems(3) kv by (intro set_prop_new [THEN trans]) auto
  show ?case
  proof (cases obj)
    case Nil
    have "read_value m (json_text v @ CHR ''}'' # rest) = Some (v, CHR ''}'' # rest)"
      using Cons.prems n Nil kv by (auto simp: reads_back_def join_with_one)
    with n Nil kv new show ?thesis by (simp add: join_with_one json_quote_def read_quoted)
  next
    case (Cons kv' obj')
    have len: "Suc (length (json_text v)) \<le> m" "Suc (length (fields_text obj)) \<le> m"
      using Cons.prems(4) n kv Cons by (auto simp: join_with_Cons)
    have "read_value m (json_text v @ CHR '','' # fields_text obj @ CHR ''}'' # rest)
        = Some (v, CHR '','' # fields_text obj @ CHR ''}'' # rest)"
      using Cons.prems(1) len kv by (auto simp: reads_back_def)
    moreover have "read_fields m (acc @ [kv]) (fields_text obj @ CHR ''}'' # rest) = Some (JObj (acc @ kv # obj), rest)"
      using Cons.IH [of "acc @ [kv]" m] Cons.prems(1,3) len Cons by simp
    ultimately show ?thesis using n kv Cons new
      by (simp add: join_with_Cons json_quote_def read_quoted)
  qed
qed simp

lemma text_reads_back: "distinct_keys v \<Longrightarrow> reads_back v"
proof (induction v)
  case (JNum x)
  show ?case
    unfolding reads_back_def
  proof (intro allI impI)
    fix n rest assume n: "length (json_text (JNum x)) \<le> n" and rest: "ends_value rest"
    obtain c r where cr: "show_int x = c # r" "is_digit c \<or> c = CHR ''-''" using show_int_first by blast
    with n obtain m where m: "n = Suc m" by (cases n) auto
    have c: "c \<noteq> dquote" "c \<noteq> CHR ''[''" "c \<noteq> CHR ''{''" "c \<noteq> CHR ''n''" "c \<noteq> CHR ''t''" "c \<noteq> CHR ''f''"
    proof -
      have "\<not> is_digit dquote" "\<not> is_digit (CHR ''['')" "\<not> is_digit (CHR ''{'')" "\<not> is_digit (CHR ''n'')"
        "\<not> is_digit (CHR ''t'')" "\<not> is_digit (CHR ''f'')" "dquote \<noteq> CHR ''-''"
        by code_simp+
      with cr(2) show "c \<noteq> dquote" "c \<noteq> CHR ''[''" "c \<noteq> CHR ''{''" "c \<noteq> CHR ''n''" "c \<noteq> CHR ''t''" "c \<noteq> CHR ''f''"
        by auto
    qed
    have "skip_space (c # r @ rest) = c # r @ rest"
      using skip_space_text [of "JNum x" rest] cr by simp
    with m c cr read_show_int [OF rest, of x] show "read_value n (json_text (JNum x) @ rest) = Some (JNum x, rest)"
      by (simp add: starts_with_def)
  qed
next
  case (JStr s)
  then show ?case
    by (auto simp: reads_back_def json_quote_def read_quoted gr0_conv_Suc dest!: Suc_le_D)
next
  case (JArr vs)
  then have vs: "\<forall>v \<in> set vs. reads_back v" by auto
  have "read_value n (CHR ''['' # elems_text vs @ CHR '']'' # rest) = Some (JArr vs, rest)"
    if "length (json_text (JArr vs)) \<le> n" for n rest
  proof (cases vs)
    case Nil
    with that show ?thesis by (cases n) (auto simp: join_with_def)
  next
    case (Cons v vs')
    from that obtain m where m: "n = Suc m" "Suc (length (elems_text vs)) \<le> m" by (cases n) auto
    obtain c r where cr: "elems_text vs @ CHR '']'' # rest = c # r" "opens_value c"
      using text_first [of v] Cons by (auto simp: join_with_def)
    from read_elems_back [OF vs _ m(2), of "[]" rest] cr m(1) Cons show ?thesis
      by (simp add: skip_space_opens opens_no_close)
  qed
  then show ?case by (simp add: reads_back_def)
next
  case (JObj obj)
  then have obj: "\<forall>kv \<in> set obj. reads_back (snd kv)" "distinct (map fst ([] @ obj))"
    by (auto simp: snds.simps)
  have "read_value n (CHR ''{'' # fields_text obj @ CHR ''}'' # rest) = Some (JObj obj, rest)"
    if "length (json_text (JObj obj)) \<le> n" for n rest
  proof (cases obj)
    case Nil
    with that show ?thesis by (cases n) (auto simp: join_with_def)
  next
    case (Cons kv obj')
    from that obtain m where m: "n = Suc m" "Suc (length (fields_text obj)) \<le> m" by (cases n) auto
    obtain r where r: "fields_text obj @ CHR ''}'' # rest = dquote # r"
      using Cons by (cases kv) (auto simp: join_with_def json_quote_def)
    with read_fields_back [OF obj(1) _ obj(2) m(2), of rest] m(1) Cons show ?thesis by simp
  qed
  then show ?case by (simp add: reads_back_def)
qed (auto simp: reads_back_def starts_with_def dest!: Suc_le_D)

theorem read_json_text: "distinct_keys v \<Longrightarrow> read_json (json_text v) = Some v"
proof -
  assume "distinct_keys v"
  then have "read_value (2 * length (json_text v) + 2) (json_text v) = Some (v, [])"
    using text_reads_back [of v, unfolded reads_back_def, rule_format, of "2 * length (json_text v) + 2" "[]"] by simp
  then show ?thesis by (simp add: read_json_def skip_space_def)
qed

end
