(* ===== verification/PollerLaws.thy ===== *)
theory PollerLaws
  imports Poller ListenerLaws JsonLaws
begin

text \<open>
  The poller: the retry state survives its text, an event is given at most four retries, and the cursor
  never passes an event that failed and was not abandoned.
\<close>

subsection \<open>The stored retry state\<close>

lemma retry_read_back: "retry_of_text (retry_text r) = Some r"
proof -
  have "read_json (retry_text r) = Some (JObj [(''id'', JStr (re_id r)), (''count'', JNum (re_count r))])"
    unfolding retry_text_def by (rule read_json_text) simp
  then show ?thesis by (simp add: retry_of_text_def as_object_def as_string_def)
qed

definition stored_retry :: "store \<Rightarrow> retry_state option" where
  "stored_retry s = (case nonempty_or_none (config_of events_retry_key s) of
     None \<Rightarrow> None | Some t \<Rightarrow> retry_of_text t)"

lemma retry_text_nonempty: "retry_text r \<noteq> []"
  by (simp add: retry_text_def)

lemma keys_differ [simp]: "events_cursor_key \<noteq> events_retry_key" "events_retry_key \<noteq> events_cursor_key"
  by (simp_all add: events_cursor_key_def events_retry_key_def)

lemma config_of_put [simp]: "config_of k (s\<lparr>config := put_row fst (k', v) (config s)\<rparr>) = (if k = k' then Some v else config_of k s)"
  and config_of_del [simp]: "config_of k (s\<lparr>config := del_row fst k' (config s)\<rparr>) = (if k = k' then None else config_of k s)"
  by (simp_all add: config_of_def)

subsection \<open>What an attempt leaves in the configuration\<close>

interpretation config_kept: listener_frame "\<lambda>s s'. config s' = config s"
proof unfold_locales
  show "config (snd (put_user NativeTables u at s)) = config s" for s u at
    by (simp add: put_user_def Let_def)
qed (simp_all add: put_group_def insert_link_def insert_verified_def bump_version_def)

abbreviation config_same :: "world \<Rightarrow> world \<Rightarrow> bool" where
  "config_same \<equiv> on_db (\<lambda>s s'. config s' = config s)"

lemma config_sameD: "config_same w v \<Longrightarrow> config_of k (db v) = config_of k (db w)"
  by (simp add: on_db_def config_of_def)

lemma wp_config_same: "pres config_same e mm \<Longrightarrow> (\<And>x v. config_same w v \<Longrightarrow> Q x v) \<Longrightarrow> wp e mm Q (\<lambda>_ _. True) w"
  by (rule wp_mono [OF wp_pres [where R = config_same]]) auto

lemma wp_set_config:
  "(\<And>v. (\<And>k'. config_of k' (db v) = (if k' = k then Some x else config_of k' (db w))) \<Longrightarrow> Q () v) \<Longrightarrow>
   wp e (set_config k x) Q (\<lambda>_ _. True) w"
  unfolding set_config_def by (rule wp_execute) (auto intro!: replayable_writing)

lemma wp_delete_config:
  "(\<And>v. (\<And>k'. config_of k' (db v) = (if k' = k then None else config_of k' (db w))) \<Longrightarrow> Q () v) \<Longrightarrow>
   wp e (delete_config k) Q (\<lambda>_ _. True) w"
  unfolding delete_config_def by (rule wp_execute) (auto intro!: replayable_writing)

definition cursor_of :: "store \<Rightarrow> string option" where
  "cursor_of s = config_of events_cursor_key s"

lemma cursor_same: "config_same w v \<Longrightarrow> cursor_of (db v) = cursor_of (db w)"
  by (simp add: cursor_of_def config_sameD)

lemma stored_retry_cong: "config_of events_retry_key s' = config_of events_retry_key s \<Longrightarrow> stored_retry s' = stored_retry s"
  by (simp add: stored_retry_def)

text \<open>What the poll remembers when it stops at an event, given what the page state said before.\<close>

definition attempts_after :: "string \<Rightarrow> retry_state option \<Rightarrow> int" where
  "attempts_after x r = (case r of None \<Rightarrow> 1 | Some r \<Rightarrow> if re_id r = x then re_count r + 1 else 1)"

definition stopped_at :: "string option \<Rightarrow> page_state \<Rightarrow> string \<Rightarrow> world \<Rightarrow> world \<Rightarrow> bool" where
  "stopped_at i st x w w' \<longleftrightarrow> i = Some x \<and> attempts_after x (ps_retry st) < int max_event_attempts
     \<and> stored_retry (db w') = Some \<lparr>re_id = x, re_count = attempts_after x (ps_retry st)\<rparr>
     \<and> (cursor_of (db w') = cursor_of (db w) \<or> cursor_of (db w') = ps_last st)"

lemma wp_advance:
  "(\<And>v. config_of events_retry_key (db v) = config_of events_retry_key (db w) \<Longrightarrow>
      cursor_of (db v) = cursor_of (db w) \<or> cursor_of (db v) = i \<Longrightarrow> Q () v) \<Longrightarrow>
   wp e (advance_cursor cursor i) Q (\<lambda>_ _. True) w"
  unfolding advance_cursor_def
  by (auto simp: cursor_of_def nonempty_or_none_def intro!: wp_set_config split: option.splits if_splits)

definition poll_outcome ::
    "string option \<Rightarrow> page_state \<Rightarrow> world \<Rightarrow> nat + page_state \<Rightarrow> world \<Rightarrow> bool" where
  "poll_outcome i st w r w' \<longleftrightarrow> (case r of
      Inl n \<Rightarrow> (\<exists>x. stopped_at i st x w w')
    | Inr st' \<Rightarrow> cursor_of (db w') = cursor_of (db w)
        \<and> ps_last st' = (case i of None \<Rightarrow> ps_last st | Some x \<Rightarrow> Some x))"

lemma poll_outcome_simps [simp]:
  "poll_outcome i st w (Inl n) w' \<longleftrightarrow> (\<exists>x. stopped_at i st x w w')"
  "poll_outcome i st w (Inr (last_id i st')) w' \<longleftrightarrow>
     cursor_of (db w') = cursor_of (db w) \<and> (i = None \<longrightarrow> ps_last st' = ps_last st)"
  by (auto simp: poll_outcome_def last_id_def split: option.split)

lemma poll_outcome_from: "poll_outcome i st v r w' \<Longrightarrow> config_same w v \<Longrightarrow> poll_outcome i st w r w'"
  by (auto simp: poll_outcome_def stopped_at_def cursor_of_def config_sameD split: sum.splits)

lemma after_failure_outcome:
  "wp e (after_failure cursor envelope st) (poll_outcome (event_id envelope) st w) (\<lambda>_ _. True) w"
proof -
  have stop: "wp e (set_config events_retry_key (retry_text \<lparr>re_id = x, re_count = attempts_after x (ps_retry st)\<rparr>))
      (\<lambda>_ v. wp e (advance_cursor cursor (ps_last st)) (\<lambda>_ w'. \<exists>x. stopped_at i st x w w') (\<lambda>_ _. True) v)
      (\<lambda>_ _. True) w"
    if "i = Some x" "attempts_after x (ps_retry st) < int max_event_attempts" for x i
    by (rule wp_set_config, rule wp_advance)
      (use that in \<open>auto simp: stopped_at_def stored_retry_def nonempty_or_none_def retry_text_nonempty
         retry_read_back cursor_of_def split: if_splits\<close>)
  have attempts: "(case (ps_retry st, event_id envelope) of (Some r, Some x) \<Rightarrow> if re_id r = x then re_count r + 1 else 1 | _ \<Rightarrow> 1)
      = (case event_id envelope of None \<Rightarrow> 1 | Some x \<Rightarrow> attempts_after x (ps_retry st))"
    by (simp add: attempts_after_def split: option.split)
  have passed: "wp e clear_retry_state (\<lambda>_ v. wp e (record_event i ty idp act detail payload)
      (\<lambda>_ w'. cursor_of (db w') = cursor_of (db w)) (\<lambda>_ _. True) v) (\<lambda>_ _. True) w" for i ty idp act detail payload
    unfolding clear_retry_state_def
    by (rule wp_delete_config, rule wp_config_same [OF config_kept.keep_event])
      (simp add: cursor_of_def config_sameD)
  show ?thesis
  proof (cases "event_id envelope")
    case None
    then show ?thesis unfolding after_failure_def Let_def attempts by (simp add: passed)
  next
    case (Some x)
    then show ?thesis unfolding after_failure_def Let_def attempts by (simp add: passed stop)
  qed
qed

lemma poll_event_outcome:
  "wp e (poll_event cursor ev st) (poll_outcome (event_id (as_object (Some ev))) st w) (\<lambda>_ _. True) w"
proof -
  have failed: "wp e (after_failure cursor envelope st) (poll_outcome (event_id envelope) st w) (\<lambda>_ _. True) v"
    if "config_same w v" for v envelope
    by (rule wp_mono [OF after_failure_outcome]) (use that poll_outcome_from in auto)
  have cleared: "wp e clear_retry_state (\<lambda>_ w'. cursor_of (db w') = cursor_of (db w)) (\<lambda>_ _. True) v" if "config_same w v" for v
    unfolding clear_retry_state_def
    by (rule wp_delete_config) (use config_sameD [OF that] in \<open>simp add: cursor_of_def\<close>)
  show ?thesis
    unfolding poll_event_def Let_def wp_bnd
    by (rule wp_config_same [OF config_kept.write_process])
      (auto simp: cursor_same intro!: failed wp_mono [OF cleared])
qed

subsection \<open>The cursor stays behind a failure\<close>

definition page_stopped :: "json list \<Rightarrow> page_state \<Rightarrow> world \<Rightarrow> world \<Rightarrow> bool" where
  "page_stopped evs st w w' \<longleftrightarrow> (\<exists>pre ev post x c. evs = pre @ ev # post \<and> event_id (as_object (Some ev)) = Some x
     \<and> stored_retry (db w') = Some \<lparr>re_id = x, re_count = c\<rparr> \<and> c < int max_event_attempts
     \<and> (cursor_of (db w') \<in> {cursor_of (db w), ps_last st}
        \<or> (\<exists>p \<in> set pre. cursor_of (db w') = event_id (as_object (Some p)))))"

lemma stopped_here: "stopped_at (event_id (as_object (Some ev))) st x w v \<Longrightarrow> page_stopped (ev # evs) st w v"
  unfolding page_stopped_def stopped_at_def
  by (rule exI [of _ "[]"], rule exI [of _ ev], rule exI [of _ evs]) auto

lemma stopped_later:
  assumes step: "poll_outcome (event_id (as_object (Some ev))) st w (Inr st') v" and rest: "page_stopped evs st' v v'"
  shows "page_stopped (ev # evs) st w v'"
proof -
  from rest obtain pre ev' post x c where split: "evs = pre @ ev' # post" "event_id (as_object (Some ev')) = Some x"
      "stored_retry (db v') = Some \<lparr>re_id = x, re_count = c\<rparr>" "c < int max_event_attempts"
    and at: "cursor_of (db v') \<in> {cursor_of (db v), ps_last st'} \<or> (\<exists>p \<in> set pre. cursor_of (db v') = event_id (as_object (Some p)))"
    unfolding page_stopped_def by blast
  have "cursor_of (db v') \<in> {cursor_of (db w), ps_last st} \<or> (\<exists>p \<in> set (ev # pre). cursor_of (db v') = event_id (as_object (Some p)))"
    using at step by (auto simp: poll_outcome_def split: option.splits)
  moreover from split(1) have "ev # evs = (ev # pre) @ ev' # post" by simp
  ultimately show ?thesis unfolding page_stopped_def using split(2-4) by blast
qed

lemma poll_events_stop:
  "wp e (poll_events cursor evs st) (\<lambda>r w'. case r of
      Inl n \<Rightarrow> page_stopped evs st w w' | Inr st' \<Rightarrow> cursor_of (db w') = cursor_of (db w)) (\<lambda>_ _. True) w"
proof (induction evs arbitrary: st w)
  case (Cons ev evs)
  have rest: "wp e (poll_events cursor evs st') (\<lambda>r w'. case r of
      Inl n \<Rightarrow> page_stopped (ev # evs) st w w' | Inr st' \<Rightarrow> cursor_of (db w') = cursor_of (db w)) (\<lambda>_ _. True) v"
    if "poll_outcome (event_id (as_object (Some ev))) st w (Inr st') v" for st' v
    by (rule wp_mono [OF Cons.IH]) (use that stopped_later [OF that] in \<open>auto simp: poll_outcome_def split: sum.splits\<close>)
  show ?case
    unfolding poll_events.simps wp_bnd
  proof (rule wp_mono [OF poll_event_outcome])
    fix r v assume r: "poll_outcome (event_id (as_object (Some ev))) st w r v"
    show "wp e (case r of Inl n \<Rightarrow> ret (Inl n) | Inr st' \<Rightarrow> poll_events cursor evs st') (\<lambda>r w'. case r of
        Inl n \<Rightarrow> page_stopped (ev # evs) st w w' | Inr st' \<Rightarrow> cursor_of (db w') = cursor_of (db w)) (\<lambda>_ _. True) v"
      using r rest by (cases r) (auto intro: stopped_here)
  qed simp
qed simp

text \<open>C13: when a page ends at a failed event, the stored cursor is where it was or at an event that came
  before it, so the failed event is read again; its id and its number of attempts are what the store says.\<close>
theorem cursor_stays_behind_failure:
  assumes "poll_events cursor evs st e w = (Inr (Inl n), w')"
  shows "\<exists>pre ev post x c. evs = pre @ ev # post \<and> event_id (as_object (Some ev)) = Some x
    \<and> stored_retry (db w') = Some \<lparr>re_id = x, re_count = c\<rparr> \<and> c < int max_event_attempts
    \<and> (cursor_of (db w') \<in> {cursor_of (db w), ps_last st}
       \<or> (\<exists>p \<in> set pre. cursor_of (db w') = event_id (as_object (Some p))))"
  using wp_Inr [OF poll_events_stop assms] unfolding sum.case page_stopped_def .

subsection \<open>No event stops the log for good\<close>

text \<open>The attempts that successive polls make at the event after the cursor, each in an environment of its
  own; the polls stop there as long as every one of them ends at it.\<close>

definition attempt :: "string option \<Rightarrow> json \<Rightarrow> (nat + page_state) m" where
  "attempt cursor ev = bnd read_retry_state (\<lambda>retry.
     poll_event cursor ev \<lparr>ps_retry = retry, ps_last = cursor, ps_processed = 0\<rparr>)"

fun stuck :: "env list \<Rightarrow> string option \<Rightarrow> json \<Rightarrow> world \<Rightarrow> bool" where
  "stuck [] cursor ev w = True"
| "stuck (e # es) cursor ev w = (case attempt cursor ev e w of
     (Inr (Inl n), w') \<Rightarrow> stuck es cursor ev w' | _ \<Rightarrow> False)"

definition tries :: "json \<Rightarrow> store \<Rightarrow> int" where
  "tries ev s = (case (event_id (as_object (Some ev)), stored_retry s) of
     (Some x, Some r) \<Rightarrow> if re_id r = x then re_count r else 0 | _ \<Rightarrow> 0)"

lemma stopped_tries:
  "stopped_at (event_id (as_object (Some ev))) st x w w' \<Longrightarrow>
   tries ev (db w') = attempts_after x (ps_retry st) \<and> tries ev (db w') < int max_event_attempts
     \<and> event_id (as_object (Some ev)) = Some x"
  by (simp add: stopped_at_def tries_def)

lemma tries_step:
  assumes "poll_outcome (event_id (as_object (Some ev))) \<lparr>ps_retry = stored_retry (db w), ps_last = cursor, ps_processed = 0\<rparr> v (Inl n) w'"
  shows "tries ev (db w') = tries ev (db w) + 1 \<and> tries ev (db w') < int max_event_attempts"
proof -
  from assms obtain x where "stopped_at (event_id (as_object (Some ev)))
      \<lparr>ps_retry = stored_retry (db w), ps_last = cursor, ps_processed = 0\<rparr> x v w'"
    by auto
  from stopped_tries [OF this] show ?thesis
    by (auto simp: tries_def [of ev "db w"] attempts_after_def split: option.split)
qed

lemma attempt_counts:
  assumes "attempt cursor ev e w = (Inr (Inl n), w')"
  shows "tries ev (db w') = tries ev (db w) + 1 \<and> tries ev (db w') < int max_event_attempts"
proof -
  have go: "wp e (poll_event cursor ev \<lparr>ps_retry = stored_retry (db w), ps_last = cursor, ps_processed = 0\<rparr>)
      (\<lambda>r w'. case r of Inl n \<Rightarrow> tries ev (db w') = tries ev (db w) + 1 \<and> tries ev (db w') < int max_event_attempts | Inr _ \<Rightarrow> True)
      (\<lambda>_ _. True) v" for v
    by (rule wp_mono [OF poll_event_outcome])
      (auto dest: tries_step simp del: poll_outcome_simps split: sum.split)
  have "wp e (attempt cursor ev)
      (\<lambda>r w'. case r of Inl n \<Rightarrow> tries ev (db w') = tries ev (db w) + 1 \<and> tries ev (db w') < int max_event_attempts | Inr _ \<Rightarrow> True)
      (\<lambda>_ _. True) w"
    unfolding attempt_def read_retry_state_def get_config_def wp_bnd
    by (rule wp_query) (use go in \<open>simp_all add: stored_retry_def config_of_def\<close>)
  from wp_Inr [OF this assms] show ?thesis by simp
qed

lemma stuck_bound: "stuck es cursor ev w \<Longrightarrow> es \<noteq> [] \<Longrightarrow> tries ev (db w) + int (length es) < int max_event_attempts"
proof (induction es arbitrary: w)
  case (Cons e es)
  from Cons.prems(1) obtain n v where step: "attempt cursor ev e w = (Inr (Inl n), v)" and rest: "stuck es cursor ev v"
    by (auto split: prod.splits sum.splits)
  note counts = attempt_counts [OF step]
  show ?case
  proof (cases es)
    case Nil
    with counts show ?thesis by simp
  next
    case (Cons e' es')
    with Cons.IH [OF rest] counts show ?thesis by simp
  qed
qed simp


end
