(* ===== verification/ListenerRuns.thy ===== *)
theory ListenerRuns
  imports ListenerGuards StatusClientLaws PollerLaws BackfillRuns
begin

text \<open>
  Concrete runs of the listener and of the poller: the witnesses of their laws.
\<close>

subsection \<open>A directory after cutover\<close>

definition cut_over :: store where
  "cut_over = empty_store\<lparr>directories := [sample WorkosOnly]\<rparr>"

definition user_event :: "string \<Rightarrow> string \<Rightarrow> string \<Rightarrow> string \<Rightarrow> object" where
  "user_event i at ty name = [(''event'', JStr ty), (''id'', JStr i), (''created_at'', JStr at),
     (''data'', JObj [(''id'', JStr ''x1''), (''idp_id'', JStr ''i1''), (''state'', JStr ''active''),
       (''username'', JStr name), (''directory_id'', JStr ''d'')])]"

definition created :: object where "created = user_event ''e1'' ''2024-01-02'' ''dsync.user.created'' ''ann''"
definition renamed :: object where "renamed = user_event ''e2'' ''2024-01-03'' ''dsync.user.updated'' ''bob''"
definition deleted :: object where "deleted = user_event ''e3'' ''2024-01-04'' ''dsync.user.deleted'' ''bob''"
definition late :: object where "late = user_event ''e0'' ''2024-01-01'' ''dsync.user.updated'' ''zoe''"

definition after :: "object list \<Rightarrow> world" where
  "after evs = foldl (\<lambda>w ev. snd (process_dsync_event (Some ev) None True quiet_env w)) (fresh_world cut_over) evs"

abbreviation step :: "object \<Rightarrow> env \<Rightarrow> world \<Rightarrow> (err + processed_event) \<times> world" where
  "step ev \<equiv> process_dsync_event (Some ev) None True"

lemma after_snoc: "step ev quiet_env (after evs) = (r, w') \<Longrightarrow> after (evs @ [ev]) = w'"
  by (simp add: after_def)

lemma after_runs: obtains r where "step ev quiet_env (after evs) = (r, after (evs @ [ev]))"
  by (cases "step ev quiet_env (after evs)") (auto dest: after_snoc)

theorem native_tables_well_formed_witness:
  "well_formed (native_tables (db (after [created, renamed]))) \<and> length (t_users (native_tables (db (after [created, renamed])))) = 1"
proof -
  have "well_formed (native_tables (db (after [created])))"
    "length (t_users (native_tables (db (after [created, renamed])))) = 1"
    by code_simp+
  moreover obtain r where "step renamed quiet_env (after [created]) = (r, after ([created] @ [renamed]))"
    by (rule after_runs)
  ultimately show ?thesis using native_tables_well_formed by fastforce
qed

theorem versions_never_go_back_witness:
  "\<exists>t. version_of ''user:i1'' (db (after [created, renamed])) = Some t \<and> ''2024-01-02'' \<le> t"
proof -
  have "version_of ''user:i1'' (db (after [created])) = Some ''2024-01-02''" by code_simp
  moreover obtain r where "step renamed quiet_env (after [created]) = (r, after ([created] @ [renamed]))"
    by (rule after_runs)
  ultimately show ?thesis using versions_never_go_back [where scope = "''user:i1''" and t = "''2024-01-02''"] by fastforce
qed

definition data_of :: "object \<Rightarrow> object" where
  "data_of ev = record_or_empty (getp ev ''data'')"

theorem stale_event_changes_nothing_witness:
  "case dispatch_event ''dsync.user.updated'' (data_of late) (Some ''2024-01-01'') ''d'' quiet_env (after [created]) of
     (Inr out, w') \<Rightarrow> o_action out = Skipped \<and> native_tables (db w') = native_tables (db (after [created])) | _ \<Rightarrow> False"
proof -
  let ?run = "dispatch_event ''dsync.user.updated'' (data_of late) (Some ''2024-01-01'') ''d'' quiet_env (after [created])"
  let ?scopes = "event_scopes ''d'' ''dsync.user.updated'' (data_of late) quiet_env (after [created])"
  have s: "case ?scopes of (Inr scs, w1) \<Rightarrow> list_ex (\<lambda>sc. case version_of sc (db w1) of
      None \<Rightarrow> False | Some t \<Rightarrow> ''2024-01-01'' < t) scs | _ \<Rightarrow> False" and d: "case ?run of (Inr out, w') \<Rightarrow> True | _ \<Rightarrow> False"
    by code_simp+
  from s obtain scs w1 where scopes: "?scopes = (Inr scs, w1)" "outdated scs ''2024-01-01'' (db w1)"
    by (auto simp: outdated_def list_ex_iff split: prod.splits sum.splits option.splits)
  from d obtain out w' where run: "?run = (Inr out, w')" by (auto split: prod.splits sum.splits)
  with stale_event_changes_nothing [OF scopes run] show ?thesis by simp
qed

theorem redelivery_is_harmless_witness:
  "map ur_name (t_users (native_tables (db (after [created, renamed, deleted, renamed])))) = [''bob'']
   \<and> native_tables (db (after [created, renamed, deleted, renamed])) = native_tables (db (after [created, renamed, deleted]))"
proof -
  let ?ds = "[(quiet_env, Some deleted, None, True)]"
  have ids: "string_value (getp renamed ''event'') = Some ''dsync.user.updated''" "string_value (getp renamed ''id'') = Some ''e2''"
    by code_simp+
  have "case step renamed quiet_env (after [created]) of (Inr p, w') \<Rightarrow> pe_action p \<noteq> Ignored | _ \<Rightarrow> False" by code_simp
  then obtain p where first: "step renamed quiet_env (after [created]) = (Inr p, after ([created] @ [renamed]))" "pe_action p \<noteq> Ignored"
    using after_runs [of renamed "[created]"] by (auto split: prod.splits sum.splits)
  have mid: "deliver ?ds (after ([created] @ [renamed])) = after [created, renamed, deleted]"
    by (simp add: after_def)
  obtain r where again: "step renamed quiet_env (after [created, renamed, deleted]) = (r, after ([created, renamed, deleted] @ [renamed]))"
    by (rule after_runs)
  have "map ur_name (t_users (native_tables (db (after [created, renamed, deleted])))) = [''bob'']" by code_simp
  with redelivery_is_harmless [OF ids first, of None True quiet_env ?ds, unfolded mid, OF again] show ?thesis by simp
qed

theorem user_deletion_is_soft_witness:
  "case delete_user_from_event (data_of deleted) ''d'' quiet_env (after [created, renamed]) of
     (Inr out, w') \<Rightarrow> map (\<lambda>u. (ur_id u, ur_active u)) (t_users (native_tables (db w'))) = [(''x1'', False)]
       \<and> map ur_id (t_users (native_tables (db w'))) = map ur_id (t_users (native_tables (db (after [created, renamed]))))
   | _ \<Rightarrow> False"
proof -
  let ?run = "delete_user_from_event (data_of deleted) ''d'' quiet_env (after [created, renamed])"
  have d: "case ?run of (Inr out, w') \<Rightarrow> map (\<lambda>u. (ur_id u, ur_active u)) (t_users (native_tables (db w'))) = [(''x1'', False)] | _ \<Rightarrow> False"
    and hyps: "map_option snd (look_row fst ''native.delete_policy'' (config (db (after [created, renamed])))) \<noteq> Some ''hard''"
      "string_value (getp (data_of deleted) ''idp_id'') = Some ''i1''"
    by code_simp+
  from d obtain out w' where run: "?run = (Inr out, w')"
    "map (\<lambda>u. (ur_id u, ur_active u)) (t_users (native_tables (db w'))) = [(''x1'', False)]"
    by (auto split: prod.splits sum.splits)
  with user_deletion_is_soft [OF run(1) hyps] show ?thesis by simp
qed

text \<open>The row \<open>x1\<close> still belongs to a departed user, with a membership.\<close>

definition departed :: user_row where
  "departed = \<lparr>ur_id = ''x1'', ur_name = ''ann'', ur_external = Some ''i0'', ur_active = False,
     ur_resource = Doc (JObj []), ur_created = ''t0'', ur_updated = ''t0''\<rparr>"

definition with_departed :: store where
  "with_departed = cut_over\<lparr>native_tables := \<lparr>t_users = [departed], t_groups = [], t_members = [(''g1'', ''x1'')]\<rparr>\<rparr>"


subsection \<open>Before cutover\<close>

text \<open>The bridge answers for the directory as it is: dual-write.\<close>

definition before_cutover :: store where
  "before_cutover = empty_store\<lparr>directories := [sample DualWrite],
     config := [(''proxy.public_url'', ''/bridge''), (client_token_key ''d'', ''ct'')]\<rparr>"

definition bridge_env :: env where
  "bridge_env = quiet_env\<lparr>upstream := (\<lambda>cs c. Inr (reply 200 (status_body (sample DualWrite))))\<rparr>"

lemma bridge_is_inert: "inert_origin bridge_env"
proof -
  have "status_body (sample DualWrite) \<noteq> []" "dir_mode (sample DualWrite) \<noteq> WorkosOnly" by code_simp+
  then show ?thesis
    by (auto simp: inert_origin_def bridge_env_def reply_def says_inert_def)
qed

theorem inert_before_cutover_witness:
  "case step created bridge_env (fresh_world before_cutover) of
     (Inr p, w') \<Rightarrow> pe_action p = Ignored \<and> length (calls w') = 1
       \<and> native_tables (db w') = native_tables before_cutover
   | _ \<Rightarrow> False"
proof -
  let ?run = "step created bridge_env (fresh_world before_cutover)"
  have d: "case ?run of (Inr p, w') \<Rightarrow> pe_action p = Ignored \<and> length (calls w') = 1 | _ \<Rightarrow> False"
    and modes: "\<forall>d \<in> set (directories (db (fresh_world before_cutover))). dir_mode d \<noteq> WorkosOnly"
    by code_simp+
  have p: "inert_process (proc (fresh_world before_cutover))" by (simp add: fresh_world_def inert_process_def)
  from d obtain out w' where run: "?run = (Inr out, w')" "pe_action out = Ignored" "length (calls w') = 1"
    by (auto split: prod.splits sum.splits)
  with inert_before_cutover [OF modes bridge_is_inert p run(1)] show ?thesis by (simp add: fresh_world_def)
qed

subsection \<open>Within the cutover window\<close>

text \<open>The process still holds a dual-write answer confirmed ten milliseconds ago; the bridge knows better.\<close>

definition flipped_env :: env where
  "flipped_env = quiet_env\<lparr>upstream := (\<lambda>cs c. Inr (reply 200 (status_body (sample WorkosOnly)))), clock := (\<lambda>n. 100 + int n)\<rparr>"

definition stale_world :: world where
  "stale_world = (fresh_world before_cutover)\<lparr>proc := \<lparr>status_cache = [(''d'', \<lparr>ce_status = JObj (status_body (sample DualWrite)),
     ce_etag = None, ce_validated = 90\<rparr>)], failed_until = [], remembered = [], idp_timers = []\<rparr>\<rparr>"


subsection \<open>A signed webhook\<close>

definition with_secret :: store where
  "with_secret = cut_over\<lparr>config := [(''native.webhook_secret'', ''s'')]\<rparr>"

definition signing_env :: env where
  "signing_env = quiet_env\<lparr>hmac_hex := (\<lambda>k s. if k = ''s'' \<and> s = ''0.'' @ json_text (JObj created) then ''a1b2'' else ''ff'')\<rparr>"

theorem webhook_needs_signature_witness:
  "\<exists>header ts v1. Some ''t=0, v1=A1B2'' = Some header \<and> match_signature header = Some (ts, v1)
    \<and> hmac_hex signing_env ''s'' (ts @ ''.'' @ json_text (JObj created)) = to_lower v1
    \<and> \<bar>clock signing_env 0 - int (digits_val ts)\<bar> \<le> signature_tolerance_ms"
proof -
  let ?run = "handle_dsync_webhook (json_text (JObj created)) (Some ''t=0, v1=A1B2'') signing_env (fresh_world with_secret)"
  have "length (t_users (native_tables (db (snd ?run)))) = 1" "t_users (native_tables (db (fresh_world with_secret))) = []"
    and secret: "map_option snd (look_row fst ''native.webhook_secret'' (config (db (fresh_world with_secret)))) = Some ''s''"
      "''s'' \<noteq> []" "ticks (fresh_world with_secret) = 0"
    by code_simp+
  then have effect: "db (snd ?run) \<noteq> db (fresh_world with_secret) \<or> calls (snd ?run) \<noteq> calls (fresh_world with_secret)"
    by auto
  obtain r where run: "?run = (r, snd ?run)" by (cases ?run) simp
  from webhook_needs_signature [OF run secret(1,2) effect] secret(3) show ?thesis by simp
qed

subsection \<open>An event that fails\<close>

text \<open>Its WorkOS id is a directory-sync id that nothing links to a native user, and no bridge can be asked.\<close>

definition unknown :: object where
  "unknown = [(''event'', JStr ''dsync.user.created''), (''id'', JStr ''e9''), (''created_at'', JStr ''2024-01-05''),
     (''data'', JObj [(''id'', JStr ''directory_user_9''), (''idp_id'', JStr ''i9''), (''state'', JStr ''active''),
       (''username'', JStr ''kim''), (''directory_id'', JStr ''d'')])]"

theorem cursor_stays_behind_failure_witness:
  "\<exists>w' pre ev post x c. poll_events (Some ''e0'') [JObj created, JObj unknown, JObj renamed]
       \<lparr>ps_retry = None, ps_last = Some ''e0'', ps_processed = 0\<rparr> quiet_env (fresh_world cut_over) = (Inr (Inl 1), w')
    \<and> cursor_of (db w') = Some ''e1'' \<and> [JObj created, JObj unknown, JObj renamed] = pre @ ev # post
    \<and> event_id (as_object (Some ev)) = Some x \<and> stored_retry (db w') = Some \<lparr>re_id = x, re_count = c\<rparr>"
proof -
  let ?run = "poll_events (Some ''e0'') [JObj created, JObj unknown, JObj renamed]
       \<lparr>ps_retry = None, ps_last = Some ''e0'', ps_processed = 0\<rparr> quiet_env (fresh_world cut_over)"
  have "case ?run of (Inr (Inl n), w') \<Rightarrow> n = 1 \<and> cursor_of (db w') = Some ''e1'' | _ \<Rightarrow> False" by code_simp
  then obtain w' where run: "?run = (Inr (Inl 1), w')" "cursor_of (db w') = Some ''e1''"
    by (auto split: prod.splits sum.splits)
  from cursor_stays_behind_failure [OF run(1)] run show ?thesis by blast
qed


end
