(* ===== verification/ScimServer.thy ===== *)
theory ScimServer
  imports NativeStore Status
begin

text \<open>
  The SCIM server of the reference native app and of the mock WorkOS directory
  (\<open>workers/native/scim-server.ts\<close>): its replies, the attributes of a body, the filter of a list, and the
  operations on users and groups, PATCH apart.  A property set to \<open>undefined\<close> is absent from the model's
  objects, as it is from the text \<open>JSON.stringify\<close> writes.  The resource column of a row is only ever
  written from an object; any other content counts as text that does not parse.
\<close>

subsection \<open>Replies\<close>

datatype migrated_id_mode = HeaderOff | PutUpsert | PostCreate

record scim_config =
  sc_tables :: table_set
  sc_migrated :: migrated_id_mode

definition server_json :: "json \<Rightarrow> nat \<Rightarrow> response" where
  "server_json body st = \<lparr>r_status = st, r_body = Some (Doc body),
     r_headers = [(''Content-Type'', scim_content_type)]\<rparr>"

definition server_error :: "nat \<Rightarrow> string \<Rightarrow> string option \<Rightarrow> response" where
  "server_error st detail scim_type = server_json (JObj
     ([(''schemas'', JArr [JStr ''urn:ietf:params:scim:api:messages:2.0:Error'']), (''status'', JStr (show_nat st))]
      @ (case scim_type of None \<Rightarrow> [] | Some t \<Rightarrow> [(''scimType'', JStr t)]) @ [(''detail'', JStr detail)])) st"

abbreviation invalid_value :: "string \<Rightarrow> response" where
  "invalid_value detail \<equiv> server_error 400 detail (Some ''invalidValue'')"

definition quote_text :: "string \<Rightarrow> string" where
  "quote_text s = [dquote] @ s @ [dquote]"

definition noun :: "kind \<Rightarrow> string" where
  "noun k = (case k of Users \<Rightarrow> ''user'' | Groups \<Rightarrow> ''group'')"

definition not_found :: "kind \<Rightarrow> string \<Rightarrow> response" where
  "not_found k i = server_error 404 (''No '' @ noun k @ '' with id '' @ i @ ''.'') None"

definition name_in_use :: "kind \<Rightarrow> string \<Rightarrow> response" where
  "name_in_use k name = server_error 409
     ((case k of Users \<Rightarrow> ''A user with userName '' | Groups \<Rightarrow> ''A group named '') @ quote_text name @ '' already exists.'')
     (Some ''uniqueness'')"

definition id_in_use :: "kind \<Rightarrow> string \<Rightarrow> response" where
  "id_in_use k i = server_error 409 (''A '' @ noun k @ '' with id '' @ quote_text i @ '' already exists.'') (Some ''uniqueness'')"

definition name_attr :: "kind \<Rightarrow> string" where
  "name_attr k = (case k of Users \<Rightarrow> ''userName'' | Groups \<Rightarrow> ''displayName'')"

definition name_required :: "kind \<Rightarrow> response" where
  "name_required k = invalid_value (name_attr k @ '' is required.'')"

definition not_an_object :: response where
  "not_an_object = invalid_value ''Request body must be a JSON object.''"

definition service_provider_config :: json where
  "service_provider_config = JObj
     [(''schemas'', JArr [JStr ''urn:ietf:params:scim:schemas:core:2.0:ServiceProviderConfig'']),
      (''patch'', JObj [(''supported'', JBool True)]),
      (''filter'', JObj [(''supported'', JBool True), (''maxResults'', JNum 200)]),
      (''bulk'', JObj [(''supported'', JBool False), (''maxOperations'', JNum 0), (''maxPayloadSize'', JNum 0)]),
      (''sort'', JObj [(''supported'', JBool False)]),
      (''etag'', JObj [(''supported'', JBool False)]),
      (''changePassword'', JObj [(''supported'', JBool False)]),
      (''authenticationSchemes'', JArr [JObj [(''type'', JStr ''oauthbearertoken''), (''name'', JStr ''OAuth Bearer Token''),
         (''description'', JStr ''Authentication scheme using the OAuth Bearer Token standard.''), (''primary'', JBool True)]]),
      (''meta'', JObj [(''resourceType'', JStr ''ServiceProviderConfig'')])]"

subsection \<open>Attributes\<close>

definition is_null :: "json option \<Rightarrow> bool" where
  "is_null v \<longleftrightarrow> v = None \<or> v = Some JNull"

definition coerce_boolean :: "json option \<Rightarrow> bool" where
  "coerce_boolean v = (case v of
       Some (JBool b) \<Rightarrow> b | Some (JStr s) \<Rightarrow> to_lower s = ''true'' | _ \<Rightarrow> v = Some (JNum 1))"

definition string_attr :: "object \<Rightarrow> string \<Rightarrow> string option" where
  "string_attr resource key = (case as_string (getp resource key) of
       None \<Rightarrow> None | Some s \<Rightarrow> if trim s \<noteq> [] then Some s else None)"

definition text_or_null :: "json option \<Rightarrow> string option" where
  "text_or_null v = (if is_null v then None else Some (js_text (the v)))"

fun member_values_of :: "json list \<Rightarrow> string list" where
  "member_values_of [] = []"
| "member_values_of (v # vs) = (case v of
       JStr s \<Rightarrow> [s]
     | JObj obj \<Rightarrow> (case as_string (getp obj ''value'') of None \<Rightarrow> [] | Some s \<Rightarrow> [s])
     | _ \<Rightarrow> []) @ member_values_of vs"

definition member_values :: "json option \<Rightarrow> string list" where
  "member_values v = member_values_of (case as_array v of
       Some vs \<Rightarrow> vs | None \<Rightarrow> if is_null v then [] else [the v])"

definition schemas_or :: "object \<Rightarrow> string \<Rightarrow> json" where
  "schemas_or body schema = (case as_array (getp body ''schemas'') of
       None \<Rightarrow> JArr [JStr schema] | Some vs \<Rightarrow> if vs = [] then JArr [JStr schema] else JArr vs)"

definition meta_with :: "object \<Rightarrow> string \<Rightarrow> json" where
  "meta_with body ty = JObj (set_prop ''resourceType'' (JStr ty) (record_or_empty (getp body ''meta'')))"

definition normalize_user :: "object \<Rightarrow> string \<Rightarrow> object" where
  "normalize_user body i =
     set_prop ''meta'' (meta_with body ''User'')
     (set_prop ''active'' (JBool (coerce_boolean (if is_null (getp body ''active'') then Some (JBool True) else getp body ''active'')))
     (set_prop ''externalId'' (json_or_null (text_or_null (getp body ''externalId'')))
     (set_prop ''userName'' (json_or_null (string_attr body ''userName''))
     (set_prop ''id'' (JStr i)
     (set_prop ''schemas'' (schemas_or body ''urn:ietf:params:scim:core:2.0:User'') body)))))"

definition normalize_group :: "object \<Rightarrow> string \<Rightarrow> object" where
  "normalize_group body0 i = (let body = del_prop ''members'' body0 in
     set_prop ''meta'' (meta_with body ''Group'')
     (set_prop ''externalId'' (json_or_null (text_or_null (getp body ''externalId'')))
     (set_prop ''id'' (JStr i)
     (set_prop ''schemas'' (schemas_or body ''urn:ietf:params:scim:core:2.0:Group'') body))))"

definition user_record :: "string \<Rightarrow> object \<Rightarrow> user_input" where
  "user_record i resource = \<lparr>ui_id = i,
     ui_name = (case getp resource ''userName'' of None \<Rightarrow> ''undefined'' | Some v \<Rightarrow> js_text v),
     ui_external = text_or_null (getp resource ''externalId''),
     ui_active = (getp resource ''active'' = Some (JBool True)), ui_resource = resource\<rparr>"

definition group_record :: "string \<Rightarrow> object \<Rightarrow> group_input" where
  "group_record i resource = \<lparr>gi_id = i,
     gi_name = (case getp resource ''displayName'' of None \<Rightarrow> ''undefined'' | Some v \<Rightarrow> js_text v),
     gi_external = text_or_null (getp resource ''externalId''), gi_resource = resource\<rparr>"

subsection \<open>Rendering\<close>

definition stored_resource :: "payload \<Rightarrow> object m" where
  "stored_resource p = (case parse_json (Some p) of
       None \<Rightarrow> throw (Failed ''Unexpected token in JSON'') | Some obj \<Rightarrow> ret obj)"

definition member_json :: "string \<times> string option \<Rightarrow> json" where
  "member_json mr = JObj ((''value'', JStr (fst mr)) # (case snd mr of None \<Rightarrow> [] | Some n \<Rightarrow> [(''display'', JStr n)]))"

definition with_members :: "table_set \<Rightarrow> string \<Rightarrow> object \<Rightarrow> json m" where
  "with_members ts i resource = bnd (members_of ts i) (\<lambda>ms.
     ret (JObj (set_prop ''members'' (JArr (map member_json ms)) resource)))"

definition render_user :: "user_row \<Rightarrow> json m" where
  "render_user u = bnd (stored_resource (ur_resource u)) (\<lambda>obj. ret (JObj obj))"

definition render_group :: "table_set \<Rightarrow> group_row \<Rightarrow> json m" where
  "render_group ts g = bnd (stored_resource (gr_resource g)) (with_members ts (gr_id g))"

fun render_all :: "('r \<Rightarrow> json m) \<Rightarrow> 'r list \<Rightarrow> json list m" where
  "render_all f [] = ret []"
| "render_all f (r # rs) = bnd (f r) (\<lambda>v. bnd (render_all f rs) (\<lambda>vs. ret (v # vs)))"

subsection \<open>Listing\<close>

text \<open>The filter expression \<open>/^(\w+)\s+eq\s+"((?:[^"\\]|\\.)*)"$/i\<close>: its attribute and the value, with the
  backslashes taken off the escaped characters.  The dot of the expression does not match a line end.\<close>

definition filter_word :: "char \<Rightarrow> bool" where
  "filter_word c \<longleftrightarrow> (let n = of_char c :: nat in
     (48 \<le> n \<and> n \<le> 57) \<or> (65 \<le> n \<and> n \<le> 90) \<or> (97 \<le> n \<and> n \<le> 122) \<or> n = 95)"

fun quoted_value :: "string \<Rightarrow> string option" where
  "quoted_value [] = None"
| "quoted_value [c] = (if c = dquote then Some [] else None)"
| "quoted_value (c # d # s) =
     (if c = dquote then None
      else if c = backslash then (if line_end d then None else map_option (Cons d) (quoted_value s))
      else map_option (Cons c) (quoted_value (d # s)))"

definition match_filter :: "string \<Rightarrow> (string \<times> string) option" where
  "match_filter s =
     (let attr = takeWhile filter_word s; r1 = dropWhile filter_word s; r2 = trim_start r1;
          r3 = drop 2 r2; r4 = trim_start r3 in
      if attr \<noteq> [] \<and> r2 \<noteq> r1 \<and> to_lower (take 2 r2) = ''eq'' \<and> r4 \<noteq> r3 \<and> r4 \<noteq> [] \<and> hd r4 = dquote
      then map_option (Pair attr) (quoted_value (tl r4)) else None)"

text \<open>The lookup in an object literal also finds what every object inherits; of the inherited names two are
  in lower case.  Such a filter has no column, and the statement built from it fails.\<close>

datatype filter_lookup = Column list_filter | Inherited | Unknown

definition lookup_filter :: "kind \<Rightarrow> string \<Rightarrow> string \<Rightarrow> filter_lookup" where
  "lookup_filter k attr v =
     (if attr = to_lower (name_attr k) then Column \<lparr>lf_column = ByName, lf_value = v, lf_fold = True\<rparr>
      else if attr = ''externalid'' then Column \<lparr>lf_column = ByExternalId, lf_value = v, lf_fold = False\<rparr>
      else if attr = ''constructor'' \<or> attr = ''__proto__'' then Inherited else Unknown)"

definition unsupported_filter :: "string \<Rightarrow> response" where
  "unsupported_filter raw = server_error 501 (''The filter '' @ quote_text raw @ '' is not supported; only ''
     @ [CHR 0x27] @ ''attribute eq '' @ quote_text ''value'' @ [CHR 0x27] @ '' filters are.'') None"

definition unsupported_attribute :: "kind \<Rightarrow> string \<Rightarrow> response" where
  "unsupported_attribute k attr = server_error 501
     (''Filtering '' @ kind_name k @ '' on attribute '' @ quote_text attr @ '' is not supported.'') None"

definition parse_filter :: "string option \<Rightarrow> kind \<Rightarrow> response + list_filter option m" where
  "parse_filter raw k = (case raw of
       None \<Rightarrow> Inr (ret None)
     | Some r \<Rightarrow>
         if trim r = [] then Inr (ret None)
         else (case match_filter (trim r) of
             None \<Rightarrow> Inl (unsupported_filter r)
           | Some (attr, v) \<Rightarrow> (case lookup_filter k (to_lower attr) v of
               Column f \<Rightarrow> Inr (ret (Some f))
             | Inherited \<Rightarrow> Inr (throw (DbError ''no such column: undefined''))
             | Unknown \<Rightarrow> Inl (unsupported_attribute k attr))))"

definition parse_int :: "string \<Rightarrow> int option" where
  "parse_int raw =
     (let s = trim_start raw;
          (neg, t) = (case s of
              c # r \<Rightarrow> if c = CHR ''-'' then (True, r) else if c = CHR ''+'' then (False, r) else (False, s)
            | [] \<Rightarrow> (False, []));
          ds = takeWhile is_digit t in
      if ds = [] then None else Some (if neg then - int (digits_val ds) else int (digits_val ds)))"

definition parse_int_param :: "string option \<Rightarrow> int \<Rightarrow> int" where
  "parse_int_param raw fallback = (case raw of None \<Rightarrow> fallback
     | Some r \<Rightarrow> (case parse_int r of None \<Rightarrow> fallback | Some n \<Rightarrow> n))"

definition list_page :: "table_set \<Rightarrow> kind \<Rightarrow> list_filter option \<Rightarrow> nat \<Rightarrow> nat \<Rightarrow> (nat \<times> json list) m" where
  "list_page ts k flt offset limit = (case k of
       Users \<Rightarrow> bnd (list_users ts flt offset limit) (\<lambda>(n, rows).
         bnd (render_all render_user rows) (\<lambda>vs. ret (n, vs)))
     | Groups \<Rightarrow> bnd (list_groups ts flt offset limit) (\<lambda>(n, rows).
         bnd (render_all (render_group ts) rows) (\<lambda>vs. ret (n, vs))))"

definition list_response :: "int \<Rightarrow> nat \<Rightarrow> json list \<Rightarrow> response" where
  "list_response start n resources = server_json (JObj
     [(''schemas'', JArr [JStr ''urn:ietf:params:scim:api:messages:2.0:ListResponse'']),
      (''totalResults'', JNum (int n)), (''startIndex'', JNum start),
      (''itemsPerPage'', JNum (int (length resources))), (''Resources'', JArr resources)]) 200"

definition handle_list :: "request \<Rightarrow> kind \<Rightarrow> table_set \<Rightarrow> response m" where
  "handle_list q k ts = (case parse_filter (search_param (q_url q) ''filter'') k of
       Inl r \<Rightarrow> ret r
     | Inr flt \<Rightarrow>
         let start = max 1 (parse_int_param (search_param (q_url q) ''startIndex'') 1);
             count = max 0 (parse_int_param (search_param (q_url q) ''count'') 100) in
         bnd flt (\<lambda>f. bnd (list_page ts k f (nat (start - 1)) (nat count)) (\<lambda>(n, resources).
           ret (list_response start n resources))))"

subsection \<open>Creating, reading, replacing and deleting\<close>

definition read_body :: "request \<Rightarrow> object option" where
  "read_body q = parse_json (q_body q)"

definition adopted_id :: "scim_config \<Rightarrow> request \<Rightarrow> string option" where
  "adopted_id cfg q = (if sc_migrated cfg = PostCreate
     then nonempty_or_none (header_get migrated_id_header (q_headers q)) else None)"

definition fresh_id :: "string option \<Rightarrow> string m" where
  "fresh_id adopted = (case adopted of Some i \<Rightarrow> ret i | None \<Rightarrow> random_uuid)"

definition create_user :: "table_set \<Rightarrow> object \<Rightarrow> string option \<Rightarrow> response m" where
  "create_user ts body adopted = (case string_attr body ''userName'' of
       None \<Rightarrow> ret (name_required Users)
     | Some name \<Rightarrow>
         bnd (user_by_user_name ts name) (\<lambda>taken.
         if taken \<noteq> None then ret (name_in_use Users name)
         else bnd (case adopted of None \<Rightarrow> ret None | Some i \<Rightarrow> user_by_id ts i) (\<lambda>same.
         if same \<noteq> None then ret (id_in_use Users (the adopted))
         else bnd (fresh_id adopted) (\<lambda>i.
           let resource = normalize_user body i in
           thn (upsert_user ts (user_record i resource)) (ret (server_json (JObj resource) 201))))))"

definition store_group :: "table_set \<Rightarrow> string \<Rightarrow> object \<Rightarrow> nat \<Rightarrow> response m" where
  "store_group ts i body st = (let resource = normalize_group body i in
     thn (upsert_group ts (group_record i resource))
     (thn (set_members ts i (member_values (getp body ''members'')))
     (bnd (with_members ts i resource) (\<lambda>v. ret (server_json v st)))))"

definition create_group :: "table_set \<Rightarrow> object \<Rightarrow> string option \<Rightarrow> response m" where
  "create_group ts body adopted = (case string_attr body ''displayName'' of
       None \<Rightarrow> ret (name_required Groups)
     | Some name \<Rightarrow>
         bnd (group_by_display_name ts name) (\<lambda>taken.
         if taken \<noteq> None then ret (name_in_use Groups name)
         else bnd (case adopted of None \<Rightarrow> ret None | Some i \<Rightarrow> group_by_id ts i) (\<lambda>same.
         if same \<noteq> None then ret (id_in_use Groups (the adopted))
         else bnd (fresh_id adopted) (\<lambda>i. store_group ts i body 201))))"

definition handle_create :: "request \<Rightarrow> kind \<Rightarrow> scim_config \<Rightarrow> response m" where
  "handle_create q k cfg = (case read_body q of
       None \<Rightarrow> ret not_an_object
     | Some body \<Rightarrow> (case k of
           Users \<Rightarrow> create_user (sc_tables cfg) body (adopted_id cfg q)
         | Groups \<Rightarrow> create_group (sc_tables cfg) body (adopted_id cfg q)))"

definition handle_get :: "kind \<Rightarrow> string \<Rightarrow> table_set \<Rightarrow> response m" where
  "handle_get k i ts = (case k of
       Users \<Rightarrow> bnd (user_by_id ts i) (\<lambda>r. case r of
           None \<Rightarrow> ret (not_found Users i)
         | Some u \<Rightarrow> bnd (render_user u) (\<lambda>v. ret (server_json v 200)))
     | Groups \<Rightarrow> bnd (group_by_id ts i) (\<lambda>r. case r of
           None \<Rightarrow> ret (not_found Groups i)
         | Some g \<Rightarrow> bnd (render_group ts g) (\<lambda>v. ret (server_json v 200))))"

definition replace_user :: "table_set \<Rightarrow> string \<Rightarrow> object \<Rightarrow> bool \<Rightarrow> response m" where
  "replace_user ts i body absent_ok = bnd (user_by_id ts i) (\<lambda>existing.
     if existing = None \<and> \<not> absent_ok then ret (not_found Users i)
     else (case string_attr body ''userName'' of
         None \<Rightarrow> ret (name_required Users)
       | Some name \<Rightarrow>
           bnd (user_by_user_name ts name) (\<lambda>conflict.
           if (case conflict of None \<Rightarrow> False | Some c \<Rightarrow> ur_id c \<noteq> i) then ret (name_in_use Users name)
           else let resource = normalize_user body i in
             thn (upsert_user ts (user_record i resource)) (ret (server_json (JObj resource) 200)))))"

definition replace_group :: "table_set \<Rightarrow> string \<Rightarrow> object \<Rightarrow> bool \<Rightarrow> response m" where
  "replace_group ts i body absent_ok = bnd (group_by_id ts i) (\<lambda>existing.
     if existing = None \<and> \<not> absent_ok then ret (not_found Groups i)
     else (case string_attr body ''displayName'' of
         None \<Rightarrow> ret (name_required Groups)
       | Some name \<Rightarrow>
           bnd (group_by_display_name ts name) (\<lambda>conflict.
           if (case conflict of None \<Rightarrow> False | Some c \<Rightarrow> gr_id c \<noteq> i) then ret (name_in_use Groups name)
           else store_group ts i body 200)))"

definition handle_put :: "request \<Rightarrow> kind \<Rightarrow> string \<Rightarrow> scim_config \<Rightarrow> response m" where
  "handle_put q k i cfg = (case read_body q of
       None \<Rightarrow> ret not_an_object
     | Some body \<Rightarrow>
         let migrated = header_get migrated_id_header (q_headers q);
             absent_ok = (sc_migrated cfg = PutUpsert \<and> migrated = Some i) in
         if sc_migrated cfg \<noteq> HeaderOff \<and> migrated \<noteq> None \<and> migrated \<noteq> Some i
         then ret (invalid_value (migrated_id_header @ '' must equal the resource id in the path.''))
         else (case k of
             Users \<Rightarrow> replace_user (sc_tables cfg) i body absent_ok
           | Groups \<Rightarrow> replace_group (sc_tables cfg) i body absent_ok))"

definition handle_delete :: "kind \<Rightarrow> string \<Rightarrow> table_set \<Rightarrow> response m" where
  "handle_delete k i ts = bnd (case k of Users \<Rightarrow> delete_user ts i | Groups \<Rightarrow> delete_group ts i) (\<lambda>removed.
     ret (if removed then \<lparr>r_status = 204, r_body = None, r_headers = []\<rparr> else not_found k i))"

end
