(* ===== verification/ScimPatch.thy ===== *)
theory ScimPatch
  imports ScimServer
begin

text \<open>
  PATCH on users and groups, and the dispatcher of the SCIM server (\<open>workers/native/scim-server.ts\<close>).
  Operations on a user change a copy of the resource that is stored when all of them have succeeded;
  operations on a group write its memberships as they come.
\<close>

subsection \<open>The operations of a body\<close>

fun all_objects :: "json list \<Rightarrow> object list option" where
  "all_objects [] = Some []"
| "all_objects (v # vs) = (case as_object (Some v) of None \<Rightarrow> None | Some obj \<Rightarrow> map_option (Cons obj) (all_objects vs))"

definition patch_operations :: "object \<Rightarrow> object list option" where
  "patch_operations body = (case as_array (getp body ''Operations'') of
       Some vs \<Rightarrow> all_objects vs
     | None \<Rightarrow> (case as_array (getp body ''operations'') of Some vs \<Rightarrow> all_objects vs | None \<Rightarrow> None))"

definition op_text :: "json option \<Rightarrow> string" where
  "op_text v = (case v of None \<Rightarrow> ''undefined'' | Some x \<Rightarrow> js_text x)"

definition op_name :: "object \<Rightarrow> string" where
  "op_name op = to_lower (if is_null (getp op ''op'') then [] else js_text (the (getp op ''op'')))"

definition op_path :: "object \<Rightarrow> string option" where
  "op_path op = (case as_string (getp op ''path'') of
     None \<Rightarrow> None | Some p \<Rightarrow> if trim p \<noteq> [] then Some (trim p) else None)"

definition unknown_op :: "object \<Rightarrow> response" where
  "unknown_op op = invalid_value (''The PATCH op '' @ quote_text (op_text (getp op ''op'')) @ '' is not supported.'')"

definition no_path :: response where
  "no_path = server_error 400 ''A remove operation requires a path.'' (Some ''noTarget'')"

definition no_object_value :: response where
  "no_object_value = invalid_value ''A path-less add/replace operation requires an object value.''"

definition not_removable :: "string \<Rightarrow> response" where
  "not_removable attr = server_error 400 (attr @ '' cannot be removed.'') (Some ''mutability'')"

definition put_prop :: "string \<Rightarrow> json option \<Rightarrow> object \<Rightarrow> object" where
  "put_prop k v obj = (case v of None \<Rightarrow> del_prop k obj | Some x \<Rightarrow> set_prop k x obj)"

definition merge_props :: "object \<Rightarrow> object \<Rightarrow> object" where
  "merge_props base new = foldl (\<lambda>o' (k, v). set_prop k v o') base new"

subsection \<open>Attributes of a user\<close>

definition canonical_user_attr :: "string \<Rightarrow> string" where
  "canonical_user_attr path = (let lower = to_lower path in
     if lower = ''active'' then ''active''
     else if lower = ''username'' then ''userName''
     else if lower = ''externalid'' then ''externalId''
     else if starts_with lower ''name.'' then ''name.'' @ drop 5 path else path)"

text \<open>\<open>indexOf(".") > 0\<close>: what is before and after the first dot, unless the dot comes first.\<close>

definition dotted :: "string \<Rightarrow> (string \<times> string) option" where
  "dotted s = (let p = takeWhile (\<lambda>c. c \<noteq> CHR ''.'') s in
     if p = [] \<or> p = s then None else Some (p, drop (length p + 1) s))"

definition set_user_attr :: "object \<Rightarrow> string \<Rightarrow> json option \<Rightarrow> object" where
  "set_user_attr resource path v = (let canonical = canonical_user_attr path in
     if canonical = ''active'' then set_prop ''active'' (JBool (coerce_boolean v)) resource
     else (case dotted canonical of
         Some (parent, child) \<Rightarrow>
           set_prop parent (JObj (put_prop child v (record_or_empty (getp resource parent)))) resource
       | None \<Rightarrow> (case (as_object (getp resource canonical), as_object v) of
             (Some existing, Some incoming) \<Rightarrow> set_prop canonical (JObj (merge_props existing incoming)) resource
           | _ \<Rightarrow> put_prop canonical v resource)))"

definition remove_user_attr :: "object \<Rightarrow> string \<Rightarrow> response + object" where
  "remove_user_attr resource path = (let canonical = canonical_user_attr path in
     if canonical \<in> set [''userName'', ''id'', ''active''] then Inl (not_removable canonical)
     else (case dotted canonical of
         Some (parent, child) \<Rightarrow> Inr (case as_object (getp resource parent) of
             None \<Rightarrow> resource | Some container \<Rightarrow> set_prop parent (JObj (del_prop child container)) resource)
       | None \<Rightarrow> Inr (del_prop canonical resource)))"

definition filtered_path :: "string \<Rightarrow> response" where
  "filtered_path path = server_error 400 (''The path '' @ quote_text path
     @ '' targets a filtered attribute, which is not supported on User resources.'') (Some ''invalidPath'')"

definition user_op :: "object \<Rightarrow> object \<Rightarrow> response + object" where
  "user_op op resource =
     (case op_path op of
        Some path \<Rightarrow>
          if CHR ''['' \<in> set path then Inl (filtered_path path)
          else if op_name op = ''remove'' then remove_user_attr resource path
          else if op_name op \<noteq> ''add'' \<and> op_name op \<noteq> ''replace'' then Inl (unknown_op op)
          else Inr (set_user_attr resource path (getp op ''value''))
      | None \<Rightarrow>
          if op_name op = ''remove'' then Inl no_path
          else if op_name op \<noteq> ''add'' \<and> op_name op \<noteq> ''replace'' then Inl (unknown_op op)
          else (case as_object (getp op ''value'') of
              None \<Rightarrow> Inl no_object_value
            | Some attrs \<Rightarrow> Inr (foldl (\<lambda>r (k, v). set_user_attr r k (Some v)) resource attrs)))"

fun user_ops :: "object list \<Rightarrow> object \<Rightarrow> response + object" where
  "user_ops [] resource = Inr resource"
| "user_ops (op # ops) resource = (case user_op op resource of Inl r \<Rightarrow> Inl r | Inr resource' \<Rightarrow> user_ops ops resource')"

definition finish_user :: "string \<Rightarrow> object \<Rightarrow> object" where
  "finish_user i resource = (let r = set_prop ''id'' (JStr i) resource in
     set_prop ''active'' (JBool (coerce_boolean (if is_null (getp r ''active'') then Some (JBool True) else getp r ''active''))) r)"

definition patch_user :: "table_set \<Rightarrow> string \<Rightarrow> object list \<Rightarrow> response m" where
  "patch_user ts i ops = bnd (user_by_id ts i) (\<lambda>row. case row of
       None \<Rightarrow> ret (not_found Users i)
     | Some u \<Rightarrow> bnd (stored_resource (ur_resource u)) (\<lambda>resource.
         case user_ops ops resource of
           Inl r \<Rightarrow> ret r
         | Inr changed \<Rightarrow>
             let resource' = finish_user i changed in
             (case string_attr resource' ''userName'' of
                None \<Rightarrow> ret (name_required Users)
              | Some name \<Rightarrow>
                  bnd (user_by_user_name ts name) (\<lambda>conflict.
                  if (case conflict of None \<Rightarrow> False | Some c \<Rightarrow> ur_id c \<noteq> i) then ret (name_in_use Users name)
                  else thn (upsert_user ts (user_record i resource')) (ret (server_json (JObj resource') 200))))))"

subsection \<open>Attributes of a group\<close>

definition canonical_group_attr :: "string \<Rightarrow> string" where
  "canonical_group_attr path = (let lower = to_lower path in
     if lower = ''displayname'' then ''displayName''
     else if lower = ''externalid'' then ''externalId''
     else if lower = ''id'' then ''id'' else path)"

text \<open>\<open>/^members\[\s*value\s+eq\s+"([^"]+)"\s*\]$/i\<close>.\<close>

definition match_member_filter :: "string \<Rightarrow> string option" where
  "match_member_filter p =
     (let r1 = trim_start (drop 8 p); r2 = drop 5 r1; r3 = trim_start r2; r4 = drop 2 r3; r5 = trim_start r4;
          v = takeWhile (\<lambda>c. c \<noteq> dquote) (tl r5); r6 = drop (length v + 1) r5 in
      if to_lower (take 8 p) = ''members['' \<and> to_lower (take 5 r1) = ''value'' \<and> r3 \<noteq> r2
         \<and> to_lower (take 2 r3) = ''eq'' \<and> r5 \<noteq> r4 \<and> r5 \<noteq> [] \<and> hd r5 = dquote \<and> v \<noteq> []
         \<and> r6 \<noteq> [] \<and> hd r6 = dquote \<and> trim_start (tl r6) = '']''
      then Some v else None)"

definition only_remove :: response where
  "only_remove = invalid_value (''Only remove is supported on members[value eq '' @ quote_text ellipsis @ ''] paths.'')"

definition add_members :: "table_set \<Rightarrow> string \<Rightarrow> string list \<Rightarrow> unit m" where
  "add_members ts i = each (\<lambda>u. bnd (add_member ts i u) (\<lambda>_. ret ()))"

definition remove_members :: "table_set \<Rightarrow> string \<Rightarrow> string list \<Rightarrow> unit m" where
  "remove_members ts i = each (\<lambda>u. bnd (remove_member ts i u) (\<lambda>_. ret ()))"

definition members_op :: "table_set \<Rightarrow> string \<Rightarrow> string \<Rightarrow> json option \<Rightarrow> unit m" where
  "members_op ts i name v =
     (if name = ''add'' then add_members ts i (member_values v)
      else if name = ''replace'' then set_members ts i (member_values v)
      else if is_null v then set_members ts i []
      else remove_members ts i (member_values v))"

fun group_attrs :: "table_set \<Rightarrow> string \<Rightarrow> string \<Rightarrow> (string \<times> json) list \<Rightarrow> object \<Rightarrow> object m" where
  "group_attrs ts i name [] resource = ret resource"
| "group_attrs ts i name ((k, v) # attrs) resource =
     (if to_lower k = ''members'' then
        thn (if name = ''add'' then add_members ts i (member_values (Some v)) else set_members ts i (member_values (Some v)))
          (group_attrs ts i name attrs resource)
      else group_attrs ts i name attrs (set_prop (canonical_group_attr k) v resource))"

definition group_op :: "table_set \<Rightarrow> string \<Rightarrow> object \<Rightarrow> object \<Rightarrow> (response + object) m" where
  "group_op ts i op resource = (let name = op_name op in
     if name \<notin> set [''add'', ''replace'', ''remove''] then ret (Inl (unknown_op op))
     else (case op_path op of
         None \<Rightarrow>
           if name = ''remove'' then ret (Inl no_path)
           else (case as_object (getp op ''value'') of
               None \<Rightarrow> ret (Inl no_object_value)
             | Some attrs \<Rightarrow> bnd (group_attrs ts i name attrs resource) (\<lambda>r. ret (Inr r)))
       | Some path \<Rightarrow> (case match_member_filter path of
             Some uid \<Rightarrow>
               if name \<noteq> ''remove'' then ret (Inl only_remove)
               else bnd (remove_member ts i uid) (\<lambda>_. ret (Inr resource))
           | None \<Rightarrow>
               if to_lower path = ''members'' then thn (members_op ts i name (getp op ''value'')) (ret (Inr resource))
               else if name = ''remove'' then
                 (if canonical_group_attr path \<in> set [''displayName'', ''id'']
                  then ret (Inl (not_removable (canonical_group_attr path)))
                  else ret (Inr (del_prop (canonical_group_attr path) resource)))
               else ret (Inr (put_prop (canonical_group_attr path) (getp op ''value'') resource)))))"

fun group_ops :: "table_set \<Rightarrow> string \<Rightarrow> object list \<Rightarrow> object \<Rightarrow> (response + object) m" where
  "group_ops ts i [] resource = ret (Inr resource)"
| "group_ops ts i (op # ops) resource = bnd (group_op ts i op resource) (\<lambda>r. case r of
     Inl resp \<Rightarrow> ret (Inl resp) | Inr resource' \<Rightarrow> group_ops ts i ops resource')"

definition store_patched_group :: "table_set \<Rightarrow> string \<Rightarrow> object \<Rightarrow> response m" where
  "store_patched_group ts i changed = (let resource = set_prop ''id'' (JStr i) changed in
     (case string_attr resource ''displayName'' of
        None \<Rightarrow> ret (name_required Groups)
      | Some name \<Rightarrow>
          bnd (group_by_display_name ts name) (\<lambda>conflict.
          if (case conflict of None \<Rightarrow> False | Some c \<Rightarrow> gr_id c \<noteq> i) then ret (name_in_use Groups name)
          else thn (upsert_group ts (group_record i resource))
            (bnd (with_members ts i resource) (\<lambda>v. ret (server_json v 200))))))"

definition patch_group :: "table_set \<Rightarrow> string \<Rightarrow> object list \<Rightarrow> response m" where
  "patch_group ts i ops = bnd (group_by_id ts i) (\<lambda>row. case row of
       None \<Rightarrow> ret (not_found Groups i)
     | Some g \<Rightarrow> bnd (stored_resource (gr_resource g)) (\<lambda>resource.
         bnd (group_ops ts i ops resource) (\<lambda>changed. case changed of
           Inl r \<Rightarrow> ret r | Inr changed' \<Rightarrow> store_patched_group ts i changed')))"

definition handle_patch :: "request \<Rightarrow> kind \<Rightarrow> string \<Rightarrow> table_set \<Rightarrow> response m" where
  "handle_patch q k i ts = (case read_body q of
       None \<Rightarrow> ret not_an_object
     | Some body \<Rightarrow> (case patch_operations body of
           None \<Rightarrow> ret (invalid_value ''PATCH body must include an Operations array.'')
         | Some ops \<Rightarrow> (case k of Users \<Rightarrow> patch_user ts i ops | Groups \<Rightarrow> patch_group ts i ops)))"

subsection \<open>The dispatcher\<close>

definition no_resource_at :: "string \<Rightarrow> response" where
  "no_resource_at subpath = server_error 404 (''No SCIM resource at '' @ (if subpath = [] then ''/'' else subpath) @ ''.'') None"

definition serve_scim :: "request \<Rightarrow> string \<Rightarrow> scim_config \<Rightarrow> response m" where
  "serve_scim q subpath cfg =
     (let segments = path_segments subpath; meth = map upper_char (q_method q); ts = sc_tables cfg in
      if segments = [''ServiceProviderConfig''] then
        ret (if meth \<noteq> ''GET'' then server_error 405 ''ServiceProviderConfig only supports GET.'' None
             else server_json service_provider_config 200)
      else (case (case segments of [] \<Rightarrow> None | s # ss \<Rightarrow> kind_of s) of
          None \<Rightarrow> ret (no_resource_at subpath)
        | Some k \<Rightarrow> (case tl segments of
              [] \<Rightarrow>
                if meth = ''GET'' then handle_list q k ts
                else if meth = ''POST'' then handle_create q k cfg
                else ret (server_error 405 (meth @ '' is not supported on /'' @ kind_name k @ ''.'') None)
            | [i] \<Rightarrow>
                if meth = ''GET'' then handle_get k i ts
                else if meth = ''PUT'' then handle_put q k i cfg
                else if meth = ''PATCH'' then handle_patch q k i ts
                else if meth = ''DELETE'' then handle_delete k i ts
                else ret (server_error 405 (meth @ '' is not supported on /'' @ kind_name k @ ''/{id}.'') None)
            | _ \<Rightarrow> ret (no_resource_at subpath))))"

end
