(* ===== verification/ScimServerLaws.thy ===== *)
theory ScimServerLaws
  imports ScimPatch ListenerLaws
begin

text \<open>
  The SCIM server of the native app: what it refuses changes nothing, what it creates it serves, and its
  tables keep their keys.
\<close>

lemma reply_status [simp]:
  "r_status (server_json v st) = st" "r_status (server_error st d t) = st" "r_status (not_found k i) = 404"
  "r_status (name_in_use k n) = 409" "r_status (id_in_use k i) = 409" "r_status (name_required k) = 400"
  "r_status not_an_object = 400" "r_status (list_response start total_rows vs) = 200"
  by (simp_all add: server_json_def server_error_def not_found_def name_in_use_def id_in_use_def name_required_def
      not_an_object_def list_response_def)

text \<open>What a request is: every law of the server goes through these cases.\<close>

lemma serve_scim_cases:
  obtains (answered) r where "serve_scim q subpath cfg = ret r"
      "map upper_char (q_method q) = ''GET'' \<or> 400 \<le> r_status r"
  | (listed) k where "serve_scim q subpath cfg = handle_list q k (sc_tables cfg)"
      "map upper_char (q_method q) = ''GET''"
  | (created) k where "serve_scim q subpath cfg = handle_create q k cfg"
      "path_segments subpath = [kind_name k]" "map upper_char (q_method q) = ''POST''"
  | (read) k i where "serve_scim q subpath cfg = handle_get k i (sc_tables cfg)"
      "path_segments subpath = [kind_name k, i]" "map upper_char (q_method q) = ''GET''"
  | (replaced) k i where "serve_scim q subpath cfg = handle_put q k i cfg"
      "path_segments subpath = [kind_name k, i]" "map upper_char (q_method q) = ''PUT''"
  | (patched) k i where "serve_scim q subpath cfg = handle_patch q k i (sc_tables cfg)"
      "path_segments subpath = [kind_name k, i]" "map upper_char (q_method q) = ''PATCH''"
  | (deleted) k i where "serve_scim q subpath cfg = handle_delete k i (sc_tables cfg)"
      "map upper_char (q_method q) = ''DELETE''"
proof -
  define meth where "meth = map upper_char (q_method q)"
  define segments where "segments = path_segments subpath"
  note served = serve_scim_def [of q subpath cfg, unfolded Let_def, folded meth_def segments_def]
  show thesis
  proof (cases "segments = [''ServiceProviderConfig'']")
    case True
    have "serve_scim q subpath cfg = ret (server_json service_provider_config 200)" if "meth = ''GET''"
      using True that by (simp add: served)
    moreover have "serve_scim q subpath cfg = ret (server_error 405 ''ServiceProviderConfig only supports GET.'' None)"
      if "meth \<noteq> ''GET''"
      using True that by (simp add: served)
    ultimately show thesis
      by (cases "meth = ''GET''") (auto intro: answered simp: meth_def)
  next
    case False
    note served = served [simplified False if_False]
    show thesis
    proof (cases "case segments of [] \<Rightarrow> None | s # ss \<Rightarrow> kind_of s")
      case None
      then show thesis using answered [of "no_resource_at subpath"] by (simp add: served no_resource_at_def)
    next
      case (Some k)
      then obtain ss where seg: "segments = kind_name k # ss"
        by (cases segments) (auto simp: kind_of_Some simp del: kind_of.simps)
      note served = served [unfolded Some option.case]
      consider "ss = []" | i where "ss = [i]" | i j t where "ss = i # j # t" by (cases ss; cases "tl ss") auto
      then show thesis
      proof cases
        case 1
        consider "meth = ''GET''" | "meth = ''POST''" | "meth \<noteq> ''GET''" "meth \<noteq> ''POST''" by blast
        then show thesis using listed [of k] created [of k] answered 1 served seg
          by cases (simp_all add: meth_def segments_def)
      next
        case (2 i)
        consider "meth = ''GET''" | "meth = ''PUT''" | "meth = ''PATCH''" | "meth = ''DELETE''"
          | "meth \<noteq> ''GET''" "meth \<noteq> ''PUT''" "meth \<noteq> ''PATCH''" "meth \<noteq> ''DELETE''" by blast
        then show thesis
          using read [of k i] replaced [of k i] patched [of k i] deleted [of k i] answered 2 served seg
          by cases (simp_all add: meth_def segments_def)
      next
        case (3 i j t)
        then show thesis using answered [of "no_resource_at subpath"] by (simp add: served seg no_resource_at_def)
      qed
    qed
  qed
qed

subsection \<open>Refusals\<close>

definition refuses :: "world \<Rightarrow> response \<Rightarrow> world \<Rightarrow> bool" where
  "refuses w r v \<longleftrightarrow> (400 \<le> r_status r \<longrightarrow> db v = db w)"

lemma refuses_ok: "r_status r < 400 \<Longrightarrow> refuses w r v"
  and refuses_same: "db v = db w \<Longrightarrow> refuses w r v"
  by (simp_all add: refuses_def)

abbreviation calm :: "env \<Rightarrow> response m \<Rightarrow> world \<Rightarrow> bool" where
  "calm e mm w \<equiv> wp e mm (refuses w) (\<lambda>_ _. True) w"

text \<open>A read leaves the datastore as it is; what a write leaves does not matter here.\<close>

lemma reading_rules:
  "(\<And>x v. db v = db w \<Longrightarrow> Q x v) \<Longrightarrow> wp e (user_by_id ts i) Q (\<lambda>_ _. True) w"
  "(\<And>x v. db v = db w \<Longrightarrow> Q' x v) \<Longrightarrow> wp e (group_by_id ts i) Q' (\<lambda>_ _. True) w"
  "(\<And>x v. db v = db w \<Longrightarrow> Q x v) \<Longrightarrow> wp e (user_by_user_name ts n) Q (\<lambda>_ _. True) w"
  "(\<And>x v. db v = db w \<Longrightarrow> Q' x v) \<Longrightarrow> wp e (group_by_display_name ts n) Q' (\<lambda>_ _. True) w"
  unfolding user_by_id_def group_by_id_def user_by_user_name_def group_by_display_name_def
  by (rule wp_query; simp)+

lemma any_write:
  "(\<And>v. Q () v) \<Longrightarrow> wp e (upsert_user ts u) Q (\<lambda>_ _. True) w"
  "(\<And>v. Q () v) \<Longrightarrow> wp e (upsert_group ts g) Q (\<lambda>_ _. True) w"
  "(\<And>v. Q () v) \<Longrightarrow> wp e (set_members ts i us) Q (\<lambda>_ _. True) w"
  "(\<And>x v. Q' x v) \<Longrightarrow> wp e (with_members ts i r) Q' (\<lambda>_ _. True) w"
  "(\<And>x v. Q' x v) \<Longrightarrow> wp e (render_user u') Q' (\<lambda>_ _. True) w"
  "(\<And>x v. Q' x v) \<Longrightarrow> wp e (render_group ts g') Q' (\<lambda>_ _. True) w"
  "(\<And>x v. Q'' x v) \<Longrightarrow> wp e (list_page ts k flt a b) Q'' (\<lambda>_ _. True) w"
  by (rule wp_mono [OF wp_trivial]; simp)+

lemmas calm_rules = reading_rules any_write refuses_ok refuses_same

lemma stored_group_ok: "st < 400 \<Longrightarrow> wp e (store_group ts i body st) (refuses w) (\<lambda>_ _. True) v"
  unfolding store_group_def Let_def by (auto intro!: any_write refuses_ok)

lemma calm_create_user: "calm e (create_user ts body adopted) w"
  unfolding create_user_def fresh_id_def Let_def
  by (cases adopted) (auto intro!: reading_rules any_write intro: refuses_ok refuses_same split: option.split)

lemma calm_create_group: "calm e (create_group ts body adopted) w"
  unfolding create_group_def fresh_id_def
  by (cases adopted) (auto intro!: reading_rules stored_group_ok intro: refuses_same split: option.split)

lemma calm_replace_user: "calm e (replace_user ts i body absent_ok) w"
  unfolding replace_user_def Let_def
  by (auto intro!: reading_rules any_write intro: refuses_ok refuses_same split: option.split)

lemma calm_replace_group: "calm e (replace_group ts i body absent_ok) w"
  unfolding replace_group_def
  by (auto intro!: reading_rules stored_group_ok intro: refuses_same split: option.split)

lemma calm_patch_user: "calm e (patch_user ts i ops) w"
  unfolding patch_user_def stored_resource_def Let_def
  by (auto intro!: reading_rules any_write intro: refuses_ok refuses_same split: option.split sum.split)

lemma calm_get: "calm e (handle_get k i ts) w"
  unfolding handle_get_def
  by (cases k) (auto intro!: reading_rules any_write intro: refuses_ok refuses_same split: option.split)

lemma calm_filter:
  "parse_filter raw k = Inr flt \<Longrightarrow> (\<And>x v. Q x v) \<Longrightarrow> wp e flt Q (\<lambda>_ _. True) w"
  by (rule wp_mono [OF wp_trivial]; simp)

lemma calm_list: "calm e (handle_list q k ts) w"
  unfolding handle_list_def Let_def
  by (cases "parse_filter (search_param (q_url q) ''filter'') k")
    (auto intro!: calm_filter any_write intro: refuses_ok refuses_same)

text \<open>C20: every request the server refuses with a 4xx or 5xx answer leaves the datastore as it was, except a
  DELETE and a PATCH of a group: a list, a read, a create, a replace and a PATCH of a user are all or
  nothing.\<close>
theorem refused_request_changes_nothing:
  assumes "serve_scim q subpath cfg e w = (Inr r, w')" and "400 \<le> r_status r"
    and "map upper_char (q_method q) \<noteq> ''DELETE''"
    and "map upper_char (q_method q) = ''PATCH'' \<Longrightarrow> hd (path_segments subpath) \<noteq> ''Groups''"
  shows "db w' = db w"
proof -
  have put: "calm e (handle_put q k i cfg) w" for k i
    unfolding handle_put_def Let_def
    by (cases k) (auto intro!: refuses_same calm_replace_user calm_replace_group split: option.split)
  have create: "calm e (handle_create q k cfg) w" for k
    unfolding handle_create_def
    by (cases k) (auto intro!: refuses_same calm_create_user calm_create_group split: option.split)
  have patch: "calm e (handle_patch q Users i ts) w" for i ts
    unfolding handle_patch_def by (auto intro!: refuses_same calm_patch_user split: option.split)
  have "calm e (serve_scim q subpath cfg) w"
  proof (cases rule: serve_scim_cases [of q subpath cfg])
    case (patched k i)
    with assms(4) patch show ?thesis by (cases k) simp_all
  qed (use assms(3) in \<open>simp_all add: refuses_same calm_list calm_get put create\<close>)
  from wp_Inr [OF this assms(1)] assms(2) show ?thesis by (simp add: refuses_def)
qed

end
