(* ===== verification/ScimServerGuards.thy ===== *)
theory ScimServerGuards
  imports ScimServerLaws ListenerGuards
begin

text \<open>
  The directory behind the SCIM server: its columns agree with the documents it serves, names are unique
  whatever their case, and only the requests of the migration contract bring new ids.
\<close>

subsection \<open>A directory that answers for itself\<close>

definition user_row_ok :: "user_row \<Rightarrow> bool" where
  "user_row_ok u \<longleftrightarrow> (case parse_json (Some (ur_resource u)) of None \<Rightarrow> False | Some obj \<Rightarrow>
     getp obj ''id'' = Some (JStr (ur_id u)) \<and> getp obj ''userName'' = Some (JStr (ur_name u))
     \<and> getp obj ''active'' = Some (JBool (ur_active u)) \<and> text_or_null (getp obj ''externalId'') = ur_external u
     \<and> trim (ur_name u) \<noteq> [])"

definition group_row_ok :: "group_row \<Rightarrow> bool" where
  "group_row_ok g \<longleftrightarrow> (case parse_json (Some (gr_resource g)) of None \<Rightarrow> False | Some obj \<Rightarrow>
     getp obj ''id'' = Some (JStr (gr_id g)) \<and> getp obj ''displayName'' = Some (JStr (gr_name g))
     \<and> text_or_null (getp obj ''externalId'') = gr_external g \<and> getp obj ''members'' = None
     \<and> trim (gr_name g) \<noteq> [])"

definition directory_ok :: "scim_tables \<Rightarrow> bool" where
  "directory_ok t \<longleftrightarrow> distinct (map ur_id (t_users t)) \<and> distinct (map (sql_lower \<circ> ur_name) (t_users t))
     \<and> distinct (map gr_id (t_groups t)) \<and> distinct (map (sql_lower \<circ> gr_name) (t_groups t))
     \<and> distinct (t_members t) \<and> list_all user_row_ok (t_users t) \<and> list_all group_row_ok (t_groups t)"

fun ids_of :: "kind \<Rightarrow> scim_tables \<Rightarrow> string set" where
  "ids_of Users t = ur_id ` set (t_users t)"
| "ids_of Groups t = gr_id ` set (t_groups t)"

text \<open>What a request may do to the store: the tables it serves stay a directory and gain no ids but
  \<open>N\<close>; nothing else changes.\<close>

definition evolves :: "table_set \<Rightarrow> (kind \<Rightarrow> string set) \<Rightarrow> store \<Rightarrow> store \<Rightarrow> bool" where
  "evolves ts N s s' \<longleftrightarrow> directory_ok (tables_of ts s)
     \<longrightarrow> directory_ok (tables_of ts s') \<and> (\<forall>k. ids_of k (tables_of ts s') \<subseteq> ids_of k (tables_of ts s) \<union> N k)
       \<and> s' = on_tables ts (\<lambda>_. tables_of ts s') s"

abbreviation none_new :: "kind \<Rightarrow> string set" where
  "none_new \<equiv> \<lambda>_. {}"

lemma on_tables_self [simp]: "on_tables ts (\<lambda>_. tables_of ts s) s = s"
  by (cases ts) simp_all

lemma evolves_refl [simp]: "evolves ts N s s"
  by (simp add: evolves_def)

lemma evolves_trans:
  assumes "evolves ts N a b" "evolves ts N b c"
  shows "evolves ts N a c"
proof -
  have "on_tables ts (\<lambda>_. tables_of ts c) b = on_tables ts (\<lambda>_. tables_of ts c) a"
    if "b = on_tables ts (\<lambda>_. tables_of ts b) a"
    using arg_cong [OF that, of "on_tables ts (\<lambda>_. tables_of ts c)"] by (simp add: comp_def)
  with assms show ?thesis unfolding evolves_def by (auto simp: subset_iff)
qed

lemma evolves_weaken: "evolves ts none_new a b \<Longrightarrow> evolves ts N a b"
  by (auto simp: evolves_def)

lemma evolves_on_tables:
  "(\<And>t. directory_ok t \<Longrightarrow> directory_ok (f t) \<and> (\<forall>k. ids_of k (f t) \<subseteq> ids_of k t \<union> N k)) \<Longrightarrow> evolves ts N s (on_tables ts f s)"
  by (cases ts) (auto simp: evolves_def)

interpretation shrinking: store_frame "evolves ts none_new" for ts
  by unfold_locales (auto intro: evolves_trans)

subsection \<open>The writes\<close>

lemma distinct_fold_put:
  assumes "distinct (map key rows)" "distinct (map (sql_lower \<circ> nm) rows)"
    and "\<And>r. r \<in> set rows \<Longrightarrow> sql_lower (nm r) = sql_lower (nm x) \<Longrightarrow> key r = key x"
  shows "distinct (map (sql_lower \<circ> nm) (put_row key x rows))"
  using assms
proof (induction rows)
  case (Cons r rows)
  have rest: "sql_lower (nm x) \<notin> (\<lambda>r. sql_lower (nm r)) ` set rows" if "key r = key x"
  proof
    assume "sql_lower (nm x) \<in> (\<lambda>r. sql_lower (nm r)) ` set rows"
    then obtain r' where r': "r' \<in> set rows" "sql_lower (nm r') = sql_lower (nm x)" by auto
    with Cons.prems(3) [of r'] have "key r' = key x" by simp
    with that r'(1) Cons.prems(1) show False by (metis distinct.simps(2) image_eqI list.set_map list.simps(9))
  qed
  show ?case
  proof (cases "key r = key x")
    case True
    with rest Cons.prems show ?thesis by simp
  next
    case False
    with Cons.prems(3) [of r] have "sql_lower (nm r) \<noteq> sql_lower (nm x)" by auto
    with False Cons show ?thesis using set_put_row(1) [of key x rows] by (auto simp: image_iff)
  qed
qed simp

text \<open>What the check before a write has found: nobody has the name, or the row itself.\<close>

definition name_free :: "('r \<Rightarrow> string) \<Rightarrow> ('r \<Rightarrow> string) \<Rightarrow> string \<Rightarrow> string \<Rightarrow> 'r list \<Rightarrow> bool" where
  "name_free key nm i name rows \<longleftrightarrow>
     (case find (\<lambda>r. sql_lower (nm r) = sql_lower name) rows of None \<Rightarrow> True | Some r \<Rightarrow> key r = i)"

lemma name_freeD:
  assumes "name_free key nm i name rows" "distinct (map (sql_lower \<circ> nm) rows)"
    and "r \<in> set rows" "sql_lower (nm r) = sql_lower name"
  shows "key r = i"
proof -
  obtain c where c: "find (\<lambda>r. sql_lower (nm r) = sql_lower name) rows = Some c"
    using assms(3,4) by (cases "find (\<lambda>r. sql_lower (nm r) = sql_lower name) rows") (auto simp: find_None_iff)
  then have "c \<in> set rows" "sql_lower (nm c) = sql_lower name" by (auto simp: find_Some_iff)
  with assms(2-4) have "c = r" by (auto simp: distinct_map inj_on_def)
  with c assms(1) show ?thesis by (simp add: name_free_def)
qed

definition user_input_ok :: "user_input \<Rightarrow> bool" where
  "user_input_ok u \<longleftrightarrow> user_row_ok (user_row_of u [] None)"

definition group_input_ok :: "group_input \<Rightarrow> bool" where
  "group_input_ok g \<longleftrightarrow> group_row_ok (group_row_of g [] None)"

lemma row_of_ok: "user_input_ok u \<Longrightarrow> user_row_ok (user_row_of u at old)"
  and group_of_ok: "group_input_ok g \<Longrightarrow> group_row_ok (group_row_of g at old')"
  by (simp_all add: user_input_ok_def group_input_ok_def user_row_ok_def group_row_ok_def user_row_of_def group_row_of_def)

lemma list_all_put: "list_all P rows \<Longrightarrow> P r \<Longrightarrow> list_all P (put_row key r rows)"
  using set_put_row(1) [of key r rows] by (auto simp: list_all_iff)

lemma put_user_evolves:
  assumes "name_free ur_id ur_name (ui_id u) (ui_name u) (t_users (tables_of ts s))"
    and "user_input_ok u" and "ui_id u \<in> ids_of Users (tables_of ts s) \<union> N Users"
  shows "evolves ts N s (snd (put_user ts u at s))"
proof -
  let ?t = "tables_of ts s"
  let ?row = "user_row_of u at (look_row ur_id (ui_id u) (t_users ?t))"
  let ?rows = "put_row ur_id ?row (t_users ?t)"
  have "directory_ok ?t \<Longrightarrow> distinct (map (sql_lower \<circ> ur_name) ?rows)"
    using name_freeD [OF assms(1)] by (intro distinct_fold_put) (auto simp: directory_ok_def)
  moreover have "ids_of k (?t\<lparr>t_users := ?rows\<rparr>) \<subseteq> ids_of k ?t \<union> N k" for k
    using assms(3) by (cases k) (auto simp: keys_put_row)
  ultimately have "evolves ts N s (on_tables ts (\<lambda>t. t\<lparr>t_users := ?rows\<rparr>) s)"
    using row_of_ok [OF assms(2)]
    by (cases ts) (auto simp: evolves_def directory_ok_def distinct_put_row list_all_put)
  moreover have "on_tables ts (\<lambda>t. t\<lparr>t_users := put_row ur_id ?row (t_users t)\<rparr>) s = on_tables ts (\<lambda>t. t\<lparr>t_users := ?rows\<rparr>) s"
    by (rule on_tables_eq) simp
  ultimately show ?thesis by (simp add: put_user_def Let_def)
qed

lemma put_group_evolves:
  assumes "name_free gr_id gr_name (gi_id g) (gi_name g) (t_groups (tables_of ts s))"
    and "group_input_ok g" and "gi_id g \<in> ids_of Groups (tables_of ts s) \<union> N Groups"
  shows "evolves ts N s (put_group ts g at s)"
proof -
  let ?t = "tables_of ts s"
  let ?row = "group_row_of g at (look_row gr_id (gi_id g) (t_groups ?t))"
  have "directory_ok ?t \<Longrightarrow> distinct (map (sql_lower \<circ> gr_name) (put_row gr_id ?row (t_groups ?t)))"
    using name_freeD [OF assms(1)] by (intro distinct_fold_put) (auto simp: directory_ok_def)
  moreover have "ids_of k (?t\<lparr>t_groups := put_row gr_id ?row (t_groups ?t)\<rparr>) \<subseteq> ids_of k ?t \<union> N k" for k
    using assms(3) by (cases k) (auto simp: keys_put_row)
  ultimately show ?thesis
    using group_of_ok [OF assms(2)]
    by (cases ts) (auto simp: evolves_def put_group_def directory_ok_def distinct_put_row list_all_put)
qed

lemma wp_upsert_user:
  assumes "\<And>at v. db v = snd (put_user ts u at (db w)) \<Longrightarrow> fst (put_user ts u at (db w)) = Inr () \<Longrightarrow> Q () v"
    and "\<And>at er v. db v = db w \<or> db v = snd (put_user ts u at (db w)) \<Longrightarrow> X er v"
  shows "wp e (upsert_user ts u) Q X w"
  unfolding upsert_user_def
  by (simp, rule replayable.wp_statement [OF replayable_put_user]) (auto intro!: assms)

lemma wp_upsert_group:
  assumes "\<And>at v. db v = put_group ts g at (db w) \<Longrightarrow> Q () v"
    and "\<And>at er v. db v = db w \<or> db v = put_group ts g at (db w) \<Longrightarrow> X er v"
  shows "wp e (upsert_group ts g) Q X w"
  unfolding upsert_group_def
  by (simp, rule wp_execute [OF replayable_put_group]) (auto intro!: assms)

text \<open>Writes of edges and deletions.\<close>

lemma all_kinds: "(\<forall>k. P k) \<longleftrightarrow> P Users \<and> P Groups"
  by (metis kind.exhaust)

lemma evolves_edges:
  "(distinct (t_members (tables_of ts s)) \<Longrightarrow> distinct (f (tables_of ts s))) \<Longrightarrow>
    evolves ts N s (on_tables ts (\<lambda>t. t\<lparr>t_members := f t\<rparr>) s)"
  by (cases ts) (auto simp: evolves_def directory_ok_def all_kinds)

lemma evolves_drop:
  "evolves ts N s (on_tables ts (\<lambda>t. t\<lparr>t_users := del_row ur_id i (t_users t)\<rparr>) s)"
  "evolves ts N s (on_tables ts (\<lambda>t. t\<lparr>t_groups := del_row gr_id i (t_groups t)\<rparr>) s)"
  by (rule evolves_on_tables, auto simp: directory_ok_def del_row_def distinct_map_filter list_all_iff all_kinds)+

lemma edges_evolve [eff]:
  "pres (on_db (evolves ts none_new)) e (add_member ts i u)"
  "pres (on_db (evolves ts none_new)) e (remove_member ts i u)"
  "pres (on_db (evolves ts none_new)) e (clear_memberships ts u)"
  "pres (on_db (evolves ts none_new)) e (execute (drop_members ts i))"
  unfolding add_member_def remove_member_def clear_memberships_def drop_members_def
  by (rule shrinking.pres_statement shrinking.pres_execute, auto intro!: evolves_edges)+

lemma edge_lists_evolve [eff]:
  "pres (on_db (evolves ts none_new)) e (set_members ts i us)"
  "pres (on_db (evolves ts none_new)) e (add_members ts i us)"
  "pres (on_db (evolves ts none_new)) e (remove_members ts i us)"
  "pres (on_db (evolves ts none_new)) e (members_op ts i name v)"
  unfolding set_members_def add_members_def remove_members_def members_op_def by (intro eff)+

lemma delete_evolves:
  "pres (on_db (evolves ts none_new)) e (delete_user ts i)"
  "pres (on_db (evolves ts none_new)) e (delete_group ts i)"
  unfolding delete_user_def delete_group_def
  by (intro eff shrinking.pres_statement; simp add: evolves_drop)+

subsection \<open>What the checks have found\<close>

text \<open>\<open>grows e ts N mm\<close>: from any world, however the datastore fails, the request evolves the tables.\<close>

abbreviation grows :: "env \<Rightarrow> table_set \<Rightarrow> (kind \<Rightarrow> string set) \<Rightarrow> 'a m \<Rightarrow> world \<Rightarrow> bool" where
  "grows e ts N mm w \<equiv> wp e mm (\<lambda>_ v. evolves ts N (db w) (db v)) (\<lambda>_ v. evolves ts N (db w) (db v)) w"

lemma found_rows:
  "(\<And>v. db v = db w \<Longrightarrow> Q (look_row ur_id i (t_users (tables_of ts (db w)))) v) \<Longrightarrow>
     (\<And>er v. db v = db w \<Longrightarrow> X er v) \<Longrightarrow> wp e (user_by_id ts i) Q X w"
  "(\<And>v. db v = db w \<Longrightarrow> Q' (look_row gr_id i (t_groups (tables_of ts (db w)))) v) \<Longrightarrow>
     (\<And>er v. db v = db w \<Longrightarrow> X er v) \<Longrightarrow> wp e (group_by_id ts i) Q' X w"
  "(\<And>v. db v = db w \<Longrightarrow> Q (find (\<lambda>u. sql_lower (ur_name u) = sql_lower n) (t_users (tables_of ts (db w)))) v) \<Longrightarrow>
     (\<And>er v. db v = db w \<Longrightarrow> X er v) \<Longrightarrow> wp e (user_by_user_name ts n) Q X w"
  "(\<And>v. db v = db w \<Longrightarrow> Q' (find (\<lambda>g. sql_lower (gr_name g) = sql_lower n) (t_groups (tables_of ts (db w)))) v) \<Longrightarrow>
     (\<And>er v. db v = db w \<Longrightarrow> X er v) \<Longrightarrow> wp e (group_by_display_name ts n) Q' X w"
  unfolding user_by_id_def group_by_id_def user_by_user_name_def group_by_display_name_def
  by (rule wp_query; simp)+

lemma found_id:
  "look_row ur_id i (t_users t) = Some u \<Longrightarrow> i \<in> ids_of Users t"
  "look_row gr_id i (t_groups t) = Some g \<Longrightarrow> i \<in> ids_of Groups t"
  by (auto dest: look_row_SomeD)

lemma string_attr_Some: "string_attr body k = Some s \<Longrightarrow> getp body k = Some (JStr s) \<and> trim s \<noteq> []"
  by (auto simp: string_attr_def as_string_Some_iff split: option.splits if_splits)

lemma json_or_null_Some [simp]: "text_or_null (Some (json_or_null x)) = x"
  by (cases x) (simp_all add: json_or_null_def text_or_null_def is_null_def)

lemma user_record_ok:
  assumes "getp resource ''id'' = Some (JStr i)" "getp resource ''active'' = Some (JBool b)"
    and "string_attr resource ''userName'' = Some name"
  shows "user_input_ok (user_record i resource)" "ui_name (user_record i resource) = name" "ui_id (user_record i resource) = i"
  using assms string_attr_Some [OF assms(3)]
  by (simp_all add: user_input_ok_def user_row_ok_def user_record_def user_row_of_def)

lemma group_record_ok:
  assumes "getp resource ''id'' = Some (JStr i)" "getp resource ''members'' = None"
    and "string_attr resource ''displayName'' = Some name"
  shows "group_input_ok (group_record i resource)" "gi_name (group_record i resource) = name" "gi_id (group_record i resource) = i"
  using assms string_attr_Some [OF assms(3)]
  by (simp_all add: group_input_ok_def group_row_ok_def group_record_def group_row_of_def)

lemma normalize_user_props:
  "getp (normalize_user body i) ''id'' = Some (JStr i)" "\<exists>b. getp (normalize_user body i) ''active'' = Some (JBool b)"
  "string_attr body ''userName'' = Some name \<Longrightarrow> string_attr (normalize_user body i) ''userName'' = Some name"
  by (auto simp: normalize_user_def string_attr_def json_or_null_def as_string_Some_iff as_string_def split: option.splits if_splits)

lemma normalize_group_props:
  "getp (normalize_group body i) ''id'' = Some (JStr i)" "getp (normalize_group body i) ''members'' = None"
  "string_attr (normalize_group body i) ''displayName'' = string_attr body ''displayName''"
  by (simp_all add: normalize_group_def Let_def string_attr_def)

subsection \<open>The writes of the handlers\<close>

lemma stored_user:
  assumes "getp resource ''id'' = Some (JStr i)" "getp resource ''active'' = Some (JBool b)"
    and "string_attr resource ''userName'' = Some name"
    and "name_free ur_id ur_name i name (t_users (tables_of ts (db v)))" "i \<in> ids_of Users (tables_of ts (db v)) \<union> N Users"
    and "db v = db w"
  shows "grows e ts N (upsert_user ts (user_record i resource)) v"
proof -
  have "evolves ts N (db v) (snd (put_user ts (user_record i resource) at (db v)))" for at
    using assms(4,5) user_record_ok [OF assms(1-3)] by (intro put_user_evolves) simp_all
  then show ?thesis by (intro wp_upsert_user) (auto simp: evolves_refl)
qed

lemma stored_group:
  assumes "getp resource ''id'' = Some (JStr i)" "getp resource ''members'' = None"
    and "string_attr resource ''displayName'' = Some name"
    and "name_free gr_id gr_name i name (t_groups (tables_of ts (db v)))" "i \<in> ids_of Groups (tables_of ts (db v)) \<union> N Groups"
  shows "grows e ts N (upsert_group ts (group_record i resource)) v"
proof -
  have "evolves ts N (db v) (put_group ts (group_record i resource) at (db v))" for at
    using assms(4,5) group_record_ok [OF assms(1-3)] by (intro put_group_evolves) simp_all
  then show ?thesis by (intro wp_upsert_group) (auto simp: evolves_refl)
qed

text \<open>What only shrinks the tables may follow.\<close>

lemma grows_then:
  assumes "grows e ts N mm w" "\<And>x v. pres (on_db (evolves ts none_new)) e (f x)"
  shows "grows e ts N (bnd mm f) w"
proof -
  have "wp e (f x) (\<lambda>_ v'. evolves ts N (db w) (db v')) (\<lambda>_ v'. evolves ts N (db w) (db v')) v"
    if "evolves ts N (db w) (db v)" for x v
    by (rule wp_mono [OF wp_pres [OF assms(2)]]) (auto simp: on_db_def intro: evolves_trans [OF that] evolves_weaken)
  then show ?thesis by (auto intro: wp_mono [OF assms(1)])
qed

lemma grows_pres: "pres (on_db (evolves ts none_new)) e mm \<Longrightarrow> grows e ts N mm w"
  by (drule wp_pres, erule wp_mono) (auto simp: on_db_def intro: evolves_weaken)

lemmas grows_thn = grows_then [where f = "\<lambda>_. nn" for nn, folded thn_def]

lemma reading_evolves [eff]:
  "pres (on_db (evolves ts none_new)) e (members_of ts i)"
  "pres (on_db (evolves ts none_new)) e (stored_resource p)"
  "pres (on_db (evolves ts none_new)) e (with_members ts i r)"
  "pres (on_db (evolves ts none_new)) e (render_user u)"
  "pres (on_db (evolves ts none_new)) e (render_group ts g)"
  "pres (on_db (evolves ts none_new)) e (user_by_id ts i)"
  "pres (on_db (evolves ts none_new)) e (group_by_id ts i)"
proof -
  show [eff]: "pres (on_db (evolves ts none_new)) e (members_of ts i)" "pres (on_db (evolves ts none_new)) e (stored_resource p)" for p i
    unfolding members_of_def stored_resource_def by (intro eff)+
  show [eff]: "pres (on_db (evolves ts none_new)) e (with_members ts i r)" for i r
    unfolding with_members_def by (intro eff)
  show "pres (on_db (evolves ts none_new)) e (render_user u)" "pres (on_db (evolves ts none_new)) e (render_group ts g)"
    "pres (on_db (evolves ts none_new)) e (user_by_id ts i)" "pres (on_db (evolves ts none_new)) e (group_by_id ts i)"
    unfolding render_user_def render_group_def user_by_id_def group_by_id_def by (intro eff)+
qed

lemma grows_store_group:
  assumes "string_attr body ''displayName'' = Some name"
    and "name_free gr_id gr_name i name (t_groups (tables_of ts (db v)))" "i \<in> ids_of Groups (tables_of ts (db v)) \<union> N Groups"
  shows "grows e ts N (store_group ts i body st) v"
  unfolding store_group_def Let_def
  by (intro grows_thn stored_group [where name = name] eff) (use assms in \<open>simp_all add: normalize_group_props\<close>)

text \<open>The ids a request may bring: the one it names where the contract lets it, a fresh one where nothing
  is named.\<close>

definition only_of :: "kind \<Rightarrow> string set \<Rightarrow> kind \<Rightarrow> string set" where
  "only_of k ids k' = (if k' = k then ids else {})"

definition fresh_ids :: "env \<Rightarrow> string option \<Rightarrow> string set" where
  "fresh_ids e adopted = (case adopted of Some i \<Rightarrow> {i} | None \<Rightarrow> range (uuid e))"

lemma wp_fresh_id: "(\<And>i v. i \<in> fresh_ids e adopted \<Longrightarrow> db v = db w \<Longrightarrow> Q i v) \<Longrightarrow> wp e (fresh_id adopted) Q X w"
  by (cases adopted) (simp_all add: fresh_id_def fresh_ids_def)

lemma free_name: "find (\<lambda>r. sql_lower (nm r) = sql_lower name) rows = None \<Longrightarrow> name_free key nm i name rows"
  and own_name: "find (\<lambda>r. sql_lower (nm r) = sql_lower name) rows = Some r \<Longrightarrow> key r = i \<Longrightarrow> name_free key nm i name rows"
  by (simp_all add: name_free_def)

lemma grows_create_user: "grows e ts (only_of Users (fresh_ids e adopted)) (create_user ts body adopted) w"
proof (cases "string_attr body ''userName''")
  case (Some name)
  obtain b where active: "\<And>i. getp (normalize_user body i) ''active'' = Some (JBool b)"
    by (simp add: normalize_user_def)
  have stored: "grows e ts (only_of Users (fresh_ids e adopted)) (upsert_user ts (user_record i (normalize_user body i))) v"
    if "find (\<lambda>u. sql_lower (ur_name u) = sql_lower name) (t_users (tables_of ts (db w))) = None"
      "i \<in> fresh_ids e adopted" "db v = db w" for i v
    using Some that active normalize_user_props
    by (intro stored_user) (auto simp: only_of_def intro: free_name)
  show ?thesis
    unfolding create_user_def Some option.case Let_def
    by (cases adopted) (auto intro!: found_rows wp_fresh_id split: option.split intro: wp_mono [OF stored])
qed (simp add: create_user_def)

lemma grows_create_group: "grows e ts (only_of Groups (fresh_ids e adopted)) (create_group ts body adopted) w"
proof (cases "string_attr body ''displayName''")
  case (Some name)
  have stored: "grows e ts (only_of Groups (fresh_ids e adopted)) (store_group ts i body 201) v"
    if "find (\<lambda>g. sql_lower (gr_name g) = sql_lower name) (t_groups (tables_of ts (db w))) = None"
      "i \<in> fresh_ids e adopted" "db v = db w" for i v
    using Some that by (intro grows_store_group) (auto simp: only_of_def intro: free_name)
  show ?thesis
    unfolding create_group_def Some option.case
    by (cases adopted) (auto intro!: found_rows wp_fresh_id split: option.split intro: wp_mono [OF stored])
qed (simp add: create_group_def)

text \<open>The check of a replacement: the name may be the row's own.\<close>

lemma conflict_is_not_free [simp]:
  "(case find (\<lambda>u. sql_lower (ur_name u) = sql_lower name) us of None \<Rightarrow> False | Some c \<Rightarrow> ur_id c \<noteq> i)
     \<longleftrightarrow> \<not> name_free ur_id ur_name i name us"
  "(case find (\<lambda>g. sql_lower (gr_name g) = sql_lower name) gs of None \<Rightarrow> False | Some c \<Rightarrow> gr_id c \<noteq> i)
     \<longleftrightarrow> \<not> name_free gr_id gr_name i name gs"
  by (simp_all add: name_free_def split: option.split)

lemma present_or_new:
  "look_row ur_id i (t_users t) \<noteq> None \<or> b \<Longrightarrow> (b \<Longrightarrow> i \<in> N Users) \<Longrightarrow> i \<in> ids_of Users t \<union> N Users"
  "look_row gr_id i (t_groups t) \<noteq> None \<or> b \<Longrightarrow> (b \<Longrightarrow> i \<in> N Groups) \<Longrightarrow> i \<in> ids_of Groups t \<union> N Groups"
  by (auto dest: look_row_SomeD)

lemma grows_replace_user:
  assumes "absent_ok \<Longrightarrow> i \<in> N Users"
  shows "grows e ts N (replace_user ts i body absent_ok) w"
proof (cases "string_attr body ''userName''")
  case (Some name)
  obtain b where active: "getp (normalize_user body i) ''active'' = Some (JBool b)"
    by (simp add: normalize_user_def)
  have stored: "grows e ts N (upsert_user ts (user_record i (normalize_user body i))) v"
    if "look_row ur_id i (t_users (tables_of ts (db w))) \<noteq> None \<or> absent_ok"
      "name_free ur_id ur_name i name (t_users (tables_of ts (db w)))" "db v = db w" for v
    using Some that active normalize_user_props present_or_new(1) [OF that(1), of N] assms by (intro stored_user) auto
  show ?thesis
    unfolding replace_user_def Some option.case Let_def
    by (auto intro!: found_rows intro: wp_mono [OF stored])
qed (auto simp: replace_user_def intro!: found_rows)

lemma grows_replace_group:
  assumes "absent_ok \<Longrightarrow> i \<in> N Groups"
  shows "grows e ts N (replace_group ts i body absent_ok) w"
proof (cases "string_attr body ''displayName''")
  case (Some name)
  have stored: "grows e ts N (store_group ts i body 200) v"
    if "look_row gr_id i (t_groups (tables_of ts (db w))) \<noteq> None \<or> absent_ok"
      "name_free gr_id gr_name i name (t_groups (tables_of ts (db w)))" "db v = db w" for v
    using Some that present_or_new(2) [OF that(1), of N] assms by (intro grows_store_group) auto
  show ?thesis
    unfolding replace_group_def Some option.case
    by (auto intro!: found_rows intro: wp_mono [OF stored])
qed (auto simp: replace_group_def intro!: found_rows)

lemma grows_patch_user: "grows e ts none_new (patch_user ts i ops) w"
proof -
  have stored: "grows e ts none_new (upsert_user ts (user_record i (finish_user i changed))) v"
    if "look_row ur_id i (t_users (tables_of ts (db w))) = Some u" "string_attr (finish_user i changed) ''userName'' = Some name"
      "name_free ur_id ur_name i name (t_users (tables_of ts (db w)))" "db v = db w" for v changed name u
  proof -
    obtain b where active: "getp (finish_user i changed) ''active'' = Some (JBool b)"
      by (simp add: finish_user_def Let_def)
    show ?thesis
      by (rule stored_user [OF _ active that(2)]) (use that found_id(1) [OF that(1)] in \<open>simp_all add: finish_user_def Let_def\<close>)
  qed
  show ?thesis
    unfolding patch_user_def Let_def stored_resource_def
    by (auto intro!: found_rows split: option.split sum.split intro: wp_mono [OF stored])
qed

text \<open>Operations on a group write edges only, and leave the members out of the document.\<close>

lemma group_ops_shrink: "pres (on_db (evolves ts none_new)) e (group_ops ts i ops resource)"
proof -
  have attrs: "pres (on_db (evolves ts none_new)) e (group_attrs ts i name attrs r)" for name attrs r
    by (induction ts i name attrs r rule: group_attrs.induct) (auto intro!: eff)
  have [eff]: "pres (on_db (evolves ts none_new)) e (group_op ts i op r)" for op r
    unfolding group_op_def Let_def by (intro eff attrs)
  show ?thesis by (induction ops arbitrary: resource) (auto intro!: eff)
qed

abbreviation memberless :: "object \<Rightarrow> bool" where
  "memberless obj \<equiv> getp obj ''members'' = None"

lemma canonical_no_members: "to_lower path \<noteq> ''members'' \<Longrightarrow> canonical_group_attr path \<noteq> ''members''"
proof -
  have "to_lower ''members'' = ''members''" by code_simp
  then show "to_lower path \<noteq> ''members'' \<Longrightarrow> canonical_group_attr path \<noteq> ''members''"
    by (auto simp: canonical_group_attr_def Let_def)
qed

lemma memberless_put [simp]: "k \<noteq> ''members'' \<Longrightarrow> memberless (put_prop k v obj) = memberless obj"
  by (simp add: put_prop_def split: option.split)

lemmas other_attr = canonical_no_members canonical_no_members [THEN not_sym]

lemma any_edge:
  "(\<And>v. Q () v) \<Longrightarrow> wp e (add_members ts i us) Q (\<lambda>_ _. True) w"
  "(\<And>v. Q () v) \<Longrightarrow> wp e (members_op ts i name x) Q (\<lambda>_ _. True) w"
  "(\<And>b v. Q' b v) \<Longrightarrow> wp e (remove_member ts i u) Q' (\<lambda>_ _. True) w"
  by (rule wp_mono [OF wp_trivial]; simp)+

lemma group_attrs_memberless:
  "memberless r \<Longrightarrow> wp e (group_attrs ts i name attrs r) (\<lambda>r' _. memberless r') (\<lambda>_ _. True) w"
  by (induction ts i name attrs r arbitrary: w rule: group_attrs.induct)
    (auto intro!: any_edge any_write simp: other_attr)

lemma group_op_memberless:
  "memberless r \<Longrightarrow> wp e (group_op ts i op r) (\<lambda>x _. case x of Inl _ \<Rightarrow> True | Inr r' \<Rightarrow> memberless r') (\<lambda>_ _. True) w"
  unfolding group_op_def Let_def
  by (auto intro!: any_edge wp_mono [OF group_attrs_memberless] split: option.split simp: other_attr)

lemma group_ops_memberless:
  "memberless r \<Longrightarrow> wp e (group_ops ts i ops r) (\<lambda>x _. case x of Inl _ \<Rightarrow> True | Inr r' \<Rightarrow> memberless r') (\<lambda>_ _. True) w"
proof (induction ops arbitrary: r w)
  case (Cons op ops)
  show ?case
    by (simp, rule wp_mono [OF group_op_memberless [OF Cons.prems]]) (auto split: sum.split simp: Cons.IH)
qed simp

lemma bnd_ret: "bnd (ret x) f = f x"
  and bnd_throw: "bnd (throw er) f = throw er"
  by (simp_all add: bnd_def ret_def throw_def fun_eq_iff)

lemma grows_known:
  assumes "grows e ts (only_of k {i}) mm w" "i \<in> ids_of k (tables_of ts (db w))"
  shows "grows e ts none_new mm w"
  by (rule wp_mono [OF assms(1)]) (use assms(2) in \<open>auto simp: evolves_def only_of_def split: if_splits\<close>)

lemma grows_patch_group:
  assumes "directory_ok (tables_of ts (db w))"
  shows "grows e ts none_new (patch_group ts i ops) w"
proof -
  let ?N = "only_of Groups {i}"
  have row: "memberless obj"
    if "look_row gr_id i (t_groups (tables_of ts (db w))) = Some g" "parse_json (Some (gr_resource g)) = Some obj" for g obj
    using assms look_row_SomeD [OF that(1)] that(2) by (auto simp: directory_ok_def list_all_iff group_row_ok_def)
  have ran: "wp e (group_ops ts i ops obj)
      (\<lambda>x v'. evolves ts ?N (db v) (db v') \<and> (case x of Inl _ \<Rightarrow> True | Inr r' \<Rightarrow> memberless r'))
      (\<lambda>_ v'. evolves ts ?N (db v) (db v') \<and> True) v"
    if "memberless obj" for obj v
    by (rule wp_conj [OF grows_pres [OF group_ops_shrink] group_ops_memberless [OF that]])
  have rest: "grows e ts ?N (store_patched_group ts i changed) v" if "memberless changed" for changed v
  proof -
    have stored: "grows e ts ?N (thn (upsert_group ts (group_record i (set_prop ''id'' (JStr i) changed)))
        (bnd (with_members ts i r) (\<lambda>v. ret (server_json v 200)))) v'"
      if "string_attr (set_prop ''id'' (JStr i) changed) ''displayName'' = Some name"
        "name_free gr_id gr_name i name (t_groups (tables_of ts (db v)))" "db v' = db v" for v' name r
      by (intro grows_thn stored_group [OF _ _ that(1)] eff) (use that \<open>memberless changed\<close> in \<open>simp_all add: only_of_def\<close>)
    show ?thesis
      unfolding store_patched_group_def Let_def
      by (auto intro!: found_rows split: option.split simp del: wp_thn wp_bnd simp: wp_bnd [of e "group_by_display_name ts n" for n]
          intro: wp_mono [OF stored])
  qed
  have "grows e ts ?N (bnd (group_ops ts i ops obj) (case_sum ret (store_patched_group ts i))) v" if "memberless obj" for obj v
    by (simp, rule wp_mono [OF ran [OF that]]) (auto split: sum.split intro!: wp_mono [OF rest] intro: evolves_trans)
  note grown = this
  have run: "wp e (bnd (group_ops ts i ops obj) (case_sum ret (store_patched_group ts i)))
      (\<lambda>_ v'. evolves ts none_new (db w) (db v')) (\<lambda>_ v'. evolves ts none_new (db w) (db v')) v"
    if "look_row gr_id i (t_groups (tables_of ts (db w))) = Some g" "parse_json (Some (gr_resource g)) = Some obj" "db v = db w" for g obj v
    unfolding that(3) [symmetric]
    by (rule grows_known [OF grown [OF row [OF that(1,2)]]]) (use that(3) found_id(2) [OF that(1)] in simp)
  show ?thesis
    unfolding patch_group_def stored_resource_def
    by (auto intro!: found_rows run split: option.split simp del: wp_bnd simp: wp_bnd [of e "group_by_id ts j" for j] bnd_ret bnd_throw)
qed

subsection \<open>Every request\<close>

lemma render_all_shrinks: "(\<And>r. pres (on_db (evolves ts none_new)) e (f r)) \<Longrightarrow> pres (on_db (evolves ts none_new)) e (render_all f rs)"
  by (induction rs) (auto intro!: eff)

lemma list_shrinks: "pres (on_db (evolves ts none_new)) e (handle_list q k ts)"
proof -
  have [eff]: "pres (on_db (evolves ts none_new)) e (list_page ts k flt a b)" for flt a b
    unfolding list_page_def list_users_def list_groups_def list_rows_def
    by (cases k) (auto intro!: eff render_all_shrinks)
  have [eff]: "pres (on_db (evolves ts none_new)) e flt" if "parse_filter raw k = Inr flt" for raw flt
    using that by (auto simp: parse_filter_def split: option.splits if_splits prod.splits filter_lookup.splits intro!: eff)
  show ?thesis
    unfolding handle_list_def Let_def by (auto intro!: eff split: sum.split)
qed

lemma get_shrinks: "pres (on_db (evolves ts none_new)) e (handle_get k i ts)"
  unfolding handle_get_def by (cases k) (auto intro!: eff split: option.split)

lemma delete_shrinks: "pres (on_db (evolves ts none_new)) e (handle_delete k i ts)"
  unfolding handle_delete_def by (cases k) (auto intro!: eff delete_evolves)

lemma grows_patch:
  "directory_ok (tables_of ts (db w)) \<Longrightarrow> grows e ts none_new (handle_patch q k i ts) w"
  unfolding handle_patch_def
  by (cases k) (auto intro!: grows_patch_user grows_patch_group split: option.split)

text \<open>The ids a request may bring, by the contract of the id header.\<close>

definition may_create :: "env \<Rightarrow> request \<Rightarrow> string \<Rightarrow> scim_config \<Rightarrow> kind \<Rightarrow> string set" where
  "may_create e q subpath cfg k = {i.
     (path_segments subpath = [kind_name k] \<and> map upper_char (q_method q) = ''POST'' \<and> i \<in> fresh_ids e (adopted_id cfg q))
     \<or> (path_segments subpath = [kind_name k, i] \<and> map upper_char (q_method q) = ''PUT''
        \<and> sc_migrated cfg = PutUpsert \<and> header_get migrated_id_header (q_headers q) = Some i)}"

lemma grows_more: "grows e ts N mm w \<Longrightarrow> (\<And>k. N k \<subseteq> N' k) \<Longrightarrow> grows e ts N' mm w"
  by (erule wp_mono) (unfold evolves_def, blast+)

lemma served_grows:
  assumes "directory_ok (tables_of (sc_tables cfg) (db w))"
  shows "grows e (sc_tables cfg) (may_create e q subpath cfg) (serve_scim q subpath cfg) w"
proof (cases rule: serve_scim_cases [of q subpath cfg])
  case (created k)
  have "grows e (sc_tables cfg) (only_of k (fresh_ids e (adopted_id cfg q))) (handle_create q k cfg) w"
    unfolding handle_create_def by (cases k) (auto intro!: grows_create_user grows_create_group split: option.split)
  from grows_more [OF this, of "may_create e q subpath cfg"] created show ?thesis
    by (simp add: only_of_def may_create_def subset_iff)
next
  case (replaced k i)
  have "grows e (sc_tables cfg) (may_create e q subpath cfg) (handle_put q k i cfg) w"
    unfolding handle_put_def Let_def using replaced
    by (cases k) (auto intro!: grows_replace_user grows_replace_group simp: may_create_def split: option.split)
  with replaced show ?thesis by simp
next
  case (patched k i)
  with grows_more [OF grows_patch [OF assms]] show ?thesis by simp
qed (auto intro: grows_pres list_shrinks get_shrinks delete_shrinks)

lemma served_evolves:
  assumes "serve_scim q subpath cfg e w = (r, w')" "directory_ok (tables_of (sc_tables cfg) (db w))"
  shows "evolves (sc_tables cfg) (may_create e q subpath cfg) (db w) (db w')"
  using served_grows [OF assms(2), of e q subpath] assms(1) by (cases r) (auto simp: wp_def)

text \<open>C17: whatever is requested of the SCIM server and however the datastore fails, the directory behind
  it answers for itself: ids are unique, user names and group names are unique whatever their case, no
  membership is stored twice, and the columns the filters and the listener search agree with the document
  each row serves; the other tables of the datastore are untouched.\<close>
theorem served_directory_ok:
  assumes "serve_scim q subpath cfg e w = (r, w')" and "directory_ok (tables_of (sc_tables cfg) (db w))"
  shows "directory_ok (tables_of (sc_tables cfg) (db w'))
    \<and> db w' = on_tables (sc_tables cfg) (\<lambda>_. tables_of (sc_tables cfg) (db w')) (db w)"
  using served_evolves [OF assms] assms(2) by (simp add: evolves_def)


end
