(* ===== verification/ScimServerReads.thy ===== *)
theory ScimServerReads
  imports ScimServerGuards
begin

text \<open>
  Reading what was written: a create, a replace or a PATCH answered with success is what a later GET answers.
\<close>

text \<open>What a GET answers from the tables.\<close>

definition member_list :: "table_set \<Rightarrow> string \<Rightarrow> store \<Rightarrow> json" where
  "member_list ts i s = JArr (map member_json (let t = tables_of ts s in
     map (\<lambda>uid. (uid, map_option ur_name (look_row ur_id uid (t_users t))))
       (sort (map snd (filter (\<lambda>m. fst m = i) (t_members t))))))"

fun stored_document :: "table_set \<Rightarrow> kind \<Rightarrow> string \<Rightarrow> store \<Rightarrow> object option" where
  "stored_document ts Users i s = (case look_row ur_id i (t_users (tables_of ts s)) of
     None \<Rightarrow> None | Some u \<Rightarrow> parse_json (Some (ur_resource u)))"
| "stored_document ts Groups i s = (case look_row gr_id i (t_groups (tables_of ts s)) of
     None \<Rightarrow> None | Some g \<Rightarrow> map_option (set_prop ''members'' (member_list ts i s)) (parse_json (Some (gr_resource g))))"

lemma wp_with_members:
  "(\<And>v. db v = db w \<Longrightarrow> Q (JObj (set_prop ''members'' (member_list ts i (db w)) obj)) v) \<Longrightarrow>
    wp e (with_members ts i obj) Q (\<lambda>_ _. True) w"
  unfolding with_members_def members_of_def
  by (simp, rule wp_query) (auto simp: member_list_def Let_def)

lemma get_answers:
  "stored_document ts k i (db w) = Some obj \<Longrightarrow>
    wp e (handle_get k i ts) (\<lambda>r _. r = server_json (JObj obj) 200) (\<lambda>_ _. True) w"
  unfolding handle_get_def
  by (cases k) (auto simp: render_user_def render_group_def stored_resource_def split: option.splits
      intro!: found_rows wp_with_members dest: look_row_SomeD)

subsection \<open>Writes\<close>

definition wrote :: "table_set \<Rightarrow> kind \<Rightarrow> response \<Rightarrow> world \<Rightarrow> bool" where
  "wrote ts k r v \<longleftrightarrow> (r_status r < 300 \<longrightarrow> (\<exists>obj i. r_body r = Some (Doc (JObj obj)) \<and> getp obj ''id'' = Some (JStr i)
     \<and> stored_document ts k i (db v) = Some obj))"

lemma wrote_refused: "300 \<le> r_status r \<Longrightarrow> wrote ts k r v"
  by (simp add: wrote_def)

lemma wrote_errors [simp]:
  "wrote ts k (not_found k' i) v" "wrote ts k (name_in_use k' n) v" "wrote ts k (id_in_use k' i) v"
  "wrote ts k (name_required k') v" "wrote ts k not_an_object v" "300 \<le> st \<Longrightarrow> wrote ts k (server_error st d x) v"
  by (simp_all add: wrote_refused)

lemma wrote_json: "getp obj ''id'' = Some (JStr i) \<Longrightarrow> stored_document ts k i (db v) = Some obj \<Longrightarrow> wrote ts k (server_json (JObj obj) st) v"
  by (simp add: wrote_def server_json_def)

abbreviation writes :: "env \<Rightarrow> table_set \<Rightarrow> kind \<Rightarrow> response m \<Rightarrow> world \<Rightarrow> bool" where
  "writes e ts k mm w \<equiv> wp e mm (wrote ts k) (\<lambda>_ _. True) w"

lemma put_user_stored:
  "fst (put_user ts u at s) = Inr () \<Longrightarrow> stored_document ts Users (ui_id u) (snd (put_user ts u at s)) = Some (ui_resource u)"
  by (auto simp: put_user_def Let_def user_row_of_def split: if_splits)

lemma written_user:
  "getp resource ''id'' = Some (JStr i) \<Longrightarrow> (\<And>v. stored_document ts Users i (db v) = Some resource \<Longrightarrow> Q () v) \<Longrightarrow>
    wp e (upsert_user ts (user_record i resource)) Q (\<lambda>_ _. True) w"
  by (rule wp_upsert_user) (use put_user_stored [of ts "user_record i resource"] in \<open>auto simp: user_record_def simp del: stored_document.simps\<close>)

definition group_document :: "table_set \<Rightarrow> string \<Rightarrow> store \<Rightarrow> object option" where
  "group_document ts i s = (case look_row gr_id i (t_groups (tables_of ts s)) of
     None \<Rightarrow> None | Some g \<Rightarrow> parse_json (Some (gr_resource g)))"

interpretation same_groups: store_frame "\<lambda>s s'. t_groups (tables_of ts s') = t_groups (tables_of ts s)" for ts
  by unfold_locales simp_all

lemma members_keep_groups:
  "pres (on_db (\<lambda>s s'. t_groups (tables_of ts s') = t_groups (tables_of ts s))) e (set_members ts i us)"
proof -
  have [eff]: "pres (on_db (\<lambda>s s'. t_groups (tables_of ts s') = t_groups (tables_of ts s))) e (add_member ts i u)" for u
    unfolding add_member_def by (rule same_groups.pres_statement) auto
  have [eff]: "pres (on_db (\<lambda>s s'. t_groups (tables_of ts s') = t_groups (tables_of ts s))) e (execute (drop_members ts i))"
    unfolding drop_members_def by (rule same_groups.pres_execute) simp
  show ?thesis unfolding set_members_def by (intro eff)
qed

lemma written_members:
  "(\<And>v. t_groups (tables_of ts (db v)) = t_groups (tables_of ts (db w)) \<Longrightarrow> Q () v) \<Longrightarrow>
    wp e (set_members ts i us) Q (\<lambda>_ _. True) w"
  by (rule wp_mono [OF wp_pres [OF members_keep_groups]]) (auto simp: on_db_def)

lemma written_group:
  "(\<And>v. group_document ts i (db v) = Some resource \<Longrightarrow> Q () v) \<Longrightarrow>
    wp e (upsert_group ts (group_record i resource)) Q (\<lambda>_ _. True) w"
  by (rule wp_upsert_group) (auto simp: group_record_def put_group_def group_document_def group_row_of_def)

lemma group_rendered:
  "group_document ts i s = Some obj \<Longrightarrow> stored_document ts Groups i s = Some (set_prop ''members'' (member_list ts i s) obj)"
  by (simp add: group_document_def split: option.splits)

lemma group_kept: "t_groups (tables_of ts s) = t_groups (tables_of ts s') \<Longrightarrow> group_document ts i s = group_document ts i s'"
  by (simp add: group_document_def)

lemma rendered_group:
  assumes "getp obj ''id'' = Some (JStr i)" "group_document ts i (db v) = Some obj"
  shows "writes e ts Groups (bnd (with_members ts i obj) (\<lambda>x. ret (server_json x st))) v"
proof -
  have "wrote ts Groups (server_json (JObj (set_prop ''members'' (member_list ts i (db v)) obj)) st) v'" if "db v' = db v" for v'
    using assms(1) group_rendered [OF assms(2)] that by (intro wrote_json) (simp_all del: stored_document.simps)
  then show ?thesis by (auto intro: wp_with_members)
qed

lemma writes_store_group: "writes e ts Groups (store_group ts i body st) w"
proof -
  have "writes e ts Groups (bnd (with_members ts i (normalize_group body i)) (\<lambda>x. ret (server_json x st))) v'"
    if "group_document ts i (db v) = Some (normalize_group body i)" "t_groups (tables_of ts (db v')) = t_groups (tables_of ts (db v))" for v v'
    using that group_kept [OF that(2)] by (intro rendered_group) (simp_all add: normalize_group_props)
  then show ?thesis
    unfolding store_group_def Let_def wp_thn by (intro written_group written_members) blast
qed

lemma writes_create_user: "writes e ts Users (create_user ts body adopted) w"
  unfolding create_user_def Let_def
  by (cases adopted) (auto intro!: found_rows wp_fresh_id written_user wrote_json
      simp: normalize_user_props split: option.split simp del: stored_document.simps)

lemma writes_create_group: "writes e ts Groups (create_group ts body adopted) w"
  unfolding create_group_def
  by (cases adopted) (auto intro!: found_rows wp_fresh_id writes_store_group split: option.split)

lemma writes_replace_user: "writes e ts Users (replace_user ts i body absent_ok) w"
  unfolding replace_user_def Let_def
  by (auto intro!: found_rows written_user wrote_json simp: normalize_user_props split: option.split
      simp del: stored_document.simps)

lemma writes_replace_group: "writes e ts Groups (replace_group ts i body absent_ok) w"
  unfolding replace_group_def
  by (auto intro!: found_rows writes_store_group split: option.split)

lemma finish_user_id [simp]: "getp (finish_user i changed) ''id'' = Some (JStr i)"
  by (simp add: finish_user_def Let_def)

text \<open>The refusals of an operation are all 400.\<close>

lemma user_op_refuses: "user_op op resource = Inl r \<Longrightarrow> r_status r = 400"
  by (auto simp: user_op_def remove_user_attr_def Let_def filtered_path_def no_path_def no_object_value_def unknown_op_def
      not_removable_def split: option.splits if_splits prod.splits)

lemma user_ops_refuses: "user_ops ops resource = Inl r \<Longrightarrow> r_status r = 400"
  by (induction ops arbitrary: resource) (auto split: sum.splits dest: user_op_refuses)

lemma writes_patch_user: "writes e ts Users (patch_user ts i ops) w"
  unfolding patch_user_def Let_def stored_resource_def
  by (auto intro!: found_rows written_user wrote_json split: option.split sum.split
      simp del: stored_document.simps dest!: user_ops_refuses intro: wrote_refused)

lemma group_op_refuses:
  "wp e (group_op ts i op r) (\<lambda>x _. case x of Inl resp \<Rightarrow> r_status resp = 400 | Inr _ \<Rightarrow> True) (\<lambda>_ _. True) w"
  unfolding group_op_def Let_def
  by (auto intro!: any_edge wp_mono [OF wp_trivial [of e "group_attrs ts i n a r" for n a]] split: option.split
      simp: unknown_op_def no_path_def no_object_value_def only_remove_def not_removable_def)

lemma group_ops_refuses:
  "wp e (group_ops ts i ops r) (\<lambda>x _. case x of Inl resp \<Rightarrow> r_status resp = 400 | Inr _ \<Rightarrow> True) (\<lambda>_ _. True) w"
proof (induction ops arbitrary: r w)
  case (Cons op ops)
  show ?case
    by (simp, rule wp_mono [OF group_op_refuses]) (auto split: sum.split simp: Cons.IH)
qed simp

lemma writes_store_patched: "writes e ts Groups (store_patched_group ts i changed) w"
proof -
  have "writes e ts Groups (bnd (with_members ts i (set_prop ''id'' (JStr i) changed)) (\<lambda>x. ret (server_json x 200))) v"
    if "group_document ts i (db v) = Some (set_prop ''id'' (JStr i) changed)" for v
    using that by (intro rendered_group) simp_all
  then show ?thesis
    unfolding store_patched_group_def Let_def
    by (auto intro!: found_rows written_group split: option.split simp del: wp_bnd simp: wp_bnd [of e "group_by_display_name ts n" for n])
qed

lemma writes_patch_group: "writes e ts Groups (patch_group ts i ops) w"
proof -
  have "writes e ts Groups (bnd (group_ops ts i ops obj) (case_sum ret (store_patched_group ts i))) v" for obj v
    by (simp, rule wp_mono [OF group_ops_refuses]) (auto split: sum.split intro: writes_store_patched wrote_refused)
  then show ?thesis
    unfolding patch_group_def stored_resource_def
    by (auto intro!: found_rows split: option.split simp del: wp_bnd simp: wp_bnd [of e "group_by_id ts j" for j] bnd_ret bnd_throw)
qed

text \<open>C19: what the SCIM server answers to a successful create, replace or PATCH is exactly what it answers to
  the next GET of the resource the answer names, members included.\<close>
theorem write_then_read:
  assumes "serve_scim q subpath cfg e w = (Inr r, w')"
    and "map upper_char (q_method q) \<in> {''POST'', ''PUT'', ''PATCH''}" and "r_status r < 300"
    and "r_body r = Some (Doc (JObj obj))" and "getp obj ''id'' = Some (JStr i)"
    and "serve_scim g path' cfg e' w' = (Inr r', w'')" and "map upper_char (q_method g) = ''GET''"
    and "path_segments path' = [hd (path_segments subpath), i]"
  shows "r_status r' = 200 \<and> r_body r' = r_body r"
proof -
  obtain k where k: "hd (path_segments subpath) = kind_name k" "writes e (sc_tables cfg) k (serve_scim q subpath cfg) w"
  proof (cases rule: serve_scim_cases [of q subpath cfg])
    case (answered r')
    with assms(1-3) show thesis by (auto simp: ret_def)
  next
    case (created k)
    have "writes e (sc_tables cfg) k (handle_create q k cfg) w"
      unfolding handle_create_def
      by (cases k) (auto intro!: writes_create_user writes_create_group split: option.split)
    with created that show thesis by simp
  next
    case (replaced k i)
    have "writes e (sc_tables cfg) k (handle_put q k i cfg) w"
      unfolding handle_put_def Let_def
      by (cases k) (auto intro!: writes_replace_user writes_replace_group split: option.split)
    with replaced that show thesis by simp
  next
    case (patched k i)
    have "writes e (sc_tables cfg) k (handle_patch q k i (sc_tables cfg)) w"
      unfolding handle_patch_def
      by (cases k) (auto intro!: writes_patch_user writes_patch_group split: option.split)
    with patched that show thesis by simp
  qed (use assms(2) in auto)
  from wp_Inr [OF k(2) assms(1)] assms(3-5) have "stored_document (sc_tables cfg) k i (db w') = Some obj"
    by (auto simp: wrote_def simp del: stored_document.simps)
  moreover have "serve_scim g path' cfg = handle_get k i (sc_tables cfg)"
    using assms(7,8) k(1) by (cases k) (simp_all add: serve_scim_def Let_def)
  ultimately show ?thesis
    using wp_Inr [OF get_answers] assms(4,6) by (fastforce simp: server_json_def)
qed

end
