(* ===== verification/FilterLaws.thy ===== *)
theory FilterLaws
  imports ScimServerReads
begin

text \<open>
  The filters the bridge writes, read by the SCIM server: which of them come back as the value they were
  written for.
\<close>

definition name_filter :: "kind \<Rightarrow> string \<Rightarrow> string" where
  "name_filter k v = unique_attribute k @ '' eq '' @ [dquote] @ escape_filter v @ [dquote]"

lemma quote_chars [simp]:
  "dquote \<noteq> backslash" "backslash \<noteq> dquote" "\<not> line_end backslash" "\<not> line_end dquote" "\<not> js_space dquote"
  by code_simp+

lemma quoted_cons:
  "c \<noteq> dquote \<Longrightarrow> c \<noteq> backslash \<Longrightarrow> quoted_value (c # s) = map_option (Cons c) (quoted_value s)"
  by (cases s) simp_all

lemma quoted_escape:
  "\<not> line_end c \<Longrightarrow> quoted_value (backslash # c # s) = map_option (Cons c) (quoted_value s)"
  by simp

lemma escape_Cons [simp]:
  "escape_filter [] = []"
  "escape_filter (c # s) = (if c = backslash \<or> c = dquote then [backslash, c] else [c]) @ escape_filter s"
  by (simp_all add: escape_filter_def)

lemma quoted_value_escape: "quoted_value (escape_filter v @ [dquote]) = Some v"
  by (induction v) (auto simp: quoted_cons quoted_escape simp del: quoted_value.simps(3))

lemma quoted_value_plain:
  "backslash \<notin> set v \<Longrightarrow> quoted_value (replace_char dquote [backslash, dquote] v @ [dquote]) = Some v"
  by (induction v) (auto simp: replace_char_def quoted_cons quoted_escape simp del: quoted_value.simps(3))

lemma match_attribute:
  assumes "quoted_value (body @ [dquote]) = Some v"
  shows "match_filter (unique_attribute k @ '' eq '' @ [dquote] @ body @ [dquote]) = Some (unique_attribute k, v)"
proof -
  have "list_all filter_word (unique_attribute Users)" "list_all filter_word (unique_attribute Groups)" "\<not> filter_word (CHR '' '')"
    by code_simp+
  then have word: "list_all filter_word (unique_attribute k)" "\<not> filter_word (CHR '' '')" by (cases k; simp)+
  have words: "takeWhile filter_word (unique_attribute k @ '' eq '' @ s) = unique_attribute k"
    "dropWhile filter_word (unique_attribute k @ '' eq '' @ s) = '' eq '' @ s" for s
    using word by (simp_all add: takeWhile_append2 dropWhile_append2 list_all_iff takeWhile_append dropWhile_append)
  have chars: "js_space (CHR '' '')" "\<not> js_space (CHR ''e'')" "to_lower ''eq'' = ''eq''"
    by code_simp+
  have attr: "unique_attribute k \<noteq> []" by (cases k) simp_all
  have spaces: "trim_start ('' eq '' @ s) = ''eq '' @ s" "trim_start (CHR '' '' # dquote # s) = dquote # s" for s
    using chars by (simp_all add: trim_start_def)
  let ?rest = "[dquote] @ body @ [dquote]"
  have "drop 2 (''eq '' @ ?rest) = '' '' @ dquote # body @ [dquote]" "take 2 (''eq '' @ ?rest) = ''eq''"
    by simp_all
  with assms chars attr show ?thesis
    unfolding match_filter_def Let_def words spaces(1) by (simp add: spaces(2))
qed

lemma trimmed_filter: "trim (unique_attribute k @ '' eq '' @ [dquote] @ body @ [dquote]) = unique_attribute k @ '' eq '' @ [dquote] @ body @ [dquote]"
proof -
  have "unique_attribute k = u # us \<Longrightarrow> \<not> js_space u" for u us
    by (cases k) (auto simp: js_space_def)
  then show ?thesis by (cases "unique_attribute k") (simp_all add: trim_def trim_start_def trim_end_def; cases k; simp)+
qed

lemma parsed_filter:
  assumes "quoted_value (body @ [dquote]) = Some v"
  shows "parse_filter (Some (unique_attribute k @ '' eq '' @ [dquote] @ body @ [dquote])) k
    = Inr (ret (Some \<lparr>lf_column = ByName, lf_value = v, lf_fold = True\<rparr>))"
proof -
  have "lookup_filter k (to_lower (unique_attribute k)) v = Column \<lparr>lf_column = ByName, lf_value = v, lf_fold = True\<rparr>"
    by (cases k) (simp_all add: lookup_filter_def name_attr_def)
  moreover have "unique_attribute k \<noteq> []" by (cases k) simp_all
  ultimately show ?thesis
    unfolding parse_filter_def option.case trimmed_filter match_attribute [OF assms] by simp
qed

text \<open>The identity filter of a reconcile names exactly the value it was written for: whatever quotes,
  backslashes or line ends the name holds, the SCIM server reads the value back.\<close>
lemma name_filter_round_trip:
  "parse_filter (Some (name_filter k v)) k = Inr (ret (Some \<lparr>lf_column = ByName, lf_value = v, lf_fold = True\<rparr>))"
  unfolding name_filter_def by (rule parsed_filter [OF quoted_value_escape])

lemma attribute_filter_plain:
  "backslash \<notin> set v \<Longrightarrow> parse_filter (Some (attribute_filter (unique_attribute k) v)) k
     = Inr (ret (Some \<lparr>lf_column = ByName, lf_value = v, lf_fold = True\<rparr>))"
  unfolding attribute_filter_def by (rule parsed_filter [OF quoted_value_plain])

text \<open>C39: a recovery after a 409 escapes the quotes of a name but not its backslashes, which the SCIM server
  takes off: the lookup of \<open>CORP\ann\<close> names \<open>CORPann\<close>, another user.\<close>
theorem backslash_filter_names_another:
  assumes "backslash \<notin> set (p @ c # s)" and "dquote \<notin> set (p @ c # s)" and "\<not> line_end c"
  shows "parse_filter (Some (attribute_filter (unique_attribute k) (p @ backslash # c # s))) k
    = Inr (ret (Some \<lparr>lf_column = ByName, lf_value = p @ c # s, lf_fold = True\<rparr>))"
proof -
  have plain: "dquote \<notin> set t \<Longrightarrow> replace_char dquote [backslash, dquote] t = t" for t
    by (induction t) (auto simp: replace_char_def)
  have "quoted_value (s @ [dquote]) = Some s"
    using quoted_value_plain [of s] plain [of s] assms by simp
  then have tail: "quoted_value (backslash # c # s @ [dquote]) = Some (c # s)"
    using assms(3) by (simp add: quoted_escape del: quoted_value.simps)
  have "backslash \<notin> set p \<Longrightarrow> dquote \<notin> set p \<Longrightarrow> quoted_value (p @ backslash # c # s @ [dquote]) = Some (p @ c # s)" for p
    by (induction p) (auto simp: quoted_cons tail simp del: quoted_value.simps)
  then have "quoted_value ((p @ backslash # c # s) @ [dquote]) = Some (p @ c # s)" using assms by simp
  moreover have "replace_char dquote [backslash, dquote] (p @ backslash # c # s) = p @ backslash # c # s"
    using assms by (intro plain) simp
  ultimately show ?thesis unfolding attribute_filter_def by (metis parsed_filter)
qed

subsection \<open>Looking up the owner of a name\<close>

lemma filter_unique_find:
  "distinct (map (sql_lower \<circ> nm) rows) \<Longrightarrow>
    filter (\<lambda>r. sql_lower (nm r) = sql_lower v) rows
      = (case find (\<lambda>r. sql_lower (nm r) = sql_lower v) rows of None \<Rightarrow> [] | Some r \<Rightarrow> [r])"
proof (induction rows)
  case (Cons r rows)
  have "filter (\<lambda>r. sql_lower (nm r) = sql_lower v) rows = []" if "sql_lower (nm r) = sql_lower v"
    using Cons.prems that by (auto simp: filter_empty_conv image_iff)
  with Cons show ?case by auto
qed simp


end
