(* ===== verification/ScimServerRuns.thy ===== *)
theory ScimServerRuns
  imports FilterLaws
begin

text \<open>
  Concrete requests to the SCIM server: the witnesses of its laws, and a PATCH that fails half-way.
\<close>

subsection \<open>Requests\<close>

definition scim_request :: "string \<Rightarrow> (string \<times> string) list \<Rightarrow> (string \<times> string) list \<Rightarrow> object \<Rightarrow> request" where
  "scim_request meth hs params body = \<lparr>q_method = meth, q_url = (sample_url [])\<lparr>url_params := params\<rparr>,
     q_headers = hs, q_body = Some (Doc (JObj body))\<rparr>"

definition mock_directory :: scim_config where
  "mock_directory = \<lparr>sc_tables = MockTables, sc_migrated = PostCreate\<rparr>"

definition post_user :: request where
  "post_user = scim_request ''POST'' [(migrated_id_header, ''u1'')] [] [(''userName'', JStr ''ann'')]"

definition post_group :: request where
  "post_group = scim_request ''POST'' [(migrated_id_header, ''g1'')] []
     [(''displayName'', JStr ''Eng''), (''members'', JArr [JObj [(''value'', JStr ''u1'')]])]"

definition read_group :: request where
  "read_group = scim_request ''get'' [] [] []"

definition clear_then_fail :: request where
  "clear_then_fail = scim_request ''PATCH'' [] [] [(''Operations'', JArr
     [JObj [(''op'', JStr ''remove''), (''path'', JStr ''members'')],
      JObj [(''op'', JStr ''move''), (''path'', JStr ''displayName'')]])]"

definition no_one :: world where
  "no_one = fresh_world empty_store"

definition ann_there :: world where
  "ann_there = snd (serve_scim post_user ''/Users'' mock_directory quiet_env no_one)"

definition group_there :: world where
  "group_there = snd (serve_scim post_group ''/Groups'' mock_directory quiet_env ann_there)"

lemma start_ok: "directory_ok (mock_tables (db no_one))"
  by code_simp

lemma ann_there_ok: "directory_ok (mock_tables (db ann_there))"
  by code_simp

lemma empty_kinds: "ids_of k (mock_tables (db no_one)) = {}"
  by (cases k) (simp_all add: no_one_def fresh_world_def empty_store_def no_tables_def)

subsection \<open>Witnesses\<close>

theorem refused_request_changes_nothing_witness:
  "case serve_scim post_user ''/Users'' mock_directory quiet_env ann_there of
     (Inr r, w') \<Rightarrow> r_status r = 409 \<and> db w' = db ann_there | _ \<Rightarrow> False"
proof -
  let ?run = "serve_scim post_user ''/Users'' mock_directory quiet_env ann_there"
  have "case ?run of (Inr r, w') \<Rightarrow> r_status r = 409 | _ \<Rightarrow> False" by code_simp
  then obtain r w' where run: "?run = (Inr r, w')" "r_status r = 409" by (auto split: prod.splits sum.splits)
  moreover have "map upper_char (q_method post_user) = ''POST''" by code_simp
  ultimately show ?thesis using refused_request_changes_nothing [OF run(1)] by simp
qed

theorem served_directory_ok_witness:
  "directory_ok (mock_tables (db group_there)) \<and> t_members (mock_tables (db group_there)) = [(''g1'', ''u1'')]"
proof -
  have m: "t_members (mock_tables (db group_there)) = [(''g1'', ''u1'')]" by code_simp
  have "serve_scim post_group ''/Groups'' mock_directory quiet_env ann_there
      = (fst (serve_scim post_group ''/Groups'' mock_directory quiet_env ann_there), group_there)"
    by (simp add: group_there_def)
  from served_directory_ok [OF this] ann_there_ok m show ?thesis by (simp add: mock_directory_def)
qed


theorem write_then_read_witness:
  "case serve_scim read_group ''/Groups/g1'' mock_directory quiet_env group_there of
     (Inr r, w') \<Rightarrow> r_status r = 200
       \<and> r_body r = r_body (projr (fst (serve_scim post_group ''/Groups'' mock_directory quiet_env ann_there)))
   | _ \<Rightarrow> False"
proof -
  let ?post = "serve_scim post_group ''/Groups'' mock_directory quiet_env ann_there"
  let ?get = "serve_scim read_group ''/Groups/g1'' mock_directory quiet_env group_there"
  have "case ?post of (Inr r, w') \<Rightarrow> r_status r < 300 \<and> (case r_body r of Some (Doc (JObj obj)) \<Rightarrow>
      getp obj ''id'' = Some (JStr ''g1'') | _ \<Rightarrow> False) | _ \<Rightarrow> False" by code_simp
  then obtain r obj where post: "?post = (Inr r, group_there)" "r_status r < 300" "r_body r = Some (Doc (JObj obj))"
    "getp obj ''id'' = Some (JStr ''g1'')"
    by (auto simp: group_there_def split: prod.splits sum.splits option.splits payload.splits json.splits)
  have "case ?get of (Inr r, w') \<Rightarrow> True | _ \<Rightarrow> False" by code_simp
  then obtain r' w'' where get: "?get = (Inr r', w'')" by (auto split: prod.splits sum.splits)
  have hyps: "map upper_char (q_method post_group) = ''POST''" "map upper_char (q_method read_group) = ''GET''"
    "path_segments ''/Groups/g1'' = [hd (path_segments ''/Groups''), ''g1'']" by code_simp+
  from write_then_read [OF post(1) _ post(2-4) get hyps(2,3)] hyps(1) post(1) get show ?thesis by simp
qed

definition find_ann :: request where
  "find_ann = scim_request ''GET'' [] [(''filter'', name_filter Users ''ANN'')] []"


theorem backslash_filter_names_another_witness:
  "parse_filter (Some (attribute_filter (unique_attribute Users) (''CORP'' @ backslash # CHR ''a'' # ''nn''))) Users
    = Inr (ret (Some \<lparr>lf_column = ByName, lf_value = ''CORPann'', lf_fold = True\<rparr>))"
proof -
  have "backslash \<notin> set (''CORP'' @ CHR ''a'' # ''nn'')" "dquote \<notin> set (''CORP'' @ CHR ''a'' # ''nn'')" "\<not> line_end (CHR ''a'')"
    by code_simp+
  from backslash_filter_names_another [OF this, of Users] show ?thesis by simp
qed

subsection \<open>Runs\<close>

text \<open>A PATCH of a group is not all or nothing: the second operation is refused with 400, and the
  members the first one removed stay removed.\<close>
theorem group_patch_is_not_atomic:
  "t_members (mock_tables (db group_there)) = [(''g1'', ''u1'')]
   \<and> (case serve_scim clear_then_fail ''/Groups/g1'' mock_directory quiet_env group_there of
        (Inr r, w') \<Rightarrow> r_status r = 400 \<and> t_members (mock_tables (db w')) = [] | _ \<Rightarrow> False)"
  by (intro conjI; code_simp)

text \<open>A filter on a name every object inherits passes the check of the supported attributes and fails in
  the datastore.\<close>

lemma inherited_filter_fails:
  "case handle_list (scim_request ''GET'' [] [(''filter'', ''constructor eq '' @ [dquote] @ ''x'' @ [dquote])] []) Users
     MockTables quiet_env ann_there of (Inl er, w') \<Rightarrow> db_failure er | _ \<Rightarrow> False"
proof -
  have "case handle_list (scim_request ''GET'' [] [(''filter'', ''constructor eq '' @ [dquote] @ ''x'' @ [dquote])] []) Users
     MockTables quiet_env ann_there of (Inl er, w') \<Rightarrow> er = DbError ''no such column: undefined'' | _ \<Rightarrow> False" by code_simp
  then show ?thesis by (auto simp: db_failure_def split: prod.splits sum.splits)
qed

end
