(* ===== verification/EventsTransport.thy ===== *)
theory EventsTransport
  imports Poller
begin

text \<open>
  Which transport the demo listener relies on (\<open>workers/native/events-transport.ts\<close>): the persisted
  choices, the controller that starts, stops and retargets the poll loop, and the actions of the panel.
  Intervals and the callbacks of a loop that was stopped while a poll was running are not modelled.
\<close>

subsection \<open>Keys and choices\<close>

definition events_transport_key :: string where "events_transport_key = ''native.events_transport''"
definition events_target_key :: string where "events_target_key = ''native.events_target''"
definition events_url_key :: string where "events_url_key = ''native.events_url''"
definition events_api_key_config_key :: string where "events_api_key_config_key = ''native.events_api_key''"
definition mock_token_key :: string where "mock_token_key = ''mock_workos.scim_token''"

datatype transport = Webhook | Poll
datatype poll_target = MockTarget | WorkosTarget
datatype key_source = EnvKey | StoredKey | MockKey

definition transport_text :: "transport \<Rightarrow> string" where
  "transport_text t = (case t of Webhook \<Rightarrow> ''webhook'' | Poll \<Rightarrow> ''poll'')"


definition as_transport :: "string option \<Rightarrow> transport option" where
  "as_transport v = (if v = Some ''webhook'' then Some Webhook else if v = Some ''poll'' then Some Poll else None)"

definition as_target :: "string option \<Rightarrow> poll_target option" where
  "as_target v = (if v = Some ''mock'' then Some MockTarget else if v = Some ''workos'' then Some WorkosTarget else None)"

record poller_boot =
  pb_demo :: bool
  pb_env_key :: "string option"
  pb_env_url :: string
  pb_mock_url :: string
  pb_by_env :: bool
  pb_limit :: "nat option"

record poller_status =
  st_running :: bool
  st_transport :: transport
  st_target :: "poll_target option"
  st_default_target :: poll_target
  st_base_url :: "string option"
  st_key_source :: "key_source option"
  st_env_key :: bool
  st_last_poll :: "string option"
  st_last_error :: "string option"

record desired_poller =
  dp_transport :: transport
  dp_target :: "poll_target option"
  dp_run :: bool
  dp_base_url :: "string option"
  dp_api_key :: "string option"
  dp_key_source :: "key_source option"
  dp_blocked :: "string option"

definition needs_key :: string where
  "needs_key = ''Polling real WorkOS needs an API key: set WORKOS_API_KEY or store one in the panel.''"

definition no_mock_token :: string where
  "no_mock_token = ''The bundled mock has no seeded token yet.''"

subsection \<open>What should run\<close>

definition stored_api_key :: "string option m" where
  "stored_api_key = bnd (get_config events_api_key_config_key) (\<lambda>raw.
     case nonempty_or_none raw of
       None \<Rightarrow> ret None
     | Some r \<Rightarrow> bnd (decrypt_secret r) (\<lambda>plain.
         ret (if plain \<noteq> [] \<and> \<not> is_encrypted_secret plain then Some plain else None)))"

definition default_poll_target :: "poller_boot \<Rightarrow> poll_target" where
  "default_poll_target boot = (if pb_env_url boot = pb_mock_url boot then MockTarget else WorkosTarget)"

definition off_poller :: "transport \<Rightarrow> desired_poller" where
  "off_poller t = \<lparr>dp_transport = t, dp_target = None, dp_run = False, dp_base_url = None, dp_api_key = None,
     dp_key_source = None, dp_blocked = None\<rparr>"

definition env_transport :: "poller_boot \<Rightarrow> transport" where
  "env_transport boot = (if pb_by_env boot then Poll else Webhook)"

definition env_poller :: "poller_boot \<Rightarrow> desired_poller" where
  "env_poller boot = (case nonempty_or_none (pb_env_key boot) of
       None \<Rightarrow> off_poller (env_transport boot)
     | Some key \<Rightarrow>
         if \<not> pb_by_env boot then off_poller (env_transport boot)
         else \<lparr>dp_transport = Poll, dp_target = None, dp_run = True, dp_base_url = Some (pb_env_url boot),
           dp_api_key = Some key, dp_key_source = Some EnvKey, dp_blocked = None\<rparr>)"

definition mock_poller :: "poller_boot \<Rightarrow> desired_poller m" where
  "mock_poller boot = bnd (get_config mock_token_key) (\<lambda>token. ret
     (case nonempty_or_none token of
        None \<Rightarrow> (off_poller Poll)\<lparr>dp_target := Some MockTarget, dp_blocked := Some no_mock_token\<rparr>
      | Some t \<Rightarrow> \<lparr>dp_transport = Poll, dp_target = Some MockTarget, dp_run = True,
          dp_base_url = Some (pb_mock_url boot), dp_api_key = Some t, dp_key_source = Some MockKey, dp_blocked = None\<rparr>))"

definition workos_base :: "poller_boot \<Rightarrow> string option \<Rightarrow> string" where
  "workos_base boot stored = (case stored of
       Some u \<Rightarrow> u
     | None \<Rightarrow> if pb_env_url boot \<noteq> pb_mock_url boot then pb_env_url boot else default_events_url)"

definition workos_poller :: "poller_boot \<Rightarrow> desired_poller m" where
  "workos_poller boot = bnd (get_config events_url_key) (\<lambda>stored_url.
     let base = workos_base boot stored_url; env_key = nonempty_or_none (pb_env_key boot) in
     bnd (if env_key \<noteq> None then ret None else stored_api_key) (\<lambda>stored.
     let key = nonempty_or_none (case pb_env_key boot of Some k \<Rightarrow> Some k | None \<Rightarrow> stored) in
     ret (case key of
        None \<Rightarrow> (off_poller Poll)\<lparr>dp_target := Some WorkosTarget, dp_base_url := Some base, dp_blocked := Some needs_key\<rparr>
      | Some k \<Rightarrow> \<lparr>dp_transport = Poll, dp_target = Some WorkosTarget, dp_run = True, dp_base_url = Some base,
          dp_api_key = Some k, dp_key_source = Some (if env_key \<noteq> None then EnvKey else StoredKey), dp_blocked = None\<rparr>)))"

definition resolve_desired :: "poller_boot \<Rightarrow> desired_poller m" where
  "resolve_desired boot =
     (if \<not> pb_demo boot then ret (env_poller boot)
      else bnd (get_config events_transport_key) (\<lambda>chosen.
        let t = (case as_transport chosen of Some t \<Rightarrow> t | None \<Rightarrow> env_transport boot) in
        if t \<noteq> Poll then ret (off_poller t)
        else bnd (get_config events_target_key) (\<lambda>target.
          case (case as_target target of Some x \<Rightarrow> x | None \<Rightarrow> default_poll_target boot) of
            MockTarget \<Rightarrow> mock_poller boot
          | WorkosTarget \<Rightarrow> workos_poller boot)))"

subsection \<open>The controller\<close>

text \<open>A loop is what it polls and the key it presents.\<close>

record controller =
  ct_boot :: poller_boot
  ct_loop :: "(string \<times> string) option"
  ct_status :: poller_status

definition create_controller :: "poller_boot \<Rightarrow> controller" where
  "create_controller boot = \<lparr>ct_boot = boot, ct_loop = None, ct_status =
     \<lparr>st_running = False, st_transport = env_transport boot, st_target = None, st_default_target = default_poll_target boot,
      st_base_url = None, st_key_source = None, st_env_key = (nonempty_or_none (pb_env_key boot) \<noteq> None),
      st_last_poll = None, st_last_error = None\<rparr>\<rparr>"

definition stop_loop :: "controller \<Rightarrow> controller" where
  "stop_loop ct = ct\<lparr>ct_loop := None, ct_status := (ct_status ct)\<lparr>st_running := False\<rparr>\<rparr>"

definition reflect_desired :: "desired_poller \<Rightarrow> poller_status \<Rightarrow> poller_status" where
  "reflect_desired d st = st\<lparr>st_transport := dp_transport d, st_target := dp_target d, st_base_url := dp_base_url d,
     st_key_source := dp_key_source d, st_last_error := dp_blocked d\<rparr>"

definition follow_desired :: "desired_poller \<Rightarrow> controller \<Rightarrow> controller" where
  "follow_desired d ct =
     (let ct = ct\<lparr>ct_status := reflect_desired d (ct_status ct)\<rparr> in
      case (dp_base_url d, dp_api_key d) of
        (Some base, Some key) \<Rightarrow>
          if \<not> dp_run d then stop_loop ct
          else
            let ct = (if ct_loop ct \<noteq> Some (base, key) then (stop_loop ct)\<lparr>ct_loop := Some (base, key)\<rparr> else ct) in
            ct\<lparr>ct_status := (ct_status ct)\<lparr>st_running := True\<rparr>\<rparr>
      | _ \<Rightarrow> stop_loop ct)"

definition reconcile_poller :: "controller \<Rightarrow> controller m" where
  "reconcile_poller ct = bnd (resolve_desired (ct_boot ct)) (\<lambda>d. ret (follow_desired d ct))"

text \<open>One tick of a running loop; a failed poll is noted and retried at the next.\<close>

definition poller_tick :: "nat \<Rightarrow> controller \<Rightarrow> controller m" where
  "poller_tick fuel ct = (case ct_loop ct of
       None \<Rightarrow> ret ct
     | Some (base, key) \<Rightarrow>
         bnd (settle (poll_dsync_events_once fuel \<lparr>po_api_key = key, po_base_url = Some base, po_limit = pb_limit (ct_boot ct)\<rparr>)) (\<lambda>r.
         case r of
           Inl er \<Rightarrow> ret (ct\<lparr>ct_status := (ct_status ct)\<lparr>st_last_error := Some (error_message er)\<rparr>\<rparr>)
         | Inr done \<Rightarrow> (case done of
               None \<Rightarrow> ret ct
             | Some _ \<Rightarrow> bnd sql_now (\<lambda>t. ret (ct\<lparr>ct_status := (ct_status ct)\<lparr>st_last_poll := Some t, st_last_error := None\<rparr>\<rparr>)))))"

subsection \<open>The actions of the panel\<close>

record transport_options =
  to_controller :: "controller option"
  to_env_key :: bool

definition any_key_available :: "transport_options \<Rightarrow> bool m" where
  "any_key_available opts = (if to_env_key opts then ret True else bnd stored_api_key (\<lambda>k. ret (k \<noteq> None)))"

definition is_loopback :: "url \<Rightarrow> bool" where
  "is_loopback u \<longleftrightarrow> url_hostname u \<in> set [''localhost'', ''127.0.0.1'', ''[::1]'']"

definition reconcile_own :: "transport_options \<Rightarrow> transport_options m" where
  "reconcile_own opts = (case to_controller opts of
       None \<Rightarrow> ret opts
     | Some ct \<Rightarrow> bnd (reconcile_poller ct) (\<lambda>ct'. ret (opts\<lparr>to_controller := Some ct'\<rparr>)))"

text \<open>An action answers with an error, or persists a choice and reconciles.\<close>

definition decline :: "string \<Rightarrow> transport_options \<Rightarrow> (string option \<times> transport_options) m" where
  "decline msg opts = ret (Some msg, opts)"

definition settle_choice :: "transport_options \<Rightarrow> (string option \<times> transport_options) m" where
  "settle_choice opts = bnd (reconcile_own opts) (\<lambda>opts'. ret (None, opts'))"

definition set_events_transport :: "transport_options \<Rightarrow> string \<Rightarrow> (string option \<times> transport_options) m" where
  "set_events_transport opts value = (case as_transport (Some value) of
       None \<Rightarrow> decline ''That transport is not recognized.'' opts
     | Some t \<Rightarrow>
         bnd (if t \<noteq> Poll then ret False
              else bnd (get_config events_target_key) (\<lambda>stored.
                let target = (case as_target stored of
                      Some x \<Rightarrow> x
                    | None \<Rightarrow> (case to_controller opts of Some ct \<Rightarrow> st_default_target (ct_status ct) | None \<Rightarrow> MockTarget)) in
                if target \<noteq> WorkosTarget then ret False
                else bnd (any_key_available opts) (\<lambda>ok. ret (\<not> ok)))) (\<lambda>keyless.
         if keyless then decline needs_key opts
         else thn (set_config events_transport_key (transport_text t)) (settle_choice opts)))"

definition wanted_url :: "string option \<Rightarrow> string" where
  "wanted_url v = (let u = trim (case v of None \<Rightarrow> [] | Some u \<Rightarrow> u) in if u = [] then default_events_url else u)"

definition url_refusal :: "url option \<Rightarrow> string option" where
  "url_refusal parsed = (case parsed of
       None \<Rightarrow> Some ''The Events API URL is not a valid URL.''
     | Some p \<Rightarrow>
         if url_protocol p \<noteq> ''https:'' \<and> \<not> (url_protocol p = ''http:'' \<and> is_loopback p)
         then Some (''The Events API URL must use https -- a plain-http target would send the API key ''
           @ ''in cleartext. (Loopback addresses are exempt.)'')
         else None)"

definition set_events_poll_target ::
    "transport_options \<Rightarrow> string \<Rightarrow> string option \<Rightarrow> (string option \<times> transport_options) m" where
  "set_events_poll_target opts target_value url_value = (case as_target (Some target_value) of
       None \<Rightarrow> decline ''That poll target is not recognized.'' opts
     | Some MockTarget \<Rightarrow> thn (set_config events_target_key ''mock'') (settle_choice opts)
     | Some WorkosTarget \<Rightarrow>
         let u = wanted_url url_value in
         bnd (asks (\<lambda>e. url_refusal (parse_url e u))) (\<lambda>refusal. case refusal of
           Some msg \<Rightarrow> decline msg opts
         | None \<Rightarrow> bnd (any_key_available opts) (\<lambda>ok.
             if \<not> ok then decline needs_key opts
             else thn (set_config events_url_key (strip_trailing_slashes u))
               (thn (set_config events_target_key ''workos'') (settle_choice opts)))))"

definition store_events_api_key :: "transport_options \<Rightarrow> string \<Rightarrow> (string option \<times> transport_options) m" where
  "store_events_api_key opts key = (let trimmed = trim key in
     if trimmed = [] then decline ''Paste a key to store -- or use Clear to remove the stored one.'' opts
     else bnd (encrypt_secret trimmed) (\<lambda>secret.
       thn (set_config events_api_key_config_key secret) (settle_choice opts)))"

definition clear_events_api_key :: "transport_options \<Rightarrow> (string option \<times> transport_options) m" where
  "clear_events_api_key opts =
     bnd (if to_env_key opts then ret False
          else bnd (get_config events_transport_key) (\<lambda>chosen.
            let t = (case as_transport chosen of
                  Some t \<Rightarrow> t
                | None \<Rightarrow> (case to_controller opts of Some ct \<Rightarrow> st_transport (ct_status ct) | None \<Rightarrow> Poll)) in
            bnd (get_config events_target_key) (\<lambda>stored.
              let target = (case as_target stored of Some x \<Rightarrow> x | None \<Rightarrow> MockTarget) in
              ret (t = Poll \<and> target = WorkosTarget)))) (\<lambda>in_use.
     if in_use then decline (''This key is what the poller is using. Switch the target to the bundled mock ''
         @ ''(or the transport to webhooks) before clearing it.'') opts
     else thn (delete_config events_api_key_config_key) (settle_choice opts))"

datatype panel_action = SetTransport string | SetTarget string "string option" | StoreKey string | ClearKey

fun run_action :: "panel_action \<Rightarrow> transport_options \<Rightarrow> (string option \<times> transport_options) m" where
  "run_action (SetTransport v) opts = set_events_transport opts v"
| "run_action (SetTarget t u) opts = set_events_poll_target opts t u"
| "run_action (StoreKey k) opts = store_events_api_key opts k"
| "run_action ClearKey opts = clear_events_api_key opts"

end
