(* ===== verification/TransportLaws.thy ===== *)
theory TransportLaws
  imports EventsTransport PollerLaws ListenerGuards Routing
begin

text \<open>
  The controller of the poll loop: which key goes to which target, what the panel may store, and where the
  guards of the panel and the controller part.
\<close>

subsection \<open>Reading the configuration\<close>

lemma wp_get_config:
  "(\<And>v. db v = db w \<Longrightarrow> Q (config_of k (db w)) v) \<Longrightarrow> (\<And>er v. db v = db w \<Longrightarrow> X er v) \<Longrightarrow> wp e (get_config k) Q X w"
  unfolding get_config_def config_of_def by (rule wp_query) auto

text \<open>What a stored secret reads as.\<close>

definition revealed :: "env \<Rightarrow> string \<Rightarrow> string option" where
  "revealed e v = (if \<not> starts_with v enc_prefix \<or> \<not> has_key e then Some v else unseal e (drop (length enc_prefix) v))"

definition stored_key :: "env \<Rightarrow> store \<Rightarrow> string option" where
  "stored_key e s = (case nonempty_or_none (config_of events_api_key_config_key s) of
     None \<Rightarrow> None
   | Some r \<Rightarrow> (case revealed e r of None \<Rightarrow> None
       | Some p \<Rightarrow> if p \<noteq> [] \<and> \<not> is_encrypted_secret p then Some p else None))"

lemma wp_decrypt:
  "(\<And>p. revealed e v = Some p \<Longrightarrow> Q p w) \<Longrightarrow> (\<And>er. X er w) \<Longrightarrow> wp e (decrypt_secret v) Q X w"
  by (auto simp: decrypt_secret_def revealed_def split: option.split)

lemma wp_stored_api_key:
  "(\<And>v. db v = db w \<Longrightarrow> Q (stored_key e (db w)) v) \<Longrightarrow> (\<And>er v. db v = db w \<Longrightarrow> X er v) \<Longrightarrow> wp e stored_api_key Q X w"
  unfolding stored_api_key_def
  by (auto intro!: wp_get_config wp_decrypt simp: stored_key_def split: option.split)

lemma wp_any_key:
  "(\<And>v. db v = db w \<Longrightarrow> Q (to_env_key opts \<or> stored_key e (db w) \<noteq> None) v) \<Longrightarrow> (\<And>er v. db v = db w \<Longrightarrow> X er v) \<Longrightarrow>
    wp e (any_key_available opts) Q X w"
  unfolding any_key_available_def by (auto intro!: wp_stored_api_key)

subsection \<open>What a reconcile starts\<close>

text \<open>The configuration the controller reads as a function of the store.\<close>

definition workos_desired :: "env \<Rightarrow> poller_boot \<Rightarrow> store \<Rightarrow> desired_poller" where
  "workos_desired e boot s =
     (let base = workos_base boot (config_of events_url_key s) in
      case nonempty_or_none (case pb_env_key boot of Some k \<Rightarrow> Some k | None \<Rightarrow> stored_key e s) of
        None \<Rightarrow> (off_poller Poll)\<lparr>dp_target := Some WorkosTarget, dp_base_url := Some base, dp_blocked := Some needs_key\<rparr>
      | Some k \<Rightarrow> \<lparr>dp_transport = Poll, dp_target = Some WorkosTarget, dp_run = True, dp_base_url = Some base,
          dp_api_key = Some k, dp_key_source = Some (if nonempty_or_none (pb_env_key boot) \<noteq> None then EnvKey else StoredKey),
          dp_blocked = None\<rparr>)"

definition mock_desired :: "poller_boot \<Rightarrow> store \<Rightarrow> desired_poller" where
  "mock_desired boot s = (case nonempty_or_none (config_of mock_token_key s) of
     None \<Rightarrow> (off_poller Poll)\<lparr>dp_target := Some MockTarget, dp_blocked := Some no_mock_token\<rparr>
   | Some t \<Rightarrow> \<lparr>dp_transport = Poll, dp_target = Some MockTarget, dp_run = True,
       dp_base_url = Some (pb_mock_url boot), dp_api_key = Some t, dp_key_source = Some MockKey, dp_blocked = None\<rparr>)"

definition desired_of :: "env \<Rightarrow> poller_boot \<Rightarrow> store \<Rightarrow> desired_poller" where
  "desired_of e boot s =
     (if \<not> pb_demo boot then env_poller boot
      else let t = (case as_transport (config_of events_transport_key s) of Some t \<Rightarrow> t | None \<Rightarrow> env_transport boot) in
        if t \<noteq> Poll then off_poller t
        else (case (case as_target (config_of events_target_key s) of Some x \<Rightarrow> x | None \<Rightarrow> default_poll_target boot) of
            MockTarget \<Rightarrow> mock_desired boot s | WorkosTarget \<Rightarrow> workos_desired e boot s))"

abbreviation yields :: "env \<Rightarrow> desired_poller m \<Rightarrow> (store \<Rightarrow> desired_poller) \<Rightarrow> world \<Rightarrow> bool" where
  "yields e mm f w \<equiv> wp e mm (\<lambda>d v. d = f (db w) \<and> db v = db w) (\<lambda>_ v. db v = db w) w"

lemma mock_yields: "yields e (mock_poller boot) (mock_desired boot) w"
  unfolding mock_poller_def by (auto intro!: wp_get_config simp: mock_desired_def)

lemma workos_yields: "yields e (workos_poller boot) (workos_desired e boot) w"
proof (cases "nonempty_or_none (pb_env_key boot)")
  case None
  then show ?thesis
    unfolding workos_poller_def Let_def
    by (cases "pb_env_key boot") (auto intro!: wp_get_config wp_stored_api_key simp: workos_desired_def Let_def)
next
  case (Some k)
  then show ?thesis
    unfolding workos_poller_def Let_def
    by (cases "pb_env_key boot") (auto intro!: wp_get_config simp: workos_desired_def Let_def nonempty_or_none_def)
qed

lemma resolve_yields: "yields e (resolve_desired boot) (desired_of e boot) w"
proof -
  have mock: "wp e (mock_poller boot) (\<lambda>d v'. d = mock_desired boot (db w) \<and> db v' = db w) (\<lambda>_ v'. db v' = db w) v"
    and workos: "wp e (workos_poller boot) (\<lambda>d v'. d = workos_desired e boot (db w) \<and> db v' = db w) (\<lambda>_ v'. db v' = db w) v"
    if "db v = db w" for v
    using mock_yields [of e boot v] workos_yields [of e boot v] that by simp_all
  show ?thesis
    unfolding resolve_desired_def Let_def
    by (auto intro!: wp_get_config mock workos simp: desired_of_def Let_def split: poll_target.split)
qed

lemma wp_reconcile:
  "(\<And>v. db v = db w \<Longrightarrow> Q (follow_desired (desired_of e (ct_boot ct) (db w)) ct) v) \<Longrightarrow> (\<And>er v. db v = db w \<Longrightarrow> X er v) \<Longrightarrow>
    wp e (reconcile_poller ct) Q X w"
  unfolding reconcile_poller_def by (auto intro: wp_mono [OF resolve_yields])

text \<open>Where a key may go: outside demo mode the environment decides alone; in demo mode the token of the bundled
  mock goes to the mock, and the key of the environment, or else the stored one, to the chosen base.\<close>

definition key_allowed :: "env \<Rightarrow> poller_boot \<Rightarrow> store \<Rightarrow> string \<Rightarrow> string \<Rightarrow> bool" where
  "key_allowed e boot s base key \<longleftrightarrow> key \<noteq> [] \<and>
     (if \<not> pb_demo boot then pb_by_env boot \<and> pb_env_key boot = Some key \<and> base = pb_env_url boot
      else (base = pb_mock_url boot \<and> config_of mock_token_key s = Some key)
        \<or> ((case pb_env_key boot of Some k \<Rightarrow> Some k | None \<Rightarrow> stored_key e s) = Some key
           \<and> base = workos_base boot (config_of events_url_key s)))"

lemma stop_loop_simps [simp]: "ct_loop (stop_loop ct) = None" "ct_boot (stop_loop ct) = ct_boot ct"
  by (simp_all add: stop_loop_def)

lemma loop_of_desired:
  assumes "ct_loop (follow_desired d ct) = Some (base, key)"
  shows "dp_base_url d = Some base \<and> dp_api_key d = Some key \<and> dp_run d"
proof (cases "dp_base_url d")
  case (Some b)
  show ?thesis
  proof (cases "dp_api_key d")
    case (Some k)
    with \<open>dp_base_url d = Some b\<close> assms show ?thesis
      by (cases "dp_run d"; cases "ct_loop ct = Some (b, k)") (simp_all add: follow_desired_def Let_def)
  qed (use assms in \<open>simp add: follow_desired_def Let_def Some\<close>)
qed (use assms in \<open>simp add: follow_desired_def Let_def\<close>)

lemma nonempty_or_none_Some: "nonempty_or_none v = Some s \<Longrightarrow> v = Some s \<and> s \<noteq> []"
  by (auto simp: nonempty_or_none_def split: option.splits if_splits)

definition starts :: "desired_poller \<Rightarrow> string \<Rightarrow> string \<Rightarrow> bool" where
  "starts d base key \<longleftrightarrow> dp_base_url d = Some base \<and> dp_api_key d = Some key \<and> dp_run d"

lemma starts_off [simp]: "\<not> starts (off_poller t) base key"
  by (simp add: starts_def off_poller_def)

lemma starts_env: "starts (env_poller boot) base key \<Longrightarrow>
    key \<noteq> [] \<and> pb_by_env boot \<and> pb_env_key boot = Some key \<and> base = pb_env_url boot"
  by (cases "nonempty_or_none (pb_env_key boot)"; cases "pb_by_env boot")
    (auto simp: env_poller_def starts_def off_poller_def dest: nonempty_or_none_Some)

lemma starts_mock: "starts (mock_desired boot s) base key \<Longrightarrow>
    key \<noteq> [] \<and> base = pb_mock_url boot \<and> config_of mock_token_key s = Some key"
  by (cases "nonempty_or_none (config_of mock_token_key s)")
    (auto simp: mock_desired_def starts_def off_poller_def dest: nonempty_or_none_Some)

lemma starts_workos: "starts (workos_desired e boot s) base key \<Longrightarrow>
    key \<noteq> [] \<and> (case pb_env_key boot of Some k \<Rightarrow> Some k | None \<Rightarrow> stored_key e s) = Some key
    \<and> base = workos_base boot (config_of events_url_key s)"
  by (cases "nonempty_or_none (case pb_env_key boot of Some k \<Rightarrow> Some k | None \<Rightarrow> stored_key e s)")
    (auto simp: workos_desired_def starts_def off_poller_def Let_def dest: nonempty_or_none_Some)

lemma desired_allowed: "starts (desired_of e boot s) base key \<Longrightarrow> key_allowed e boot s base key"
  unfolding desired_of_def key_allowed_def Let_def
  by (auto dest: starts_env starts_mock starts_workos split: if_splits poll_target.splits)


subsection \<open>What the panel may store\<close>

text \<open>A URL the key may be sent to: encrypted, or on this host.\<close>

definition safe_base :: "env \<Rightarrow> string \<Rightarrow> bool" where
  "safe_base e v \<longleftrightarrow> (\<exists>raw u. v = strip_trailing_slashes raw \<and> parse_url e raw = Some u
     \<and> (url_protocol u = ''https:'' \<or> url_protocol u = ''http:'' \<and> is_loopback u))"

definition url_row_safe :: "env \<Rightarrow> store \<Rightarrow> bool" where
  "url_row_safe e s \<longleftrightarrow> (case config_of events_url_key s of None \<Rightarrow> True | Some v \<Rightarrow> safe_base e v)"

lemma config_keys [simp]:
  "events_url_key \<noteq> events_target_key" "events_url_key \<noteq> events_transport_key" "events_url_key \<noteq> events_api_key_config_key"
  "events_target_key \<noteq> events_transport_key" "events_api_key_config_key \<noteq> events_transport_key"
  "events_transport_key \<noteq> events_target_key" "events_target_key \<noteq> events_url_key"
  "events_transport_key \<noteq> events_url_key" "events_api_key_config_key \<noteq> events_url_key"
  by (simp_all add: events_url_key_def events_target_key_def events_transport_key_def events_api_key_config_key_def)

lemma url_row_other: "k \<noteq> events_url_key \<Longrightarrow> (\<And>k'. k' \<noteq> k \<Longrightarrow> config_of k' s' = config_of k' s) \<Longrightarrow> url_row_safe e s' = url_row_safe e s"
  by (metis url_row_safe_def)

text \<open>Every statement of an action keeps the row safe, also when its acknowledgement is lost.\<close>

abbreviation keeps_safe :: "env \<Rightarrow> 'a m \<Rightarrow> world \<Rightarrow> bool" where
  "keeps_safe e mm w \<equiv> wp e mm (\<lambda>_ v. url_row_safe e (db v)) (\<lambda>_ v. url_row_safe e (db v)) w"

lemma wp_set_row:
  assumes "\<And>v. (\<And>k'. config_of k' (db v) = (if k' = k then Some x else config_of k' (db w))) \<Longrightarrow> Q () v \<and> (\<forall>er. X er v)"
    and "\<And>er v. db v = db w \<Longrightarrow> X er v"
  shows "wp e (set_config k x) Q X w"
  unfolding set_config_def by (rule wp_execute) (use assms in \<open>auto intro!: replayable_writing\<close>)

lemma wp_delete_row:
  assumes "\<And>v. (\<And>k'. config_of k' (db v) = (if k' = k then None else config_of k' (db w))) \<Longrightarrow> Q () v \<and> (\<forall>er. X er v)"
    and "\<And>er v. db v = db w \<Longrightarrow> X er v"
  shows "wp e (delete_config k) Q X w"
  unfolding delete_config_def by (rule wp_execute) (use assms in \<open>auto intro!: replayable_writing\<close>)

lemma settle_safe: "url_row_safe e (db w) \<Longrightarrow> keeps_safe e (settle_choice opts) w"
  unfolding settle_choice_def reconcile_own_def by (auto intro!: wp_reconcile split: option.split)

lemma stored_choice_safe:
  "url_row_safe e (db w) \<Longrightarrow> k \<noteq> events_url_key \<or> safe_base e x \<Longrightarrow>
    (\<And>v. url_row_safe e (db v) \<Longrightarrow> keeps_safe e mm v) \<Longrightarrow> keeps_safe e (thn (set_config k x) mm) w"
  by (simp, rule wp_set_row) (auto simp: url_row_safe_def)

lemma transport_safe: "url_row_safe e (db w) \<Longrightarrow> keeps_safe e (set_events_transport opts v) w"
  unfolding set_events_transport_def Let_def decline_def
  by (auto intro!: wp_get_config wp_any_key stored_choice_safe settle_safe split: option.split simp del: wp_thn)

lemma no_refusal: "url_refusal (parse_url e u) = None \<Longrightarrow> safe_base e (strip_trailing_slashes u)"
  by (auto simp: url_refusal_def safe_base_def split: option.splits if_splits)

lemma target_safe: "url_row_safe e (db w) \<Longrightarrow> keeps_safe e (set_events_poll_target opts t v) w"
  unfolding set_events_poll_target_def Let_def decline_def
  by (auto intro!: wp_any_key stored_choice_safe settle_safe intro: no_refusal split: option.split poll_target.split simp del: wp_thn)

lemma key_safe: "url_row_safe e (db w) \<Longrightarrow> keeps_safe e (store_events_api_key opts k) w"
  unfolding store_events_api_key_def Let_def decline_def encrypt_secret_def
  by (auto simp: wp_def [of e "\<lambda>e w. (Inr (f e w), g w)" for f g] simp del: wp_thn intro!: stored_choice_safe settle_safe)

lemma clear_safe: "url_row_safe e (db w) \<Longrightarrow> keeps_safe e (clear_events_api_key opts) w"
proof -
  assume safe: "url_row_safe e (db w)"
  have "keeps_safe e (thn (delete_config events_api_key_config_key) (settle_choice opts)) v" if "url_row_safe e (db v)" for v
    using that by (simp, intro wp_delete_row conjI settle_safe allI) (simp_all add: url_row_safe_def)
  with safe show ?thesis
    unfolding clear_events_api_key_def Let_def decline_def
    by (auto intro!: wp_get_config split: option.split simp del: wp_thn)
qed

lemma action_safe: "url_row_safe e (db w) \<Longrightarrow> keeps_safe e (run_action a opts) w"
  by (cases a) (simp_all add: transport_safe target_safe key_safe clear_safe)

text \<open>A sequence of actions; one that fails leaves the options as they were.\<close>

fun run_actions :: "panel_action list \<Rightarrow> transport_options \<Rightarrow> transport_options m" where
  "run_actions [] opts = ret opts"
| "run_actions (a # as) opts = bnd (settle (run_action a opts)) (\<lambda>r.
     run_actions as (case r of Inl _ \<Rightarrow> opts | Inr (_, opts') \<Rightarrow> opts'))"

lemma actions_safe: "url_row_safe e (db w) \<Longrightarrow> keeps_safe e (run_actions as opts) w"
proof (induction as arbitrary: opts w)
  case (Cons a as)
  show ?case
    by (simp, rule wp_mono [OF action_safe [OF Cons.prems]]) (auto intro: Cons.IH)
qed simp

lemma reconciled_allowed:
  "wp e (reconcile_poller ct) (\<lambda>ct' v. \<forall>base key. ct_loop ct' = Some (base, key) \<longrightarrow> key_allowed e (ct_boot ct) (db w) base key) (\<lambda>_ _. True) w"
  by (rule wp_reconcile) (auto dest: loop_of_desired intro: desired_allowed starts_def [THEN iffD2])


subsection \<open>Refusals\<close>

definition unless_declined :: "transport_options \<Rightarrow> world \<Rightarrow> string option \<times> transport_options \<Rightarrow> world \<Rightarrow> bool" where
  "unless_declined opts w r v \<longleftrightarrow> (fst r \<noteq> None \<longrightarrow> db v = db w \<and> snd r = opts)"

lemma declined: "db v = db w \<Longrightarrow> wp e (decline msg opts) (unless_declined opts w) X v"
  by (simp add: decline_def unless_declined_def)

lemma settled:
  "wp e (thn mm (settle_choice opts)) (unless_declined opts' w) (\<lambda>_ _. True) v"
  "wp e (thn mm (thn nn (settle_choice opts))) (unless_declined opts' w) (\<lambda>_ _. True) v"
  by (auto simp: settle_choice_def unless_declined_def intro!: wp_mono [OF wp_trivial])

lemma any_secret: "(\<And>x v. Q x v) \<Longrightarrow> wp e (encrypt_secret k) Q (\<lambda>_ _. True) w"
  by (rule wp_mono [OF wp_trivial]) simp_all

text \<open>An action of the panel that answers with an error has changed nothing: the choices stored before it
  and the poll loop that ran before it are still there.\<close>
theorem declined_action_changes_nothing:
  assumes "run_action a opts e w = (Inr (Some msg, opts'), w')"
  shows "db w' = db w \<and> opts' = opts"
proof -
  have "wp e (run_action a opts) (unless_declined opts w) (\<lambda>_ _. True) w"
  proof (cases a)
    case (SetTransport v)
    show ?thesis unfolding SetTransport run_action.simps set_events_transport_def Let_def
      by (auto intro!: wp_get_config wp_any_key declined settled split: option.split simp del: wp_thn)
  next
    case (SetTarget t v)
    show ?thesis unfolding SetTarget run_action.simps set_events_poll_target_def Let_def
      by (auto intro!: wp_any_key declined settled split: option.split poll_target.split simp del: wp_thn)
  next
    case (StoreKey k)
    show ?thesis unfolding StoreKey run_action.simps store_events_api_key_def Let_def
      by (auto intro!: declined settled any_secret simp del: wp_thn)
  next
    case ClearKey
    show ?thesis unfolding ClearKey run_action.simps clear_events_api_key_def Let_def
      by (auto intro!: wp_get_config declined settled split: option.split simp del: wp_thn)
  qed
  from wp_Inr [OF this assms] show ?thesis by (simp add: unless_declined_def)
qed

text \<open>A flip to polling that is accepted never leaves the poller parked for want of a key, provided
  the panel was told the truth about the environment's key and the default target.\<close>
theorem accepted_flip_has_a_key:
  assumes "set_events_transport opts ''poll'' e w = (Inr (None, opts'), w')"
    and "to_controller opts = Some ct" and "pb_demo (ct_boot ct)"
    and "st_default_target (ct_status ct) = default_poll_target (ct_boot ct)"
    and "to_env_key opts \<longleftrightarrow> pb_env_key (ct_boot ct) \<noteq> None" and "pb_env_key (ct_boot ct) \<noteq> Some []"
  shows "\<exists>ct'. to_controller opts' = Some ct' \<and> st_last_error (ct_status ct') \<noteq> Some needs_key"
proof -
  define target where "target = (case as_target (config_of events_target_key (db w)) of
    Some x \<Rightarrow> x | None \<Rightarrow> default_poll_target (ct_boot ct))"
  define keyed where "keyed = (to_env_key opts \<or> stored_key e (db w) \<noteq> None)"
  let ?good = "\<lambda>r (_ :: world). fst r = None \<longrightarrow> (\<exists>ct'. to_controller (snd r) = Some ct' \<and> st_last_error (ct_status ct') \<noteq> Some needs_key)"
  have error: "st_last_error (ct_status (follow_desired d ct)) = dp_blocked d" for d
    by (simp add: follow_desired_def reflect_desired_def stop_loop_def Let_def split: option.split)
  have other: "needs_key \<noteq> no_mock_token" by (simp add: needs_key_def no_mock_token_def)
  have desired: "dp_blocked (desired_of e (ct_boot ct) (db v)) \<noteq> Some needs_key"
    if "target \<noteq> WorkosTarget \<or> keyed" "\<And>k. config_of k (db v) = (if k = events_transport_key then Some ''poll'' else config_of k (db w))" for v
  proof (cases target)
    case MockTarget
    then show ?thesis using assms(3) that(2) other
      by (simp add: desired_of_def as_transport_def target_def mock_desired_def off_poller_def split: option.split)
  next
    case WorkosTarget
    with that have key: "nonempty_or_none (case pb_env_key (ct_boot ct) of Some k \<Rightarrow> Some k | None \<Rightarrow> stored_key e (db v)) \<noteq> None"
      using assms(5,6) by (auto simp: keyed_def stored_key_def nonempty_or_none_def split: option.splits if_splits)
    with WorkosTarget show ?thesis using assms(3) that(2)
      by (auto simp: desired_of_def as_transport_def target_def workos_desired_def Let_def)
  qed
  have rest: "wp e (thn (set_config events_transport_key ''poll'') (settle_choice opts)) ?good (\<lambda>_ _. True) v"
    if "target \<noteq> WorkosTarget \<or> keyed" "db v = db w" for v
  proof -
    have "wp e (settle_choice opts) ?good (\<lambda>_ _. True) v'"
      if "\<And>k. config_of k (db v') = (if k = events_transport_key then Some ''poll'' else config_of k (db w))" for v'
      unfolding settle_choice_def reconcile_own_def assms(2)
      by (auto intro!: wp_reconcile simp: error desired [OF \<open>target \<noteq> WorkosTarget \<or> keyed\<close> that])
    with that(2) show ?thesis by (auto intro!: wp_set_row)
  qed
  have "wp e (set_events_transport opts ''poll'') ?good (\<lambda>_ _. True) w"
    unfolding set_events_transport_def Let_def assms(2,4) option.case
    using rest
    by (auto simp: as_transport_def transport_text_def target_def [symmetric] keyed_def decline_def simp del: wp_thn
        intro!: wp_get_config wp_any_key)
  from wp_Inr [OF this assms(1)] show ?thesis by simp
qed

subsection \<open>Runs\<close>

text \<open>A demo whose environment points the poller at WorkOS, with a stored key and no stored target.\<close>

definition workos_boot :: poller_boot where
  "workos_boot = \<lparr>pb_demo = True, pb_env_key = None, pb_env_url = ''https://api.workos.com'',
     pb_mock_url = ''http://127.0.0.1/mock'', pb_by_env = False, pb_limit = None\<rparr>"

definition panel :: "controller \<Rightarrow> transport_options" where
  "panel ct = \<lparr>to_controller = Some ct, to_env_key = False\<rparr>"

definition keyed_store :: "string \<Rightarrow> store" where
  "keyed_store key = empty_store\<lparr>config := [(events_api_key_config_key, key), (events_transport_key, ''poll'')]\<rparr>"

definition polling :: controller where
  "polling = projr (fst (reconcile_poller (create_controller workos_boot) quiet_env (fresh_world (keyed_store ''sk''))))"

text \<open>Removing the stored key is refused only when the target was stored: with the default target the guard
  looks at the mock while the poller runs against WorkOS, and the removal parks it.\<close>
theorem clear_key_strands_the_poller:
  "ct_loop polling = Some (''https://api.workos.com'', ''sk'')
   \<and> (case clear_events_api_key (panel polling) quiet_env (fresh_world (keyed_store ''sk'')) of
        (Inr (msg, opts'), w') \<Rightarrow> msg = None \<and> (case to_controller opts' of
            Some ct \<Rightarrow> ct_loop ct = None \<and> st_last_error (ct_status ct) = Some needs_key | None \<Rightarrow> False)
      | _ \<Rightarrow> False)"
  by (intro conjI; code_simp)

text \<open>A stored key that the current encryption key cannot open stops the controller itself.\<close>

theorem foreign_key_stops_the_controller:
  "fst (reconcile_poller (create_controller workos_boot) (quiet_env\<lparr>has_key := True, unseal := (\<lambda>_. None)\<rparr>)
     (fresh_world (keyed_store (enc_prefix @ ''xyz'')))) = Inl (Failed ''decryption failed'')"
  by code_simp

subsection \<open>Witnesses\<close>

definition web_env :: env where
  "web_env = quiet_env\<lparr>parse_url := (\<lambda>s. Some (sample_url s))\<rparr>"


definition pointed :: "(err + transport_options) \<times> world" where
  "pointed = run_actions [SetTarget ''workos'' (Some ''https://eu.workos.com/''), SetTransport ''poll'']
     (panel polling) web_env (fresh_world (keyed_store ''sk''))"


theorem declined_action_changes_nothing_witness:
  "case run_action (SetTransport ''carrier pigeon'') (panel polling) quiet_env (fresh_world (keyed_store ''sk'')) of
     (Inr (Some msg, opts'), w') \<Rightarrow> opts' = panel polling | _ \<Rightarrow> False"
proof -
  let ?run = "run_action (SetTransport ''carrier pigeon'') (panel polling) quiet_env (fresh_world (keyed_store ''sk''))"
  have "case ?run of (Inr (Some msg, opts'), w') \<Rightarrow> True | _ \<Rightarrow> False" by code_simp
  then obtain msg opts' w' where run: "?run = (Inr (Some msg, opts'), w')" by (auto split: prod.splits sum.splits option.splits)
  from declined_action_changes_nothing [OF run] run show ?thesis by simp
qed

theorem accepted_flip_has_a_key_witness:
  "case set_events_transport (panel polling) ''poll'' quiet_env (fresh_world (keyed_store ''sk'')) of
     (Inr (None, opts'), w') \<Rightarrow> (\<exists>ct'. to_controller opts' = Some ct' \<and> st_last_error (ct_status ct') \<noteq> Some needs_key) | _ \<Rightarrow> False"
proof -
  let ?run = "set_events_transport (panel polling) ''poll'' quiet_env (fresh_world (keyed_store ''sk''))"
  have "case ?run of (Inr (None, opts'), w') \<Rightarrow> True | _ \<Rightarrow> False" by code_simp
  then obtain opts' w' where run: "?run = (Inr (None, opts'), w')" by (auto split: prod.splits sum.splits option.splits)
  have hyps: "pb_demo (ct_boot polling)" "st_default_target (ct_status polling) = default_poll_target (ct_boot polling)"
    "pb_env_key (ct_boot polling) = None" by code_simp+
  from accepted_flip_has_a_key [OF run _ hyps(1,2)] hyps(3) run show ?thesis by (simp add: panel_def)
qed

end
