(* ===== verification/MockEmitter.thy ===== *)
theory MockEmitter
  imports ScimPatch ListenerApply
begin

text \<open>
  The event log of the mock WorkOS environment (\<open>workers/native/mock-emitter.ts\<close>): the events a write to
  the mock directory emits, their delivery to the app's own webhook, and the pages of \<open>GET /events\<close>.  Of
  the page limit, fractional, exponent and hexadecimal numerals read as no number.
\<close>

subsection \<open>The resource a request is about\<close>

record mock_path =
  mp_kind :: "kind option"
  mp_id :: "string option"

definition parse_mock_scim_path :: "string \<Rightarrow> mock_path m" where
  "parse_mock_scim_path subpath = (case path_segments subpath of
       [] \<Rightarrow> ret \<lparr>mp_kind = None, mp_id = None\<rparr>
     | s # ss \<Rightarrow> (case kind_of s of
           None \<Rightarrow> ret \<lparr>mp_kind = None, mp_id = None\<rparr>
         | Some k \<Rightarrow> (case ss of
               [] \<Rightarrow> ret \<lparr>mp_kind = Some k, mp_id = None\<rparr>
             | i # _ \<Rightarrow> (case decode_uri_component i of
                   None \<Rightarrow> throw (Failed ''URI malformed'')
                 | Some d \<Rightarrow> ret \<lparr>mp_kind = Some k, mp_id = Some d\<rparr>))))"

record mock_before =
  mb_external :: "string option"
  mb_name :: "string option"
  mb_members :: "string list option"

definition nothing_before :: mock_before where
  "nothing_before = \<lparr>mb_external = None, mb_name = None, mb_members = None\<rparr>"

definition capture_mock_before :: "table_set \<Rightarrow> string \<Rightarrow> mock_path \<Rightarrow> mock_before m" where
  "capture_mock_before ts meth path = (case (mp_kind path, nonempty_or_none (mp_id path)) of
       (Some k, Some i) \<Rightarrow>
         if meth = ''DELETE'' then (case k of
             Users \<Rightarrow> bnd (user_by_id ts i) (\<lambda>r. ret (case r of None \<Rightarrow> nothing_before
               | Some u \<Rightarrow> nothing_before\<lparr>mb_external := ur_external u, mb_name := Some (ur_name u)\<rparr>))
           | Groups \<Rightarrow> bnd (group_by_id ts i) (\<lambda>r. ret (case r of None \<Rightarrow> nothing_before
               | Some g \<Rightarrow> nothing_before\<lparr>mb_external := gr_external g, mb_name := Some (gr_name g)\<rparr>)))
         else (case k of
             Users \<Rightarrow> ret nothing_before
           | Groups \<Rightarrow> bnd (members_of ts i) (\<lambda>ms. ret (nothing_before\<lparr>mb_members := Some (map fst ms)\<rparr>)))
     | _ \<Rightarrow> ret nothing_before)"

subsection \<open>Delivery\<close>

text \<open>The id column is unique: a statement repeated after a lost acknowledgement fails.\<close>

definition insert_mock_event :: "mock_event \<Rightarrow> unit statement" where
  "insert_mock_event ev s =
     (if look_row me_id (me_id ev) (mock_events s) \<noteq> None then (Inl (DbError ''UNIQUE constraint failed''), s)
      else (Inr (), s\<lparr>mock_events := mock_events s @ [ev]\<rparr>))"

definition event_envelope :: "string \<Rightarrow> string \<Rightarrow> object \<Rightarrow> string \<Rightarrow> object" where
  "event_envelope i event data at = [(''id'', JStr i), (''event'', JStr event), (''data'', JObj data), (''created_at'', JStr at)]"

definition deliver_event :: "bool \<Rightarrow> string \<Rightarrow> object \<Rightarrow> unit m" where
  "deliver_event webhook event data = bnd random_uuid (\<lambda>u. bnd sql_now (\<lambda>at.
     let i = ''evt_'' @ u in
     thn (with_datastore_retry (insert_mock_event \<lparr>me_id = i, me_event = event, me_data = json_text (JObj data), me_at = at\<rparr>))
     (if \<not> webhook then ret ()
      else bnd (handle_dsync_webhook (json_text (JObj (event_envelope i event data at))) None) (\<lambda>_. ret ()))))"

definition text_prop :: "object \<Rightarrow> string \<Rightarrow> json" where
  "text_prop resource k = json_or_null (as_string (getp resource k))"

definition user_event_data :: "object \<Rightarrow> object" where
  "user_event_data resource =
     [(''idp_id'', text_prop resource ''externalId''), (''username'', text_prop resource ''userName''),
      (''state'', JStr (if getp resource ''active'' = Some (JBool False) then ''inactive'' else ''active''))]
     @ (case getp resource ''emails'' of None \<Rightarrow> [] | Some v \<Rightarrow> [(''emails'', v)])"

definition member_event_data :: "user_row \<Rightarrow> object" where
  "member_event_data u = [(''idp_id'', json_or_null (ur_external u)), (''username'', JStr (ur_name u)),
     (''state'', JStr (if ur_active u then ''active'' else ''inactive''))]"

definition removal_data :: "kind \<Rightarrow> mock_before \<Rightarrow> object" where
  "removal_data k before = [(''idp_id'', json_or_null (mb_external before)),
     ((case k of Users \<Rightarrow> ''username'' | Groups \<Rightarrow> ''name''), json_or_null (mb_name before))]"

definition group_event_data :: "object \<Rightarrow> object" where
  "group_event_data resource = [(''idp_id'', text_prop resource ''externalId''), (''name'', text_prop resource ''displayName'')]"

fun member_id_values :: "json list \<Rightarrow> string list" where
  "member_id_values [] = []"
| "member_id_values (v # vs) = (case as_object (Some v) of
     None \<Rightarrow> [] | Some obj \<Rightarrow> (case as_string (getp obj ''value'') of None \<Rightarrow> [] | Some i \<Rightarrow> [i])) @ member_id_values vs"

definition member_delta :: "table_set \<Rightarrow> bool \<Rightarrow> string \<Rightarrow> object \<Rightarrow> string list \<Rightarrow> unit m" where
  "member_delta ts webhook event group_data ids = each (\<lambda>i. bnd (user_by_id ts i) (\<lambda>r. case r of
     None \<Rightarrow> ret ()
   | Some u \<Rightarrow> deliver_event webhook event [(''user'', JObj (member_event_data u)), (''group'', JObj group_data)])) ids"

definition emit_group_events :: "table_set \<Rightarrow> bool \<Rightarrow> mock_before \<Rightarrow> object \<Rightarrow> bool \<Rightarrow> unit m" where
  "emit_group_events ts created before resource webhook =
     (let data = group_event_data resource;
          after_ids = (case as_array (getp resource ''members'') of None \<Rightarrow> [] | Some vs \<Rightarrow> member_id_values vs);
          before_ids = (case mb_members before of None \<Rightarrow> [] | Some is \<Rightarrow> is) in
      thn (deliver_event webhook (if created then ''dsync.group.created'' else ''dsync.group.updated'') data)
      (thn (member_delta ts webhook ''dsync.group.user_added'' data (filter (\<lambda>i. i \<notin> set before_ids) after_ids))
      (member_delta ts webhook ''dsync.group.user_removed'' data (filter (\<lambda>i. i \<notin> set after_ids) before_ids))))"

text \<open>The answers of the SCIM server to a write are objects.\<close>

definition emit_mock_events ::
    "table_set \<Rightarrow> string \<Rightarrow> mock_path \<Rightarrow> mock_before \<Rightarrow> payload option \<Rightarrow> nat \<Rightarrow> bool \<Rightarrow> unit m" where
  "emit_mock_events ts meth path before body st webhook = (case mp_kind path of
       None \<Rightarrow> ret ()
     | Some k \<Rightarrow>
         if meth = ''DELETE'' then
           (if mb_external before = None \<and> mb_name before = None then ret ()
            else deliver_event webhook (case k of Users \<Rightarrow> ''dsync.user.deleted'' | Groups \<Rightarrow> ''dsync.group.deleted'')
              (removal_data k before))
         else (case parse_json body of
             None \<Rightarrow> ret ()
           | Some resource \<Rightarrow>
               let created = (meth = ''POST'' \<or> st = 201) in
               (case k of
                  Users \<Rightarrow> deliver_event webhook (if created then ''dsync.user.created'' else ''dsync.user.updated'')
                    (user_event_data resource)
                | Groups \<Rightarrow> emit_group_events ts created before resource webhook)))"

subsection \<open>The event log\<close>

definition number_of_text :: "string \<Rightarrow> int option" where
  "number_of_text raw =
     (let s = trim raw;
          (neg, ds) = (case s of
              c # r \<Rightarrow> if c = CHR ''-'' then (True, r) else if c = CHR ''+'' then (False, r) else (False, s)
            | [] \<Rightarrow> (False, [])) in
      if s = [] then Some 0
      else if ds = [] \<or> \<not> list_all is_digit ds then None
      else Some (if neg then - int (digits_val ds) else int (digits_val ds)))"

definition events_limit :: "url \<Rightarrow> nat" where
  "events_limit u =
     (let n = (case search_param u ''limit'' of None \<Rightarrow> Some 10 | Some s \<Rightarrow> number_of_text s) in
      nat (min (max (case n of None \<Rightarrow> 10 | Some x \<Rightarrow> if x = 0 then 10 else x) 1) 100))"

fun after_event :: "string \<Rightarrow> mock_event list \<Rightarrow> mock_event list option" where
  "after_event i [] = None"
| "after_event i (ev # evs) = (if me_id ev = i then Some evs else after_event i evs)"

definition of_types :: "string list \<Rightarrow> mock_event \<Rightarrow> bool" where
  "of_types types ev \<longleftrightarrow> types = [] \<or> me_event ev \<in> set types"

definition event_types_param :: "url \<Rightarrow> string list" where
  "event_types_param u = map snd (filter (\<lambda>p. fst p = ''events[]'') (url_params u))"

definition event_json :: "mock_event \<Rightarrow> json option" where
  "event_json ev = map_option (\<lambda>data. JObj [(''id'', JStr (me_id ev)), (''event'', JStr (me_event ev)), (''data'', data),
     (''created_at'', JStr (me_at ev))]) (read_json (me_data ev))"

definition events_page :: "nat \<Rightarrow> mock_event list \<Rightarrow> response option" where
  "events_page limit rows =
     (let page = take limit rows in
      map_option (\<lambda>data. json_reply 200
        [(''data'', JArr data), (''list_metadata'', JObj
           [(''before'', if page = [] then JNull else JStr (me_id (hd page))),
            (''after'', if length rows > limit then JStr (me_id (last page)) else JNull)])] [])
        (those (map event_json page)))"

text \<open>One row of lookahead tells whether there is a next page.\<close>

definition select_events :: "nat \<Rightarrow> string list \<Rightarrow> string option \<Rightarrow> response m" where
  "select_events limit types cursor =
     bnd (query (\<lambda>s. take (limit + 1) (filter (of_types types)
       (case cursor of None \<Rightarrow> mock_events s
        | Some i \<Rightarrow> (case after_event i (mock_events s) of None \<Rightarrow> [] | Some evs \<Rightarrow> evs))))) (\<lambda>rows.
     case events_page limit rows of
       None \<Rightarrow> throw (Failed ''Unexpected token in JSON'')
     | Some r \<Rightarrow> ret r)"

definition list_mock_events :: "url \<Rightarrow> response m" where
  "list_mock_events u =
     (let limit = events_limit u; types = event_types_param u in
      case nonempty_or_none (search_param u ''after'') of
        None \<Rightarrow> select_events limit types None
      | Some i \<Rightarrow> bnd (query (\<lambda>s. after_event i (mock_events s) \<noteq> None)) (\<lambda>known.
          if known then select_events limit types (Some i)
          else ret (json_reply 400 [(''message'', JStr (''Event '' @ i @ '' not found.''))] [])))"

end
