(* ===== verification/NativeApp.thy ===== *)
theory NativeApp
  imports MockEmitter
begin

text \<open>
  The reference native app (\<open>workers/native/index.ts\<close>): its SCIM endpoint, the mock WorkOS directory with
  its event log, and the webhook of the listener.  The status page is a parameter.
\<close>

definition native_scim_base :: string where "native_scim_base = ''/scim/v2''"
definition mock_scim_base :: string where "mock_scim_base = ''/mock-workos/scim/v2''"

definition under_base :: "string \<Rightarrow> string \<Rightarrow> bool" where
  "under_base base p \<longleftrightarrow> p = base \<or> starts_with p (base @ ''/'')"

definition mutating_methods :: "string list" where
  "mutating_methods = [''POST'', ''PUT'', ''PATCH'', ''DELETE'']"

definition bearer_text :: "request \<Rightarrow> string" where
  "bearer_text q = (let header = (case header_get ''Authorization'' (q_headers q) of None \<Rightarrow> [] | Some h \<Rightarrow> h) in
     if starts_with header ''Bearer '' then trim (drop 7 header) else [])"

definition require_bearer :: "request \<Rightarrow> string \<Rightarrow> response option m" where
  "require_bearer q config_key = bnd (get_config config_key) (\<lambda>expected.
     let token = bearer_text q in
     ret (case nonempty_or_none expected of
            None \<Rightarrow> Some (server_error 401 ''Invalid or missing bearer token.'' None)
          | Some x \<Rightarrow>
              if token = [] \<or> \<not> timing_safe_equal token x
              then Some (server_error 401 ''Invalid or missing bearer token.'' None) else None))"

definition with_bearer :: "request \<Rightarrow> string \<Rightarrow> response m \<Rightarrow> response m" where
  "with_bearer q config_key mm = bnd (require_bearer q config_key) (\<lambda>denied. case denied of
     Some r \<Rightarrow> ret r | None \<Rightarrow> mm)"

definition native_config :: scim_config where
  "native_config = \<lparr>sc_tables = NativeTables, sc_migrated = PutUpsert\<rparr>"

definition mock_config :: scim_config where
  "mock_config = \<lparr>sc_tables = MockTables, sc_migrated = PostCreate\<rparr>"

text \<open>The mock directory: a successful write emits its events; emission itself cannot fail the answer.\<close>

definition emit_after :: "string \<Rightarrow> mock_path \<Rightarrow> mock_before \<Rightarrow> response \<Rightarrow> unit m" where
  "emit_after meth path before r = bnd (get_config ''mock_workos.emit_dsync'') (\<lambda>emit.
     try_catch (emit_mock_events MockTables meth path before (if meth = ''DELETE'' then None else r_body r) (r_status r)
       (emit \<noteq> Some ''false'')) (\<lambda>_. ret ()))"

definition serve_mock :: "request \<Rightarrow> string \<Rightarrow> response m" where
  "serve_mock q subpath = bnd (parse_mock_scim_path subpath) (\<lambda>path.
     let meth = map upper_char (q_method q); mutating = (mp_kind path \<noteq> None \<and> meth \<in> set mutating_methods) in
     bnd (if mutating then capture_mock_before MockTables meth path else ret nothing_before) (\<lambda>before.
     bnd (serve_scim q subpath mock_config) (\<lambda>r.
     if mutating \<and> is_success (r_status r) then thn (emit_after meth path before r) (ret r) else ret r)))"

definition body_text :: "payload option \<Rightarrow> string" where
  "body_text body = (case body of None \<Rightarrow> [] | Some (Raw s) \<Rightarrow> s | Some (Doc v) \<Rightarrow> json_text v)"

definition serve_native :: "response m \<Rightarrow> request \<Rightarrow> response m" where
  "serve_native status_page q =
     (let p = url_pathname (q_url q) in
      if p = ''/healthz'' then ret (json_reply 200 [(''ok'', JBool True)] [])
      else if p = ''/'' \<and> q_method q = ''GET'' then status_page
      else if p = ''/webhooks/dsync'' then
        (if q_method q \<noteq> ''POST'' then ret (status_error 405 ''The DSync webhook only accepts POST.'')
         else handle_dsync_webhook (body_text (q_body q)) (header_get ''WorkOS-Signature'' (q_headers q)))
      else if under_base native_scim_base p then
        with_bearer q ''native.scim_token'' (serve_scim q (drop (length native_scim_base) p) native_config)
      else if p = ''/mock-workos/events'' then
        (if q_method q \<noteq> ''GET'' then ret (status_error 405 ''The events endpoint only accepts GET.'')
         else with_bearer q ''mock_workos.scim_token'' (list_mock_events (q_url q)))
      else if under_base mock_scim_base p then
        with_bearer q ''mock_workos.scim_token'' (serve_mock q (drop (length mock_scim_base) p))
      else ret (status_error 404 (''No route for '' @ p @ ''.'')))"

end
