(* ===== verification/NativeAppLaws.thy ===== *)
theory NativeAppLaws
  imports NativeApp ScimServerGuards TransportLaws
begin

text \<open>
  The native app around its SCIM server: who gets in, what emitting events may change, and how the event log
  is read.
\<close>

subsection \<open>Tokens\<close>

lemma wp_require_bearer:
  "(\<And>v. db v = db w \<Longrightarrow> config_of key (db w) = Some (bearer_text q) \<Longrightarrow> bearer_text q \<noteq> [] \<Longrightarrow> Q None v) \<Longrightarrow>
   (\<And>v. db v = db w \<Longrightarrow> \<not> (config_of key (db w) = Some (bearer_text q) \<and> bearer_text q \<noteq> []) \<Longrightarrow>
     Q (Some (server_error 401 ''Invalid or missing bearer token.'' None)) v) \<Longrightarrow>
   (\<And>er v. db v = db w \<Longrightarrow> X er v) \<Longrightarrow> wp e (require_bearer q key) Q X w"
  unfolding require_bearer_def
  by (auto intro!: wp_get_config simp: nonempty_or_none_def timing_safe_equal_iff Let_def split: option.split)

text \<open>Which token a path asks for.\<close>

definition token_for :: "string \<Rightarrow> string option" where
  "token_for p = (if under_base native_scim_base p then Some ''native.scim_token''
     else if p = ''/mock-workos/events'' \<or> under_base mock_scim_base p then Some ''mock_workos.scim_token'' else None)"

lemma guarded_paths:
  "under_base native_scim_base p \<Longrightarrow> p \<noteq> ''/healthz'' \<and> p \<noteq> ''/'' \<and> p \<noteq> ''/webhooks/dsync''"
  "under_base mock_scim_base p \<Longrightarrow> p \<noteq> ''/healthz'' \<and> p \<noteq> ''/'' \<and> p \<noteq> ''/webhooks/dsync'' \<and> p \<noteq> ''/mock-workos/events''"
  by (auto simp: under_base_def native_scim_base_def mock_scim_base_def starts_with_def)

text \<open>C26: without the token configured for its endpoint, a request to the SCIM server, to the mock directory or
  to its event log is answered 401 or 405 and changes nothing; an endpoint without a configured token lets
  nobody in.\<close>
theorem native_app_needs_its_token:
  assumes "serve_native page q e w = (Inr r, w')" and "token_for (url_pathname (q_url q)) = Some key"
    and "config_of key (db w) \<noteq> Some (bearer_text q) \<or> bearer_text q = []"
  shows "r_status r \<in> {401, 405} \<and> db w' = db w"
proof -
  let ?denied = "\<lambda>r v. r_status r \<in> {401, 405} \<and> db v = db w"
  have denied: "wp e (with_bearer q key mm) ?denied (\<lambda>_ _. True) w" for mm
    unfolding with_bearer_def using assms(3)
    by (auto intro!: wp_require_bearer)
  have "wp e (serve_native page q) ?denied (\<lambda>_ _. True) w"
    unfolding serve_native_def Let_def using assms(2) denied guarded_paths [of "url_pathname (q_url q)"]
    by (auto simp: token_for_def status_error_def json_reply_def split: if_splits)
  from wp_Inr [OF this assms(1)] show ?thesis .
qed

subsection \<open>What emission changes\<close>

text \<open>Emission appends to the log and runs the listener.\<close>

locale emission_frame = listener_frame S for S :: "store \<Rightarrow> store \<Rightarrow> bool" +
  assumes S_log: "S s (s\<lparr>mock_events := mock_events s @ [ev]\<rparr>)"
begin

lemma emits_delivery [eff]: "pres (on_db S) e (deliver_event webhook event data)"
proof -
  have log: "pres (on_db S) e (with_datastore_retry (insert_mock_event ev))" for ev
    by (rule pres_statement) (simp add: insert_mock_event_def S_refl S_log)
  have [eff]: "pres (on_db S) e (handle_dsync_webhook body sig)" for body sig
    unfolding handle_dsync_webhook_def Let_def by (intro eff write_process)
  show ?thesis unfolding deliver_event_def Let_def by (intro eff log)
qed

lemma emits_delta [eff]: "pres (on_db S) e (member_delta ts webhook event data is)"
  unfolding member_delta_def by (intro eff)

lemma emits_after: "pres (on_db S) e (emit_after meth path before r)"
proof -
  have [eff]: "pres (on_db S) e (emit_mock_events ts meth path before body st webhook)" for ts body st webhook
    unfolding emit_mock_events_def emit_group_events_def Let_def
    by (auto intro!: eff split: option.split kind.split)
  show ?thesis unfolding emit_after_def by (intro eff)
qed

end

interpretation mock_kept: emission_frame "\<lambda>s s'. mock_tables s' = mock_tables s"
proof unfold_locales
  show "mock_tables (snd (put_user NativeTables u at s)) = mock_tables s" for s u at
    by (simp add: put_user_def Let_def)
qed (simp_all add: put_group_def insert_link_def insert_verified_def bump_version_def)

definition log_grows :: "store \<Rightarrow> store \<Rightarrow> bool" where
  "log_grows s s' \<longleftrightarrow> (\<exists>evs. mock_events s' = mock_events s @ evs)"

lemma log_same: "mock_events s' = mock_events s \<Longrightarrow> log_grows s s'"
  by (simp add: log_grows_def)

interpretation log_kept: emission_frame log_grows
proof unfold_locales
  show "log_grows a b \<Longrightarrow> log_grows b c \<Longrightarrow> log_grows a c" for a b c
    by (auto simp: log_grows_def)
  show "log_grows s (snd (put_user NativeTables u at s))" for s u at
    by (simp add: put_user_def Let_def log_same)
  show "log_grows s (s\<lparr>mock_events := mock_events s @ [ev]\<rparr>)" for s ev
    by (simp add: log_grows_def)
qed (simp_all add: log_same put_group_def insert_link_def insert_verified_def bump_version_def)

interpretation reads_only: store_frame "\<lambda>s s'. s' = s"
  by unfold_locales simp_all

lemma before_reads: "pres (on_db (\<lambda>s s'. s' = s)) e (capture_mock_before ts meth path)"
  unfolding capture_mock_before_def user_by_id_def group_by_id_def members_of_def
  by (auto intro!: eff split: option.split kind.split)

lemma mock_events_mock [simp]: "mock_events (on_tables ts f s) = mock_events s"
  by (cases ts) simp_all

lemma wp_run: "(\<And>x w'. mm e w = (Inr x, w') \<Longrightarrow> Q x w') \<Longrightarrow> wp e mm Q (\<lambda>_ _. True) w"
  by (rule wpI) auto


end
