(* ===== verification/EventLogLaws.thy ===== *)
theory EventLogLaws
  imports NativeAppLaws
begin

text \<open>
  Reading the event log of the mock environment page by page: every event of the asked types once, in the
  order they were emitted.
\<close>

subsection \<open>One page\<close>

definition at_cursor :: "url \<Rightarrow> string option \<Rightarrow> url" where
  "at_cursor u c = u\<lparr>url_params := (case c of None \<Rightarrow> [] | Some i \<Rightarrow> [(''after'', i)])
     @ filter (\<lambda>p. fst p \<noteq> ''after'') (url_params u)\<rparr>"

lemma at_cursor_params [simp]:
  "search_param (at_cursor u c) ''after'' = c" "events_limit (at_cursor u c) = events_limit u"
  "event_types_param (at_cursor u c) = event_types_param u"
proof -
  have other: "find (\<lambda>p. fst p = k) (filter (\<lambda>p. fst p \<noteq> ''after'') ps) = find (\<lambda>p. fst p = k) ps"
    if "k \<noteq> ''after''" for k and ps :: "(string \<times> string) list"
    using that by (induction ps) auto
  have same: "filter (\<lambda>p. fst p \<noteq> ''after'' \<and> fst p = ''events[]'') ps = filter (\<lambda>p. fst p = ''events[]'') ps"
    for ps :: "(string \<times> string) list"
    by (induction ps) auto
  have none: "find (\<lambda>p. fst p = ''after'') (filter (\<lambda>p. fst p \<noteq> ''after'') ps) = None" for ps :: "(string \<times> string) list"
    by (induction ps) auto
  show "search_param (at_cursor u c) ''after'' = c"
    by (cases c) (simp_all add: search_param_def at_cursor_def none)
  show "events_limit (at_cursor u c) = events_limit u"
    by (cases c) (simp_all add: events_limit_def search_param_def at_cursor_def other)
  show "event_types_param (at_cursor u c) = event_types_param u"
    by (cases c) (simp_all add: event_types_param_def at_cursor_def same)
qed

lemma events_limit_pos: "0 < events_limit u"
  by (simp add: events_limit_def Let_def)

text \<open>What a page says: its events and the cursor of the next one.\<close>

definition page_of :: "response \<Rightarrow> (json list \<times> string option) option" where
  "page_of r = (case parse_json (r_body r) of
     None \<Rightarrow> None
   | Some obj \<Rightarrow> (case as_array (getp obj ''data'') of
       None \<Rightarrow> None
     | Some vs \<Rightarrow> Some (vs, as_string (getp (record_or_empty (getp obj ''list_metadata'')) ''after''))))"

definition shown :: "mock_event list \<Rightarrow> json list" where
  "shown evs = map (the \<circ> event_json) evs"

definition readable :: "mock_event list \<Rightarrow> bool" where
  "readable evs \<longleftrightarrow> list_all (\<lambda>ev. event_json ev \<noteq> None \<and> me_id ev \<noteq> []) evs \<and> distinct (map me_id evs)"

lemma those_shown: "list_all (\<lambda>ev. event_json ev \<noteq> None) evs \<Longrightarrow> those (map event_json evs) = Some (shown evs)"
  by (induction evs) (auto simp: shown_def)

lemma events_page_says:
  assumes "list_all (\<lambda>ev. event_json ev \<noteq> None) rows"
  shows "\<exists>r. events_page limit rows = Some r \<and>
    page_of r = Some (shown (take limit rows), if limit < length rows then Some (me_id (last (take limit rows))) else None)"
proof -
  have "list_all (\<lambda>ev. event_json ev \<noteq> None) (take limit rows)"
    using assms by (metis append_take_drop_id list_all_append)
  from those_shown [OF this] show ?thesis
    by (simp add: events_page_def Let_def page_of_def json_reply_def parse_json_def as_array_def as_string_def record_or_empty_def as_object_def)
qed

text \<open>The events after a cursor.\<close>

definition log_after :: "string option \<Rightarrow> mock_event list \<Rightarrow> mock_event list option" where
  "log_after c evs = (case c of None \<Rightarrow> Some evs | Some i \<Rightarrow> after_event i evs)"

definition says :: "world \<Rightarrow> nat \<Rightarrow> mock_event list \<Rightarrow> response \<Rightarrow> world \<Rightarrow> bool" where
  "says w n rows r v \<longleftrightarrow> db v = db w \<and> page_of r = Some (shown (take n rows),
     if n < length rows then Some (me_id (last (take n rows))) else None)"

lemma wp_select:
  assumes "log_after c (mock_events (db w)) = Some rest" "rows = filter (of_types types) rest"
    and "list_all (\<lambda>ev. event_json ev \<noteq> None) rest" "db v = db w" "0 < n"
  shows "wp e (select_events n types c) (says w n rows) (\<lambda>_ _. True) v"
proof -
  have "list_all (\<lambda>ev. event_json ev \<noteq> None) (take (Suc n) rows)"
    using assms(2,3) by (auto simp: list_all_iff dest: in_set_takeD)
  then obtain r where r: "events_page n (take (Suc n) rows) = Some r"
    "page_of r = Some (shown (take n rows), if n < length rows then Some (me_id (last (take n rows))) else None)"
    using events_page_says [of "take (Suc n) rows" n] by (auto simp: min_def)
  have read: "take (n + 1) (filter (of_types types) (case c of None \<Rightarrow> mock_events (db w)
      | Some i \<Rightarrow> (case after_event i (mock_events (db w)) of None \<Rightarrow> [] | Some evs \<Rightarrow> evs))) = take (Suc n) rows"
    using assms(1,2) by (cases c) (simp_all add: log_after_def)
  show ?thesis
    unfolding select_events_def wp_bnd
    by (rule wp_query, unfold assms(4) read r(1)) (simp_all add: says_def r(2) assms(4))
qed

lemma list_page:
  assumes "log_after c (mock_events (db w)) = Some rest" "c \<noteq> Some []"
    and "rows = filter (of_types (event_types_param u)) rest" "list_all (\<lambda>ev. event_json ev \<noteq> None) rest"
  shows "wp e (list_mock_events (at_cursor u c)) (says w (events_limit u) rows) (\<lambda>_ _. True) w"
proof (cases c)
  case None
  with wp_select [OF assms(1,3,4) refl events_limit_pos] show ?thesis
    by (simp add: list_mock_events_def Let_def nonempty_or_none_def)
next
  case (Some i)
  have sel: "wp e (select_events (events_limit u) (event_types_param u) (Some i)) (says w (events_limit u) rows) (\<lambda>_ _. True) v"
    if "db v = db w" for v
    using wp_select [OF assms(1,3,4) that events_limit_pos] Some by simp
  show ?thesis
    using Some assms(1,2) by (auto simp: list_mock_events_def Let_def nonempty_or_none_def log_after_def intro!: wp_query sel)
qed

subsection \<open>The whole log\<close>

lemma filter_next:
  "filter P rest = as @ y # later \<Longrightarrow> \<exists>us vs. rest = us @ y # vs \<and> filter P vs = later"
proof (induction rest arbitrary: as)
  case (Cons x rest)
  show ?case
  proof (cases "P x")
    case True
    with Cons.prems show ?thesis
    proof (cases as)
      case Nil
      with Cons.prems True show ?thesis by (intro exI [of _ "[]"] exI [of _ rest]) simp
    next
      case (Cons a as')
      with Cons.prems True Cons.IH [of as'] obtain us vs where "rest = us @ y # vs" "filter P vs = later" by auto
      then show ?thesis by (intro exI [of _ "x # us"] exI [of _ vs]) simp
    qed
  next
    case False
    with Cons.prems Cons.IH [of as] obtain us vs where "rest = us @ y # vs" "filter P vs = later" by auto
    then show ?thesis by (intro exI [of _ "x # us"] exI [of _ vs]) simp
  qed
qed simp

lemma after_event_split: "distinct (map me_id (pre @ ev # rest)) \<Longrightarrow> after_event (me_id ev) (pre @ ev # rest) = Some rest"
  by (induction pre) (auto simp: image_iff)

text \<open>A client that follows the cursors: \<open>None\<close> while it is still reading.\<close>

fun read_log :: "nat \<Rightarrow> url \<Rightarrow> string option \<Rightarrow> json list option m" where
  "read_log 0 u c = ret None"
| "read_log (Suc n) u c = bnd (list_mock_events (at_cursor u c)) (\<lambda>r. case page_of r of
     None \<Rightarrow> ret (Some [])
   | Some (vs, next) \<Rightarrow> (case next of
       None \<Rightarrow> ret (Some vs)
     | Some i \<Rightarrow> bnd (read_log n u (Some i)) (\<lambda>rest. ret (map_option (\<lambda>ws. vs @ ws) rest))))"

lemma read_rest:
  assumes "readable log" "log = pre @ rest" "log_after c log = Some rest" "c \<noteq> Some []" "length rest < n"
    and "mock_events (db w) = log"
  shows "wp e (read_log n u c) (\<lambda>out v. out = Some (shown (filter (of_types (event_types_param u)) rest))) (\<lambda>_ _. True) w"
  using assms
proof (induction n arbitrary: c pre rest w)
  case (Suc n)
  let ?l = "events_limit u"
  let ?P = "of_types (event_types_param u)"
  define rows where "rows = filter ?P rest"
  have json: "list_all (\<lambda>ev. event_json ev \<noteq> None) rest"
    using Suc.prems(1,2) by (auto simp: readable_def list_all_iff)
  have page: "wp e (list_mock_events (at_cursor u c)) (says w ?l rows) (\<lambda>_ _. True) w"
    using Suc.prems json by (intro list_page) (auto simp: rows_def)
  have next_page: "wp e (read_log n u (Some (me_id (last (take ?l rows))))) (\<lambda>out v. out = Some (shown (drop ?l rows))) (\<lambda>_ _. True) v"
    if long: "?l < length rows" and v: "db v = db w" for v
  proof -
    let ?y = "last (take ?l rows)"
    have "take ?l rows \<noteq> []" using long events_limit_pos [of u] by (cases rows) (auto simp: less_Suc_eq_0_disj)
    then have "rows = butlast (take ?l rows) @ ?y # drop ?l rows"
      by (metis append_butlast_last_id append_Cons append_Nil append_assoc append_take_drop_id)
    then obtain us vs where split: "rest = us @ ?y # vs" "filter ?P vs = drop ?l rows"
      using filter_next [of ?P rest] rows_def by metis
    have log: "log = (pre @ us) @ ?y # vs" using Suc.prems(2) split(1) by simp
    have "after_event (me_id ?y) log = Some vs"
      using after_event_split Suc.prems(1) log by (metis readable_def)
    moreover have "me_id ?y \<noteq> []" using Suc.prems(1) log by (auto simp: readable_def list_all_iff)
    ultimately show ?thesis
      using Suc.IH [of "(pre @ us) @ [?y]" vs "Some (me_id ?y)" v] Suc.prems log split v
      by (simp add: log_after_def)
  qed
  show ?case
  proof (cases "?l < length rows")
    case True
    have "shown (take ?l rows) @ shown (drop ?l rows) = shown rows" by (simp add: shown_def flip: map_append)
    with True show ?thesis
      by (simp, intro wp_mono [OF page]) (auto simp: says_def rows_def [symmetric] intro!: wp_mono [OF next_page])
  next
    case False
    then show ?thesis
      by (simp, intro wp_mono [OF page]) (auto simp: says_def rows_def [symmetric])
  qed
qed simp

text \<open>C28: following the cursors of the event log reads every event of the asked types exactly once and in the
  order of emission, whatever the page size, and comes to an end.\<close>
theorem event_log_is_read_whole:
  assumes "readable (mock_events (db w))" and "length (mock_events (db w)) < n" and "read_log n u None e w = (Inr out, w')"
  shows "out = Some (map (the \<circ> event_json) (filter (of_types (event_types_param u)) (mock_events (db w))))"
proof -
  from assms(1,2) have "wp e (read_log n u None)
      (\<lambda>out v. out = Some (shown (filter (of_types (event_types_param u)) (mock_events (db w))))) (\<lambda>_ _. True) w"
    by (intro read_rest [of "mock_events (db w)" "[]"]) (simp_all add: log_after_def)
  from wp_Inr [OF this assms(3)] show ?thesis by (simp add: shown_def)
qed

end
