(* ===== verification/NativeAppRuns.thy ===== *)
theory NativeAppRuns
  imports EventLogLaws ScimServerRuns ListenerRuns
begin

text \<open>
  Concrete requests to the native app and to the mock directory.
\<close>

subsection \<open>Requests\<close>

definition app_request :: "string \<Rightarrow> string \<Rightarrow> (string \<times> string) list \<Rightarrow> object \<Rightarrow> request" where
  "app_request meth p hs body = \<lparr>q_method = meth, q_url = sample_url p, q_headers = hs, q_body = Some (Doc (JObj body))\<rparr>"

definition no_page :: "response m" where
  "no_page = ret (json_reply 200 [] [])"

text \<open>A directory that is cut over, and the tokens of the two SCIM endpoints.\<close>

definition app_store :: store where
  "app_store = cut_over\<lparr>config := [(''native.scim_token'', ''nt''), (''mock_workos.scim_token'', ''mt'')]\<rparr>"

definition app_world :: world where
  "app_world = fresh_world app_store"

lemma app_ok: "directory_ok (mock_tables (db app_world))"
  by code_simp

definition create_ann :: request where
  "create_ann = app_request ''POST'' ''/mock-workos/scim/v2/Users'' [(''Authorization'', ''Bearer mt''), (migrated_id_header, ''x1'')]
     [(''userName'', JStr ''ann''), (''externalId'', JStr ''i1'')]"

subsection \<open>The laws at work\<close>

text \<open>Without a token the mock refuses.\<close>

definition anonymous :: request where
  "anonymous = app_request ''POST'' ''/mock-workos/scim/v2/Users'' [] [(''userName'', JStr ''ann'')]"

theorem native_app_needs_its_token_witness:
  "case serve_native no_page anonymous quiet_env app_world of
     (Inr a, w') \<Rightarrow> r_status a \<in> {401, 405} \<and> db w' = db app_world | _ \<Rightarrow> False"
proof -
  let ?run = "serve_native no_page anonymous quiet_env app_world"
  have "case ?run of (Inr a, w') \<Rightarrow> True | _ \<Rightarrow> False" by code_simp
  then obtain a w' where run: "?run = (Inr a, w')" by (auto split: prod.splits sum.splits)
  have "token_for (url_pathname (q_url anonymous)) = Some ''mock_workos.scim_token''" "bearer_text anonymous = []"
    by code_simp+
  from native_app_needs_its_token [OF run this(1)] this(2) run show ?thesis by simp
qed

text \<open>With it, a POST brings the user into the mock directory and, by the event it emits, into the native app.\<close>

definition emitted :: world where
  "emitted = snd (serve_mock create_ann ''/Users'' quiet_env app_world)"

lemma mock_write_converges:
  "map me_event (mock_events (db emitted)) = [''dsync.user.created'']
   \<and> map (\<lambda>u. (ur_external u, ur_name u)) (t_users (mock_tables (db emitted))) = [(Some ''i1'', ''ann'')]
   \<and> map (\<lambda>u. (ur_external u, ur_name u)) (t_users (native_tables (db emitted))) = [(Some ''i1'', ''ann'')]"
  by (intro conjI; code_simp)


text \<open>The log after one event, read back.\<close>

definition log_url :: url where
  "log_url = (sample_url ''/mock-workos/events'')\<lparr>url_params := [(''limit'', ''1'')]\<rparr>"

theorem event_log_is_read_whole_witness:
  "fst (read_log 2 log_url None quiet_env emitted) = Inr (Some (map (the \<circ> event_json) (mock_events (db emitted))))"
proof -
  let ?run = "read_log 2 log_url None quiet_env emitted"
  have "case ?run of (Inr r, w') \<Rightarrow> True | _ \<Rightarrow> False" by code_simp
  then obtain out w' where run: "?run = (Inr out, w')" by (auto split: prod.splits sum.splits)
  have "readable (mock_events (db emitted))" "length (mock_events (db emitted)) < 2"
    "filter (of_types (event_types_param log_url)) (mock_events (db emitted)) = mock_events (db emitted)"
    by code_simp+
  from event_log_is_read_whole [OF this(1,2) run] this(3) run show ?thesis by simp
qed

subsection \<open>Runs\<close>

text \<open>Everyone but this server reads the id of a resource by decoding the path: the bridge and the reconcile
  write it percent-encoded, the emitter decodes it.\<close>

definition create_mail :: request where
  "create_mail = app_request ''POST'' ''/Users'' [(migrated_id_header, ''a@b'')] [(''userName'', JStr ''ann'')]"

definition read_mail :: request where
  "read_mail = app_request ''GET'' (resource_path Users ''a@b'') [] []"

definition put_mail :: request where
  "put_mail = app_request ''PUT'' (resource_path Users ''a@b'') [(migrated_id_header, ''a@b'')] [(''userName'', JStr ''ann'')]"

definition mail_there :: world where
  "mail_there = snd (serve_scim create_mail ''/Users'' mock_config quiet_env app_world)"

text \<open>The SCIM server does not decode the id in a path: a user stored under \<open>a@b\<close> is not found at the
  path the bridge builds for it, and a PUT there with its migrated id is refused.\<close>
theorem encoded_id_is_not_found:
  "map ur_id (t_users (mock_tables (db mail_there))) = [''a@b'']
   \<and> decode_uri_component ''a%40b'' = Some ''a@b''
   \<and> (case serve_scim read_mail (resource_path Users ''a@b'') mock_config quiet_env mail_there of
        (Inr r, _) \<Rightarrow> r_status r = 404 | _ \<Rightarrow> False)
   \<and> (case serve_scim put_mail (resource_path Users ''a@b'') native_config quiet_env app_world of
        (Inr r, _) \<Rightarrow> r_status r = 400 | _ \<Rightarrow> False)"
  by (intro conjI; code_simp)

text \<open>The statement that fails is the read of the emission setting, after the write.\<close>

definition setting_fails :: env where
  "setting_fails = quiet_env\<lparr>db_fault := (\<lambda>n. if n = 3 then Refused False else Fine)\<rparr>"

text \<open>The setting that switches webhook delivery is read outside the block that protects the answer:
  when that read fails the request fails, although the user is stored, and no event is logged.\<close>
theorem emit_setting_fails_the_write:
  "case serve_mock create_ann ''/Users'' setting_fails app_world of
     (Inl _, w') \<Rightarrow> map ur_id (t_users (mock_tables (db w'))) = [''x1''] \<and> mock_events (db w') = [] | _ \<Rightarrow> False"
  by code_simp

text \<open>The id of an event is unique, so the repetition of an insert whose acknowledgement was lost fails, and the
  webhook of an event that is in the log is not delivered: the native app misses the user.\<close>

definition ack_lost :: env where
  "ack_lost = quiet_env\<lparr>db_fault := (\<lambda>n. if n = 4 then LostAck True else Fine)\<rparr>"

lemma lost_ack_skips_the_webhook:
  "case serve_mock create_ann ''/Users'' ack_lost app_world of
     (Inr r, w') \<Rightarrow> r_status r = 201 \<and> map me_event (mock_events (db w')) = [''dsync.user.created'']
       \<and> t_users (native_tables (db w')) = [] | _ \<Rightarrow> False"
  by code_simp

end
