(* ===== verification/Wording.thy ===== *)
theory Wording
  imports Scim JsonText
begin

text \<open>
  What the operator reads about native namespaces (\<open>workers/shared/native-namespace.ts\<close>), and the check of an
  upstream URL (\<open>workers/shared/upstream-url.ts\<close>).  A typographic dash is two hyphens.
\<close>

subsection \<open>Quoting\<close>

definition in_quotes :: "string \<Rightarrow> string" where
  "in_quotes s = dquote # s @ [dquote]"

definition describe_directory :: "directory \<Rightarrow> string" where
  "describe_directory d = ''the directory '' @ in_quotes (dir_name d) @ '' ('' @ dir_id d @ '')''"

definition name_list :: "directory list \<Rightarrow> string" where
  "name_list ds =
     (let named = map (\<lambda>d. in_quotes (dir_name d) @ '' ('' @ dir_id d @ '')'') ds in
      if length named \<le> 1 then concat named
      else join_with '', '' (butlast named) @ '' and '' @ last named)"

subsection \<open>Refusals\<close>

definition version_segment :: "string \<Rightarrow> bool" where
  "version_segment s = (case s of c # d # _ \<Rightarrow> lower_char c = CHR ''v'' \<and> is_digit d | _ \<Rightarrow> False)"

definition suggest_path :: "(string \<Rightarrow> url option) \<Rightarrow> string \<Rightarrow> string \<Rightarrow> string" where
  "suggest_path parse u tenant = (case parse u of
       None \<Rightarrow> ''https://app.example.com/scim/'' @ tenant @ ''/v2''
     | Some p \<Rightarrow>
         let segs = path_segments (url_pathname p);
             segs' = (if segs \<noteq> [] \<and> version_segment (last segs) then butlast segs @ [tenant, last segs]
                      else segs @ [tenant]) in
         url_origin p @ ''/'' @ join_with ''/'' segs')"

definition namespace_conflict_message :: "(string \<Rightarrow> url option) \<Rightarrow> string \<Rightarrow> string \<Rightarrow> string" where
  "namespace_conflict_message parse u holder =
     ''The native SCIM endpoint '' @ u @ '' is already in use by '' @ holder @ ''. ''
     @ ''Two directories on one native endpoint share one set of SCIM user and group ids, so ''
     @ ''the bridge cannot tell which directory a native record belongs to, and a write meant ''
     @ ''for one directory can land on the other's users. ''
     @ ''Give each directory its own path on the same host, and route that path to the right ''
     @ ''tenant in your SCIM service -- for example '' @ suggest_path parse u ''<tenant-a>'' @ '' and ''
     @ suggest_path parse u ''<tenant-b>'' @ ''. ''
     @ ''Host and path are compared after canonicalisation, so a different capitalisation, the ''
     @ ''default port written out (:443, :80), or a trailing slash is not a different endpoint: ''
     @ ''the host or the path has to genuinely differ. ''
     @ ''Alternatively, if your SCIM service truly isolates rows by bearer token, mark both ''
     @ ''directories as token-partitioned on their directory pages and give each its own native ''
     @ ''token -- the bridge then treats endpoint-plus-token as the namespace, on your attestation.''"

definition distinct_token_message :: "string \<Rightarrow> string \<Rightarrow> string" where
  "distinct_token_message u holder =
     ''Both this directory and '' @ holder @ '' are marked token-partitioned on the native SCIM ''
     @ ''endpoint '' @ u @ '', but their native tokens do not tell them apart -- each directory ''
     @ ''needs its own non-empty native token, because under that attestation the token is the ''
     @ ''only thing separating one tenant's rows from another's. Give this directory a native ''
     @ ''token of its own. (Tokens the bridge cannot decrypt count as identical: with no ''
     @ ''APP_ENCRYPTION_KEY to read them, it cannot prove they differ.)''"

definition unparseable_native_url_message :: "string \<Rightarrow> string" where
  "unparseable_native_url_message u =
     ''The native SCIM base URL '' @ u @ '' is not a URL the bridge can parse, so it cannot ''
     @ ''tell which native app this directory addresses or whether another directory already ''
     @ ''addresses it. Enter an absolute base URL including the scheme -- ''
     @ ''https://app.example.com/scim/v2 -- or leave the field empty until the endpoint is known.''"

definition refusal_text :: "(string \<Rightarrow> url option) \<Rightarrow> namespace_refusal \<Rightarrow> string" where
  "refusal_text parse r = (case r of
       UnparseableUrl u \<Rightarrow> unparseable_native_url_message u
     | IndistinctToken u d \<Rightarrow> distinct_token_message u (describe_directory d)
     | NamespaceConflict u d \<Rightarrow> namespace_conflict_message parse u (describe_directory d))"

subsection \<open>The boot report\<close>

definition duplicate_warning :: "(string \<Rightarrow> url option) \<Rightarrow> namespace_duplicate \<Rightarrow> string" where
  "duplicate_warning parse dup =
     (let named = name_list (dup_directories dup) in
      case dup_key dup of
        None \<Rightarrow>
          ''Directories '' @ named @ '' have native SCIM base URLs the bridge cannot parse (''
          @ join_with '', '' (map (\<lambda>d. trim (native_url d)) (dup_directories dup)) @ ''), so ''
          @ ''it cannot tell whether they address the same native app and has to assume they do. ''
          @ ''Correct the base URLs on each directory's page.''
      | Some key \<Rightarrow>
          ''Directories '' @ named @ '' are configured with the same native SCIM endpoint '' @ key @ ''. ''
          @ ''They share one set of SCIM user and group ids, so a write meant for one can land on ''
          @ ''another's users. Give each directory its own path on the same host and route it to the ''
          @ ''right tenant in your SCIM service -- for example ''
          @ suggest_path parse (trim (native_url (hd (dup_directories dup)))) ''<tenant>''
          @ ''. New directories on an endpoint ''
          @ ''another already uses are refused; these predate that check.'')"

definition duplicate_native_namespace_warnings :: "(string \<Rightarrow> url option) \<Rightarrow> namespace_duplicate list \<Rightarrow> string list" where
  "duplicate_native_namespace_warnings parse dups =
     map (duplicate_warning parse) (filter (\<lambda>dup. \<not> dup_partitioned dup) dups)"

definition partitioned_namespace_notices :: "namespace_duplicate list \<Rightarrow> string list" where
  "partitioned_namespace_notices dups =
     map (\<lambda>dup. ''Directories '' @ name_list (dup_directories dup) @ '' share the native SCIM endpoint ''
         @ (case dup_key dup of None \<Rightarrow> ''null'' | Some key \<Rightarrow> key)
         @ '' as operator-attested token-partitioned tenants: each is marked ''
         @ ''token-partitioned and presents its own native bearer token, which the native app ''
         @ ''is attested to isolate rows by. The bridge treats them as disjoint namespaces on ''
         @ ''that attestation -- it cannot verify the isolation itself.'')
       (filter dup_partitioned dups)"

subsection \<open>Upstream URLs\<close>

definition normalize_host :: "string \<Rightarrow> string" where
  "normalize_host h =
     (let h1 = (if h \<noteq> [] \<and> hd h = CHR ''['' then tl h else h);
          h2 = (if h1 \<noteq> [] \<and> last h1 = CHR '']'' then butlast h1 else h1) in
      to_lower h2)"

definition short_number :: "string \<Rightarrow> bool" where
  "short_number s \<longleftrightarrow> 1 \<le> length s \<and> length s \<le> 3 \<and> list_all is_digit s"

definition is_metadata_host :: "string \<Rightarrow> bool" where
  "is_metadata_host hostname =
     (let host = normalize_host hostname in
      (case split_on CHR ''.'' host of
         [a, b, c, d] \<Rightarrow> a = ''169'' \<and> b = ''254'' \<and> short_number c \<and> short_number d
       | _ \<Rightarrow> False)
      \<or> host = ''fd00:ec2::254'')"

definition without_colon :: "string \<Rightarrow> string" where
  "without_colon p = (if p \<noteq> [] \<and> last p = CHR '':'' then butlast p else p)"

definition validate_upstream_url :: "(string \<Rightarrow> url option) \<Rightarrow> string \<Rightarrow> string option" where
  "validate_upstream_url parse raw =
     (let v = trim raw in
      if v = [] then None
      else case parse v of
        None \<Rightarrow> Some (in_quotes v @ '' is not a valid URL.'')
      | Some u \<Rightarrow>
          if url_protocol u \<noteq> ''http:'' \<and> url_protocol u \<noteq> ''https:''
          then Some (''The endpoint URL must use http or https, not '' @ in_quotes (without_colon (url_protocol u)) @ ''.'')
          else if is_metadata_host (url_hostname u)
          then Some (url_hostname u @ '' is a cloud metadata address and cannot be an endpoint.'')
          else None)"

end
