(* ===== verification/UserCount.thy ===== *)
theory UserCount
  imports Backfill
begin

text \<open>
  Counting the users of an endpoint (\<open>app/routes/panel/user-count.ts\<close>): at most two pages, and a statement
  whether the count is exact.  The time limit of a page is not modelled.
\<close>

record endpoint_count =
  ec_reachable :: bool
  ec_count :: "nat option"
  ec_truncated :: bool

datatype count_color = Green | Yellow | Gray

definition get_user_count_status :: "endpoint_count \<Rightarrow> endpoint_count \<Rightarrow> count_color \<times> string" where
  "get_user_count_status native workos =
     (if \<not> ec_reachable native \<or> \<not> ec_reachable workos then (Gray, ''endpoint unreachable'')
      else if ec_count native = None \<or> ec_count workos = None then (Gray, ''counts unavailable'')
      else if ec_truncated native \<or> ec_truncated workos then (Gray, ''counts incomplete'')
      else if ec_count native = ec_count workos then (Green, ''active counts match'')
      else (Yellow, ''active counts differ''))"

definition count_page :: nat where "count_page = 200"
definition max_pages :: nat where "max_pages = 2"

record count_user =
  cu_id :: string
  cu_active :: "bool option"
  cu_name :: "string option"

subsection \<open>One page\<close>

definition counted_user :: "json \<Rightarrow> count_user option" where
  "counted_user v = (case as_object (Some v) of
       None \<Rightarrow> None
     | Some user \<Rightarrow> (case (string_value (getp user ''id''), getp user ''active'', getp user ''userName'') of
           (Some i, None, None) \<Rightarrow> Some \<lparr>cu_id = i, cu_active = None, cu_name = None\<rparr>
         | (Some i, Some (JBool b), None) \<Rightarrow> Some \<lparr>cu_id = i, cu_active = Some b, cu_name = None\<rparr>
         | (Some i, None, Some (JStr n)) \<Rightarrow> Some \<lparr>cu_id = i, cu_active = None, cu_name = Some n\<rparr>
         | (Some i, Some (JBool b), Some (JStr n)) \<Rightarrow> Some \<lparr>cu_id = i, cu_active = Some b, cu_name = Some n\<rparr>
         | _ \<Rightarrow> None))"

definition max_safe_integer :: int where "max_safe_integer = 9007199254740991"

definition reported_count :: "object \<Rightarrow> nat option" where
  "reported_count body = (case getp body ''totalResults'' of
     Some (JNum n) \<Rightarrow> if 0 \<le> n \<and> n \<le> max_safe_integer then Some (nat n) else None | _ \<Rightarrow> None)"

definition page_users :: "object \<Rightarrow> count_user list option" where
  "page_users body = (case getp body ''Resources'' of
       Some (JArr vs) \<Rightarrow> those (map counted_user vs)
     | Some JNull \<Rightarrow> if reported_count body = Some 0 then Some [] else None
     | Some _ \<Rightarrow> None
     | None \<Rightarrow> if reported_count body = Some 0 then Some [] else None)"

text \<open>\<open>None\<close> is an endpoint that cannot be read.  A body that is no object has no \<open>Resources\<close>.\<close>

definition list_users_page :: "side \<Rightarrow> string \<Rightarrow> string \<Rightarrow> nat \<Rightarrow> (nat option \<times> count_user list option) option m" where
  "list_users_page sd u token start =
     bnd (join_scim_url u (collection_path Users)) (\<lambda>base.
     try_catch
       (bnd (plain_fetch sd (base @ ''?startIndex='' @ show_nat start @ ''&count='' @ show_nat count_page) ''GET'' token None) (\<lambda>r.
        ret (if \<not> is_success (u_status r) then None
             else (case u_body r of
                 None \<Rightarrow> None
               | Some (Raw _) \<Rightarrow> None
               | Some (Doc v) \<Rightarrow>
                   (case as_object (Some v) of
                      None \<Rightarrow> Some (None, None)
                    | Some body \<Rightarrow> Some (reported_count body, page_users body))))))
       (\<lambda>_. ret None))"

subsection \<open>The snapshot\<close>

record user_snapshot =
  us_count :: endpoint_count
  us_users :: "count_user list"

text \<open>Merging a page: a row whose id was seen is left out and makes the page a repetition.\<close>

fun merge_page :: "count_user list \<Rightarrow> count_user list \<Rightarrow> bool \<times> count_user list" where
  "merge_page users [] = (False, users)"
| "merge_page users (u # us) =
     (if cu_id u \<in> cu_id ` set users then (True, snd (merge_page users us)) else merge_page (users @ [u]) us)"

definition active_users :: "count_user list \<Rightarrow> nat" where
  "active_users users = length (filter (\<lambda>u. cu_active u \<noteq> Some False) users)"

definition counted_as :: "bool \<Rightarrow> count_user list \<Rightarrow> user_snapshot" where
  "counted_as truncated users =
     \<lparr>us_count = \<lparr>ec_reachable = True, ec_count = Some (active_users users), ec_truncated = truncated\<rparr>, us_users = users\<rparr>"

definition no_count :: "bool \<Rightarrow> user_snapshot" where
  "no_count reachable = \<lparr>us_count = \<lparr>ec_reachable = reachable, ec_count = None, ec_truncated = False\<rparr>, us_users = []\<rparr>"

fun read_pages :: "nat \<Rightarrow> side \<Rightarrow> string \<Rightarrow> string \<Rightarrow> nat \<Rightarrow> nat \<Rightarrow> count_user list \<Rightarrow> user_snapshot m" where
  "read_pages 0 sd u token returned reported users = ret (counted_as True users)"
| "read_pages (Suc n) sd u token returned reported users =
     bnd (list_users_page sd u token (returned + 1)) (\<lambda>page. case page of
       None \<Rightarrow> ret (if Suc n = max_pages then no_count False else counted_as True users)
     | Some (reply, rows) \<Rightarrow> (case rows of
         None \<Rightarrow> ret (if Suc n = max_pages then no_count True else counted_as True users)
       | Some us \<Rightarrow>
           let reported' = max reported (case reply of None \<Rightarrow> 0 | Some t \<Rightarrow> t);
               returned' = returned + length us in
           (case merge_page users us of
              (True, users') \<Rightarrow> ret (counted_as True users')
            | (False, users') \<Rightarrow>
                if us = [] then ret (counted_as (returned' < reported') users')
                else read_pages n sd u token returned' reported' users')))"

definition read_user_snapshot :: "side \<Rightarrow> string \<Rightarrow> string \<Rightarrow> user_snapshot m" where
  "read_user_snapshot sd u token =
     (if u = [] then ret (no_count False) else read_pages max_pages sd u token 0 0 [])"

definition count_users :: "side \<Rightarrow> string \<Rightarrow> string \<Rightarrow> endpoint_count m" where
  "count_users sd u token = bnd (read_user_snapshot sd u token) (\<lambda>s. ret (us_count s))"

end
