(* ===== verification/Panel.thy ===== *)
theory Panel
  imports Wording UserCount Reconcile NativeStore
begin

text \<open>
  The actions of the control panel that change directories: the list page (\<open>app/routes/panel/home.tsx\<close>: create,
  bulk import, bulk changes, settings) and the page of one directory (\<open>directory-overview.tsx\<close>).  A form is its
  fields in order; \<open>demo\<close> is the demo flag of the process.
\<close>

type_synonym form = "(string \<times> string) list"

definition form_get :: "form \<Rightarrow> string \<Rightarrow> string option" where
  "form_get f k = map_option snd (find (\<lambda>p. fst p = k) f)"

definition form_value :: "form \<Rightarrow> string \<Rightarrow> string" where
  "form_value f k = (case form_get f k of None \<Rightarrow> [] | Some v \<Rightarrow> v)"

definition form_field :: "form \<Rightarrow> string \<Rightarrow> string" where
  "form_field f k = trim (form_value f k)"

definition mode_from :: "string \<Rightarrow> mode option" where
  "mode_from s = find (\<lambda>m. mode_name m = s) modes"

record health =
  he_target :: side
  he_status :: "nat option"
  he_ok :: bool
  he_detail :: "string option"

datatype panel_answer =
    Refused string
  | NotFound
  | Redirected string
  | Done
  | Imported nat "string list"
  | BulkUpdated nat
  | SettingsSaved
  | Rotated string
  | Backfilled summary
  | Reconciled summary
  | Health health
  | Topology endpoint_count endpoint_count

definition unknown_action :: panel_answer where
  "unknown_action = Refused ''That form action is not recognized.''"

subsection \<open>Creating a directory\<close>

definition min_proxy_token_length :: nat where "min_proxy_token_length = 16"

definition proxy_token_error :: "string \<Rightarrow> string option" where
  "proxy_token_error token =
     (if token = [] \<or> min_proxy_token_length \<le> length token then None
      else Some (''A proxy token must be at least '' @ show_nat min_proxy_token_length @ '' characters ''
        @ ''(received '' @ show_nat (length token) @ '') -- check the value wasn't truncated.''))"

fun contains :: "string \<Rightarrow> string \<Rightarrow> bool" where
  "contains p [] = (p = [])"
| "contains p (c # s) = (starts_with (c # s) p \<or> contains p s)"

definition directory_error :: "err \<Rightarrow> string" where
  "directory_error er =
     (let message = error_message er; m = to_lower message in
      if contains ''unique'' m \<and> contains ''proxy_token'' m
      then ''That proxy token already belongs to another directory -- it is the key the proxy routes on, so no two directories can share one.''
      else if contains ''unique'' m \<and> contains ''workos_directory_id'' m
      then ''That WorkOS directory id is already assigned to another directory.''
      else message)"

definition directory_form :: "form \<Rightarrow> new_directory" where
  "directory_form f = \<lparr>nd_name = form_field f ''name'', nd_native_url = form_field f ''native_url'',
     nd_native_token = form_field f ''native_token'', nd_workos_url = form_field f ''workos_url'',
     nd_workos_token = form_field f ''workos_token'', nd_workos_directory_id = Some (form_field f ''workos_directory_id''),
     nd_proxy_token = Some (form_field f ''proxy_token'')\<rparr>"

definition url_error :: "form \<Rightarrow> string option m" where
  "url_error f = asks (\<lambda>e. case validate_upstream_url (parse_url e) (form_field f ''native_url'') of
     Some msg \<Rightarrow> Some msg | None \<Rightarrow> validate_upstream_url (parse_url e) (form_field f ''workos_url''))"

definition namespace_error :: "string \<Rightarrow> directory list \<Rightarrow> string \<Rightarrow> bool \<Rightarrow> string option m" where
  "namespace_error u others token partitioned = asks (\<lambda>e.
     map_option (refusal_text (parse_url e)) (check_native_namespace (parse_url e) u others token partitioned))"

definition create_directory :: "bool \<Rightarrow> form \<Rightarrow> panel_answer m" where
  "create_directory demo f =
     (if form_field f ''name'' = [] then ret (Refused ''The directory needs a name before it can be created.'')
      else case proxy_token_error (form_field f ''proxy_token'') of
        Some msg \<Rightarrow> ret (Refused msg)
      | None \<Rightarrow> bnd (url_error f) (\<lambda>bad. case bad of
          Some msg \<Rightarrow> ret (Refused msg)
        | None \<Rightarrow> bnd list_directories (\<lambda>ds. bnd (namespace_error (form_field f ''native_url'') ds [] False) (\<lambda>clash. case clash of
            Some msg \<Rightarrow> ret (Refused msg)
          | None \<Rightarrow> bnd (settle (insert_directory (directory_form f))) (\<lambda>created. case created of
              Inl er \<Rightarrow> ret (Refused (directory_error er))
            | Inr (i, token) \<Rightarrow>
                thn (publish_minted_token i token demo) (ret (Redirected (''/panel/directories/'' @ i))))))))"

subsection \<open>Bulk import\<close>

text \<open>The columns of a row, in the order of the file.\<close>

definition cell :: "string list \<Rightarrow> nat \<Rightarrow> string" where
  "cell cells i = (if i < length cells then cells ! i else [])"

definition csv_row :: "string list \<Rightarrow> new_directory" where
  "csv_row cells = \<lparr>nd_name = cell cells 0, nd_native_url = cell cells 1, nd_native_token = cell cells 2,
     nd_workos_url = cell cells 3, nd_workos_token = cell cells 4, nd_workos_directory_id = Some (cell cells 5),
     nd_proxy_token = Some (cell cells 6)\<rparr>"

definition csv_cells :: "string \<Rightarrow> string list" where
  "csv_cells line = map trim (split_on CHR '','' line)"

text \<open>Trimming a line removes the carriage return before its line feed.\<close>

definition csv_lines :: "string \<Rightarrow> string list" where
  "csv_lines txt = filter (\<lambda>l. l \<noteq> []) (map trim (split_on (CHR 0x0A) txt))"

definition is_header :: "string \<Rightarrow> bool" where
  "is_header line \<longleftrightarrow> to_lower (cell (csv_cells line) 0) = ''name''"

definition parse_csv :: "string \<Rightarrow> new_directory list" where
  "parse_csv txt = map (csv_row \<circ> csv_cells)
     (case csv_lines txt of [] \<Rightarrow> [] | l # ls \<Rightarrow> if is_header l then ls else l # ls)"

definition row_label :: "nat \<Rightarrow> new_directory \<Rightarrow> string" where
  "row_label line r = ''Row '' @ show_nat line @ '' ('' @ nd_name r @ ''): ''"

definition row_token :: "new_directory \<Rightarrow> string" where
  "row_token r = (case nd_proxy_token r of None \<Rightarrow> [] | Some t \<Rightarrow> t)"

text \<open>The rows that may be imported, and the errors of the others.\<close>

fun csv_candidates :: "nat \<Rightarrow> new_directory list \<Rightarrow> (new_directory \<times> nat) list \<times> string list" where
  "csv_candidates i [] = ([], [])"
| "csv_candidates i (r # rs) =
     (let (cs, errs) = csv_candidates (i + 1) rs in
      if nd_name r = [] then (cs, (''Row '' @ show_nat i @ '': missing a name in the first column.'') # errs)
      else case proxy_token_error (row_token r) of
        Some msg \<Rightarrow> (cs, (row_label i r @ msg) # errs)
      | None \<Rightarrow> ((r, i) # cs, errs))"

text \<open>A row accepted so far, as a party to the namespace check; it is never attested.\<close>

definition accepted_row :: "nat \<Rightarrow> new_directory \<Rightarrow> string \<Rightarrow> directory" where
  "accepted_row line r u = \<lparr>dir_id = ''row '' @ show_nat line, dir_name = nd_name r, dir_mode = Passthrough,
     proxy_token_hash = [], proxy_token_hint_col = [], native_url = u, native_token = nd_native_token r,
     native_token_partitioned = False, workos_url = nd_workos_url r, workos_token = [], workos_directory_id = None,
     log_persistence = False, reconcile_token = None, reconcile_started_at = None, updated_at = []\<rparr>"

fun csv_namespace_refusals ::
    "(string \<Rightarrow> url option) \<Rightarrow> directory list \<Rightarrow> directory list \<Rightarrow> (new_directory \<times> nat) list \<Rightarrow> string list" where
  "csv_namespace_refusals parse existing accepted [] = []"
| "csv_namespace_refusals parse existing accepted ((r, line) # rs) =
     (let refuse = (\<lambda>msg. (row_label line r @ msg) # csv_namespace_refusals parse existing accepted rs);
          u = trim (nd_native_url r) in
      case validate_upstream_url parse (nd_workos_url r) of
        Some msg \<Rightarrow> refuse msg
      | None \<Rightarrow>
          if u = [] then csv_namespace_refusals parse existing accepted rs
          else if native_namespace_key parse u = None then refuse (unparseable_native_url_message u)
          else case validate_upstream_url parse u of
            Some msg \<Rightarrow> refuse msg
          | None \<Rightarrow> (case find_native_namespace_conflict parse u accepted [] False of
              Some twin \<Rightarrow> refuse (namespace_conflict_message parse u
                (dir_id twin @ '' ('' @ in_quotes (dir_name twin) @ '') of this same import''))
            | None \<Rightarrow> (case check_native_namespace parse u existing [] False of
                Some stored \<Rightarrow> refuse (refusal_text parse stored)
              | None \<Rightarrow> csv_namespace_refusals parse existing (accepted @ [accepted_row line r u]) rs)))"

fun import_rows :: "bool \<Rightarrow> (new_directory \<times> nat) list \<Rightarrow> (nat \<times> string list) m" where
  "import_rows demo [] = ret (0, [])"
| "import_rows demo ((r, line) # rs) =
     bnd (settle (bnd (insert_directory r) (\<lambda>(i, token). publish_minted_token i token demo))) (\<lambda>res.
     bnd (import_rows demo rs) (\<lambda>(n, errs). ret (case res of
       Inl er \<Rightarrow> (n, (row_label line r @ directory_error er) # errs)
     | Inr _ \<Rightarrow> (n + 1, errs))))"

definition nothing_imported :: string where
  "nothing_imported = ''Nothing was imported. A row would either share a native SCIM endpoint with another ''
     @ ''directory or carry an endpoint URL the bridge refuses, so the whole import was ''
     @ ''refused rather than applied in part.''"

definition bulk_import :: "bool \<Rightarrow> form \<Rightarrow> panel_answer m" where
  "bulk_import demo f =
     (let rows = parse_csv (form_field f ''csv'') in
      if rows = [] then ret (Refused ''No directories found in the CSV. Add one directory per line.'')
      else let (candidates, skipped) = csv_candidates 1 rows in
        bnd list_directories (\<lambda>ds.
        bnd (asks (\<lambda>e. csv_namespace_refusals (parse_url e) ds [] candidates)) (\<lambda>refusals.
        if refusals \<noteq> [] then ret (Refused (join_with '' '' (nothing_imported # refusals @ skipped)))
        else bnd (import_rows demo candidates) (\<lambda>(n, errs). ret (Imported n (skipped @ errs))))))"

subsection \<open>The list page\<close>

definition form_ids :: "form \<Rightarrow> string list" where
  "form_ids f = filter (\<lambda>s. s \<noteq> []) (map trim (split_on CHR '','' (form_field f ''ids'')))"

definition bulk_set_mode :: "form \<Rightarrow> panel_answer m" where
  "bulk_set_mode f = (case mode_from (form_field f ''mode'') of
     None \<Rightarrow> ret (Refused ''Choose a valid target mode.'')
   | Some m \<Rightarrow> thn (each (\<lambda>i. set_directory_mode i m) (form_ids f)) (ret (BulkUpdated (length (form_ids f)))))"

definition bulk_set_log_persistence :: "form \<Rightarrow> panel_answer m" where
  "bulk_set_log_persistence f =
     thn (set_directories_log_persistence (form_ids f) (form_field f ''on'' = ''true''))
       (ret (BulkUpdated (length (form_ids f))))"

definition save_settings :: "form \<Rightarrow> panel_answer m" where
  "save_settings f = (let proxy = form_field f ''proxy_public_url''; native = form_field f ''native_public_url'' in
     if proxy = [] \<or> native = [] then ret (Refused (''The proxy public URL and native app public URL are both required ''
       @ ''-- clearing them would break every copy-paste value on this page.''))
     else thn (set_config ''proxy.public_url'' proxy)
       (thn (set_config ''native.public_url'' native) (ret SettingsSaved)))"

definition home_action :: "bool \<Rightarrow> form \<Rightarrow> panel_answer m" where
  "home_action demo f = (let intent = form_get f ''intent'' in
     if intent = Some ''create-directory'' then create_directory demo f
     else if intent = Some ''bulk-import'' then bulk_import demo f
     else if intent = Some ''bulk-set-mode'' then bulk_set_mode f
     else if intent = Some ''bulk-set-log-persistence'' then bulk_set_log_persistence f
     else if intent = Some ''save-settings'' then save_settings f
     else ret unknown_action)"

subsection \<open>The page of a directory\<close>

definition set_mode_action :: "directory \<Rightarrow> form \<Rightarrow> panel_answer m" where
  "set_mode_action d f = (case mode_from (form_value f ''mode'') of
     None \<Rightarrow> ret (Refused (''That mode is not one of '' @ join_with '', '' (map mode_name modes) @ ''.''))
   | Some m \<Rightarrow> thn (set_directory_mode (dir_id d) m) (ret Done))"

definition rotate_action :: "bool \<Rightarrow> directory \<Rightarrow> panel_answer m" where
  "rotate_action demo d = bnd (rotate_proxy_token (dir_id d)) (\<lambda>token.
     thn (publish_minted_token (dir_id d) token demo) (ret (Rotated token)))"

definition save_native :: "directory \<Rightarrow> form \<Rightarrow> panel_answer m" where
  "save_native d f =
     (let u = form_field f ''native_url''; token = form_field f ''native_token'';
          partitioned = (form_get f ''native_token_partitioned'' = Some ''on'') in
      bnd (asks (\<lambda>e. validate_upstream_url (parse_url e) u)) (\<lambda>bad. case bad of
        Some msg \<Rightarrow> ret (Refused msg)
      | None \<Rightarrow> bnd list_directories (\<lambda>ds.
          bnd (namespace_error u (filter (\<lambda>other. dir_id other \<noteq> dir_id d) ds) token partitioned) (\<lambda>clash. case clash of
            Some msg \<Rightarrow> ret (Refused msg)
          | None \<Rightarrow> thn (set_directory_native (dir_id d) u token partitioned) (ret Done)))))"

definition save_workos :: "directory \<Rightarrow> form \<Rightarrow> panel_answer m" where
  "save_workos d f =
     (let u = form_field f ''workos_url'' in
      bnd (asks (\<lambda>e. validate_upstream_url (parse_url e) u)) (\<lambda>bad. case bad of
        Some msg \<Rightarrow> ret (Refused msg)
      | None \<Rightarrow> thn (set_directory_workos (dir_id d) u (form_field f ''workos_token'')) (ret Done)))"

definition save_workos_directory_id :: "directory \<Rightarrow> form \<Rightarrow> panel_answer m" where
  "save_workos_directory_id d f =
     bnd (settle (set_directory_workos_directory_id (dir_id d) (form_field f ''workos_directory_id''))) (\<lambda>r.
     ret (case r of
        Inr _ \<Rightarrow> Done
      | Inl er \<Rightarrow> Refused (if contains ''unique'' (to_lower (error_message er))
          then ''That WorkOS directory id is already assigned to another directory.'' else error_message er)))"

text \<open>The two bulk operations; \<open>None\<close> is one that is still running.\<close>

definition backfill_action :: "nat \<Rightarrow> directory \<Rightarrow> panel_answer option m" where
  "backfill_action fuel d =
     (if dir_mode d \<noteq> DualWrite \<and> dir_mode d \<noteq> WorkosPrimary
      then ret (Some (Refused (''Backfill runs in dual-write or workos-primary mode, so live writes keep flowing ''
        @ ''while the snapshot replays.'')))
      else bnd_some (run_backfill fuel d) (\<lambda>sm. ret (Some (Backfilled sm))))"

definition is_in_flight :: "directory \<Rightarrow> err \<Rightarrow> bool" where
  "is_in_flight d er \<longleftrightarrow> er \<in> {in_flight (dir_id d) None, in_flight (dir_id d) (Some Users), in_flight (dir_id d) (Some Groups)}"

definition reconcile_action :: "nat \<Rightarrow> directory \<Rightarrow> panel_answer option m" where
  "reconcile_action fuel d =
     (if dir_mode d \<noteq> WorkosOnly \<and> dir_mode d \<noteq> WorkosPrimary
      then ret (Some (Refused (''Reconcile from WorkOS runs in workos-primary or workos-only mode, to bring the ''
        @ ''native app fully current.'')))
      else try_catch (bnd_some (run_reconcile_from_workos fuel d) (\<lambda>sm. ret (Some (Reconciled sm))))
        (\<lambda>er. if is_in_flight d er then ret (Some (Refused (error_message er))) else throw er))"

definition check_endpoint :: "side \<Rightarrow> string \<Rightarrow> string \<Rightarrow> panel_answer m" where
  "check_endpoint target u token =
     (if u = [] then ret (Health \<lparr>he_target = target, he_status = None, he_ok = False,
        he_detail = Some ''No endpoint URL is configured for this target yet.''\<rparr>)
      else bnd (join_scim_url u (collection_path Users)) (\<lambda>base.
      bnd (settle (plain_fetch target (base @ ''?count=1'') ''GET'' token None)) (\<lambda>r. ret (case r of
        Inr a \<Rightarrow> Health \<lparr>he_target = target, he_status = Some (u_status a), he_ok = is_success (u_status a), he_detail = None\<rparr>
      | Inl er \<Rightarrow> Health \<lparr>he_target = target, he_status = None, he_ok = False, he_detail = Some (error_message er)\<rparr>))))"

definition topology_action :: "directory \<Rightarrow> panel_answer m" where
  "topology_action d =
     bnd (both (count_users Native (native_url d) (native_token d)) (count_users Workos (workos_url d) (workos_token d)))
       (\<lambda>(n, x). ret (Topology n x))"

text \<open>Deleting a directory, with the rows that refer to it: claims and event links by the foreign keys.\<close>

definition delete_rows :: "string \<Rightarrow> store \<Rightarrow> store" where
  "delete_rows i s = s\<lparr>
     id_mappings := filter (\<lambda>m. m_directory m \<noteq> i) (id_mappings s),
     proxy_logs := filter (\<lambda>l. l_directory l \<noteq> Some i) (proxy_logs s),
     write_failures := filter (\<lambda>x. f_directory x \<noteq> i) (write_failures s),
     config := filter (\<lambda>r. \<not> (r = (demo_directory_id_key, i))) (del_row fst (client_token_key i) (config s)),
     directories := filter (\<lambda>d. dir_id d \<noteq> i) (directories s),
     create_claims := filter (\<lambda>r. fst (fst r) \<noteq> i) (create_claims s),
     event_links := filter (\<lambda>l. e_directory l \<noteq> i) (event_links s)\<rparr>"

definition delete_directory :: "bool \<Rightarrow> directory \<Rightarrow> panel_answer m" where
  "delete_directory demo d =
     bnd (if demo then demo_directory_id else ret None) (\<lambda>named.
     if demo \<and> named = Some (dir_id d)
     then ret (Refused (''This is the bundled demo directory -- the built-in IdP and native-app simulators drive it, ''
       @ ''and deleting it leaves demo mode with nothing to drive. Start the bridge without DEMO_MODE to remove it.''))
     else thn (execute (delete_rows (dir_id d))) (ret (Redirected ''/panel'')))"

definition finished :: "panel_answer m \<Rightarrow> panel_answer option m" where
  "finished mm = bnd mm (\<lambda>a. ret (Some a))"

definition on_directory :: "bool \<Rightarrow> nat \<Rightarrow> directory \<Rightarrow> form \<Rightarrow> panel_answer option m" where
  "on_directory demo fuel d f = (let intent = form_get f ''intent'' in
     if intent = Some ''set-mode'' then finished (set_mode_action d f)
     else if intent = Some ''rotate-proxy-token'' then finished (rotate_action demo d)
     else if intent = Some ''set-log-persistence'' then
       finished (thn (set_directory_log_persistence (dir_id d) (form_get f ''on'' = Some ''true'')) (ret Done))
     else if intent = Some ''save-native'' then finished (save_native d f)
     else if intent = Some ''save-workos'' then finished (save_workos d f)
     else if intent = Some ''save-workos-directory-id'' then finished (save_workos_directory_id d f)
     else if intent = Some ''run-backfill'' then backfill_action fuel d
     else if intent = Some ''reconcile-from-workos'' then reconcile_action fuel d
     else if intent = Some ''test-native'' then finished (check_endpoint Native (native_url d) (native_token d))
     else if intent = Some ''test-workos'' then finished (check_endpoint Workos (workos_url d) (workos_token d))
     else if intent = Some ''topology'' then finished (topology_action d)
     else if intent = Some ''delete-directory'' then finished (delete_directory demo d)
     else finished (ret unknown_action))"

definition directory_action :: "bool \<Rightarrow> nat \<Rightarrow> string \<Rightarrow> form \<Rightarrow> panel_answer option m" where
  "directory_action demo fuel i f = bnd (get_directory_by_id i) (\<lambda>row. case row of
     None \<Rightarrow> ret (Some NotFound) | Some d \<Rightarrow> on_directory demo fuel d f)"

end
