(* ===== verification/PanelLaws.thy ===== *)
theory PanelLaws
  imports Panel TransportLaws ReplayLaws Namespaces
begin

text \<open>
  What the operator's actions keep true of the stored directories: no two of them share a native namespace, and
  every endpoint is one the bridge may dial.  With that the write guards of the data plane stay silent.
\<close>

subsection \<open>Directories that are apart\<close>

definition party :: "env \<Rightarrow> directory \<Rightarrow> endpoint" where
  "party e d = \<lparr>ep_url = native_url d, ep_token = (case revealed e (native_token d) of None \<Rightarrow> native_token d | Some t \<Rightarrow> t),
     ep_partitioned = native_token_partitioned d\<rparr>"

definition apart :: "env \<Rightarrow> directory \<Rightarrow> directory \<Rightarrow> bool" where
  "apart e d d' \<longleftrightarrow> native_url d = [] \<or> native_url d' = [] \<or> \<not> shares_native_namespace (parse_url e) (party e d) (party e d')"

definition allowed_url :: "env \<Rightarrow> string \<Rightarrow> bool" where
  "allowed_url e u \<longleftrightarrow> trim u = u \<and> (u \<noteq> [] \<longrightarrow> (\<exists>p. parse_url e u = Some p
     \<and> url_protocol p \<in> {''http:'', ''https:''} \<and> \<not> is_metadata_host (url_hostname p)))"

definition directories_ok :: "env \<Rightarrow> directory list \<Rightarrow> bool" where
  "directories_ok e ds \<longleftrightarrow> distinct (map dir_id ds)
     \<and> (\<forall>d \<in> set ds. allowed_url e (native_url d) \<and> allowed_url e (workos_url d))
     \<and> (\<forall>d \<in> set ds. \<forall>d' \<in> set ds. dir_id d \<noteq> dir_id d' \<longrightarrow> apart e d d')"

lemma apart_sym: "apart e d d' = apart e d' d"
  using splits_sym [of "party e d" "party e d'"] by (auto simp: apart_def shares_native_namespace_def split: option.splits)

text \<open>The parts of a row this is about.\<close>

definition core :: "directory \<Rightarrow> string \<times> string \<times> string \<times> bool \<times> string" where
  "core d = (dir_id d, native_url d, native_token d, native_token_partitioned d, workos_url d)"

lemma core_eq: "core d = core d' \<longleftrightarrow> dir_id d = dir_id d' \<and> native_url d = native_url d' \<and> native_token d = native_token d'
    \<and> native_token_partitioned d = native_token_partitioned d' \<and> workos_url d = workos_url d'"
  by (auto simp: core_def)

lemma party_core: "core d = core d' \<Longrightarrow> party e d = party e d'"
  unfolding core_eq party_def by (elim conjE) (simp only:)

lemma ok_core:
  assumes "map core ds = map core ds'" "directories_ok e ds'"
  shows "directories_ok e ds"
proof -
  have ids: "map dir_id xs = map fst (map core xs)" for xs by (simp add: core_def comp_def)
  have twin: "\<exists>x' \<in> set ds'. core x = core x'" if "x \<in> set ds" for x
  proof -
    have "core x \<in> set (map core ds')" using that assms(1) [symmetric] by simp
    then show ?thesis by auto
  qed
  have same: "apart e x y = apart e x' y'" if "core x = core x'" "core y = core y'" for x y x' y'
    using party_core [OF that(1), of e] party_core [OF that(2), of e] that by (simp add: apart_def core_eq)
  show ?thesis
    unfolding directories_ok_def
  proof (intro conjI ballI impI)
    show "distinct (map dir_id ds)" using assms ids [of ds] ids [of ds'] by (simp add: directories_ok_def)
    fix x assume x: "x \<in> set ds"
    then obtain x' where x': "x' \<in> set ds'" "core x = core x'" using twin by blast
    show "allowed_url e (native_url x)" "allowed_url e (workos_url x)"
      using assms(2) x' by (simp_all add: directories_ok_def core_eq)
    fix y assume y: "y \<in> set ds" "dir_id x \<noteq> dir_id y"
    then obtain y' where y': "y' \<in> set ds'" "core y = core y'" using twin by blast
    have "dir_id x' \<noteq> dir_id y'" using x'(2) y'(2) y(2) by (simp add: core_eq)
    with same [OF x'(2) y'(2)] assms(2) x'(1) y'(1) show "apart e x y" by (simp add: directories_ok_def)
  qed
qed

definition endpoints_same :: "store \<Rightarrow> store \<Rightarrow> bool" where
  "endpoints_same s s' \<longleftrightarrow> map core (directories s') = map core (directories s)"

interpretation upkeep: store_frame endpoints_same
  by unfold_locales (simp_all add: endpoints_same_def)

lemma same_directories: "directories s' = directories s \<Longrightarrow> endpoints_same s s'"
  by (simp add: endpoints_same_def)

lemma same_mapped: "(\<And>d. core (f d) = core d) \<Longrightarrow> endpoints_same s (map_directory i f s)"
  by (simp add: endpoints_same_def map_directory_def)

lemma ok_same: "endpoints_same s s' \<Longrightarrow> directories_ok e (directories s) \<Longrightarrow> directories_ok e (directories s')"
  unfolding endpoints_same_def by (rule ok_core)

subsection \<open>Actions that keep every endpoint\<close>

lemma upkeep_execute: "(\<And>s. directories (f s) = directories s) \<Longrightarrow> pres (on_db endpoints_same) e (execute f)"
  by (rule upkeep.pres_execute) (rule same_directories)

lemma upkeep_mapped: "(\<And>d. core (f d) = core d) \<Longrightarrow> pres (on_db endpoints_same) e (execute (map_directory i f))"
  by (rule upkeep.pres_execute) (rule same_mapped)

lemma upkeep_config [eff]:
  "pres (on_db endpoints_same) e (set_config k v)" "pres (on_db endpoints_same) e (get_config k)"
  "pres (on_db endpoints_same) e (publish_minted_token i token demo)"
proof -
  have [eff]: "pres (on_db endpoints_same) e (set_config k v)" "pres (on_db endpoints_same) e (get_config k)" for k v
    unfolding set_config_def get_config_def by (intro eff upkeep_execute; simp)+
  then show "pres (on_db endpoints_same) e (set_config k v)" "pres (on_db endpoints_same) e (get_config k)" by simp_all
  show "pres (on_db endpoints_same) e (publish_minted_token i token demo)"
    unfolding publish_minted_token_def demo_directory_id_def store_client_token_def by (intro eff)
qed

lemma upkeep_columns [eff]:
  "pres (on_db endpoints_same) e (set_directory_mode i m)"
  "pres (on_db endpoints_same) e (set_directory_log_persistence i on)"
  "pres (on_db endpoints_same) e (set_directory_workos_directory_id i wid)"
  "pres (on_db endpoints_same) e (rotate_proxy_token i)"
  "pres (on_db endpoints_same) e (set_directories_log_persistence is on)"
  unfolding set_directory_mode_def set_directory_log_persistence_def set_directory_workos_directory_id_def rotate_proxy_token_def
    set_directories_log_persistence_def new_proxy_token_def hash_token_def
  by ((intro eff upkeep_mapped upkeep.pres_execute; simp add: core_def endpoints_same_def map_directory_def comp_def if_distrib))+

subsection \<open>The bulk operations\<close>

text \<open>A relation on the store that mappings, claims, logs, failures and the lease are free under: backfills and
  reconciles respect it.\<close>

locale bulk_frame = store_frame S for S :: "store \<Rightarrow> store \<Rightarrow> bool" +
  assumes S_mappings: "S s (s\<lparr>id_mappings := ms\<rparr>)"
    and S_claims: "S s (s\<lparr>create_claims := cs\<rparr>)"
    and S_logs: "S s (s\<lparr>proxy_logs := ls\<rparr>)"
    and S_misses: "S s (s\<lparr>write_failures := fs\<rparr>)"
    and S_lease: "S s (s\<lparr>directories := map (\<lambda>r. if p r then r\<lparr>reconcile_token := t, reconcile_started_at := a, updated_at := u\<rparr> else r) (directories s)\<rparr>)"
    and S_unlease: "S s (s\<lparr>directories := map (\<lambda>r. if p r then r\<lparr>reconcile_token := None, reconcile_started_at := None\<rparr> else r) (directories s)\<rparr>)"
begin

lemma bulk_quiet: "pres untouched e mm \<Longrightarrow> pres (on_db S) e mm"
  by (rule pres_lift) (rule S_refl)

lemma bulk_rows [eff]:
  "pres (on_db S) e (upsert_mapping m)" "pres (on_db S) e (upsert_mappings ms)"
  "pres (on_db S) e (claim_workos_primary_create i k t)" "pres (on_db S) e (release_workos_primary_create i k t)"
  "pres (on_db S) e (quiet_log d l)" "pres (on_db S) e (get_mapping i k n)" "pres (on_db S) e (get_mapping_by_workos_id i k n)"
  "pres (on_db S) e (load_id_maps i b)"
proof -
  have many: "\<exists>rows. fold upsert_row ms s = s\<lparr>id_mappings := rows\<rparr>" for ms s
  proof (induction ms arbitrary: s)
    case Nil
    show ?case by (intro exI [of _ "id_mappings s"]) simp
  next
    case (Cons m ms)
    from Cons [of "upsert_row m s"] show ?case by (auto simp: upsert_row_def)
  qed
  have S_many: "S s (fold upsert_row ms s)" for s using many [of ms s] S_mappings by auto
  show "pres (on_db S) e (upsert_mappings ms)"
    unfolding upsert_mappings_def by (intro eff pres_execute S_many)
  have S_claim: "S s (snd (claim_row i k t s))" for s
    by (auto simp: claim_row_def S_claims S_refl split: option.split)
  show "pres (on_db S) e (claim_workos_primary_create i k t)"
    unfolding claim_workos_primary_create_def by (rule pres_statement) (rule S_claim)
  show "pres (on_db S) e (upsert_mapping m)" "pres (on_db S) e (release_workos_primary_create i k t)"
    "pres (on_db S) e (quiet_log d l)"
    unfolding upsert_mapping_def upsert_row_def release_workos_primary_create_def release_row_def quiet_log_def insert_proxy_log_def
    by (intro eff pres_execute S_mappings S_claims S_logs)+
  show "pres (on_db S) e (get_mapping i k n)" "pres (on_db S) e (get_mapping_by_workos_id i k n)" "pres (on_db S) e (load_id_maps i b)"
    by (intro bulk_quiet quiet.reads_rows)+
qed

lemma bulk_calls [eff]: "pres (on_db S) e (plain_fetch sd u meth tok b)" "pres (on_db S) e (join_scim_url base path)"
  unfolding plain_fetch_def scim_fetch_def join_scim_url_def by (intro eff)+

lemma bulk_mirror [eff]: "pres (on_db S) e (mirror_upsert d k n raw sink b)"
proof -
  have [eff]: "pres (on_db S) e (record_mapping row sk)" for row sk
    unfolding record_mapping_def by (intro eff)
  have [eff]: "pres (on_db S) e (put_workos d k i res mig)" for i res mig
    unfolding put_workos_def scim_fetch_def by (intro eff)
  have [eff]: "pres (on_db S) e (claimed_by_another d k wid n' sk)" for wid n' sk
    unfolding claimed_by_another_def by (intro eff)
  have [eff]: "pres (on_db S) e (resolve_create_race d k n res create sk)" for res create sk
    unfolding resolve_create_race_def Let_def by (intro eff)
  have [eff]: "pres (on_db S) e (create_via_post d k n res sk)" for res sk
    unfolding create_via_post_def scim_fetch_def Let_def by (intro eff)
  have [eff]: "pres (on_db S) e (recover_mapped_resource d k n m res sk)" for m res sk
    unfolding recover_mapped_resource_def Let_def by (intro eff)
  show ?thesis
    unfolding mirror_upsert_def update_mapped_def first_touch_def Let_def
    by (intro eff)
qed

lemma bulk_backfill: "pres (on_db S) e (run_backfill fuel d)"
proof -
  have [eff]: "pres (on_db S) e (take_snapshot fuel sd base tok k errors)" for sd base tok k errors
    by (rule bulk_quiet) (rule quiet.reads_snapshot)
  have [eff]: "pres (on_db S) e (unattributable d k n)" for k n
    unfolding unattributable_def Let_def by (intro eff bulk_quiet [OF quiet.reads_directories(1)] bulk_quiet [OF quiet.reads_directories(2)])
  have [eff]: "pres (on_db S) e (mirror_resource d k res body g)" for k res body g
    unfolding mirror_resource_def Let_def by (intro eff)
  have [eff]: "pres (on_db S) e (flush_mappings g)" for g
    unfolding flush_mappings_def Let_def by (intro eff)
  have [eff]: "pres (on_db S) e (from_res r)" for r :: "'b res"
    unfolding from_res_def by (intro eff)
  have [eff]: "pres (on_db S) e (flush_when_full g)" for g
    unfolding flush_when_full_def by (intro eff)
  have [eff]: "pres (on_db S) e (mirror_all d k f objs g)" for k f objs g
    by (induction objs arbitrary: g) (auto intro!: eff)
  show ?thesis unfolding run_backfill_def by (intro eff)
qed

end

sublocale bulk_frame \<subseteq> replays: store_replay S d for d
proof unfold_locales
  have [eff]: "pres (on_db S) e (unattributed_reason d k wid i)" for e k wid i
    by (rule bulk_quiet) (rule quiet.reads_unattributed)
  show "pres (on_db S) e (confirm_identity d k wid y)" for e k wid y
    unfolding confirm_identity_def by (intro eff)
qed (rule S_logs S_misses)+

context bulk_frame
begin

lemma bulk_reconcile: "pres (on_db S) e (run_reconcile_from_workos fuel d)"
proof -
  have [eff]: "pres (on_db S) e (release_reconcile_create_claims i t)" for i t
    unfolding release_reconcile_create_claims_def by (intro eff)
  have [eff]: "pres (on_db S) e (claim_reconcile_run i t)" "pres (on_db S) e (release_reconcile_run i t)" for i t
    unfolding claim_reconcile_run_def release_reconcile_run_def claim_lease_def
    by (intro eff pres_execute S_unlease; simp add: S_lease)+
  have [eff]: "pres (on_db S) e (guarded_reconcile fuel d t)" for t
    unfolding guarded_reconcile_def by (intro eff replays.bulk.reconcile_respects)
  show ?thesis unfolding run_reconcile_from_workos_def claim_both_def by (intro eff)
qed

end

interpretation upkeep_bulk: bulk_frame endpoints_same
  by unfold_locales (simp_all add: endpoints_same_def core_def comp_def if_distrib)

subsection \<open>What the checks establish\<close>

lemma trim_trim [simp]: "trim (trim s) = trim s"
proof -
  have start: "trim_start (trim_start s) = trim_start s" for s
    by (simp add: trim_start_def)
  have stop: "trim_end (trim_end s) = trim_end s" for s
    by (simp add: trim_end_def)
  have both: "trim_start (trim_end (trim_start s)) = trim_end (trim_start s)"
  proof (cases "trim_start s")
    case (Cons c t)
    then have c: "\<not> js_space c" by (metis hd_dropWhile list.sel(1) list.simps(3) trim_start_def)
    then have "\<exists>t'. trim_end (c # t) = c # t'"
      unfolding trim_end_def by (simp add: dropWhile_append) (metis rev_rev_ident)
    then obtain t' where "trim_end (c # t) = c # t'" ..
    with Cons c show ?thesis by (simp add: trim_start_def)
  next
    case Nil
    then show ?thesis by (metis start append_Nil2 dropWhile.simps(1) rev.simps(1) trim_end_def)
  qed
  show ?thesis by (simp add: trim_def both stop)
qed

lemma valid_allowed: "validate_upstream_url (parse_url e) u = None \<Longrightarrow> allowed_url e (trim u)"
  by (auto simp: validate_upstream_url_def allowed_url_def Let_def split: if_splits option.splits)

lemma parsed_key: "parse u = Some p \<Longrightarrow> \<exists>key. native_namespace_key parse u = Some key"
  by (simp add: native_namespace_key_def Let_def)

text \<open>The directories as they are listed: decrypted.\<close>

definition reads_as :: "env \<Rightarrow> directory \<Rightarrow> directory \<Rightarrow> bool" where
  "reads_as e d r \<longleftrightarrow> dir_id r = dir_id d \<and> native_url r = native_url d \<and> workos_url r = workos_url d \<and> native_token_partitioned r = native_token_partitioned d
     \<and> revealed e (native_token d) = Some (native_token r)"

lemma reads_party: "reads_as e d r \<Longrightarrow> endpoint_of r = party e d"
  by (simp add: reads_as_def endpoint_of_def party_def)

lemma wp_list:
  assumes "\<And>rs v. list_all2 (reads_as e) (directories (db w)) rs \<Longrightarrow> db v = db w \<Longrightarrow> Q rs v" "\<And>er v. db v = db w \<Longrightarrow> X er v"
  shows "wp e list_directories Q X w"
proof -
  have all: "wp e (decrypt_all ds) (\<lambda>rs u. u = v \<and> list_all2 (reads_as e) ds rs) (\<lambda>_ u. u = v) v" for ds v
  proof (induction ds arbitrary: v)
    case (Cons d ds)
    show ?case
      by (auto simp: decrypt_directory_def reads_as_def intro!: wp_decrypt wp_mono [OF Cons])
  qed simp
  show ?thesis
    unfolding list_directories_def wp_bnd
    by (rule wp_query) (auto intro!: wp_mono [OF all] assms)
qed

subsection \<open>One new row\<close>

abbreviation ns :: "env \<Rightarrow> string \<Rightarrow> string option" where
  "ns e u \<equiv> native_namespace_key (parse_url e) u"

lemma allowed_ns: "allowed_url e u \<Longrightarrow> u \<noteq> [] \<Longrightarrow> ns e u \<noteq> None"
  using parsed_key by (fastforce simp: allowed_url_def)

definition newcomer :: "env \<Rightarrow> string \<Rightarrow> directory list \<Rightarrow> bool" where
  "newcomer e u ds \<longleftrightarrow> u = [] \<or> (\<forall>d \<in> set ds. native_url d \<noteq> [] \<longrightarrow> ns e (native_url d) \<noteq> ns e u)"

definition added :: "new_directory \<Rightarrow> store \<Rightarrow> store \<Rightarrow> bool" where
  "added nd s s' \<longleftrightarrow> directories s' = directories s \<or> (\<exists>row. directories s' = directories s @ [row]
     \<and> (\<forall>d \<in> set (directories s). dir_id d \<noteq> dir_id row) \<and> native_url row = nd_native_url nd \<and> workos_url row = nd_workos_url nd
     \<and> \<not> native_token_partitioned row)"

interpretation inserted: store_frame "\<lambda>s s'. s' = s \<or> s' = snd (insert_directory_row row s)" for row
  by unfold_locales (auto simp: insert_directory_row_def unique_violation_def split: if_splits)

lemma wp_insert: "wp e (insert_directory nd) (\<lambda>_ v. added nd (db w) (db v)) (\<lambda>_ v. added nd (db w) (db v)) w"
proof -
  have row: "wp e (with_datastore_retry (insert_directory_row row)) (\<lambda>_ v. added nd (db u) (db v)) (\<lambda>_ v. added nd (db u) (db v)) u"
    if "native_url row = nd_native_url nd" "workos_url row = nd_workos_url nd" "\<not> native_token_partitioned row" for row u
  proof -
    have one: "added nd s (snd (insert_directory_row row s))" for s
      using that by (cases "\<exists>d' \<in> set (directories s). unique_violation row d'")
        (auto simp: added_def insert_directory_row_def unique_violation_def)
    have none: "added nd s s" for s by (simp add: added_def)
    have "pres (on_db (\<lambda>s s'. s' = s \<or> s' = snd (insert_directory_row row s))) e (with_datastore_retry (insert_directory_row row))"
      by (rule inserted.pres_statement) simp
    from wp_pres [OF this] show ?thesis
      by (rule wp_mono) (use one none in \<open>auto simp: on_db_def\<close>)
  qed
  have secret: "wp e (encrypt_secret x) (\<lambda>_ v. db v = db u) (\<lambda>_ v. db v = db u) u" for x u
    unfolding encrypt_secret_def by (auto simp: wp_def asks_def bnd_def ret_def)
  have same: "added nd s s" for s by (simp add: added_def)
  show ?thesis
    unfolding insert_directory_def new_directory_id_def hash_token_def
    by (auto split: option.split simp: new_proxy_token_def same intro!: wp_mono [OF secret] wp_mono [OF row])
qed

lemma ok_added:
  assumes "added nd s s'" "directories_ok e (directories s)" "allowed_url e (nd_native_url nd)" "allowed_url e (nd_workos_url nd)"
    and "newcomer e (nd_native_url nd) (directories s)"
  shows "directories_ok e (directories s')"
proof (cases "directories s' = directories s")
  case True
  with assms(2) show ?thesis by simp
next
  case False
  with assms(1) obtain row where row: "directories s' = directories s @ [row]"
    "\<forall>d \<in> set (directories s). dir_id d \<noteq> dir_id row" "native_url row = nd_native_url nd" "workos_url row = nd_workos_url nd"
    "\<not> native_token_partitioned row"
    by (auto simp: added_def)
  have new: "apart e row d" if d: "d \<in> set (directories s)" for d
  proof (cases "native_url row = [] \<or> native_url d = []")
    case False
    with assms(2-5) d row(3) have "ns e (native_url row) \<noteq> None" "ns e (native_url d) \<noteq> None" "ns e (native_url d) \<noteq> ns e (native_url row)"
      using allowed_ns by (auto simp: directories_ok_def newcomer_def)
    then show ?thesis
      by (auto simp: apart_def shares_native_namespace_def party_def split: option.splits)
  qed (auto simp: apart_def)
  have new': "apart e d row" if "d \<in> set (directories s)" for d
    using new [OF that] by (simp add: apart_sym)
  have "distinct (map dir_id (directories s @ [row]))" using assms(2) row(2) by (auto simp: directories_ok_def)
  then show ?thesis
    using assms(2-4) row(3,4) new new' unfolding directories_ok_def row(1)
    by (auto simp del: distinct_append)
qed

subsection \<open>The actions\<close>

text \<open>Encryption at rest is invertible.\<close>

definition seals_ok :: "env \<Rightarrow> bool" where
  "seals_ok e \<longleftrightarrow> (\<forall>n t. unseal e (seal e n t) = Some t)"

abbreviation sound :: "env \<Rightarrow> world \<Rightarrow> bool" where
  "sound e w \<equiv> directories_ok e (directories (db w))"

lemma sound_kept: "pres (on_db endpoints_same) e mm \<Longrightarrow> sound e w \<Longrightarrow> wp e mm (\<lambda>_. sound e) (\<lambda>_. sound e) w"
  by (rule wp_mono, erule wp_pres) (auto simp: on_db_def intro: ok_same)

lemma no_conflict:
  assumes "check_native_namespace parse u ds [] False = None" "trim u \<noteq> []" "d \<in> set ds"
  shows "native_namespace_key parse (trim u) \<noteq> None \<and> native_namespace_key parse (trim (native_url d)) \<noteq> native_namespace_key parse (trim u)"
  using assms
  by (auto simp: check_native_namespace_def find_native_namespace_conflict_def Let_def find_None_iff token_partition_splits_def
      split: if_splits option.splits)

lemma listed_newcomer:
  assumes "check_native_namespace (parse_url e) u rs [] False = None" "list_all2 (reads_as e) ds rs" "directories_ok e ds"
  shows "newcomer e (trim u) ds"
proof (cases "trim u = []")
  case False
  have "ns e (native_url d) \<noteq> ns e (trim u)" if d: "d \<in> set ds" for d
  proof -
    obtain r where r: "r \<in> set rs" "reads_as e d r" using assms(2) d by (metis list_all2_conv_all_nth in_set_conv_nth)
    have "trim (native_url r) = native_url d" using r(2) assms(3) d by (simp add: reads_as_def directories_ok_def allowed_url_def)
    with no_conflict [OF assms(1) False r(1)] show ?thesis by simp
  qed
  then show ?thesis by (simp add: newcomer_def)
qed (simp add: newcomer_def)

lemma create_sound: "sound e w \<Longrightarrow> wp e (create_directory demo f) (\<lambda>_. sound e) (\<lambda>_. sound e) w"
proof -
  assume ok: "sound e w"
  have insert: "wp e (insert_directory (directory_form f)) (\<lambda>_. sound e) (\<lambda>_. sound e) v"
    if "directories (db v) = directories (db w)" "allowed_url e (form_field f ''native_url'')" "allowed_url e (form_field f ''workos_url'')"
      "newcomer e (form_field f ''native_url'') (directories (db w))" for v
    by (rule wp_mono [OF wp_insert]) (use that ok in \<open>auto simp: directory_form_def intro: ok_added\<close>)
  have field: "trim (form_field f k) = form_field f k" for k by (simp add: form_field_def)
  show ?thesis
    unfolding create_directory_def url_error_def namespace_error_def
    using ok
    by (auto split: option.split sum.split prod.split simp: split_def intro!: wp_list wp_mono [OF insert] sound_kept upkeep_config
        dest!: valid_allowed listed_newcomer simp: field)
qed

text \<open>An import whose rows pass the check.\<close>

definition row_fine :: "env \<Rightarrow> new_directory \<Rightarrow> bool" where
  "row_fine e r \<longleftrightarrow> allowed_url e (nd_native_url r) \<and> allowed_url e (nd_workos_url r)"

definition rows_apart :: "env \<Rightarrow> new_directory \<Rightarrow> new_directory \<Rightarrow> bool" where
  "rows_apart e r r' \<longleftrightarrow> nd_native_url r = [] \<or> nd_native_url r' = [] \<or> ns e (nd_native_url r) \<noteq> ns e (nd_native_url r')"

definition importable :: "env \<Rightarrow> directory list \<Rightarrow> new_directory list \<Rightarrow> bool" where
  "importable e ds rs \<longleftrightarrow> list_all (row_fine e) rs \<and> list_all (\<lambda>r. newcomer e (nd_native_url r) ds) rs \<and> sorted_wrt (rows_apart e) rs"

definition trimmed_row :: "new_directory \<Rightarrow> bool" where
  "trimmed_row r \<longleftrightarrow> trim (nd_native_url r) = nd_native_url r \<and> trim (nd_workos_url r) = nd_workos_url r"

lemma parsed_trimmed: "list_all trimmed_row (parse_csv txt)"
proof -
  have "trim (cell (csv_cells l) k) = cell (csv_cells l) k" for l k
    by (simp add: cell_def csv_cells_def)
  then show ?thesis
    by (auto simp: parse_csv_def trimmed_row_def csv_row_def list_all_iff split: list.split)
qed

lemma candidates_among: "r \<in> set (fst (csv_candidates i rs)) \<Longrightarrow> fst r \<in> set rs"
  by (induction i rs rule: csv_candidates.induct) (auto simp: Let_def split: prod.splits if_splits option.splits)

lemma conflict_free:
  assumes "find_native_namespace_conflict parse u ds [] False = None" "native_namespace_key parse (trim u) \<noteq> None" "d \<in> set ds"
  shows "native_namespace_key parse (trim (native_url d)) \<noteq> native_namespace_key parse (trim u)"
  using assms by (auto simp: find_native_namespace_conflict_def find_None_iff token_partition_splits_def Let_def)

lemma accepted_apart:
  assumes "csv_namespace_refusals (parse_url e) rs acc cs = []" "list_all (trimmed_row \<circ> fst) cs" "a \<in> set acc"
    and "c \<in> set cs" "nd_native_url (fst c) \<noteq> []"
  shows "ns e (trim (native_url a)) \<noteq> ns e (nd_native_url (fst c))"
  using assms
proof (induction "parse_url e" rs acc cs rule: csv_namespace_refusals.induct)
  case (2 rs acc r line cs)
  then show ?case
    by (cases "c = (r, line)")
      (auto simp: Let_def trimmed_row_def split: option.splits if_splits dest: conflict_free)
qed simp

lemma unrefused_importable:
  assumes "csv_namespace_refusals (parse_url e) rs acc cs = []" "list_all (trimmed_row \<circ> fst) cs"
    and "list_all2 (reads_as e) ds rs" "directories_ok e ds"
  shows "importable e ds (map fst cs)"
  using assms
proof (induction cs arbitrary: acc)
  case Nil
  then show ?case by (simp add: importable_def)
next
  case (Cons c0 cs)
  obtain r line where c0: "c0 = (r, line)" by (cases c0)
  note 2 = Cons [unfolded c0]
  let ?u = "nd_native_url r"
  have trimmed: "trim ?u = ?u" "trim (nd_workos_url r) = nd_workos_url r" "list_all (trimmed_row \<circ> fst) cs"
    using 2(3) by (simp_all add: trimmed_row_def comp_def)
  have workos: "validate_upstream_url (parse_url e) (nd_workos_url r) = None"
    using 2(2) by (auto simp: Let_def split: option.splits)
  then have workos_ok: "allowed_url e (nd_workos_url r)" using valid_allowed [OF workos] trimmed(2) by simp
  show ?case
  proof (cases "?u = []")
    case True
    with 2(2) trimmed workos have "csv_namespace_refusals (parse_url e) rs acc cs = []" by (simp add: Let_def)
    with 2(1) trimmed 2(4,5) have "importable e ds (map fst cs)" by blast
    with True workos_ok show ?thesis
      by (auto simp: c0 importable_def row_fine_def newcomer_def rows_apart_def allowed_url_def)
  next
    case False
    have checks: "ns e ?u \<noteq> None" "validate_upstream_url (parse_url e) ?u = None"
      "check_native_namespace (parse_url e) ?u rs [] False = None"
      "csv_namespace_refusals (parse_url e) rs (acc @ [accepted_row line r ?u]) cs = []"
      using 2(2) trimmed workos False by (auto simp: Let_def split: option.splits if_splits)
    have rest: "importable e ds (map fst cs)"
      using 2(1) [OF checks(4) trimmed(3) 2(4,5)] .
    have "rows_apart e r (fst c)" if "c \<in> set cs" for c
      using accepted_apart [OF checks(4) trimmed(3) _ that, of "accepted_row line r ?u"] trimmed(1)
      by (auto simp: rows_apart_def accepted_row_def)
    moreover have "newcomer e ?u ds" using listed_newcomer [OF checks(3) 2(4,5)] trimmed(1) by simp
    moreover have "allowed_url e ?u" using valid_allowed [OF checks(2)] trimmed(1) by simp
    ultimately show ?thesis using rest workos_ok by (auto simp: c0 importable_def row_fine_def)
  qed
qed

lemma added_importable:
  assumes "added r s s'" "importable e (directories s) (r # rs)"
  shows "importable e (directories s') rs"
proof -
  have row: "newcomer e (nd_native_url x) (directories s @ [row])"
    if "newcomer e (nd_native_url x) (directories s)" "rows_apart e r x" "native_url row = nd_native_url r" for x row
    using that by (auto simp: newcomer_def rows_apart_def)
  have "newcomer e (nd_native_url x) (directories s')" if "x \<in> set rs" for x
    using assms that row [of x] by (auto simp: added_def importable_def list_all_iff)
  with assms(2) show ?thesis by (simp add: importable_def list_all_iff)
qed

lemma newcomer_same: "endpoints_same s s' \<Longrightarrow> newcomer e u (directories s') = newcomer e u (directories s)"
proof -
  assume same: "endpoints_same s s'"
  have urls: "map native_url ds = map (fst \<circ> snd) (map core ds)" for ds by (simp add: core_def comp_def)
  have newcomer: "newcomer e u ds \<longleftrightarrow> u = [] \<or> list_all (\<lambda>x. x \<noteq> [] \<longrightarrow> ns e x \<noteq> ns e u) (map native_url ds)" for ds
    by (auto simp: newcomer_def list_all_iff)
  show ?thesis using same by (simp only: newcomer urls endpoints_same_def)
qed

lemma import_sound:
  "sound e w \<Longrightarrow> importable e (directories (db w)) (map fst cs) \<Longrightarrow>
   wp e (import_rows demo cs) (\<lambda>_. sound e) (\<lambda>_. sound e) w"
proof (induction cs arbitrary: w)
  case (Cons c cs)
  obtain r line where c: "c = (r, line)" by (cases c)
  let ?good = "\<lambda>v. sound e v \<and> importable e (directories (db v)) (map fst cs)"
  have new: "?good v" if "added r (db w) (db v)" for v
    using ok_added [OF that Cons.prems(1)] added_importable [OF that] Cons.prems(2) c
    by (auto simp: importable_def row_fine_def)
  have kept: "?good v" if "?good u" "on_db endpoints_same u v" for u v
    using that ok_same newcomer_same by (auto simp: importable_def on_db_def)
  have publish: "wp e (publish_minted_token i t demo) (\<lambda>_. ?good) (\<lambda>_. ?good) v" if "?good v" for i t v
    by (rule wp_mono [OF wp_pres [OF upkeep_config(3)]]) (use kept that in blast)+
  have one: "wp e (settle (bnd (insert_directory r) (\<lambda>(i, token). publish_minted_token i token demo))) (\<lambda>_. ?good) (\<lambda>_. ?good) w"
    by (auto intro!: wp_mono [OF wp_insert] publish new split: prod.split)
  show ?case
    unfolding c import_rows.simps wp_bnd
    by (rule wp_mono [OF one]) (auto intro!: wp_mono [OF Cons.IH] split: prod.split sum.split)
qed simp

lemma bulk_sound: "sound e w \<Longrightarrow> wp e (bulk_import demo f) (\<lambda>_. sound e) (\<lambda>_. sound e) w"
proof -
  assume ok: "sound e w"
  let ?cs = "fst (csv_candidates (Suc 0) (parse_csv (form_field f ''csv'')))"
  have trimmed: "list_all (trimmed_row \<circ> fst) ?cs"
    using candidates_among parsed_trimmed by (fastforce simp: list_all_iff)
  have import: "wp e (import_rows demo ?cs) (\<lambda>_. sound e) (\<lambda>_. sound e) v"
    if "list_all2 (reads_as e) (directories (db w)) rs" "csv_namespace_refusals (parse_url e) rs [] ?cs = []" "db v = db w" for rs v
    by (rule import_sound) (use unrefused_importable [OF that(2) trimmed that(1)] ok that(3) in simp_all)
  show ?thesis
    unfolding bulk_import_def Let_def split_def
    by (auto simp: ok intro!: wp_list wp_mono [OF import])
qed

text \<open>Moving a directory to another endpoint.\<close>

definition moved :: "directory \<Rightarrow> string \<Rightarrow> string \<Rightarrow> bool \<Rightarrow> string \<Rightarrow> directory" where
  "moved d u c partitioned at = d\<lparr>native_url := u, native_token := c, native_token_partitioned := partitioned, updated_at := at\<rparr>"

lemma ok_moved:
  assumes "directories_ok e ds" "allowed_url e u"
    and "\<forall>d \<in> set ds. dir_id d \<noteq> i \<longrightarrow> (u = [] \<or> native_url d = [] \<or>
      \<not> shares_native_namespace (parse_url e) \<lparr>ep_url = u, ep_token = t, ep_partitioned = b\<rparr> (party e d))"
    and "revealed e c = Some t"
  shows "directories_ok e (map (\<lambda>d. if dir_id d = i then moved d u c b at else d) ds)"
proof -
  have ids: "map dir_id (map (\<lambda>d. if dir_id d = i then moved d u c b at else d) ds) = map dir_id ds"
    by (simp add: moved_def)
  have party: "party e (moved d u c b at) = \<lparr>ep_url = u, ep_token = t, ep_partitioned = b\<rparr>" for d
    using assms(4) by (simp add: party_def moved_def)
  have one: "apart e (moved d u c b at) d'" if "d' \<in> set ds" "dir_id d' \<noteq> i" for d d'
    using assms(3) that party [of d] by (auto simp: apart_def moved_def)
  then have two: "apart e d' (moved d u c b at)" if "d' \<in> set ds" "dir_id d' \<noteq> i" for d d'
    using that by (simp add: apart_sym)
  show ?thesis
    unfolding directories_ok_def ids
    using assms(1,2) one two by (auto simp: directories_ok_def moved_def)
qed

lemma wp_encrypt:
  assumes "seals_ok e" "\<And>c v. revealed e c = Some t \<Longrightarrow> db v = db w \<Longrightarrow> Q c v"
  shows "wp e (encrypt_secret t) Q X w"
proof -
  have sealed: "revealed e (enc_prefix @ seal e n t) = Some t" if "has_key e" for n
    using assms(1) that by (simp add: revealed_def seals_ok_def)
  have open_text: "revealed e t = Some t" if "\<not> has_key e \<or> t = []"
  proof (cases "t = []")
    case True
    have "\<not> starts_with [] enc_prefix" by (simp add: starts_with_def enc_prefix_def)
    with True show ?thesis by (simp add: revealed_def)
  qed (use that in \<open>simp add: revealed_def\<close>)
  have run: "wp e (encrypt_secret t) Q X w = (if \<not> has_key e \<or> t = [] then Q t w
      else Q (enc_prefix @ seal e (uuids w) t) (w\<lparr>uuids := Suc (uuids w)\<rparr>))"
    unfolding encrypt_secret_def by (simp add: wp_def asks_def bnd_def ret_def)
  show ?thesis unfolding run using assms(2) sealed open_text by simp
qed

lemma listed_apart:
  assumes "check_native_namespace (parse_url e) u (filter (\<lambda>x. dir_id x \<noteq> i) rs) t b = None"
    and "list_all2 (reads_as e) ds rs" "directories_ok e ds" "trim u = u"
  shows "\<forall>d \<in> set ds. dir_id d \<noteq> i \<longrightarrow> (u = [] \<or> native_url d = [] \<or>
    \<not> shares_native_namespace (parse_url e) \<lparr>ep_url = u, ep_token = t, ep_partitioned = b\<rparr> (party e d))"
proof (intro ballI impI)
  fix d assume d: "d \<in> set ds" "dir_id d \<noteq> i"
  obtain r where r: "r \<in> set rs" "reads_as e d r" using assms(2) d by (metis list_all2_conv_all_nth in_set_conv_nth)
  have url: "trim (native_url r) = native_url d" and ids: "dir_id r \<noteq> i"
    using r(2) assms(3) d by (simp_all add: reads_as_def directories_ok_def allowed_url_def)
  have party: "endpoint_of r = party e d" using r(2) by (rule reads_party)
  have key: "ns e (native_url d) \<noteq> None" if "native_url d \<noteq> []"
    using that assms(3) d(1) allowed_ns by (auto simp: directories_ok_def)
  show "u = [] \<or> native_url d = [] \<or>
    \<not> shares_native_namespace (parse_url e) \<lparr>ep_url = u, ep_token = t, ep_partitioned = b\<rparr> (party e d)"
  proof (cases "u = [] \<or> native_url d = []")
    case False
    with assms(1,4) have none: "find_native_namespace_conflict (parse_url e) u (filter (\<lambda>x. dir_id x \<noteq> i) rs) t b = None"
      and own: "ns e u \<noteq> None"
      by (auto simp: check_native_namespace_def Let_def split: if_splits option.splits)
    then have "ns e (native_url d) \<noteq> ns e u \<or> token_partition_splits \<lparr>ep_url = u, ep_token = t, ep_partitioned = b\<rparr> (party e d)"
      using r(1) ids url assms(4) party by (auto simp: find_native_namespace_conflict_def find_None_iff Let_def dest!: spec [of _ r])
    with own False key show ?thesis
      by (auto simp: shares_native_namespace_def party_def split: option.splits)
  qed auto
qed

lemma mapped_replay: "(\<And>d. f (f d) = f d) \<Longrightarrow> (\<And>d. dir_id (f d) = dir_id d) \<Longrightarrow> replayable (\<lambda>s. (Inr (), map_directory i f s))"
  by (rule replayable_writing) (simp add: map_directory_def)

lemma save_native_sound: "seals_ok e \<Longrightarrow> sound e w \<Longrightarrow> wp e (save_native d f) (\<lambda>_. sound e) (\<lambda>_. sound e) w"
proof -
  assume seals: "seals_ok e" and ok: "sound e w"
  let ?u = "form_field f ''native_url''"
  have field: "trim (form_field f k) = form_field f k" for k by (simp add: form_field_def)
  have store: "wp e (set_directory_native i ?u t b) (\<lambda>_. sound e) (\<lambda>_. sound e) v"
    if "db v = db w" "allowed_url e ?u" "list_all2 (reads_as e) (directories (db w)) rs"
      "check_native_namespace (parse_url e) ?u (filter (\<lambda>x. dir_id x \<noteq> i) rs) t b = None" for i t b v rs
    unfolding set_directory_native_def wp_bnd
    by (rule wp_encrypt [OF seals])
      (auto intro!: wp_execute mapped_replay simp: that(1) ok map_directory_def
        intro: ok_moved [unfolded moved_def, OF ok that(2) listed_apart [OF that(4,3) ok field]])
  show ?thesis
    unfolding save_native_def Let_def namespace_error_def
    by (auto split: option.split simp: ok intro!: wp_list store valid_allowed [of e ?u, unfolded field])
qed

lemma ok_workos:
  assumes "directories_ok e ds" "allowed_url e u"
  shows "directories_ok e (map (\<lambda>d. if dir_id d = i then d\<lparr>workos_url := u, workos_token := c, updated_at := at\<rparr> else d) ds)"
proof -
  have ids: "map dir_id (map (\<lambda>d. if dir_id d = i then d\<lparr>workos_url := u, workos_token := c, updated_at := at\<rparr> else d) ds) = map dir_id ds"
    by simp
  have party: "party e (d\<lparr>workos_url := u, workos_token := c, updated_at := at\<rparr>) = party e d" for d
    by (simp add: party_def cong: option.case_cong)
  have same: "apart e (d\<lparr>workos_url := u, workos_token := c, updated_at := at\<rparr>) d' = apart e d d'"
    "apart e d' (d\<lparr>workos_url := u, workos_token := c, updated_at := at\<rparr>) = apart e d' d" for d d'
    by (simp_all add: apart_def party)
  show ?thesis
    unfolding directories_ok_def ids
    using assms same by (auto simp: directories_ok_def)
qed

lemma save_workos_sound: "sound e w \<Longrightarrow> wp e (save_workos d f) (\<lambda>_. sound e) (\<lambda>_. sound e) w"
proof -
  assume ok: "sound e w"
  let ?u = "form_field f ''workos_url''"
  have field: "trim (form_field f k) = form_field f k" for k by (simp add: form_field_def)
  have secret: "wp e (encrypt_secret x) (\<lambda>_ v. db v = db u) (\<lambda>_ v. db v = db u) u" for x u
    unfolding encrypt_secret_def by (auto simp: wp_def asks_def bnd_def ret_def)
  have store: "wp e (set_directory_workos i ?u t) (\<lambda>_. sound e) (\<lambda>_. sound e) w" if "allowed_url e ?u" for i t
    unfolding set_directory_workos_def wp_bnd
    by (rule wp_mono [OF secret]) (auto intro!: wp_execute mapped_replay simp: ok map_directory_def intro: ok_workos [OF ok that])
  show ?thesis
    unfolding save_workos_def Let_def
    by (auto split: option.split simp: ok intro!: store valid_allowed [of e ?u, unfolded field])
qed

lemma ok_filter: "directories_ok e ds \<Longrightarrow> directories_ok e (filter p ds)"
  by (auto simp: directories_ok_def distinct_map_filter)

lemma delete_again: "delete_rows i (delete_rows i s) = delete_rows i s"
  by (simp add: delete_rows_def del_row_def conj_ac)

lemma delete_sound: "sound e w \<Longrightarrow> wp e (delete_directory demo d) (\<lambda>_. sound e) (\<lambda>_. sound e) w"
  unfolding delete_directory_def demo_directory_id_def
  by (auto intro!: wp_get_config wp_execute replayable_writing delete_again intro: ok_filter simp: delete_rows_def)

subsection \<open>Every action\<close>

lemma upkeep_counts [eff]: "pres (on_db endpoints_same) e (count_users sd u token)"
proof -
  have [eff]: "pres (on_db endpoints_same) e (list_users_page sd u token n)" for n
    unfolding list_users_page_def by (intro eff upkeep_bulk.bulk_calls)
  have [eff]: "pres (on_db endpoints_same) e (read_pages n sd u token a b us)" for n a b us
    by (induction n arbitrary: a b us) (auto intro!: eff simp: Let_def split: prod.split bool.split)
  show ?thesis unfolding count_users_def read_user_snapshot_def by (intro eff)
qed

lemma home_sound: "sound e w \<Longrightarrow> wp e (home_action demo f) (\<lambda>_. sound e) (\<lambda>_. sound e) w"
proof -
  assume ok: "sound e w"
  have "pres (on_db endpoints_same) e (bulk_set_mode f)" "pres (on_db endpoints_same) e (bulk_set_log_persistence f)"
    "pres (on_db endpoints_same) e (save_settings f)" "pres (on_db endpoints_same) e (ret unknown_action)"
    unfolding bulk_set_mode_def bulk_set_log_persistence_def save_settings_def Let_def by (intro eff)+
  note kept = this [THEN sound_kept, OF ok]
  show ?thesis
    unfolding home_action_def Let_def
    using create_sound [OF ok] bulk_sound [OF ok] kept by simp
qed

lemma wp_either: "wp e mm Q X w \<Longrightarrow> wp e nn Q X w \<Longrightarrow> wp e (if b then mm else nn) Q X w"
  by simp

lemma finished_sound: "wp e mm (\<lambda>_. sound e) (\<lambda>_. sound e) w \<Longrightarrow> wp e (finished mm) (\<lambda>_. sound e) (\<lambda>_. sound e) w"
  by (simp add: finished_def)

lemma page_sound:
  assumes seals: "seals_ok e" and ok: "sound e w"
  shows "wp e (directory_action demo fuel i f) (\<lambda>_. sound e) (\<lambda>_. sound e) w"
proof -
  have read: "pres (on_db endpoints_same) e (get_directory_by_id i)"
    unfolding get_directory_by_id_def decrypt_directory_def decrypt_secret_def by (intro eff)
  have "pres (on_db endpoints_same) e (set_mode_action d f)" "pres (on_db endpoints_same) e (rotate_action demo d)"
    "pres (on_db endpoints_same) e (thn (set_directory_log_persistence (dir_id d) on) (ret Done))"
    "pres (on_db endpoints_same) e (save_workos_directory_id d f)" "pres (on_db endpoints_same) e (check_endpoint sd u token)"
    "pres (on_db endpoints_same) e (topology_action d)" "pres (on_db endpoints_same) e (ret unknown_action)"
    "pres (on_db endpoints_same) e (backfill_action fuel d)" "pres (on_db endpoints_same) e (reconcile_action fuel d)" for d on sd u token
    unfolding set_mode_action_def rotate_action_def save_workos_directory_id_def check_endpoint_def topology_action_def
      backfill_action_def reconcile_action_def Let_def
    by (intro eff upkeep_bulk.bulk_calls upkeep_bulk.bulk_backfill upkeep_bulk.bulk_reconcile)+
  note kept = this [THEN sound_kept]
  have act: "wp e (on_directory demo fuel d f) (\<lambda>_. sound e) (\<lambda>_. sound e) v" if "sound e v" for d v
    unfolding on_directory_def Let_def
    by (intro wp_either finished_sound kept [OF that] save_native_sound [OF seals that] save_workos_sound [OF that]
        delete_sound [OF that])
  show ?thesis
    unfolding directory_action_def wp_bnd
    by (rule wp_mono [OF sound_kept [OF read ok]]) (auto split: option.split intro: act)
qed

text \<open>The operator's actions one after the other; a failed one is followed by the next.\<close>

definition panel_step :: "bool \<Rightarrow> nat \<Rightarrow> string option \<times> form \<Rightarrow> unit m" where
  "panel_step demo fuel p = (case fst p of
     None \<Rightarrow> bnd (settle (home_action demo (snd p))) (\<lambda>_. ret ())
   | Some i \<Rightarrow> bnd (settle (directory_action demo fuel i (snd p))) (\<lambda>_. ret ()))"

definition run_panel :: "bool \<Rightarrow> nat \<Rightarrow> (string option \<times> form) list \<Rightarrow> unit m" where
  "run_panel demo fuel ps = each (panel_step demo fuel) ps"

lemma run_sound: "seals_ok e \<Longrightarrow> sound e w \<Longrightarrow> wp e (run_panel demo fuel ps) (\<lambda>_. sound e) (\<lambda>_. sound e) w"
  unfolding run_panel_def
proof (induction ps arbitrary: w)
  case (Cons p ps)
  have "wp e (panel_step demo fuel p) (\<lambda>_. sound e) (\<lambda>_. sound e) w"
    unfolding panel_step_def using home_sound [OF Cons.prems(2)] page_sound [OF Cons.prems]
    by (auto split: option.split)
  then show ?case using Cons by (auto intro: wp_mono)
qed simp

text \<open>C31: whatever the operator does in the panel, in whatever order, and however the datastore fails, no two
  directories come to share a native namespace, and every endpoint stored can be dialled: http or https, and
  no metadata address.\<close>
theorem panel_keeps_directories_apart:
  assumes "seals_ok e" and "directories_ok e (directories (db w))" and "run_panel demo fuel ps e w = (r, w')"
  shows "directories_ok e (directories (db w'))"
  using run_sound [OF assms(1,2), of demo fuel ps] assms(3) by (cases r) (auto simp: wp_def)


end
