(* ===== verification/PanelRuns.thy ===== *)
theory PanelRuns
  imports PanelLaws
begin

text \<open>
  The operator at work: the witnesses of the panel's laws, a metadata address the check of an endpoint lets
  through, and a creation whose acknowledgement is lost.
\<close>

definition web :: "string \<Rightarrow> url option" where
  "web s = (if starts_with s ''https://app/'' then Some \<lparr>url_href = s, url_protocol = ''https:'', url_hostname = ''app'',
     url_port = [], url_origin = ''https://app'', url_pathname = drop 11 s, url_search = [], url_params = []\<rparr> else None)"

definition panel_env :: env where
  "panel_env = quiet_env\<lparr>parse_url := web\<rparr>"

lemma panel_seals: "seals_ok panel_env"
  by (simp add: seals_ok_def panel_env_def quiet_env_def)

definition create_form :: "string \<Rightarrow> string \<Rightarrow> form" where
  "create_form name u = [(''intent'', ''create-directory''), (''name'', name), (''native_url'', u), (''native_token'', ''nt'')]"

definition two_creations :: "(string option \<times> form) list" where
  "two_creations = [(None, create_form ''a'' ''https://app/scim''), (None, create_form ''b'' ''https://app/scim/''),
     (None, create_form ''c'' ''https://app/other'')]"

definition created :: world where
  "created = snd (run_panel False 1 two_creations panel_env (fresh_world empty_store))"

text \<open>Of two directories on one endpoint the second is refused, although it is written differently.\<close>

theorem panel_keeps_directories_apart_witness:
  "directories_ok panel_env (directories (db created)) \<and> map dir_name (directories (db created)) = [''a'', ''c'']"
proof -
  have names: "map dir_name (directories (db created)) = [''a'', ''c'']" by code_simp
  have start: "directories_ok panel_env (directories (db (fresh_world empty_store)))"
    by (simp add: directories_ok_def fresh_world_def empty_store_def)
  have "run_panel False 1 two_creations panel_env (fresh_world empty_store)
      = (fst (run_panel False 1 two_creations panel_env (fresh_world empty_store)), created)"
    by (simp add: created_def)
  from panel_keeps_directories_apart [OF panel_seals start this] names show ?thesis by simp
qed

subsection \<open>Runs\<close>

text \<open>An IPv6 literal that embeds the address of the metadata service, as the URL parser serializes it, is let
  through; the address itself is refused.\<close>

definition host_url :: "string \<Rightarrow> url" where
  "host_url h = \<lparr>url_href = ''http://'' @ h @ ''/scim'', url_protocol = ''http:'', url_hostname = h, url_port = [],
     url_origin = ''http://'' @ h, url_pathname = ''/scim'', url_search = [], url_params = []\<rparr>"

theorem embedded_metadata_address_passes:
  "validate_upstream_url (\<lambda>_. Some (host_url ''169.254.169.254'')) ''http://169.254.169.254/scim'' \<noteq> None
   \<and> validate_upstream_url (\<lambda>_. Some (host_url ''[::ffff:a9fe:a9fe]'')) ''http://[::ffff:169.254.169.254]/scim'' = None"
  by code_simp

text \<open>A creation whose acknowledgement is lost is repeated, and the repetition meets its own row: the operator
  reads a refusal, and the token of the directory that was created is never shown.\<close>

definition insert_ack_lost :: env where
  "insert_ack_lost = panel_env\<lparr>db_fault := (\<lambda>n. if n = 1 then LostAck True else Fine)\<rparr>"

theorem lost_ack_refuses_the_creation:
  "case home_action False (create_form ''a'' ''https://app/scim'') insert_ack_lost (fresh_world empty_store) of
     (Inr a, w') \<Rightarrow> a = Refused ''UNIQUE constraint failed: scim_directories.id'' \<and> map dir_name (directories (db w')) = [''a'']
   | _ \<Rightarrow> False"
  by code_simp

end
