(* ===== verification/LiveState.thy ===== *)
theory LiveState
  imports Prelude "HOL-Library.List_Lexorder" "HOL-Library.Char_ord"
begin

text \<open>
  What the Live state page of the panel means by three directories that agree
  (\<open>app/routes/panel/reconcile.ts\<close>): the comparison of users and of group members, and which differences are
  tombstones of a deletion rather than drift.
\<close>

subsection \<open>Rows\<close>

record dir_row =
  dr_name :: string
  dr_active :: nat

record live_group =
  lg_name :: string
  lg_members :: "string list"

record scim_user_resource =
  su_id :: "string option"
  su_name :: "string option"

record scim_group_resource =
  sg_name :: "string option"
  sg_members :: "(string option \<times> string option) list option"

definition filled :: "string option \<Rightarrow> string option" where
  "filled v = (case v of None \<Rightarrow> None | Some s \<Rightarrow> if s = [] then None else Some s)"

text \<open>A map filled row by row: the last row of a name is the one it holds.\<close>

definition last_of :: "('r \<Rightarrow> string) \<Rightarrow> 'r list \<Rightarrow> string \<Rightarrow> 'r option" where
  "last_of key rows k = look_row key k (rev rows)"

definition user_names :: "scim_user_resource list \<Rightarrow> (string \<times> string) list" where
  "user_names users = concat (map (\<lambda>u. case (filled (su_id u), filled (su_name u)) of
     (Some i, Some n) \<Rightarrow> [(i, n)] | _ \<Rightarrow> []) users)"

definition member_name :: "scim_user_resource list \<Rightarrow> string option \<times> string option \<Rightarrow> string option" where
  "member_name users m = filled (case filled (fst m) of
       None \<Rightarrow> snd m
     | Some v \<Rightarrow> Some (case last_of fst (user_names users) v of
         Some p \<Rightarrow> snd p
       | None \<Rightarrow> (case snd m of Some d \<Rightarrow> d | None \<Rightarrow> v)))"

definition workos_group_rows :: "scim_group_resource list \<Rightarrow> scim_user_resource list \<Rightarrow> live_group list" where
  "workos_group_rows groups users = map (\<lambda>g.
     \<lparr>lg_name = (case sg_name g of None \<Rightarrow> [] | Some n \<Rightarrow> n),
      lg_members = List.map_filter (member_name users) (case sg_members g of None \<Rightarrow> [] | Some ms \<Rightarrow> ms)\<rparr>) groups"

subsection \<open>Presence and tombstones\<close>

datatype presence = Active | Inactive | Absent

definition presence_of :: "dir_row option \<Rightarrow> presence" where
  "presence_of row = (case row of None \<Rightarrow> Absent | Some r \<Rightarrow> if dr_active r = 1 then Active else Inactive)"

definition is_tombstone :: "presence \<Rightarrow> presence \<Rightarrow> bool" where
  "is_tombstone native workos \<longleftrightarrow> workos = Inactive \<and> native = Absent"

definition is_native_tombstone :: "presence \<Rightarrow> presence \<Rightarrow> presence \<Rightarrow> bool" where
  "is_native_tombstone native workos idp \<longleftrightarrow> native = Inactive \<and> workos = Absent \<and> idp = Absent"

subsection \<open>Users\<close>

record 'r sides =
  on_native :: "'r list"
  on_workos :: "'r list"
  on_idp :: "'r list"

record user_recon =
  ux_name :: string
  ux_native :: presence
  ux_workos :: presence
  ux_idp :: presence
  ux_diverged :: bool
  ux_tombstone :: bool

definition names_of :: "('r \<Rightarrow> string) \<Rightarrow> 'r sides \<Rightarrow> string list" where
  "names_of key s = sort (remdups (map key (on_native s) @ map key (on_workos s) @ map key (on_idp s)))"

definition reconcile_user :: "dir_row sides \<Rightarrow> bool \<Rightarrow> string \<Rightarrow> user_recon" where
  "reconcile_user users workos_reachable name =
     (let native = presence_of (last_of dr_name (on_native users) name);
          workos = presence_of (last_of dr_name (on_workos users) name);
          idp = presence_of (last_of dr_name (on_idp users) name);
          tombstone = (is_tombstone native workos \<or> (workos_reachable \<and> is_native_tombstone native workos idp)) in
      \<lparr>ux_name = name, ux_native = native, ux_workos = workos, ux_idp = idp,
       ux_diverged = (native \<noteq> workos \<and> \<not> tombstone), ux_tombstone = tombstone\<rparr>)"

definition reconcile_users :: "dir_row sides \<Rightarrow> bool \<Rightarrow> user_recon list" where
  "reconcile_users users workos_reachable = map (reconcile_user users workos_reachable) (names_of dr_name users)"

subsection \<open>Groups\<close>

record member_recon =
  mx_name :: string
  mx_native :: bool
  mx_workos :: bool
  mx_idp :: bool
  mx_diverged :: bool
  mx_tombstone :: bool

record group_recon =
  gx_name :: string
  gx_native :: "nat option"
  gx_workos :: "nat option"
  gx_idp :: "nat option"
  gx_diverged :: bool
  gx_members :: "member_recon list"
  gx_tombstones :: nat

definition edges :: "string list option \<Rightarrow> string list" where
  "edges ms = (case ms of None \<Rightarrow> [] | Some xs \<Rightarrow> xs)"

definition reconcile_member :: "dir_row sides \<Rightarrow> bool \<Rightarrow> string list \<Rightarrow> string list \<Rightarrow> string list \<Rightarrow> string \<Rightarrow> member_recon" where
  "reconcile_member users workos_reachable n w i name =
     (let native = (name \<in> set n); workos = (name \<in> set w);
          n_user = presence_of (last_of dr_name (on_native users) name);
          w_user = presence_of (last_of dr_name (on_workos users) name);
          i_user = presence_of (last_of dr_name (on_idp users) name);
          tombstone = ((workos \<and> \<not> native \<and> is_tombstone n_user w_user)
            \<or> (workos_reachable \<and> native \<and> \<not> workos \<and> is_native_tombstone n_user w_user i_user)) in
      \<lparr>mx_name = name, mx_native = native, mx_workos = workos, mx_idp = (name \<in> set i),
       mx_diverged = (native \<noteq> workos \<and> \<not> tombstone), mx_tombstone = tombstone\<rparr>)"

definition reconcile_members :: "dir_row sides \<Rightarrow> bool \<Rightarrow> string list option \<Rightarrow> string list option \<Rightarrow> string list option
    \<Rightarrow> member_recon list" where
  "reconcile_members users workos_reachable native workos idp =
     map (reconcile_member users workos_reachable (edges native) (edges workos) (edges idp))
       (sort (remdups (edges native @ edges workos @ edges idp)))"

definition reconcile_group :: "live_group sides \<Rightarrow> dir_row sides \<Rightarrow> bool \<Rightarrow> string \<Rightarrow> group_recon" where
  "reconcile_group groups users workos_reachable name =
     (let side = (\<lambda>rows. map_option lg_members (last_of lg_name rows name));
          native = side (on_native groups); workos = side (on_workos groups); idp = side (on_idp groups);
          members = reconcile_members users workos_reachable native workos idp in
      \<lparr>gx_name = name, gx_native = map_option length native, gx_workos = map_option length workos,
       gx_idp = map_option length idp,
       gx_diverged = ((native = None) \<noteq> (workos = None) \<or> list_ex mx_diverged members),
       gx_members = members, gx_tombstones = length (filter mx_tombstone members)\<rparr>)"

definition reconcile_groups :: "live_group sides \<Rightarrow> dir_row sides \<Rightarrow> bool \<Rightarrow> group_recon list" where
  "reconcile_groups groups users workos_reachable = map (reconcile_group groups users workos_reachable) (names_of lg_name groups)"

subsection \<open>The headline\<close>

record tombstone_counts =
  tc_workos :: nat
  tc_native :: nat

fun count_users_tombstones :: "user_recon list \<Rightarrow> tombstone_counts \<Rightarrow> tombstone_counts" where
  "count_users_tombstones [] c = c"
| "count_users_tombstones (r # rs) c = count_users_tombstones rs
     (if \<not> ux_tombstone r then c
      else if ux_native r = Absent then c\<lparr>tc_workos := tc_workos c + 1\<rparr> else c\<lparr>tc_native := tc_native c + 1\<rparr>)"

fun count_member_tombstones :: "member_recon list \<Rightarrow> tombstone_counts \<Rightarrow> tombstone_counts" where
  "count_member_tombstones [] c = c"
| "count_member_tombstones (m # ms) c = count_member_tombstones ms
     (if \<not> mx_tombstone m then c
      else if mx_workos m then c\<lparr>tc_workos := tc_workos c + 1\<rparr> else c\<lparr>tc_native := tc_native c + 1\<rparr>)"

definition no_tombstones :: tombstone_counts where
  "no_tombstones = \<lparr>tc_workos = 0, tc_native = 0\<rparr>"

definition tombstone_summary :: "user_recon list \<Rightarrow> group_recon list \<Rightarrow> tombstone_counts \<times> tombstone_counts" where
  "tombstone_summary users groups =
     (count_users_tombstones users no_tombstones, count_member_tombstones (concat (map gx_members groups)) no_tombstones)"

subsection \<open>What the page may hide\<close>

lemma names_exact: "set (names_of key s) = key ` (set (on_native s) \<union> set (on_workos s) \<union> set (on_idp s))"
  "distinct (names_of key s)" "sorted (names_of key s)"
  by (auto simp: names_of_def)

lemma presence_cases: "x = Active \<or> x = Inactive \<or> x = Absent"
  by (cases x) auto

lemma user_row:
  "ux_diverged (reconcile_user users reach name) =
     (let n = ux_native (reconcile_user users reach name); w = ux_workos (reconcile_user users reach name);
          i = ux_idp (reconcile_user users reach name) in
      if n = Active \<or> w = Active then n \<noteq> w else n = Inactive \<and> w = Absent \<and> \<not> (reach \<and> i = Absent))"
  using presence_cases [of "ux_native (reconcile_user users reach name)"]
    presence_cases [of "ux_workos (reconcile_user users reach name)"]
  by (auto simp: reconcile_user_def is_tombstone_def is_native_tombstone_def Let_def)


text \<open>The headline counts every tombstone once.\<close>

lemma users_counted: "tc_workos (count_users_tombstones rs c) + tc_native (count_users_tombstones rs c)
    = tc_workos c + tc_native c + length (filter ux_tombstone rs)"
  by (induction rs arbitrary: c) auto

lemma members_counted: "tc_workos (count_member_tombstones ms c) + tc_native (count_member_tombstones ms c)
    = tc_workos c + tc_native c + length (filter mx_tombstone ms)"
  by (induction ms arbitrary: c) auto

lemma member_row:
  "mx_diverged (reconcile_member users reach n w i name) =
     ((name \<in> set n) \<noteq> (name \<in> set w)
      \<and> (let a = presence_of (last_of dr_name (on_native users) name); b = presence_of (last_of dr_name (on_workos users) name);
            c = presence_of (last_of dr_name (on_idp users) name) in
         if name \<in> set w then \<not> (a = Absent \<and> b = Inactive) else \<not> (reach \<and> a = Inactive \<and> b = Absent \<and> c = Absent)))"
  by (auto simp: reconcile_member_def is_tombstone_def is_native_tombstone_def Let_def)

text \<open>A group is reported as agreeing only when both sides have it and every membership edge only one side
  has belongs to a user who is a tombstone there; and the headline counts every tombstone of the page once.\<close>
theorem agreeing_groups_differ_by_tombstones:
  "gx_diverged (reconcile_group groups users reach name) =
     ((last_of lg_name (on_native groups) name = None) \<noteq> (last_of lg_name (on_workos groups) name = None)
      \<or> (\<exists>m \<in> set (gx_members (reconcile_group groups users reach name)). mx_native m \<noteq> mx_workos m \<and> \<not> mx_tombstone m))
   \<and> (\<forall>gs us. (case tombstone_summary us gs of (a, b) \<Rightarrow>
        tc_workos a + tc_native a = length (filter ux_tombstone us)
        \<and> tc_workos b + tc_native b = sum_list (map (\<lambda>g. length (filter mx_tombstone (gx_members g))) gs)))"
proof
  have "mx_diverged m = (mx_native m \<noteq> mx_workos m \<and> \<not> mx_tombstone m)"
    if "m \<in> set (gx_members (reconcile_group groups users reach name))" for m
    using that by (auto simp: reconcile_group_def reconcile_members_def reconcile_member_def Let_def)
  then have "list_ex mx_diverged (gx_members (reconcile_group groups users reach name))
      = (\<exists>m \<in> set (gx_members (reconcile_group groups users reach name)). mx_native m \<noteq> mx_workos m \<and> \<not> mx_tombstone m)"
    by (auto simp: list_ex_iff)
  then show "gx_diverged (reconcile_group groups users reach name) =
     ((last_of lg_name (on_native groups) name = None) \<noteq> (last_of lg_name (on_workos groups) name = None)
      \<or> (\<exists>m \<in> set (gx_members (reconcile_group groups users reach name)). mx_native m \<noteq> mx_workos m \<and> \<not> mx_tombstone m))"
    by (simp add: reconcile_group_def Let_def)
  show "\<forall>gs us. (case tombstone_summary us gs of (a, b) \<Rightarrow>
        tc_workos a + tc_native a = length (filter ux_tombstone us)
        \<and> tc_workos b + tc_native b = sum_list (map (\<lambda>g. length (filter mx_tombstone (gx_members g))) gs))"
    by (simp add: tombstone_summary_def users_counted members_counted no_tombstones_def filter_concat length_concat comp_def)
qed

end
