(* ===== verification/Config.thy ===== *)
theory Config
  imports EventsTransport MockEmitter Wording
begin

text \<open>
  The configuration of the process (\<open>server/config.ts\<close>): the environment variables, what makes the process refuse
  to start, and which transport of events starts with it.  Numbers are read as in the event log: fractions,
  exponents and hexadecimal numerals are no numbers.
\<close>

subsection \<open>Variables\<close>

type_synonym process_env = "(string \<times> string) list"

definition env_var :: "process_env \<Rightarrow> string \<Rightarrow> string option" where
  "env_var pe k = map_option snd (look_row fst k pe)"

text \<open>\<open>value?.trim() || null\<close>.\<close>

definition trimmed_var :: "process_env \<Rightarrow> string \<Rightarrow> string option" where
  "trimmed_var pe k = nonempty_or_none (map_option trim (env_var pe k))"

definition var_or :: "string \<Rightarrow> string option \<Rightarrow> string" where
  "var_or d v = (case v of None \<Rightarrow> d | Some s \<Rightarrow> s)"

definition bool_var :: "string option \<Rightarrow> bool" where
  "bool_var v = (case v of None \<Rightarrow> False
     | Some s \<Rightarrow> to_lower (trim s) \<in> {''1'', ''true'', ''yes'', ''on''})"

datatype app_role = BridgeRole | NativeAppRole
datatype database_driver = Sqlite | Postgres

definition app_roles :: "(string \<times> app_role) list" where
  "app_roles = [(''bridge'', BridgeRole), (''native-app'', NativeAppRole)]"

definition database_drivers :: "(string \<times> database_driver) list" where
  "database_drivers = [(''sqlite'', Sqlite), (''postgres'', Postgres)]"

definition role_of :: "process_env \<Rightarrow> app_role option" where
  "role_of pe = map_of app_roles (var_or ''bridge'' (trimmed_var pe ''APP_ROLE''))"

definition driver_of :: "process_env \<Rightarrow> database_driver option" where
  "driver_of pe = map_of database_drivers (var_or ''sqlite'' (trimmed_var pe ''DATABASE_DRIVER''))"

definition positive_number :: "process_env \<Rightarrow> string \<Rightarrow> string \<Rightarrow> int option" where
  "positive_number pe k d = (case number_of_text (var_or d (env_var pe k)) of
     None \<Rightarrow> None | Some n \<Rightarrow> if 0 < n then Some n else None)"

subsection \<open>Declared directories\<close>

record env_directory =
  ed_id :: string
  ed_token :: string
  ed_name :: string

datatype directories_error = NotJson | NotAnArray | Incomplete nat

definition entry_text :: "json \<Rightarrow> string \<Rightarrow> string option" where
  "entry_text entry k = (case entry of JObj obj \<Rightarrow> string_value (getp obj k) | _ \<Rightarrow> None)"

definition declared :: "json \<Rightarrow> env_directory option" where
  "declared entry = (case (entry_text entry ''workos_directory_id'', entry_text entry ''proxy_token'') of
     (Some i, Some t) \<Rightarrow> Some \<lparr>ed_id = i, ed_token = t, ed_name = var_or i (entry_text entry ''name'')\<rparr>
   | _ \<Rightarrow> None)"

fun declared_all :: "nat \<Rightarrow> json list \<Rightarrow> directories_error + env_directory list" where
  "declared_all i [] = Inr []"
| "declared_all i (v # vs) = (case declared v of
     None \<Rightarrow> Inl (Incomplete i)
   | Some d \<Rightarrow> (case declared_all (i + 1) vs of Inl er \<Rightarrow> Inl er | Inr ds \<Rightarrow> Inr (d # ds)))"

definition directories_json :: "process_env \<Rightarrow> directories_error + env_directory list" where
  "directories_json pe = (case trimmed_var pe ''DIRECTORIES_JSON'' of
     None \<Rightarrow> Inr []
   | Some raw \<Rightarrow> (case read_json raw of
       None \<Rightarrow> Inl NotJson
     | Some (JArr vs) \<Rightarrow> declared_all 0 vs
     | Some _ \<Rightarrow> Inl NotAnArray))"

subsection \<open>The configuration\<close>

record app_config =
  ac_role :: app_role
  ac_driver :: database_driver
  ac_database_url :: "string option"
  ac_port :: int
  ac_database_path :: string
  ac_public_url :: string
  ac_demo :: bool
  ac_encryption_key :: "string option"
  ac_user :: "string option"
  ac_password :: "string option"
  ac_auth_disabled :: bool
  ac_csrf_disabled :: bool
  ac_native_token :: "string option"
  ac_webhook_secret :: "string option"
  ac_status_url :: "string option"
  ac_api_key :: "string option"
  ac_events_url :: string
  ac_poll_ms :: int
  ac_directories :: "env_directory list"

text \<open>Why the process does not start.\<close>

datatype config_error =
    BadRole
  | BadPort
  | BadDriver
  | NoDatabaseUrl
  | NoWebhookSecret
  | BadPollInterval
  | BadDirectories directories_error
  | HalfConfigured string string
  | NoPanelAuth

definition loopback_base :: "int \<Rightarrow> string" where
  "loopback_base port = ''http://127.0.0.1:'' @ show_int port"

definition demo_events_url :: "int \<Rightarrow> string" where
  "demo_events_url port = loopback_base port @ ''/__demo/native/mock-workos''"

definition events_base :: "process_env \<Rightarrow> int \<Rightarrow> string" where
  "events_base pe port = strip_trailing_slashes (var_or
     (if bool_var (env_var pe ''DEMO_MODE'') then demo_events_url port else ''https://api.workos.com'')
     (trimmed_var pe ''WORKOS_EVENTS_URL''))"

definition panel_credentials_error :: "string option \<Rightarrow> string option \<Rightarrow> config_error option" where
  "panel_credentials_error user password = (case (user, password) of
     (Some u, Some p) \<Rightarrow> None
   | (Some u, None) \<Rightarrow> Some (HalfConfigured ''PANEL_AUTH_USER'' ''PANEL_AUTH_PASSWORD'')
   | (None, Some p) \<Rightarrow> Some (HalfConfigured ''PANEL_AUTH_PASSWORD'' ''PANEL_AUTH_USER'')
   | (None, None) \<Rightarrow> Some NoPanelAuth)"

definition assembled_config :: "process_env \<Rightarrow> app_role \<Rightarrow> database_driver \<Rightarrow> int \<Rightarrow> int \<Rightarrow> env_directory list \<Rightarrow> app_config" where
  "assembled_config pe role driver port interval ds =
     \<lparr>ac_role = role, ac_driver = driver, ac_database_url = trimmed_var pe ''DATABASE_URL'', ac_port = port,
      ac_database_path = var_or ''/data/scim-bridge.db'' (trimmed_var pe ''DATABASE_PATH''),
      ac_public_url = strip_trailing_slashes (var_or (loopback_base port) (trimmed_var pe ''PUBLIC_URL'')),
      ac_demo = bool_var (env_var pe ''DEMO_MODE''), ac_encryption_key = trimmed_var pe ''APP_ENCRYPTION_KEY'',
      ac_user = trimmed_var pe ''PANEL_AUTH_USER'', ac_password = nonempty_or_none (env_var pe ''PANEL_AUTH_PASSWORD''),
      ac_auth_disabled = bool_var (env_var pe ''PANEL_AUTH_DISABLED''),
      ac_csrf_disabled = bool_var (env_var pe ''PANEL_CSRF_DISABLED''),
      ac_native_token = trimmed_var pe ''NATIVE_SCIM_TOKEN'', ac_webhook_secret = trimmed_var pe ''WEBHOOK_SECRET'',
      ac_status_url = map_option strip_trailing_slashes (trimmed_var pe ''BRIDGE_STATUS_URL''),
      ac_api_key = trimmed_var pe ''WORKOS_API_KEY'', ac_events_url = events_base pe port,
      ac_poll_ms = interval, ac_directories = ds\<rparr>"

definition load_config :: "process_env \<Rightarrow> config_error + app_config" where
  "load_config pe = (case role_of pe of None \<Rightarrow> Inl BadRole | Some role \<Rightarrow>
     case positive_number pe ''PORT'' ''8080'' of None \<Rightarrow> Inl BadPort | Some port \<Rightarrow>
     case driver_of pe of None \<Rightarrow> Inl BadDriver | Some driver \<Rightarrow>
     if driver = Postgres \<and> trimmed_var pe ''DATABASE_URL'' = None then Inl NoDatabaseUrl
     else if role = NativeAppRole \<and> trimmed_var pe ''WEBHOOK_SECRET'' = None then Inl NoWebhookSecret
     else case positive_number pe ''WORKOS_EVENTS_POLL_INTERVAL_MS'' ''5000'' of None \<Rightarrow> Inl BadPollInterval | Some interval \<Rightarrow>
     case directories_json pe of Inl er \<Rightarrow> Inl (BadDirectories er) | Inr ds \<Rightarrow>
     case (if role = BridgeRole \<and> \<not> bool_var (env_var pe ''PANEL_AUTH_DISABLED'')
           then panel_credentials_error (trimmed_var pe ''PANEL_AUTH_USER'') (nonempty_or_none (env_var pe ''PANEL_AUTH_PASSWORD''))
           else None) of
       Some er \<Rightarrow> Inl er
     | None \<Rightarrow> Inr (assembled_config pe role driver port interval ds))"

text \<open>Whether the poller starts with the process, and what it is told at boot.\<close>

definition events_poller_enabled :: "app_config \<Rightarrow> bool" where
  "events_poller_enabled c = (if ac_api_key c \<noteq> None then ac_role c = NativeAppRole \<or> ac_demo c
     else ac_demo c \<and> ac_events_url c = demo_events_url (ac_port c))"

definition boot_of :: "app_config \<Rightarrow> poller_boot" where
  "boot_of c = \<lparr>pb_demo = ac_demo c, pb_env_key = ac_api_key c, pb_env_url = ac_events_url c,
     pb_mock_url = demo_events_url (ac_port c), pb_by_env = events_poller_enabled c, pb_limit = None\<rparr>"

subsection \<open>Laws\<close>

lemma bridge_has_credentials:
  assumes "load_config pe = Inr c" "ac_role c = BridgeRole" "\<not> ac_auth_disabled c"
  shows "ac_user c \<noteq> None \<and> ac_password c \<noteq> None"
  using assms
  by (auto simp: load_config_def assembled_config_def panel_credentials_error_def split: option.splits if_splits sum.splits)

lemma native_app_has_a_secret:
  assumes "load_config pe = Inr c" "ac_role c = NativeAppRole"
  shows "ac_webhook_secret c \<noteq> None"
  using assms by (auto simp: load_config_def assembled_config_def split: option.splits if_splits sum.splits)

lemma config_numbers:
  assumes "load_config pe = Inr c"
  shows "0 < ac_port c" "0 < ac_poll_ms c"
  using assms by (auto simp: load_config_def assembled_config_def positive_number_def split: option.splits if_splits sum.splits)

end
