(* ===== verification/Gateway.thy ===== *)
theory Gateway
  imports Config NativeApp Proxy
begin

text \<open>
  What stands in front of the control panel (\<open>server/config.ts\<close>, \<open>server/csrf.ts\<close>) and the routes of the process
  (\<open>server/index.ts\<close>).  The panel, the static files, the identity provider simulator and the status page are
  parameters.  The web framework runs its middlewares in the order of their registration and then the first
  route that matches; a route \<open>p/*\<close> matches \<open>p\<close> and everything below it.
\<close>

subsection \<open>Basic credentials\<close>

text \<open>\<open>Buffer.from(s, "base64")\<close>: both alphabets are read, every other character is skipped.\<close>

definition base64_value :: "char \<Rightarrow> nat option" where
  "base64_value c = (let n = of_char c :: nat in
     if 65 \<le> n \<and> n \<le> 90 then Some (n - 65)
     else if 97 \<le> n \<and> n \<le> 122 then Some (n - 71)
     else if 48 \<le> n \<and> n \<le> 57 then Some (n + 4)
     else if n = 43 \<or> n = 45 then Some 62
     else if n = 47 \<or> n = 95 then Some 63
     else None)"

fun sextets_bytes :: "nat list \<Rightarrow> nat list" where
  "sextets_bytes (a # b # c # d # r) =
     (4 * a + b div 16) # (16 * (b mod 16) + c div 4) # (64 * (c mod 4) + d) # sextets_bytes r"
| "sextets_bytes [a, b, c] = [4 * a + b div 16, 16 * (b mod 16) + c div 4]"
| "sextets_bytes [a, b] = [4 * a + b div 16]"
| "sextets_bytes [a] = []"
| "sextets_bytes [] = []"

definition base64_bytes :: "string \<Rightarrow> nat list" where
  "base64_bytes s = sextets_bytes (List.map_filter base64_value s)"

text \<open>The bytes as UTF-8 text; \<open>None\<close> is a text with a character beyond Latin-1, which no configured value has.\<close>

fun utf8_text :: "nat list \<Rightarrow> string option" where
  "utf8_text [] = Some []"
| "utf8_text (b # bs) =
     (if b < 128 then map_option (Cons (char_of b)) (utf8_text bs)
      else case bs of
        c # cs \<Rightarrow> if (b = 194 \<or> b = 195) \<and> 128 \<le> c \<and> c < 192
                  then map_option (Cons (char_of ((b - 192) * 64 + (c - 128)))) (utf8_text cs) else None
      | [] \<Rightarrow> None)"

text \<open>The parts around the first colon.\<close>

fun at_colon :: "string \<Rightarrow> (string \<times> string) option" where
  "at_colon [] = None"
| "at_colon (c # s) = (if c = CHR '':'' then Some ([], s)
     else map_option (\<lambda>(u, p). (c # u, p)) (at_colon s))"

definition basic_credentials :: "string option \<Rightarrow> (string \<times> string) option" where
  "basic_credentials header = (case split_on CHR '' '' (var_or [] header) of
     scheme # rest \<Rightarrow>
       if scheme \<noteq> ''Basic'' then None
       else (case utf8_text (base64_bytes (case rest of [] \<Rightarrow> [] | x # xs \<Rightarrow> x)) of
         None \<Rightarrow> None | Some text \<Rightarrow> at_colon text)
   | [] \<Rightarrow> None)"

datatype auth_decision = Open | Granted | Denied

definition decide_panel_auth ::
    "(string \<Rightarrow> string) \<Rightarrow> string option \<Rightarrow> string option \<Rightarrow> string option \<Rightarrow> auth_decision" where
  "decide_panel_auth H user password header =
     (case (nonempty_or_none user, nonempty_or_none password) of
        (None, None) \<Rightarrow> Open
      | (Some u, Some p) \<Rightarrow> (case basic_credentials header of
          None \<Rightarrow> Denied
        | Some (u', p') \<Rightarrow> if secrets_match H u' u \<and> secrets_match H p' p then Granted else Denied)
      | _ \<Rightarrow> Denied)"

definition panel_auth_exempt :: "string \<Rightarrow> bool \<Rightarrow> bool" where
  "panel_auth_exempt path demo \<longleftrightarrow>
     path = ''/healthz'' \<or> under_prefix ''/scim/v2'' path \<or> under_prefix ''/status/directories'' path
     \<or> (demo \<and> under_prefix ''/__demo'' path)"

subsection \<open>Forged requests\<close>

definition csrf_methods :: "string list" where
  "csrf_methods = [''POST'', ''PUT'', ''PATCH'', ''DELETE'']"

definition is_mutating_method :: "string \<Rightarrow> bool" where
  "is_mutating_method meth \<longleftrightarrow> map upper_char meth \<in> set csrf_methods"

definition panel_origins :: "(string \<Rightarrow> url option) \<Rightarrow> string \<Rightarrow> string \<Rightarrow> string list" where
  "panel_origins parse request_url public_url =
     List.map_filter (\<lambda>u. map_option url_origin (parse u)) [public_url, request_url]"

definition origin_matches_panel :: "(string \<Rightarrow> url option) \<Rightarrow> string \<Rightarrow> string \<Rightarrow> string \<Rightarrow> bool" where
  "origin_matches_panel parse origin request_url public_url = (case parse origin of
     None \<Rightarrow> False | Some u \<Rightarrow> url_origin u \<in> set (panel_origins parse request_url public_url))"

definition decide_panel_csrf ::
    "(string \<Rightarrow> url option) \<Rightarrow> string option \<Rightarrow> string option \<Rightarrow> string \<Rightarrow> string \<Rightarrow> bool" where
  "decide_panel_csrf parse site origin request_url public_url = (case site of
     Some s \<Rightarrow> s = ''same-origin'' \<or> s = ''none''
   | None \<Rightarrow> (case origin of
       Some orig \<Rightarrow> origin_matches_panel parse orig request_url public_url
     | None \<Rightarrow> False))"

definition rejected :: response where
  "rejected = \<lparr>r_status = 403, r_body = Some (Raw (
     ''Cross-site request rejected: this panel action must be initiated from the panel itself. ''
     @ ''If you are scripting the panel from another origin, set PANEL_CSRF_DISABLED=true.'')), r_headers = []\<rparr>"

definition panel_csrf_guard :: "app_config \<Rightarrow> request \<Rightarrow> response m \<Rightarrow> response m" where
  "panel_csrf_guard c q next_one =
     (if ac_csrf_disabled c \<or> \<not> is_mutating_method (q_method q)
         \<or> panel_auth_exempt (url_pathname (q_url q)) (ac_demo c)
      then next_one
      else bnd (asks (\<lambda>e. decide_panel_csrf (parse_url e) (header_get ''Sec-Fetch-Site'' (q_headers q))
                 (header_get ''Origin'' (q_headers q)) (url_href (q_url q)) (ac_public_url c))) (\<lambda>ok.
        if ok then next_one else ret rejected))"

definition challenge :: response where
  "challenge = \<lparr>r_status = 401, r_body = Some (Raw ''Authentication required.''),
     r_headers = [(''WWW-Authenticate'', ''Basic realm='' @ in_quotes ''scim-bridge'' @ '', charset='' @ in_quotes ''UTF-8'')]\<rparr>"

definition panel_auth_guard :: "app_config \<Rightarrow> request \<Rightarrow> response m \<Rightarrow> response m" where
  "panel_auth_guard c q next_one =
     (if panel_auth_exempt (url_pathname (q_url q)) (ac_demo c) then next_one
      else bnd (asks (\<lambda>e. decide_panel_auth (sha256_hex e) (ac_user c) (ac_password c)
                 (header_get ''Authorization'' (q_headers q)))) (\<lambda>d.
        if d \<noteq> Denied then next_one else ret challenge))"

subsection \<open>The routes\<close>

record surfaces =
  sf_static :: "request \<Rightarrow> response option"
  sf_panel :: "request \<Rightarrow> response m"
  sf_idp :: "request \<Rightarrow> response m"
  sf_status_page :: "response m"

text \<open>A request to a mounted worker has the prefix of the mount taken off its path.\<close>

definition mounted :: "(request \<Rightarrow> response m) \<Rightarrow> string \<Rightarrow> request \<Rightarrow> response m" where
  "mounted worker prefix q =
     (let rest = drop (length prefix) (url_pathname (q_url q)); p = (if rest = [] then ''/'' else rest) in
      bnd (asks (\<lambda>e. url_at_path e (q_url q) p)) (\<lambda>href.
      worker (q\<lparr>q_url := (q_url q)\<lparr>url_href := href, url_pathname := p\<rparr>\<rparr>)))"

definition bridge_routes :: "app_config \<Rightarrow> surfaces \<Rightarrow> request \<Rightarrow> response m" where
  "bridge_routes c sf q =
     (let p = url_pathname (q_url q); reads = (q_method q = ''GET'' \<or> q_method q = ''HEAD'') in
      if p = ''/healthz'' \<and> reads then ret (json_reply 200 [(''ok'', JBool True)] [])
      else if under_prefix ''/scim/v2'' p \<or> under_prefix ''/status/directories'' p then proxy_fetch q (ac_api_key c)
      else if ac_demo c \<and> under_prefix ''/__demo/native'' p then
        mounted (serve_native (sf_status_page sf)) ''/__demo/native'' q
      else if ac_demo c \<and> under_prefix ''/__demo/idp'' p then mounted (sf_idp sf) ''/__demo/idp'' q
      else case (if reads then sf_static sf q else None) of
        Some file \<Rightarrow> ret file
      | None \<Rightarrow> sf_panel sf q)"

definition serve_app :: "app_config \<Rightarrow> surfaces \<Rightarrow> request \<Rightarrow> response m" where
  "serve_app c sf q = (case ac_role c of
     NativeAppRole \<Rightarrow> serve_native (sf_status_page sf) q
   | BridgeRole \<Rightarrow> panel_auth_guard c q (panel_csrf_guard c q (bridge_routes c sf q)))"

end
