(* ===== verification/GatewayLaws.thy ===== *)
theory GatewayLaws
  imports Gateway
begin

text \<open>
  What the gate in front of the panel promises: a bridge that started with credentials shows the panel to nobody
  else, no page of another origin can act in the operator's name, and the operator gets in.
\<close>

subsection \<open>Refusals\<close>

lemma decide_granted: "decide_panel_auth H user password header = Granted \<longleftrightarrow>
   (\<exists>u p u' p'. nonempty_or_none user = Some u \<and> nonempty_or_none password = Some p
      \<and> basic_credentials header = Some (u', p') \<and> H u' = H u \<and> H p' = H p)"
  by (auto simp: decide_panel_auth_def secrets_match_iff split: option.splits)

lemma decide_open: "decide_panel_auth H user password header = Open \<longleftrightarrow>
   nonempty_or_none user = None \<and> nonempty_or_none password = None"
  by (auto simp: decide_panel_auth_def split: option.splits)

lemma nonempty_twice [simp]: "nonempty_or_none (nonempty_or_none v) = nonempty_or_none v"
  by (simp add: nonempty_or_none_def split: option.split)

lemma loaded_config:
  assumes "load_config pe = Inr c"
  obtains role driver port interval ds where "c = assembled_config pe role driver port interval ds"
  using assms by (auto simp: load_config_def split: option.splits if_splits sum.splits)

lemma nonempty_configured:
  assumes "load_config pe = Inr c"
  shows "nonempty_or_none (ac_user c) = ac_user c" "nonempty_or_none (ac_password c) = ac_password c"
  using assms by (auto elim!: loaded_config simp: assembled_config_def trimmed_var_def)

text \<open>The credentials a request presents, compared by their digests.\<close>

definition presents :: "env \<Rightarrow> app_config \<Rightarrow> request \<Rightarrow> bool" where
  "presents e c q \<longleftrightarrow> (\<exists>u p u' p'. ac_user c = Some u \<and> ac_password c = Some p
     \<and> basic_credentials (header_get ''Authorization'' (q_headers q)) = Some (u', p')
     \<and> sha256_hex e u' = sha256_hex e u \<and> sha256_hex e p' = sha256_hex e p)"

text \<open>A request a browser attributes to a page of the panel, or to the address bar.\<close>

definition from_the_panel :: "env \<Rightarrow> app_config \<Rightarrow> request \<Rightarrow> bool" where
  "from_the_panel e c q \<longleftrightarrow> (case header_get ''Sec-Fetch-Site'' (q_headers q) of
     Some s \<Rightarrow> s = ''same-origin'' \<or> s = ''none''
   | None \<Rightarrow> (\<exists>o_text a b. header_get ''Origin'' (q_headers q) = Some o_text \<and> parse_url e o_text = Some a
       \<and> (parse_url e (ac_public_url c) = Some b \<or> parse_url e (url_href (q_url q)) = Some b)
       \<and> url_origin a = url_origin b))"

lemma csrf_decided:
  "decide_panel_csrf (parse_url e) (header_get ''Sec-Fetch-Site'' (q_headers q)) (header_get ''Origin'' (q_headers q))
     (url_href (q_url q)) (ac_public_url c) = from_the_panel e c q"
  by (auto simp: decide_panel_csrf_def from_the_panel_def origin_matches_panel_def panel_origins_def map_filter_simps
      split: option.splits)


subsection \<open>The operator gets in\<close>

text \<open>The credentials as a browser writes them: user, colon and password as bytes, in base64.\<close>

definition base64_char :: "nat \<Rightarrow> char" where
  "base64_char n = (if n < 26 then char_of (n + 65) else if n < 52 then char_of (n + 71)
     else if n < 62 then char_of (n - 4) else if n = 62 then CHR ''+'' else CHR ''/'')"

fun base64_text :: "nat list \<Rightarrow> string" where
  "base64_text (a # b # c # r) = base64_char (a div 4) # base64_char (16 * (a mod 4) + b div 16)
     # base64_char (4 * (b mod 16) + c div 64) # base64_char (c mod 64) # base64_text r"
| "base64_text [a, b] = [base64_char (a div 4), base64_char (16 * (a mod 4) + b div 16), base64_char (4 * (b mod 16)), CHR ''='']"
| "base64_text [a] = [base64_char (a div 4), base64_char (16 * (a mod 4)), CHR ''='', CHR ''='']"
| "base64_text [] = []"

definition ascii_text :: "string \<Rightarrow> bool" where
  "ascii_text s \<longleftrightarrow> list_all (\<lambda>c. (of_char c :: nat) < 128) s"

definition basic_header :: "string \<Rightarrow> string \<Rightarrow> string" where
  "basic_header u p = ''Basic '' @ base64_text (map of_char (u @ '':'' @ p))"

lemma base64_value_char:
  assumes "n < 64" shows "base64_value (base64_char n) = Some n"
  using assms by (auto simp: base64_value_def base64_char_def Let_def)

lemma base64_pad [simp]: "base64_value CHR ''='' = None"
  by (simp add: base64_value_def)

lemma sextets:
  fixes a b c :: nat
  assumes "b < 256" "c < 256"
  shows "4 * (a div 4) + (16 * (a mod 4) + b div 16) div 16 = a"
    "16 * ((16 * (a mod 4) + b div 16) mod 16) + (4 * (b mod 16) + c div 64) div 4 = b"
    "64 * ((4 * (b mod 16) + c div 64) mod 4) + c mod 64 = c"
proof -
  have b: "b div 16 < 16" and c: "c div 64 < 4" using assms by auto
  then have 1: "(16 * (a mod 4) + b div 16) div 16 = a mod 4" "(16 * (a mod 4) + b div 16) mod 16 = b div 16"
    "(4 * (b mod 16) + c div 64) div 4 = b mod 16" "(4 * (b mod 16) + c div 64) mod 4 = c div 64"
    by simp_all
  show "4 * (a div 4) + (16 * (a mod 4) + b div 16) div 16 = a"
    "16 * ((16 * (a mod 4) + b div 16) mod 16) + (4 * (b mod 16) + c div 64) div 4 = b"
    "64 * ((4 * (b mod 16) + c div 64) mod 4) + c mod 64 = c" unfolding 1 by simp_all
qed

lemma base64_inverse:
  assumes "list_all (\<lambda>b. b < 256) bs"
  shows "base64_bytes (base64_text bs) = bs"
  using assms
proof (induction bs rule: base64_text.induct)
  case (1 a b c r)
  then have "a div 4 < 64" "16 * (a mod 4) + b div 16 < 64" "4 * (b mod 16) + c div 64 < 64" "c mod 64 < 64" by auto
  moreover have bc: "b < 256" "c < 256" using 1 by auto
  ultimately show ?case using 1 sextets(1,2) [OF bc, of a] sextets(3) [OF bc] by (simp add: base64_bytes_def map_filter_simps base64_value_char)
next
  case (2 a b)
  then have "a div 4 < 64" "16 * (a mod 4) + b div 16 < 64" "4 * (b mod 16) < 64" by auto
  moreover have bc: "b < 256" "(0::nat) < 256" using 2 by auto
  ultimately show ?case using sextets(1,2) [OF bc, of a] by (simp add: base64_bytes_def map_filter_simps base64_value_char)
next
  case (3 a)
  then have "a div 4 < 64" "16 * (a mod 4) < 64" by auto
  then show ?case using sextets(1) [of 0 0 a] by (simp add: base64_bytes_def map_filter_simps base64_value_char)
qed (simp add: base64_bytes_def map_filter_simps)

lemma utf8_ascii:
  assumes "ascii_text s" shows "utf8_text (map of_char s) = Some s"
  using assms by (induction s) (auto simp: ascii_text_def)

lemma at_colon_first:
  assumes "CHR '':'' \<notin> set u" shows "at_colon (u @ '':'' @ p) = Some (u, p)"
  using assms by (induction u) auto

lemma base64_no_blank: "list_all (\<lambda>b. b < 256) bs \<Longrightarrow> CHR '' '' \<notin> set (base64_text bs)"
proof -
  have c: "n < 64 \<Longrightarrow> base64_char n \<noteq> CHR '' ''" for n
    using base64_value_char [of n] by (auto simp: base64_value_def)
  show "list_all (\<lambda>b. b < 256) bs \<Longrightarrow> CHR '' '' \<notin> set (base64_text bs)"
    by (induction bs rule: base64_text.induct) (auto intro!: c [symmetric])
qed

lemma split_on_none: "c \<notin> set s \<Longrightarrow> split_on c s = [s]"
  by (induction s) auto

lemma basic_header_read:
  assumes "ascii_text u" "ascii_text p" "CHR '':'' \<notin> set u"
  shows "basic_credentials (Some (basic_header u p)) = Some (u, p)"
proof -
  let ?t = "u @ '':'' @ p"
  have t: "ascii_text ?t" using assms by (simp add: ascii_text_def)
  have b: "list_all (\<lambda>b. b < 256) (map of_char ?t :: nat list)"
    using t by (auto simp: ascii_text_def list_all_iff)
  have "split_on CHR '' '' (basic_header u p) = [''Basic'', base64_text (map of_char ?t)]"
    using split_on_none [OF base64_no_blank [OF b]] by (simp add: basic_header_def)
  then show ?thesis
    using base64_inverse [OF b] utf8_ascii [OF t] at_colon_first [OF assms(3)]
    by (simp add: basic_credentials_def var_or_def)
qed

lemma under_demo: "under_prefix (''/__demo/'' @ x) path \<Longrightarrow> under_prefix ''/__demo'' path"
proof -
  assume "under_prefix (''/__demo/'' @ x) path"
  then have "path = ''/__demo/'' @ x \<or> take (length (''/__demo/'' @ x @ ''/'')) path = ''/__demo/'' @ x @ ''/''"
    by (auto simp: under_prefix_def starts_with_def)
  then obtain r where "path = ''/__demo/'' @ r" by (metis append_assoc append_take_drop_id)
  then show ?thesis by (simp add: under_prefix_def starts_with_def)
qed

text \<open>C23: the operator who presents the configured user and password, as a browser writes them, reaches the
  panel with every request outside the other routes, whatever ASCII characters the password has.\<close>
theorem operator_reaches_the_panel:
  assumes "load_config pe = Inr c" and "ac_role c = BridgeRole" and "ac_user c = Some u" and "ac_password c = Some p"
    and "ascii_text u" and "ascii_text p" and "CHR '':'' \<notin> set u"
    and "header_get ''Authorization'' (q_headers q) = Some (basic_header u p)"
    and "\<not> panel_auth_exempt (url_pathname (q_url q)) (ac_demo c)"
    and "is_mutating_method (q_method q) \<longrightarrow> from_the_panel e c q" and "sf_static sf q = None"
  shows "serve_app c sf q e w = sf_panel sf q e w"
proof -
  have "decide_panel_auth (sha256_hex e) (ac_user c) (ac_password c) (header_get ''Authorization'' (q_headers q)) = Granted"
    using basic_header_read [OF assms(5-7)] assms(3,4,8) nonempty_configured [OF assms(1)] by (auto simp: decide_granted)
  moreover have "bridge_routes c sf q = sf_panel sf q"
    using assms(9,11) under_demo [of "''native''"] under_demo [of "''idp''"]
    by (auto simp: bridge_routes_def panel_auth_exempt_def Let_def)
  ultimately show ?thesis
    using assms(2,10) by (auto simp: serve_app_def panel_auth_guard_def panel_csrf_guard_def bnd_def asks_def csrf_decided)
qed

text \<open>A user name with a colon is accepted when the process starts, and then nobody gets in: the header is split
  at its first colon.\<close>
theorem colon_user_locks_the_panel:
  assumes "inj H" and "CHR '':'' \<in> set u"
  shows "decide_panel_auth H (Some u) (Some p) header \<noteq> Granted"
proof
  assume "decide_panel_auth H (Some u) (Some p) header = Granted"
  then obtain p' where b: "basic_credentials header = Some (u, p')"
    using assms(1) by (auto simp: decide_granted nonempty_or_none_def inj_eq split: if_splits)
  have no: "at_colon s = Some (a, b) \<Longrightarrow> CHR '':'' \<notin> set a" for s a b
    by (induction s arbitrary: a) (auto split: if_splits)
  show False using b no assms(2) by (auto simp: basic_credentials_def split: list.splits option.splits if_splits)
qed

end
