(* ===== verification/GatewayRuns.thy ===== *)
theory GatewayRuns
  imports GatewayLaws Logic
begin

text \<open>Concrete requests to a bridge that was started with credentials.\<close>

definition guarded_env :: process_env where
  "guarded_env = [(''PANEL_AUTH_USER'', ''op''), (''PANEL_AUTH_PASSWORD'', ''a:b c''), (''PUBLIC_URL'', ''https://scim.acme.com/''),
     (''PORT'', ''80''), (''WORKOS_EVENTS_POLL_INTERVAL_MS'', ''50'')]"

definition guarded :: app_config where
  "guarded = (case load_config guarded_env of Inr c \<Rightarrow> c | Inl _ \<Rightarrow> undefined)"

lemma guarded_loads: "load_config guarded_env = Inr guarded"
proof -
  have "\<not> (case load_config guarded_env of Inr c \<Rightarrow> False | Inl _ \<Rightarrow> True)" by code_simp
  then show ?thesis by (auto simp: guarded_def split: sum.splits)
qed

definition panel_url :: url where
  "panel_url = \<lparr>url_href = ''https://scim.acme.com/panel'', url_protocol = ''https:'', url_hostname = ''scim.acme.com'', url_port = [],
     url_origin = ''https://scim.acme.com'', url_pathname = ''/panel'', url_search = [], url_params = []\<rparr>"

text \<open>A form that a page of another origin posts; the browser adds the operator's credentials.\<close>

definition panel_post :: "string \<Rightarrow> string \<Rightarrow> request" where
  "panel_post site header = \<lparr>q_method = ''POST'', q_url = panel_url,
     q_headers = [(''sec-fetch-site'', site), (''authorization'', header)], q_body = None\<rparr>"

definition no_surfaces :: surfaces where
  "no_surfaces = \<lparr>sf_static = (\<lambda>_. None), sf_panel = (\<lambda>_. ret (json_reply 200 [] [])),
     sf_idp = (\<lambda>_. ret (json_reply 200 [] [])), sf_status_page = ret (json_reply 200 [] [])\<rparr>"


theorem operator_reaches_the_panel_witness:
  "serve_app guarded no_surfaces (panel_post ''same-origin'' (basic_header ''op'' ''a:b c'')) quiet_env (fresh_world empty_store)
     = (Inr (json_reply 200 [] []), fresh_world empty_store)"
proof -
  let ?q = "panel_post ''same-origin'' (basic_header ''op'' ''a:b c'')"
  have c: "ac_role guarded = BridgeRole" "ac_user guarded = Some ''op''" "ac_password guarded = Some ''a:b c''" by code_simp+
  have e: "\<not> panel_auth_exempt (url_pathname (q_url ?q)) (ac_demo guarded)" by code_simp
  have "header_get ''Sec-Fetch-Site'' (q_headers ?q) = Some ''same-origin''" by code_simp
  then have f: "from_the_panel quiet_env guarded ?q" by (simp add: from_the_panel_def)
  have h: "header_get ''Authorization'' (q_headers ?q) = Some (basic_header ''op'' ''a:b c'')" by code_simp
  have "serve_app guarded no_surfaces ?q quiet_env (fresh_world empty_store)
      = sf_panel no_surfaces ?q quiet_env (fresh_world empty_store)"
    by (rule operator_reaches_the_panel [OF guarded_loads c _ _ _ h e])
      (use f in \<open>simp_all add: ascii_text_def no_surfaces_def\<close>)
  then show ?thesis by (simp add: no_surfaces_def ret_def)
qed

text \<open>A user name with a colon passes the start-up check, and the operator's own credentials are refused.\<close>

definition colon_env :: process_env where
  "colon_env = [(''PANEL_AUTH_USER'', ''acme:op''), (''PANEL_AUTH_PASSWORD'', ''pw''), (''PORT'', ''80''),
     (''WORKOS_EVENTS_POLL_INTERVAL_MS'', ''50'')]"

theorem colon_user_run:
  "case load_config colon_env of Inl _ \<Rightarrow> False
   | Inr c \<Rightarrow> fst (serve_app c no_surfaces (panel_post ''same-origin'' (basic_header ''acme:op'' ''pw'')) quiet_env
       (fresh_world empty_store)) = Inr challenge"
  by code_simp

end
