(* ===== verification/Boot.thy ===== *)
theory Boot
  imports Config NativeStore
begin

text \<open>
  What the process writes to its datastore when it starts (\<open>server/config.ts\<close>, \<open>server/index.ts\<close>): the global
  settings, the tokens of the bundled endpoints, the declared directories of a native app and the demo directory.
\<close>

subsection \<open>Declared directories\<close>

definition declared_row :: "string \<Rightarrow> env_directory \<Rightarrow> string \<Rightarrow> directory" where
  "declared_row t d h = \<lparr>dir_id = ed_id d, dir_name = ed_name d, dir_mode = Passthrough, proxy_token_hash = h,
     proxy_token_hint_col = proxy_token_hint (ed_token d), native_url = [], native_token = [],
     native_token_partitioned = False, workos_url = [], workos_token = [], workos_directory_id = Some (ed_id d),
     log_persistence = False, reconcile_token = None, reconcile_started_at = None, updated_at = t\<rparr>"

text \<open>One \<open>INSERT ... ON CONFLICT (id) DO UPDATE\<close>; the key of the conflict clause is checked first.\<close>

definition declare_row :: "directory \<Rightarrow> directory list \<Rightarrow> err + directory list" where
  "declare_row d ds =
     (if \<exists>x \<in> set ds. dir_id x = dir_id d then
        if \<exists>x \<in> set ds. dir_id x \<noteq> dir_id d \<and> proxy_token_hash x = proxy_token_hash d
        then Inl (DbError ''UNIQUE constraint failed: scim_directories.proxy_token_hash'')
        else Inr (map (\<lambda>x. if dir_id x = dir_id d
               then x\<lparr>dir_name := dir_name d, proxy_token_hash := proxy_token_hash d,
                 proxy_token_hint_col := proxy_token_hint_col d, updated_at := updated_at d\<rparr> else x) ds)
      else if \<exists>x \<in> set ds. unique_violation d x then Inl (DbError (unique_message d ds))
      else Inr (ds @ [d]))"

fun declare_rows :: "directory list \<Rightarrow> directory list \<Rightarrow> err + directory list" where
  "declare_rows [] ds = Inr ds"
| "declare_rows (d # rest) ds = (case declare_row d ds of Inl er \<Rightarrow> Inl er | Inr ds' \<Rightarrow> declare_rows rest ds')"

text \<open>The rows of a directory that is no longer declared go, with what refers to them by a foreign key.\<close>

definition drop_undeclared :: "string list \<Rightarrow> store \<Rightarrow> store" where
  "drop_undeclared ids s = s\<lparr>
     directories := filter (\<lambda>d. dir_id d \<in> set ids) (directories s),
     create_claims := filter (\<lambda>r. fst (fst r) \<in> set ids) (create_claims s),
     event_links := filter (\<lambda>l. e_directory l \<in> set ids) (event_links s)\<rparr>"

definition declare_statement :: "string list \<Rightarrow> directory list \<Rightarrow> unit statement" where
  "declare_statement ids rows s =
     (let s' = drop_undeclared ids s in
      case declare_rows rows (directories s') of
        Inl er \<Rightarrow> (Inl er, s)
      | Inr ds \<Rightarrow> (Inr (), s'\<lparr>directories := ds\<rparr>))"

definition reconcile_directories :: "env_directory list \<Rightarrow> unit m" where
  "reconcile_directories ds =
     bnd (asks (\<lambda>e. map (\<lambda>d. hash_proxy_token (sha256_hex e) (ed_token d)) ds)) (\<lambda>hashes.
     bnd sql_now (\<lambda>t.
     with_datastore_retry (declare_statement (map ed_id ds) (map2 (declared_row t) ds hashes))))"

subsection \<open>Settings\<close>

definition new_scim_token :: "string m" where
  "new_scim_token = random_uuid"

definition generated_keys :: "string list" where
  "generated_keys = [''native.scim_token'', ''mock_workos.scim_token'']"

definition seed_generated_tokens :: "unit m" where
  "seed_generated_tokens = each (\<lambda>key.
     bnd new_scim_token (\<lambda>token. bnd (set_config_if_absent key token) (\<lambda>_. ret ()))) generated_keys"

definition seed_config :: "app_config \<Rightarrow> unit m" where
  "seed_config c =
     (let base = loopback_base (ac_port c) in
      thn seed_generated_tokens
      (thn (set_config ''proxy.public_url'' (ac_public_url c))
      (thn (set_config ''proxy.loopback_url'' base)
      (if ac_demo c then thn (set_config ''idp.public_url'' (base @ ''/__demo/idp''))
         (set_config ''native.public_url'' (base @ ''/__demo/native''))
       else ret ()))))"

definition set_if_given :: "string \<Rightarrow> string option \<Rightarrow> unit m" where
  "set_if_given key v = (case nonempty_or_none v of None \<Rightarrow> ret () | Some s \<Rightarrow> set_config key s)"

definition seed_native_app_config :: "app_config \<Rightarrow> unit m" where
  "seed_native_app_config c =
     thn seed_generated_tokens
     (thn (set_if_given ''native.scim_token'' (ac_native_token c))
     (thn (set_if_given ''native.webhook_secret'' (ac_webhook_secret c))
     (thn (set_if_given ''proxy.public_url'' (ac_status_url c))
     (thn (set_if_given ''proxy.loopback_url'' (ac_status_url c))
       (set_config ''mock_workos.emit_dsync'' ''false'')))))"

definition seed_native_app_directories :: "app_config \<Rightarrow> unit m" where
  "seed_native_app_directories c =
     thn (reconcile_directories (ac_directories c))
       (each (\<lambda>d. remember_client_token (ed_id d) (ed_token d)) (ac_directories c))"

subsection \<open>The demo directory\<close>

definition bundled_endpoints :: "app_config \<Rightarrow> string \<times> string" where
  "bundled_endpoints c = (let base = loopback_base (ac_port c) in
     (base @ ''/__demo/native/scim/v2'', base @ ''/__demo/native/mock-workos/scim/v2''))"

definition is_bundled :: "app_config \<Rightarrow> directory \<Rightarrow> bool" where
  "is_bundled c d \<longleftrightarrow> (native_url d, workos_url d) = bundled_endpoints c"

definition name_candidate :: "app_config \<Rightarrow> directory list \<Rightarrow> unit m" where
  "name_candidate c existing = (case filter (is_bundled c) existing of
     [d] \<Rightarrow> set_config demo_directory_id_key (dir_id d) | _ \<Rightarrow> ret ())"

definition adopt_seeded_demo_directory :: "app_config \<Rightarrow> directory list \<Rightarrow> unit m" where
  "adopt_seeded_demo_directory c existing =
     bnd (get_config demo_directory_id_key) (\<lambda>row. case nonempty_or_none row of
       None \<Rightarrow> name_candidate c existing
     | Some named \<Rightarrow>
         if \<exists>d \<in> set existing. dir_id d = named then ret ()
         else thn (delete_config demo_directory_id_key)
           (thn (delete_config (client_token_key named)) (name_candidate c existing)))"

definition demo_directory :: "app_config \<Rightarrow> string \<Rightarrow> string \<Rightarrow> new_directory" where
  "demo_directory c nt wt = (case bundled_endpoints c of (n, x) \<Rightarrow>
     \<lparr>nd_name = ''Demo directory'', nd_native_url = n, nd_native_token = nt, nd_workos_url = x,
      nd_workos_token = wt, nd_workos_directory_id = None, nd_proxy_token = None\<rparr>)"

definition seed_demo_directory :: "app_config \<Rightarrow> unit m" where
  "seed_demo_directory c =
     (if \<not> ac_demo c then ret ()
      else bnd list_directories (\<lambda>existing.
        if existing \<noteq> [] then adopt_seeded_demo_directory c existing
        else bnd (asks (\<lambda>e. check_native_namespace (parse_url e) (fst (bundled_endpoints c)) existing [] False)) (\<lambda>refusal.
          if refusal \<noteq> None then ret ()
          else bnd (get_config ''native.scim_token'') (\<lambda>nt. bnd (get_config ''mock_workos.scim_token'') (\<lambda>wt.
            bnd (insert_directory (demo_directory c (var_or [] nt) (var_or [] wt))) (\<lambda>(i, token).
            thn (store_client_token i token)
            (thn (set_config demo_directory_id_key i) (set_directory_log_persistence i True))))))))"

subsection \<open>Starting\<close>

text \<open>The warnings and the notices about shared native namespaces.\<close>

definition report_native_namespace_duplicates :: "(string list \<times> string list) m" where
  "report_native_namespace_duplicates = bnd list_directories (\<lambda>ds. asks (\<lambda>e.
     let dups = duplicate_native_namespaces (parse_url e) ds in
     (duplicate_native_namespace_warnings (parse_url e) dups, partitioned_namespace_notices dups)))"

definition seed_role :: "app_config \<Rightarrow> unit m" where
  "seed_role c = (case ac_role c of
     NativeAppRole \<Rightarrow> thn (seed_native_app_config c) (seed_native_app_directories c)
   | BridgeRole \<Rightarrow> thn (seed_config c) (seed_demo_directory c))"

definition start_process :: "app_config \<Rightarrow> (controller \<times> string list \<times> string list) m" where
  "start_process c =
     bnd backfill_proxy_token_hashes (\<lambda>_.
     thn (seed_role c)
     (bnd (reconcile_poller (create_controller (boot_of c))) (\<lambda>ct.
      bnd report_native_namespace_duplicates (\<lambda>reports. ret (ct, reports)))))"

end
