(* ===== verification/BootLaws.thy ===== *)
theory BootLaws
  imports Boot PanelLaws
begin

text \<open>
  What starting the process does to the tables: the declared directories are exactly those of the environment, a
  token once generated stays, and the directory the simulators may drive is bundled when it is named.
\<close>

subsection \<open>Declared directories\<close>

text \<open>A statement that answers did so from some state, whatever attempts went before.\<close>

lemma attempts_answer: "run_attempts n f e w = (Inr x, w') \<Longrightarrow> \<exists>s. f s = (Inr x, db w')"
proof (induction n arbitrary: w)
  case (Suc n)
  then show ?case
    by (cases "db_fault e (db_ops w)") (auto simp: Let_def split: prod.splits if_splits)
qed simp

text \<open>What an update keeps of a row, and a row that addresses nothing.\<close>

definition lasting :: "directory \<Rightarrow> string \<times> mode \<times> string \<times> string \<times> bool \<times> string \<times> string \<times> string option \<times> bool" where
  "lasting d = (dir_id d, dir_mode d, native_url d, native_token d, native_token_partitioned d, workos_url d, workos_token d,
     workos_directory_id d, log_persistence d)"

definition unaddressed :: "directory \<Rightarrow> bool" where
  "unaddressed y \<longleftrightarrow> dir_mode y = Passthrough \<and> native_url y = [] \<and> workos_url y = []"

definition grown_from :: "directory list \<Rightarrow> directory list \<Rightarrow> bool" where
  "grown_from ds ds' \<longleftrightarrow> (\<forall>y \<in> set ds'. lasting y \<in> lasting ` set ds \<or> unaddressed y)"

lemma lasting_unaddressed: "lasting x = lasting y \<Longrightarrow> unaddressed x \<Longrightarrow> unaddressed y"
  by (simp add: lasting_def unaddressed_def)

lemma grown_trans:
  assumes "grown_from a b" "grown_from b c" shows "grown_from a c"
  unfolding grown_from_def
proof
  fix z assume "z \<in> set c"
  with assms(2) consider "unaddressed z" | y where "y \<in> set b" "lasting z = lasting y" by (auto simp: grown_from_def)
  then show "lasting z \<in> lasting ` set a \<or> unaddressed z"
  proof cases
    case 2
    from assms(1) 2(1) consider "unaddressed y" | "lasting y \<in> lasting ` set a" unfolding grown_from_def by blast
    then show ?thesis using 2(2) lasting_unaddressed [of y z] by cases simp_all
  qed simp
qed

lemma grown_subset: "set ds' \<subseteq> set ds \<Longrightarrow> grown_from ds ds'"
  by (auto simp: grown_from_def)

text \<open>The other tables.\<close>

definition others :: "store \<Rightarrow> store" where
  "others s = s\<lparr>directories := [], create_claims := [], event_links := []\<rparr>"

definition declares :: "store \<Rightarrow> store \<Rightarrow> bool" where
  "declares s s' \<longleftrightarrow> grown_from (directories s) (directories s') \<and> others s' = others s"

interpretation declaring: store_frame declares
  by unfold_locales (auto simp: declares_def grown_subset intro: grown_trans)

definition carries :: "directory \<Rightarrow> directory \<Rightarrow> bool" where
  "carries d y \<longleftrightarrow> dir_id y = dir_id d \<and> dir_name y = dir_name d \<and> proxy_token_hash y = proxy_token_hash d"

lemma declare_row_ok:
  assumes "declare_row d ds = Inr ds'"
  shows "dir_id ` set ds' = insert (dir_id d) (dir_id ` set ds)" "unaddressed d \<Longrightarrow> grown_from ds ds'"
    "\<exists>y \<in> set ds'. carries d y"
    "\<And>x. x \<in> set ds \<Longrightarrow> dir_id x \<noteq> dir_id d \<Longrightarrow> x \<in> set ds'"
proof -
  define upd where "upd x = (if dir_id x = dir_id d then x\<lparr>dir_name := dir_name d, proxy_token_hash := proxy_token_hash d,
     proxy_token_hint_col := proxy_token_hint_col d, updated_at := updated_at d\<rparr> else x)" for x :: directory
  have upd: "dir_id (upd x) = dir_id x" "lasting (upd x) = lasting x" "dir_id x = dir_id d \<Longrightarrow> carries d (upd x)"
    "dir_id x \<noteq> dir_id d \<Longrightarrow> upd x = x" for x
    by (simp_all add: upd_def lasting_def carries_def)
  consider x where "x \<in> set ds" "dir_id x = dir_id d" "ds' = map upd ds"
    | "\<forall>x \<in> set ds. dir_id x \<noteq> dir_id d" "ds' = ds @ [d]"
    using assms by (auto simp: declare_row_def upd_def [abs_def] image_iff split: if_splits)
  then have "dir_id ` set ds' = insert (dir_id d) (dir_id ` set ds) \<and> (unaddressed d \<longrightarrow> grown_from ds ds')
    \<and> (\<exists>y \<in> set ds'. carries d y) \<and> (\<forall>x \<in> set ds. dir_id x \<noteq> dir_id d \<longrightarrow> x \<in> set ds')"
  proof cases
    case 1
    have set: "set ds' = upd ` set ds" by (simp add: 1(3))
    have "dir_id ` set ds' = dir_id ` set ds" unfolding set image_image upd(1) ..
    moreover have "insert (dir_id d) (dir_id ` set ds) = dir_id ` set ds" using 1(1,2) by (metis imageI insert_absorb)
    moreover have "grown_from ds ds'" unfolding grown_from_def set by (auto simp: upd(2))
    moreover have "\<exists>y \<in> set ds'. carries d y" unfolding set using 1(1) upd(3) [OF 1(2)] by blast
    moreover have "y \<in> set ds'" if "y \<in> set ds" "dir_id y \<noteq> dir_id d" for y
      unfolding set using that upd(4) [OF that(2)] by (metis imageI)
    ultimately show ?thesis by simp
  qed (auto simp: carries_def grown_from_def)
  then show "dir_id ` set ds' = insert (dir_id d) (dir_id ` set ds)" "unaddressed d \<Longrightarrow> grown_from ds ds'"
    "\<exists>y \<in> set ds'. carries d y"
    "\<And>x. x \<in> set ds \<Longrightarrow> dir_id x \<noteq> dir_id d \<Longrightarrow> x \<in> set ds'" by blast+
qed

lemma declare_rows_ok:
  assumes "declare_rows rows ds = Inr ds'" "distinct (map dir_id rows)"
  shows "dir_id ` set ds' = dir_id ` set rows \<union> dir_id ` set ds" "\<forall>d \<in> set rows. \<exists>y \<in> set ds'. carries d y"
    "\<forall>x \<in> set ds. dir_id x \<notin> dir_id ` set rows \<longrightarrow> x \<in> set ds'"
  using assms
proof (induction rows arbitrary: ds)
  case (Cons d rows)
  {
    case 1
    then obtain ds1 where one: "declare_row d ds = Inr ds1" "declare_rows rows ds1 = Inr ds'" by (auto split: sum.splits)
    show ?case using Cons.IH(1) [OF one(2)] declare_row_ok(1) [OF one(1)] 1 by simp
  next
    case 2
    then obtain ds1 where one: "declare_row d ds = Inr ds1" "declare_rows rows ds1 = Inr ds'" by (auto split: sum.splits)
    obtain y where y: "y \<in> set ds1" "carries d y" using declare_row_ok(3) [OF one(1)] by blast
    have "y \<in> set ds'" using Cons.IH(3) [OF one(2)] 2 y by (auto simp: carries_def)
    then show ?case using Cons.IH(2) [OF one(2)] 2 y by auto
  next
    case 3
    then obtain ds1 where one: "declare_row d ds = Inr ds1" "declare_rows rows ds1 = Inr ds'" by (auto split: sum.splits)
    show ?case using Cons.IH(3) [OF one(2)] declare_row_ok(4) [OF one(1)] 3 by auto
  }
qed simp_all

lemma declare_rows_grown:
  "declare_rows rows ds = Inr ds' \<Longrightarrow> \<forall>d \<in> set rows. unaddressed d \<Longrightarrow> grown_from ds ds'"
  by (induction rows arbitrary: ds) (auto simp: grown_subset split: sum.splits intro: grown_trans declare_row_ok(2))

lemma declare_frame:
  assumes "\<forall>d \<in> set rows. unaddressed d"
  shows "declares s (snd (declare_statement ids rows s))"
proof (cases "declare_rows rows (filter (\<lambda>d. dir_id d \<in> set ids) (directories s))")
  case (Inl er)
  then show ?thesis by (simp add: declare_statement_def drop_undeclared_def declaring.S_refl)
next
  case (Inr ds')
  have "grown_from (directories s) (filter (\<lambda>d. dir_id d \<in> set ids) (directories s))" by (rule grown_subset) auto
  from grown_trans [OF this declare_rows_grown [OF Inr assms]] Inr show ?thesis
    by (simp add: declare_statement_def drop_undeclared_def declares_def others_def)
qed

definition as_declared :: "env \<Rightarrow> env_directory list \<Rightarrow> directory list \<Rightarrow> bool" where
  "as_declared e ds rows \<longleftrightarrow> dir_id ` set rows = ed_id ` set ds
     \<and> (\<forall>d \<in> set ds. \<exists>y \<in> set rows. dir_id y = ed_id d \<and> dir_name y = ed_name d
          \<and> proxy_token_hash y = hash_proxy_token (sha256_hex e) (ed_token d))"


subsection \<open>The directory of the simulators\<close>

definition named :: "store \<Rightarrow> string option" where
  "named s = map_option snd (look_row fst demo_directory_id_key (config s))"

definition bundled_row :: "app_config \<Rightarrow> store \<Rightarrow> string \<Rightarrow> bool" where
  "bundled_row c s i \<longleftrightarrow> (\<exists>d \<in> set (directories s). dir_id d = i \<and> is_bundled c d)"

definition well_named :: "app_config \<Rightarrow> string option \<Rightarrow> store \<Rightarrow> bool" where
  "well_named c before s \<longleftrightarrow> (\<forall>i. named s = Some i \<longrightarrow> before = Some i \<or> bundled_row c s i)"

lemma wp_ended_execute:
  assumes "replayable (\<lambda>s. (Inr (), f s))" "\<And>k. Q () (w\<lparr>db_ops := k, db := f (db w)\<rparr>)"
  shows "wp e (execute f) Q (\<lambda>_ _. True) w"
  by (rule wp_execute) (use assms in auto)

lemma wp_set:
  assumes "\<And>k. Q () (w\<lparr>db_ops := k, db := (db w)\<lparr>config := put_row fst (key, x) (config (db w))\<rparr>\<rparr>)"
  shows "wp e (set_config key x) Q (\<lambda>_ _. True) w"
  unfolding set_config_def by (rule wp_ended_execute) (use assms in \<open>auto intro!: replayable_writing\<close>)

lemma wp_delete:
  assumes "\<And>k. Q () (w\<lparr>db_ops := k, db := (db w)\<lparr>config := del_row fst key (config (db w))\<rparr>\<rparr>)"
  shows "wp e (delete_config key) Q (\<lambda>_ _. True) w"
  unfolding delete_config_def by (rule wp_ended_execute) (use assms in \<open>auto intro!: replayable_writing\<close>)

lemma wp_get:
  assumes "\<And>k. Q (map_option snd (look_row fst key (config (db w)))) (w\<lparr>db_ops := k\<rparr>)"
  shows "wp e (get_config key) Q (\<lambda>_ _. True) w"
  unfolding get_config_def by (rule wp_query) (use assms in auto)

lemma name_candidate_ok:
  assumes "list_all2 (reads_as e) (directories (db w)) existing" "named (db w) = None \<or> before = named (db w)"
  shows "wp e (name_candidate c existing) (\<lambda>_ v. well_named c before (db v)) (\<lambda>_ _. True) w"
proof -
  have old: "well_named c before (db w)" using assms(2) by (auto simp: well_named_def)
  have new: "bundled_row c (db w) (dir_id d)" if "filter (is_bundled c) existing = [d]" for d
  proof -
    have "d \<in> set existing" "is_bundled c d" using that by (auto simp: filter_eq_Cons_iff)
    then obtain d' where "d' \<in> set (directories (db w))" "reads_as e d' d"
      using assms(1) by (metis list_all2_conv_all_nth in_set_conv_nth)
    then show ?thesis using \<open>is_bundled c d\<close> by (auto simp: bundled_row_def is_bundled_def reads_as_def)
  qed
  show ?thesis
  proof (cases "\<exists>d. filter (is_bundled c) existing = [d]")
    case True
    then obtain d where d: "filter (is_bundled c) existing = [d]" ..
    show ?thesis
      by (simp add: name_candidate_def d, rule wp_set) (use new [OF d] in \<open>auto simp: well_named_def named_def bundled_row_def\<close>)
  next
    case False
    then have "name_candidate c existing = ret ()" by (auto simp: name_candidate_def split: list.split)
    then show ?thesis using old by simp
  qed
qed

lemma adopt_ok:
  assumes "list_all2 (reads_as e) (directories (db w)) existing" "before = named (db w)"
  shows "wp e (adopt_seeded_demo_directory c existing) (\<lambda>_ v. well_named c before (db v)) (\<lambda>_ _. True) w"
proof -
  have name: "wp e (name_candidate c existing) (\<lambda>_ v. well_named c before (db v)) (\<lambda>_ _. True) v"
    if "directories (db v) = directories (db w)" "named (db v) = None \<or> named (db v) = named (db w)" for v
    by (rule name_candidate_ok) (use assms that in auto)
  have same: "well_named c before (db v)" if "named (db v) = before" for v using that by (simp add: well_named_def)
  have stale: "wp e (thn (delete_config demo_directory_id_key) (thn (delete_config key) (name_candidate c existing)))
      (\<lambda>_ v. well_named c before (db v)) (\<lambda>_ _. True) (w\<lparr>db_ops := k\<rparr>)" for key k
    unfolding wp_thn by (intro wp_delete name) (auto simp: named_def)
  show ?thesis
    unfolding adopt_seeded_demo_directory_def wp_bnd
  proof (rule wp_get)
    fix k
    show "wp e (case nonempty_or_none (map_option snd (look_row fst demo_directory_id_key (config (db w)))) of
          None \<Rightarrow> name_candidate c existing
        | Some x \<Rightarrow> if \<exists>d \<in> set existing. dir_id d = x then ret ()
            else thn (delete_config demo_directory_id_key) (thn (delete_config (client_token_key x)) (name_candidate c existing)))
        (\<lambda>_ v. well_named c before (db v)) (\<lambda>_ _. True) (w\<lparr>db_ops := k\<rparr>)"
      using name [of "w\<lparr>db_ops := k\<rparr>"] stale [of _ k] same [of "w\<lparr>db_ops := k\<rparr>"] assms(2) by (simp split: option.split)
  qed
qed

lemma bundled_mapped:
  assumes "\<And>d. core (f d) = core d" "bundled_row c s j" shows "bundled_row c (map_directory i f s) j"
proof -
  obtain d where d: "d \<in> set (directories s)" "dir_id d = j" "is_bundled c d" using assms(2) by (auto simp: bundled_row_def)
  define d' where "d' = (if dir_id d = i then f d else d)"
  have "d' \<in> set (directories (map_directory i f s))" using d(1) by (auto simp: map_directory_def d'_def)
  moreover have "core d' = core d" using assms(1) by (simp add: d'_def)
  then have "dir_id d' = j" "is_bundled c d'" using d by (simp_all add: core_eq is_bundled_def)
  ultimately show ?thesis by (auto simp: bundled_row_def)
qed

lemma well_named_mapped:
  assumes "\<And>d. core (f d) = core d" "well_named c before s" shows "well_named c before (map_directory i f s)"
  using bundled_mapped [OF assms(1)] assms(2) by (auto simp: well_named_def named_def map_directory_def)

lemma wp_inserted: "wp e (insert_directory nd) (\<lambda>(i, _) v. \<exists>d \<in> set (directories (db v)). dir_id d = i
    \<and> native_url d = nd_native_url nd \<and> workos_url d = nd_workos_url nd) (\<lambda>_ _. True) w"
proof -
  have row: "wp e (with_datastore_retry (insert_directory_row row)) (\<lambda>_ v. row \<in> set (directories (db v))) (\<lambda>_ _. True) u" for row u
  proof (rule wpI)
    fix x v assume "with_datastore_retry (insert_directory_row row) e u = (Inr x, v)"
    then obtain s where "insert_directory_row row s = (Inr x, db v)"
      unfolding with_datastore_retry_def by (blast dest: attempts_answer)
    then have "db v = s\<lparr>directories := directories s @ [row]\<rparr>" by (simp add: insert_directory_row_def split: if_splits)
    then show "row \<in> set (directories (db v))" by simp
  qed simp
  have secret: "wp e (encrypt_secret x) (\<lambda>_ v. True) (\<lambda>_ v. True) u" for x u
    by (rule wpI) auto
  show ?thesis
    unfolding insert_directory_def new_directory_id_def hash_token_def
    by (auto split: option.split simp: new_proxy_token_def intro!: wp_mono [OF secret] wp_mono [OF row] bexI)
qed

lemma replay_log: "map_directory i (\<lambda>d. d\<lparr>log_persistence := on, updated_at := t\<rparr>)
    (map_directory i (\<lambda>d. d\<lparr>log_persistence := on, updated_at := t\<rparr>) s)
  = map_directory i (\<lambda>d. d\<lparr>log_persistence := on, updated_at := t\<rparr>) s"
  by (simp add: map_directory_def comp_def)

text \<open>C25: when the process starts, the directory the simulators may drive changes only to one whose both
  endpoints are the process's own fakes, whatever directories exist and however the datastore fails.\<close>
theorem adopted_directory_is_bundled:
  assumes "seed_demo_directory c e w = (Inr (), w')" and "named (db w') = Some i" and "named (db w) \<noteq> Some i"
  shows "\<exists>d \<in> set (directories (db w')). dir_id d = i \<and> is_bundled c d"
proof -
  let ?good = "\<lambda>_ v. well_named c (named (db w)) (db v)"
  have log: "wp e (set_directory_log_persistence j True) ?good (\<lambda>_ _. True) v"
    if "well_named c (named (db w)) (db v)" for j v
    unfolding set_directory_log_persistence_def wp_bnd wp_sql_now
    by (rule wp_ended_execute)
      (use that in \<open>auto intro!: replayable_writing well_named_mapped simp: core_eq simp: replay_log\<close>)
  have name: "wp e (thn (store_client_token j token) (thn (set_config demo_directory_id_key j) (set_directory_log_persistence j True)))
      ?good (\<lambda>_ _. True) v" if "bundled_row c (db v) j" for j token v
    unfolding store_client_token_def wp_thn
    by (intro wp_set log) (use that in \<open>auto simp: well_named_def named_def bundled_row_def\<close>)
  have "wp e (seed_demo_directory c) ?good (\<lambda>_ _. True) w"
  proof (cases "ac_demo c")
    case True
    have insert: "wp e (bnd (insert_directory (demo_directory c nt wt)) (\<lambda>(j, token).
        thn (store_client_token j token) (thn (set_config demo_directory_id_key j) (set_directory_log_persistence j True))))
        ?good (\<lambda>_ _. True) v" for nt wt v
      unfolding wp_bnd
      by (rule wp_mono [OF wp_inserted])
        (auto intro!: name [unfolded wp_thn] simp: bundled_row_def is_bundled_def demo_directory_def split: prod.splits)
    have same: "well_named c (named (db w)) (db v)" if "db v = db w" for v using that by (simp add: well_named_def)
    have adopt: "wp e (adopt_seeded_demo_directory c rs) ?good (\<lambda>_ _. True) v"
      if "list_all2 (reads_as e) (directories (db w)) rs" "db v = db w" for rs v
      by (rule adopt_ok) (use that in auto)
    show ?thesis
      unfolding seed_demo_directory_def using True
      by (simp del: wp_bnd, subst wp_bnd, intro wp_list)
        (auto intro!: adopt same wp_get insert simp del: wp_bnd simp: wp_bnd [of e "asks _"] wp_bnd [of e "get_config _"])
  qed (simp add: seed_demo_directory_def well_named_def)
  from wp_Inr [OF this assms(1)] assms(2,3) show ?thesis by (auto simp: well_named_def bundled_row_def)
qed

end
