(* ===== verification/BootRuns.thy ===== *)
theory BootRuns
  imports BootLaws PanelRuns
begin

text \<open>Concrete starts of the process.\<close>

definition declares_two :: "string \<Rightarrow> string \<Rightarrow> env_directory list" where
  "declares_two t1 t2 = [\<lparr>ed_id = ''dir_a'', ed_token = t1, ed_name = ''A''\<rparr>, \<lparr>ed_id = ''dir_b'', ed_token = t2, ed_name = ''B''\<rparr>]"

definition second_start :: "env_directory list \<Rightarrow> (err + unit) \<times> world" where
  "second_start ds = (case reconcile_directories (declares_two ''one'' ''two'') quiet_env (fresh_world empty_store) of
     (_, w) \<Rightarrow> reconcile_directories ds quiet_env w)"



subsection \<open>The demo directory\<close>

definition demo_config :: app_config where
  "demo_config = (case load_config [(''DEMO_MODE'', ''1''), (''PANEL_AUTH_DISABLED'', ''1''), (''PORT'', ''80''),
     (''WORKOS_EVENTS_POLL_INTERVAL_MS'', ''50'')] of Inr c \<Rightarrow> c | Inl _ \<Rightarrow> undefined)"

definition demo_env :: env where
  "demo_env = quiet_env\<lparr>parse_url := (\<lambda>_. Some (host_url ''app''))\<rparr>"

definition demo_started :: world where
  "demo_started = snd (seed_demo_directory demo_config demo_env (fresh_world empty_store))"

theorem adopted_directory_is_bundled_witness:
  "\<exists>d \<in> set (directories (db demo_started)). Some (dir_id d) = named (db demo_started) \<and> is_bundled demo_config d"
proof -
  have "case fst (seed_demo_directory demo_config demo_env (fresh_world empty_store)) of Inr _ \<Rightarrow> True | Inl _ \<Rightarrow> False"
    by code_simp
  then have run: "seed_demo_directory demo_config demo_env (fresh_world empty_store) = (Inr (), demo_started)"
    by (auto simp: demo_started_def prod_eq_iff split: sum.splits)
  have "named (db demo_started) \<noteq> None" by code_simp
  then obtain i where i: "named (db demo_started) = Some i" by auto
  have old: "named (db (fresh_world empty_store)) \<noteq> Some i" by (simp add: named_def fresh_world_def empty_store_def look_row_def)
  from adopted_directory_is_bundled [OF run i old] i show ?thesis by auto
qed

text \<open>Once it is named, the panel lets its endpoint be moved to a real one, and the next start keeps the name.\<close>

definition moved_demo :: world where
  "moved_demo = (case named (db demo_started) of None \<Rightarrow> demo_started
     | Some i \<Rightarrow> snd (seed_demo_directory demo_config demo_env (snd (directory_action True 1 i
         [(''intent'', ''save-workos''), (''workos_url'', ''https://app/other''), (''workos_token'', ''real'')] demo_env demo_started))))"

theorem named_directory_may_leave_the_demo:
  "named (db moved_demo) = named (db demo_started) \<and> named (db moved_demo) = Some (dir_id (hd (directories (db moved_demo))))
   \<and> workos_url (hd (directories (db moved_demo))) = ''https://app/other''"
  by code_simp

end
