(* ===== verification/Spec2Isabelle.thy ===== *)
theory Spec2Isabelle
  imports StatusLaws BackfillRuns ListenerRuns ScimServerRuns TransportLaws NativeAppRuns PanelRuns LiveState GatewayRuns BootRuns
begin

text \<open>
  The SCIM bridge: a proxy through which an identity provider (IdP) provisions users and groups while
  a tenant migrates, step by step and reversibly, from its own ("native") SCIM endpoint to WorkOS.
  This development models the bridge's TypeScript code under \<open>workers/\<close> and proves what makes the
  migration safe: every request reaches only the sides its mode allows, no mapping ever binds one
  WorkOS row to two resources, no divergence is forgotten, the create claims exclude one another, and
  after the cutover the event listener applies every change once, in order, and only when told to.

  The parts of the program and the theories that model them.

  \<^item> \<open>workers/shared/types.ts\<close>: Model (modes, kinds, rows, the tables of the datastore).
  \<^item> \<open>workers/shared/crypto.ts\<close>: Secrets.  SHA-256 and AES-GCM are functions of the environment.
  \<^item> \<open>workers/shared/db.ts\<close>, \<open>event-links.ts\<close>: Db.  Each SQL statement is one operation on the tables,
    run under the code's retry policy; DbLaws proves the laws of the tables and of the retry.
  \<^item> \<open>workers/shared/scim.ts\<close>: Scim (paths, headers, tokens, calls, id maps, translation) and Mirror
    (\<open>mirrorUpsert\<close> and everything under it); ScimLaws, MirrorLaws and MirrorRuns hold the theorems.
  \<^item> \<open>workers/shared/native-namespace.ts\<close>: the checks are in Scim, the theorems in Namespaces, what
    the operator reads about them in Wording, with \<open>workers/shared/upstream-url.ts\<close>.
  \<^item> \<open>workers/shared/event-mapping.ts\<close>: EventMapping.
  \<^item> \<open>workers/proxy/index.ts\<close>: Forward (logging, forwarded responses, the native leg, retiring
    divergences), DualWrite, WorkosOnly, Primary and PrimaryCreate (one theory per rung, in the code's
    functions), Proxy (\<open>handleScim\<close>).  DualLaws, PrimaryLaws and Routing hold the theorems.
  \<^item> \<open>workers/proxy/status.ts\<close>: Status and StatusLaws.
  \<^item> \<open>workers/shared/backfill.ts\<close>: Backfill (paging and \<open>runBackfill\<close>) and Reconcile
    (\<open>runReconcileFromWorkos\<close>).  BackfillLaws, ReconcileLaws and ReplayLaws hold the theorems,
    BackfillRuns concrete runs.
  \<^item> \<open>workers/native/store.ts\<close>: NativeStore, with \<open>workers/shared/client-tokens.ts\<close>.
  \<^item> \<open>workers/native/status-client.ts\<close>: StatusClient; StatusClientLaws.
  \<^item> \<open>workers/native/listener.ts\<close>: Listener (keys and scopes of events, the version ledger, the event log,
    the instruction for a directory) and ListenerApply (what each event does to the native tables, the
    webhook).  ListenerLaws and ListenerGuards hold the theorems, ListenerRuns concrete runs.
  \<^item> \<open>workers/native/events-poller.ts\<close>: Poller and PollerLaws.  JsonText has the texts of JSON values (the
    event log, webhook bodies and the retry state are texts), JsonLaws their round trip.
  \<^item> \<open>workers/native/scim-server.ts\<close>: ScimServer (paths, filters, listing, create, read, replace, delete) and
    ScimPatch (PATCH and the router).  ScimServerLaws, ScimServerGuards and ScimServerReads hold the theorems,
    FilterLaws those on name filters, ScimServerRuns concrete runs.
  \<^item> \<open>workers/native/mock-emitter.ts\<close>, \<open>index.ts\<close>: MockEmitter (the event log of the mock environment, what a
    write emits, the pages of the log) and NativeApp (the routes and tokens of the native app, the mock directory).
    NativeAppLaws and EventLogLaws hold the theorems, NativeAppRuns concrete runs.
  \<^item> \<open>workers/native/events-transport.ts\<close>: EventsTransport (what the poller should run, its controller, the
    actions of the panel); TransportLaws.
  \<^item> \<open>app/routes/panel/home.tsx\<close>, \<open>directory-overview.tsx\<close>: Panel (every action of the list page, with the CSV
    import, and of the page of a directory); PanelLaws and PanelRuns.  \<open>user-count.ts\<close>: UserCount.
  \<^item> \<open>app/routes/panel/reconcile.ts\<close>: LiveState (the comparison of the three directories) with its theorems.
  \<^item> \<open>server/config.ts\<close>: Config (the environment variables and what they refuse).  \<open>server/csrf.ts\<close>,
    \<open>server/index.ts\<close>: Gateway (credentials and origin of a request to the panel, the routes of the process);
    GatewayLaws and GatewayRuns.  Boot (what starting the process writes: settings, generated tokens, declared
    directories, the demo directory); BootLaws and BootRuns.
  \<^item> Protocols: the create claim and the divergence ledger as systems of interleaved operations.

  Prelude has the string functions of the language, Json its values, Effects the computations and
  Logic the reasoning rules.  A computation takes an environment and a world and returns an error or
  a value with the new world.  The environment answers every upstream call as a function of the
  calls made so far, decides for every statement whether the datastore fails, before it or after it
  (a lost acknowledgement), and supplies URL parsing, identifiers, time and cryptography; theorems
  that do not restrict it hold for every behaviour of the upstreams and every fault.  The world holds
  the tables, the trace of upstream calls, the log entry of the request and the counters.

  Interfaces are locales, interpreted on the model: \<open>keyed_table\<close> (the mapping and the configuration
  table), \<open>replayable\<close> (statements that a retry may repeat), \<open>effect\<close> and \<open>store_frame\<close> (what a
  computation preserves: the calls of one side, the rows of other resources, the claims),
  \<open>exclusive_claim\<close> (the create claims), \<open>translator_pair\<close> (the two id maps of a directory),
  \<open>reader\<close>, \<open>replay_frame\<close> and \<open>store_replay\<close> (what a whole reconcile preserves once its reads and
  the replay of one resource do), \<open>lookup_frame\<close>, \<open>ledger_frame\<close>, \<open>listener_frame\<close> and \<open>emission_frame\<close> (what
  the processing of an event, and its emission, preserves once the statements it may run do: each adds a group of
  statements to the one before), and \<open>bulk_frame\<close> (what a backfill or reconcile started from the panel preserves).

  Bounds: a statement is tried at most six times, as in the code.  The paging loop of a listing runs
  as long as the upstream reports more resources, so it takes fuel, one unit per page, and yields
  \<open>None\<close> while it is still running; \<open>b + 1\<close> units are enough when no answer reports more than \<open>b\<close>
  resources (\<open>snapshot_terminates\<close>).  The loop over the pages of an event log takes fuel in the same way.  The
  JSON reader takes two units for each character, more than any text needs: every printed value is read back
  with its length as fuel (JsonLaws).  All other recursion is structural or has a termination proof.

  What the theorems show.  Protocols: mutual exclusion of creates, and that reconcile can neither
  retire a failure its snapshot predates nor a DELETE gap.  Routing: which side a request may reach.
  MirrorLaws and MirrorRuns: mappings stay exclusive and are stored before success is reported; two
  concrete runs record where the code departs from its own rules.  DualLaws and PrimaryLaws: what the
  IdP is told and what stays claimed or recorded, for every outcome of the two sides.  ScimLaws: paths,
  tokens and translations are inverse to each other and contested ids are refused.  Namespaces: the
  isolation check is exact and fails closed.  StatusLaws: the instruction to the event listener.
  BackfillLaws: paging ends and summaries add up.  ReconcileLaws: a reconcile only adds mappings.
  ReplayLaws: it keeps its claims after a native write whose outcome is unknown.  BackfillRuns: two
  runs in which the reconcile departs from what its comments promise.  ListenerLaws: the native tables keep
  their keys, versions never go back, stale and repeated events change nothing, and before the cutover the
  listener is inert; StatusClientLaws: after it no cached answer holds an event back.  ListenerGuards: a deletion
  is soft, a row that changes hands brings no memberships along, an unsigned webhook has no effect.  PollerLaws:
  the cursor stays behind a failure and no event stops the poller for good.  ScimServerLaws and ScimServerGuards:
  a refused request changes nothing, ids and names stay unique and ids enter a directory only by its contract;
  ScimServerReads: what a write answers is what the next read answers; FilterLaws: the name lookup of the
  reconcile finds the owner of a name, whatever characters it has.  NativeAppLaws: the tokens of the native app,
  and that emitting events changes neither the answer nor the directory; EventLogLaws: a client that follows the
  cursors reads the whole log.  TransportLaws: which key a poller presents to which address.  PanelLaws:
  no sequence of panel actions makes two directories share a native namespace or stores an endpoint that may
  not be dialled, so the guard of the data plane stays silent.  LiveState: no active record is excused as a tombstone.
  GatewayLaws: nobody but the operator reaches the panel, and the operator does.  BootLaws: a start leaves
  exactly the declared directories and hands only bundled endpoints to the simulators.

  Not modelled: durations; the interleaving inside one request of the two concurrent legs (the leg
  the code starts first runs first) and of tasks handed to \<open>waitUntil\<close> (run where they are started);
  characters beyond Latin-1; fractional JSON numbers; a typographic dash in messages (written
  as two hyphens); the timer of the poller, and callbacks of a loop that
  was stopped; in the page limit of the event log and in environment variables, fractions, exponents and hexadecimal numerals (they read as no
  number).  The status page of the native app, the static files and
  the panel as the routes see it are parameters.  The IdP simulator, the drivers of the SQL engines,
  the loaders and the rendering of the panel, and its pages for the simulators are outside this development.
\<close>

end
